(* ===== verification/Prelude.thy ===== *)
theory Prelude
  imports Complex_Main "HOL-Library.Word" "HOL-Library.AList" "HOL-Library.Multiset"
begin

text \<open>
  Shared vocabulary of the development: the names of the machine types, the arithmetic of
  \<open>i64\<close> values with its wrap-around and saturation written out, the relational helpers the
  tables are modelled with (\<open>UPDATE .. WHERE\<close>, \<open>LIMIT .. OFFSET\<close>), the association lists that
  stand for hash maps, and the locales that several components instantiate:
  \<open>keyed_store\<close> (a finite map with insert and remove), \<open>stepwise\<close> (an operation that keeps an
  invariant, lifted to runs) and \<open>stepwise_sum\<close> (an operation that moves a quantity by a known
  amount, lifted to runs).
\<close>

section \<open>Collections of facts\<close>

named_theorems db_simps \<open>equations that run a database action without a fault\<close>
named_theorems db_defs \<open>definitions of repository actions\<close>
named_theorems f64_simps \<open>equations that compute with binary64 values\<close>

section \<open>Machine types\<close>

type_synonym u8 = "8 word"
type_synonym u16 = "16 word"
type_synonym u32 = "32 word"
type_synonym u64 = "64 word"

text \<open>
  Values of type \<open>i64\<close> (and of the SQL type \<open>BIGINT\<close>) are integers together with the range
  predicate below. Rust's \<open>+\<close> and \<open>-\<close> wrap in the release profile, \<open>as i64\<close> on a float
  saturates, and PostgreSQL rejects a statement whose result leaves the range.
\<close>

definition i64_min :: int where "i64_min = - (2 ^ 63)"
definition i64_max :: int where "i64_max = 2 ^ 63 - 1"

definition in_i64 :: "int \<Rightarrow> bool" where
  "in_i64 x \<longleftrightarrow> i64_min \<le> x \<and> x \<le> i64_max"

definition wrap_i64 :: "int \<Rightarrow> int" where
  "wrap_i64 x = (x + 2 ^ 63) mod 2 ^ 64 - 2 ^ 63"

definition sat_i64 :: "int \<Rightarrow> int" where
  "sat_i64 x = max i64_min (min i64_max x)"

definition i64_as_u64 :: "int \<Rightarrow> u64" where
  "i64_as_u64 x = word_of_int x"

definition u64_as_i64 :: "u64 \<Rightarrow> int" where
  "u64_as_i64 w = sint w"

lemmas i64_bounds = i64_min_def i64_max_def

lemma wrap_i64_id [simp]: "in_i64 x \<Longrightarrow> wrap_i64 x = x"
  by (simp add: wrap_i64_def in_i64_def i64_bounds)

lemma in_i64_wrap [simp]: "in_i64 (wrap_i64 x)"
  by (simp add: wrap_i64_def in_i64_def i64_bounds)

lemma in_i64_sat [simp]: "in_i64 (sat_i64 x)"
  by (simp add: sat_i64_def in_i64_def i64_bounds)

lemma sat_i64_id [simp]: "in_i64 x \<Longrightarrow> sat_i64 x = x"
  by (simp add: sat_i64_def in_i64_def)

text \<open>Adding two non-negative values overflows into the negative half, never back into range.\<close>

lemma wrap_i64_add_nonneg:
  assumes "in_i64 a" "in_i64 b" "0 \<le> a" "0 \<le> b"
  shows "wrap_i64 (a + b) = (if a + b \<le> i64_max then a + b else a + b - 2 ^ 64)"
    and "0 \<le> wrap_i64 (a + b) \<longleftrightarrow> a + b \<le> i64_max"
proof -
  show eq: "wrap_i64 (a + b) = (if a + b \<le> i64_max then a + b else a + b - 2 ^ 64)"
  proof (cases "a + b \<le> i64_max")
    case True
    with assms show ?thesis by (simp add: wrap_i64_def in_i64_def i64_bounds)
  next
    case False
    have "(a + b + 2 ^ 63) mod 2 ^ 64 = (a + b + 2 ^ 63 - 2 ^ 64) mod 2 ^ 64"
      by (rule minus_mod_self2 [symmetric])
    also have "\<dots> = a + b + 2 ^ 63 - 2 ^ 64"
      using assms False by (intro mod_pos_pos_trivial) (auto simp: in_i64_def i64_bounds)
    finally show ?thesis using False by (simp add: wrap_i64_def)
  qed
  show "0 \<le> wrap_i64 (a + b) \<longleftrightarrow> a + b \<le> i64_max"
    unfolding eq using assms by (auto simp: in_i64_def i64_bounds)
qed

section \<open>Results\<close>

text \<open>A \<open>Result<T, E>\<close> is a sum with the error on the left.\<close>

fun is_ok :: "'e + 'a \<Rightarrow> bool" where
  "is_ok (Inl _) = False"
| "is_ok (Inr _) = True"

fun ok_or :: "'e \<Rightarrow> 'a option \<Rightarrow> 'e + 'a" where
  "ok_or e None = Inl e"
| "ok_or e (Some x) = Inr x"

fun to_option :: "'e + 'a \<Rightarrow> 'a option" where
  "to_option (Inl _) = None"
| "to_option (Inr x) = Some x"

fun unwrap_or :: "'a \<Rightarrow> 'a option \<Rightarrow> 'a" where
  "unwrap_or d None = d"
| "unwrap_or d (Some x) = x"

lemma ok_or_Inr [simp]: "ok_or e m = Inr x \<longleftrightarrow> m = Some x"
  by (cases m) auto

lemma ok_or_Inl [simp]: "ok_or e m = Inl d \<longleftrightarrow> m = None \<and> d = e"
  by (cases m) auto

section \<open>Tables as lists of rows\<close>

definition update_where :: "('r \<Rightarrow> bool) \<Rightarrow> ('r \<Rightarrow> 'r) \<Rightarrow> 'r list \<Rightarrow> 'r list" where
  "update_where P f = map (\<lambda>r. if P r then f r else r)"

lemma update_where_simps [simp]:
  "update_where P f [] = []"
  "update_where P f (r # rs) = (if P r then f r else r) # update_where P f rs"
  by (simp_all add: update_where_def)

lemma length_update_where [simp]: "length (update_where P f rs) = length rs"
  by (simp add: update_where_def)

lemma set_update_where: "set (update_where P f rs) = (\<lambda>r. if P r then f r else r) ` set rs"
  by (simp add: update_where_def)

lemma map_update_where:
  "(\<And>r. P r \<Longrightarrow> g (f r) = g r) \<Longrightarrow> map g (update_where P f rs) = map g rs"
  by (induction rs) auto

lemma update_where_none: "(\<And>r. r \<in> set rs \<Longrightarrow> \<not> P r) \<Longrightarrow> update_where P f rs = rs"
  by (induction rs) auto

lemma find_update_where:
  "(\<And>r. P r \<Longrightarrow> Q (f r) = Q r) \<Longrightarrow>
   find Q (update_where P f rs) = map_option (\<lambda>r. if P r then f r else r) (find Q rs)"
  by (induction rs) auto

lemma find_update_same:
  "(\<And>r. P r \<Longrightarrow> P (f r)) \<Longrightarrow> find P (update_where P f rs) = map_option f (find P rs)"
  by (induction rs) auto

lemma image_update_where:
  "(\<And>r. P r \<Longrightarrow> g (f r) = g r) \<Longrightarrow> g ` set (update_where P f rs) = g ` set rs"
  by (metis list.set_map map_update_where)

lemma ball_update_where:
  "(\<forall>x\<in>set (update_where P f rs). Q x) \<longleftrightarrow> (\<forall>x\<in>set rs. Q (if P x then f x else x))"
  unfolding update_where_def set_map ball_simps by (rule refl)

lemma bex_update_where:
  "(\<exists>r\<in>set (update_where P f rs). Q r) \<longleftrightarrow> (\<exists>r\<in>set rs. Q (if P r then f r else r))"
  by (auto simp: set_update_where)

lemma find_Some_set: "find P xs = Some x \<Longrightarrow> x \<in> set xs \<and> P x"
  by (induction xs) (auto split: if_splits)

lemma find_append: "find P (xs @ ys) = (case find P xs of None \<Rightarrow> find P ys | Some x \<Rightarrow> Some x)"
  by (induction xs) auto

lemma find_snoc_fresh: "(\<And>x. x \<in> set xs \<Longrightarrow> \<not> P x) \<Longrightarrow> find P (xs @ [y]) = (if P y then Some y else None)"
  by (induction xs) auto

lemma find_eq_None: "find P xs = None \<longleftrightarrow> (\<forall>x\<in>set xs. \<not> P x)"
  by (induction xs) auto

text \<open>\<open>LIMIT l OFFSET o\<close>: PostgreSQL rejects negative arguments.\<close>

definition sql_page :: "int \<Rightarrow> int \<Rightarrow> 'r list \<Rightarrow> string + 'r list" where
  "sql_page l off rs =
     (if l < 0 then Inl ''LIMIT must not be negative''
      else if off < 0 then Inl ''OFFSET must not be negative''
      else Inr (take (nat l) (drop (nat off) rs)))"

lemma sql_page_ok:
  "0 \<le> l \<Longrightarrow> 0 \<le> off \<Longrightarrow> sql_page l off rs = Inr (take (nat l) (drop (nat off) rs))"
  by (simp add: sql_page_def)

section \<open>Hash maps\<close>

text \<open>
  A hash map is an association list with distinct keys; the order of the list is not an order the
  code can rely on, so operations that iterate take the iteration order as an argument.
\<close>

locale keyed_store =
  fixes lookup :: "'s \<Rightarrow> 'k \<Rightarrow> 'v option"
    and insert :: "'k \<Rightarrow> 'v \<Rightarrow> 's \<Rightarrow> 's"
    and remove :: "'k \<Rightarrow> 's \<Rightarrow> 's"
    and invar :: "'s \<Rightarrow> bool"
  assumes lookup_insert: "lookup (insert k v s) j = (if j = k then Some v else lookup s j)"
    and lookup_remove: "invar s \<Longrightarrow> lookup (remove k s) j = (if j = k then None else lookup s j)"
    and invar_insert: "invar s \<Longrightarrow> invar (insert k v s)"
    and invar_remove: "invar s \<Longrightarrow> invar (remove k s)"
begin

lemma lookup_insert_same [simp]: "lookup (insert k v s) k = Some v"
  by (simp add: lookup_insert)

lemma lookup_insert_other [simp]: "j \<noteq> k \<Longrightarrow> lookup (insert k v s) j = lookup s j"
  by (simp add: lookup_insert)

lemma lookup_reinsert: "lookup (insert k v (insert k w s)) = lookup (insert k v s)"
  by (rule ext) (simp add: lookup_insert)

lemma lookup_remove_insert:
  "invar s \<Longrightarrow> lookup (remove k (insert k v s)) = lookup (remove k s)"
  by (rule ext) (simp add: lookup_insert lookup_remove invar_insert)

lemma insert_commute:
  "j \<noteq> k \<Longrightarrow> lookup (insert j w (insert k v s)) = lookup (insert k v (insert j w s))"
  by (rule ext) (auto simp: lookup_insert)

end

definition hm_insert :: "'k \<Rightarrow> 'v \<Rightarrow> ('k \<times> 'v) list \<Rightarrow> ('k \<times> 'v) list" where
  "hm_insert k v m = AList.update k v m"

definition hm_remove :: "'k \<Rightarrow> ('k \<times> 'v) list \<Rightarrow> ('k \<times> 'v) list" where
  "hm_remove k m = filter (\<lambda>p. fst p \<noteq> k) m"

definition hm_wf :: "('k \<times> 'v) list \<Rightarrow> bool" where
  "hm_wf m \<longleftrightarrow> distinct (map fst m)"

lemma map_of_filter_neq:
  "map_of (filter (\<lambda>p. fst p \<noteq> k) m) j = (if j = k then None else map_of m j)"
  by (induction m) auto

interpretation hm: keyed_store map_of hm_insert hm_remove hm_wf
proof
  fix k j :: 'a and v :: 'b and s :: "('a \<times> 'b) list"
  show "map_of (hm_insert k v s) j = (if j = k then Some v else map_of s j)"
    by (simp add: hm_insert_def update_conv)
  show "map_of (hm_remove k s) j = (if j = k then None else map_of s j)"
    by (simp add: hm_remove_def map_of_filter_neq)
  show "hm_wf s \<Longrightarrow> hm_wf (hm_insert k v s)"
    by (simp add: hm_wf_def hm_insert_def distinct_update)
  show "hm_wf s \<Longrightarrow> hm_wf (hm_remove k s)"
    by (simp add: hm_wf_def hm_remove_def distinct_map_filter)
qed

lemma hm_wf_Nil [simp]: "hm_wf []"
  by (simp add: hm_wf_def)

lemma hm_lookup_remove [simp]: "map_of (hm_remove k m) j = (if j = k then None else map_of m j)"
  by (simp add: hm_remove_def map_of_filter_neq)

lemma hm_wf_values: "hm_wf m \<Longrightarrow> (k, v) \<in> set m \<longleftrightarrow> map_of m k = Some v"
  by (auto simp: hm_wf_def dest: map_of_SomeD)

text \<open>An iteration order of a hash map is any permutation of its entries.\<close>

definition iter_order :: "('x list \<Rightarrow> 'x list) \<Rightarrow> bool" where
  "iter_order it \<longleftrightarrow> (\<forall>xs. mset (it xs) = mset xs)"

lemma iter_order_set: "iter_order it \<Longrightarrow> set (it xs) = set xs"
  by (metis iter_order_def set_mset_mset)

lemma iter_order_id [simp]: "iter_order (\<lambda>xs. xs)"
  by (simp add: iter_order_def)

section \<open>Operations that keep an invariant\<close>

fun run_ops :: "('s \<Rightarrow> 'e \<Rightarrow> 's) \<Rightarrow> 's \<Rightarrow> 'e list \<Rightarrow> 's" where
  "run_ops f s [] = s"
| "run_ops f s (e # es) = run_ops f (f s e) es"

lemma run_ops_append: "run_ops f s (xs @ ys) = run_ops f (run_ops f s xs) ys"
  by (induction xs arbitrary: s) auto

fun total_delta :: "('s \<Rightarrow> 'e \<Rightarrow> 's) \<Rightarrow> ('s \<Rightarrow> 'e \<Rightarrow> int) \<Rightarrow> 's \<Rightarrow> 'e list \<Rightarrow> int" where
  "total_delta f d s [] = 0"
| "total_delta f d s (e # es) = d s e + total_delta f d (f s e) es"

locale stepwise =
  fixes op :: "'s \<Rightarrow> 'e \<Rightarrow> 's"
    and good :: "'e \<Rightarrow> bool"
    and inv :: "'s \<Rightarrow> bool"
  assumes inv_step: "inv s \<Longrightarrow> good e \<Longrightarrow> inv (op s e)"
begin

lemma inv_run: "inv s \<Longrightarrow> list_all good es \<Longrightarrow> inv (run_ops op s es)"
  by (induction es arbitrary: s) (auto intro: inv_step)

lemma inv_prefix: "inv s \<Longrightarrow> list_all good (xs @ ys) \<Longrightarrow> inv (run_ops op s xs)"
  by (simp add: inv_run)

end

locale stepwise_sum = stepwise +
  fixes quantity :: "'s \<Rightarrow> int"
    and delta :: "'s \<Rightarrow> 'e \<Rightarrow> int"
  assumes quantity_step:
    "inv s \<Longrightarrow> good e \<Longrightarrow> quantity (op s e) = quantity s + delta s e"
begin

lemma quantity_run:
  "inv s \<Longrightarrow> list_all good es \<Longrightarrow>
   quantity (run_ops op s es) = quantity s + total_delta op delta s es"
  by (induction es arbitrary: s) (auto simp: quantity_step inv_step)

end

end
