(* ===== verification/Float64.thy ===== *)
theory Float64
  imports Prelude "HOL-Library.Log_Nat"
begin

text \<open>
  IEEE 754 binary64 arithmetic, the type \<open>f64\<close> of the source. A finite value is the rational it
  denotes (the two zeros are one value: no operation of the source tells them apart); every
  operation computes the exact result and rounds it to nearest, ties to even, with 53 bits of
  precision, gradual underflow at \<open>2 ^ -1074\<close> and overflow to an infinity. Rust's \<open>ceil\<close>,
  \<open>min\<close>, \<open>clamp\<close>, \<open>partial_cmp\<close>, \<open>as i64\<close> and \<open>u64 as f64\<close> follow.
\<close>

section \<open>Rounding\<close>

definition round_half_even :: "rat \<Rightarrow> int" where
  "round_half_even x =
     (let f = \<lfloor>x\<rfloor>; d = x - of_int f in
      if d < 1 / 2 then f else if d > 1 / 2 then f + 1 else if even f then f else f + 1)"

text \<open>The binary exponent: \<open>2 powi ilog2 x \<le> x < 2 powi (ilog2 x + 1)\<close> for positive \<open>x\<close>.\<close>

definition ilog2 :: "rat \<Rightarrow> int" where
  "ilog2 x =
     (let (p, q) = quotient_of x; e = bitlen p - bitlen q in
      if x < 2 powi e then e - 1 else e)"

definition quantum :: "rat \<Rightarrow> int" where
  "quantum x = max (ilog2 \<bar>x\<bar> - 52) (- 1074)"

definition rnd :: "rat \<Rightarrow> rat" where
  "rnd x = (if x = 0 then 0 else of_int (round_half_even (x / 2 powi quantum x)) * 2 powi quantum x)"

lemma round_half_even_error: "\<bar>of_int (round_half_even x) - x\<bar> \<le> 1 / 2"
  using floor_correct [of x] by (auto simp: round_half_even_def Let_def abs_le_iff field_simps)

lemma round_half_even_mono:
  assumes "x \<le> y"
  shows "round_half_even x \<le> round_half_even y"
proof (cases "\<lfloor>x\<rfloor> = \<lfloor>y\<rfloor>")
  case True
  with assms show ?thesis by (auto simp: round_half_even_def Let_def)
next
  case False
  with floor_mono [OF assms] have "\<lfloor>x\<rfloor> + 1 \<le> \<lfloor>y\<rfloor>" by simp
  moreover have "round_half_even x \<le> \<lfloor>x\<rfloor> + 1" "\<lfloor>y\<rfloor> \<le> round_half_even y"
    by (auto simp: round_half_even_def Let_def)
  ultimately show ?thesis by simp
qed

lemma round_half_even_int [simp]: "round_half_even (of_int k) = k"
  by (simp add: round_half_even_def)

lemma round_half_even_near:
  assumes "\<bar>x - of_int k\<bar> < 1 / 2"
  shows "round_half_even x = k"
proof -
  have "\<bar>of_int (round_half_even x) - of_int k :: rat\<bar> < 1"
    using round_half_even_error [of x] assms by linarith
  then have "\<bar>of_int (round_half_even x - k) :: rat\<bar> < 1" by simp
  then show ?thesis by linarith
qed

lemma bitlen_powi:
  assumes "0 < p"
  shows "2 powi (bitlen p - 1) \<le> (of_int p :: rat)" "(of_int p :: rat) < 2 powi bitlen p"
proof -
  from assms have b: "2 ^ nat (bitlen p - 1) \<le> p" "p < 2 ^ nat (bitlen p)" "0 < bitlen p"
    using bitlen_bounds [of p] bitlen_nonneg [of p] assms by (auto simp: bitlen_eq_zero_iff le_less)
  have "(2 :: rat) powi (bitlen p - 1) = of_int (2 ^ nat (bitlen p - 1))"
    using b(3) by (simp add: power_int_def)
  with b(1) show "2 powi (bitlen p - 1) \<le> (of_int p :: rat)" by (simp only: of_int_le_iff)
  have "(2 :: rat) powi bitlen p = of_int (2 ^ nat (bitlen p))"
    using b(3) by (simp add: power_int_def)
  with b(2) show "(of_int p :: rat) < 2 powi bitlen p" by (simp only: of_int_less_iff)
qed

lemma powi_mono: "i \<le> j \<Longrightarrow> (2 :: rat) powi i \<le> 2 powi j"
  by (simp add: power_int_increasing)

lemma powi_div_nat:
  assumes "j \<le> i"
  shows "(2 :: rat) powi i / 2 powi j = of_int (2 ^ nat (i - j))"
proof -
  have "(2 :: rat) powi i / 2 powi j = 2 powi (i - j)" by (simp add: power_int_diff)
  also have "\<dots> = 2 ^ nat (i - j)" using assms by (simp add: power_int_def)
  finally show ?thesis by simp
qed

lemma powi_strict_mono: "i < j \<Longrightarrow> (2 :: rat) powi i < 2 powi j"
  by (simp add: power_int_strict_increasing)

lemma powi_pos [simp]: "(0 :: rat) < 2 powi i"
  by (simp add: zero_less_power_int)

lemma ilog2_bounds:
  assumes "0 < x"
  shows "2 powi ilog2 x \<le> x" "x < 2 powi (ilog2 x + 1)"
proof -
  obtain p q where pq: "quotient_of x = (p, q)" by (cases "quotient_of x")
  have q: "0 < q" using quotient_of_denom_pos [OF pq] .
  have x: "x = of_int p / of_int q" using quotient_of_div [OF pq] .
  have p: "0 < p" using assms q by (simp add: x zero_less_divide_iff)
  define e where "e = bitlen p - bitlen q"
  have lo: "2 powi (e - 1) < x"
  proof -
    have "(2 :: rat) powi (e - 1) = 2 powi (bitlen p - 1) / 2 powi bitlen q"
      by (simp add: e_def algebra_simps flip: power_int_diff)
    also have "\<dots> < of_int p / of_int q"
      using bitlen_powi [OF p] bitlen_powi [OF q] p q
      by (intro frac_less2) (auto intro: le_less_trans)
    finally show ?thesis by (simp add: x)
  qed
  have hi: "x < 2 powi (e + 1)"
  proof -
    have "of_int p / of_int q < (2 :: rat) powi bitlen p / 2 powi (bitlen q - 1)"
      using bitlen_powi [OF p] bitlen_powi [OF q] p q by (intro frac_less) auto
    also have "\<dots> = 2 powi (e + 1)"
      by (simp add: e_def algebra_simps flip: power_int_diff)
    finally show ?thesis by (simp add: x)
  qed
  have eq: "ilog2 x = (if x < 2 powi e then e - 1 else e)"
    by (simp add: ilog2_def pq e_def)
  show "2 powi ilog2 x \<le> x" "x < 2 powi (ilog2 x + 1)"
    using lo hi by (auto simp: eq)
qed

lemma ilog2_mono:
  assumes "0 < x" "x \<le> y"
  shows "ilog2 x \<le> ilog2 y"
proof (rule ccontr)
  assume "\<not> ilog2 x \<le> ilog2 y"
  then have "(2 :: rat) powi (ilog2 y + 1) \<le> 2 powi ilog2 x" by (intro powi_mono) simp
  with ilog2_bounds(1) [of x] ilog2_bounds(2) [of y] assms show False by linarith
qed

lemma rnd_0 [simp]: "rnd 0 = 0"
  by (simp add: rnd_def)

lemma rnd_nonneg: "0 \<le> x \<Longrightarrow> 0 \<le> rnd x"
  using round_half_even_mono [of 0 "x / 2 powi quantum x"]
  by (auto simp: rnd_def round_half_even_int [of 0, simplified])

lemma rnd_error: "\<bar>rnd x - x\<bar> \<le> 2 powi quantum x / 2"
proof (cases "x = 0")
  case False
  let ?q = "(2 :: rat) powi quantum x"
  have "rnd x - x = (of_int (round_half_even (x / ?q)) - x / ?q) * ?q"
    using False by (simp add: rnd_def left_diff_distrib)
  then have "\<bar>rnd x - x\<bar> = \<bar>of_int (round_half_even (x / ?q)) - x / ?q\<bar> * ?q"
    by (simp add: abs_mult)
  also have "\<dots> \<le> 1 / 2 * ?q"
    using round_half_even_error by (intro mult_right_mono) auto
  finally show ?thesis by simp
qed simp

lemma round_half_even_minus: "round_half_even (- x) = - round_half_even x"
proof (cases "\<exists>k. x = of_int k")
  case True
  then obtain k where "x = of_int k" ..
  then show ?thesis by (simp flip: of_int_minus)
next
  case False
  then have "of_int \<lfloor>x\<rfloor> \<noteq> x" by metis
  then have "of_int \<lfloor>x\<rfloor> < x" by (rule le_neq_trans [OF of_int_floor_le])
  then have "\<lfloor>- x\<rfloor> = - \<lfloor>x\<rfloor> - 1"
    using floor_correct [of x] by (intro floor_unique) auto
  then show ?thesis by (auto simp: round_half_even_def Let_def)
qed

lemma rnd_minus: "rnd (- x) = - rnd x"
proof -
  have "(- x) / 2 powi quantum x = - (x / 2 powi quantum x)" by simp
  then show ?thesis
    by (simp add: rnd_def quantum_def round_half_even_minus del: minus_divide_left)
qed

text \<open>A value with at most 53 significant bits is its own rounding.\<close>

lemma rnd_exact_pos:
  assumes "0 < k" "k < 2 ^ 53" "- 1074 \<le> e"
  shows "rnd (of_int k * 2 powi e) = of_int k * 2 powi e"
proof -
  let ?y = "of_int k * 2 powi e :: rat"
  have y: "0 < ?y" using assms by simp
  have "ilog2 ?y < e + 53"
  proof (rule ccontr)
    assume "\<not> ilog2 ?y < e + 53"
    then have "(2 :: rat) powi (e + 53) \<le> 2 powi ilog2 ?y" by (intro powi_mono) simp
    also have "\<dots> \<le> ?y" using ilog2_bounds(1) [OF y] .
    finally have "(2 :: rat) ^ 53 \<le> of_int k"
      by (simp add: power_int_add)
    then have "(of_int (2 ^ 53) :: rat) \<le> of_int k" by simp
    with assms(2) show False by (simp only: of_int_le_iff)
  qed
  then have q: "quantum ?y \<le> e" using y assms(3) by (simp add: quantum_def)
  have "(2 :: rat) powi e / 2 powi quantum ?y = of_int (2 ^ nat (e - quantum ?y))"
    using q by (rule powi_div_nat)
  then have eq: "?y / 2 powi quantum ?y = of_int (k * 2 ^ nat (e - quantum ?y))"
    by (metis of_int_mult times_divide_eq_right)
  then have "round_half_even (?y / 2 powi quantum ?y) = k * 2 ^ nat (e - quantum ?y)"
    by (metis round_half_even_int)
  moreover have "of_int (k * 2 ^ nat (e - quantum ?y)) * 2 powi quantum ?y = ?y"
    unfolding eq [symmetric] by simp
  ultimately show ?thesis
    using y by (simp add: rnd_def del: of_int_mult)
qed

lemma rnd_exact:
  assumes "\<bar>k\<bar> < 2 ^ 53" "- 1074 \<le> e"
  shows "rnd (of_int k * 2 powi e) = of_int k * 2 powi e"
proof (cases "k = 0 \<or> 0 < k")
  case True
  with assms show ?thesis by (auto intro: rnd_exact_pos)
next
  case False
  then have "rnd (of_int (- k) * 2 powi e) = of_int (- k) * 2 powi e"
    using assms by (intro rnd_exact_pos) auto
  then show ?thesis using rnd_minus [of "of_int k * 2 powi e"] by simp
qed

lemma rnd_int [simp]: "\<bar>k\<bar> < 2 ^ 53 \<Longrightarrow> rnd (of_int k) = of_int k"
  using rnd_exact [of k 0] by simp

lemma quantum_mono: "0 < x \<Longrightarrow> x \<le> y \<Longrightarrow> quantum x \<le> quantum y"
  using ilog2_mono [of x y] by (auto simp: quantum_def)

lemma rnd_mono_pos:
  assumes "0 < x" "x \<le> y"
  shows "rnd x \<le> rnd y"
proof (cases "quantum x = quantum y")
  case True
  with assms show ?thesis
    by (auto simp: rnd_def intro!: mult_right_mono round_half_even_mono divide_right_mono)
next
  case False
  let ?qx = "quantum x" and ?qy = "quantum y" and ?B = "2 powi ilog2 y :: rat"
  from False quantum_mono [OF assms] have lt: "?qx < ?qy" by simp
  with assms have qy: "?qy = ilog2 y - 52" and il: "ilog2 x < ilog2 y"
    by (auto simp: quantum_def)
  have "x \<le> ?B"
    using ilog2_bounds(2) [OF assms(1)] powi_mono [of "ilog2 x + 1" "ilog2 y"] il by simp
  moreover have B: "?B / 2 powi ?qx = of_int (2 ^ nat (ilog2 y - ?qx))"
    using lt qy by (intro powi_div_nat) simp
  ultimately have "x / 2 powi ?qx \<le> of_int (2 ^ nat (ilog2 y - ?qx))"
    by (metis divide_right_mono less_imp_le powi_pos)
  then have "round_half_even (x / 2 powi ?qx) \<le> 2 ^ nat (ilog2 y - ?qx)"
    using round_half_even_mono round_half_even_int by metis
  then have "of_int (round_half_even (x / 2 powi ?qx)) \<le> ?B / 2 powi ?qx"
    unfolding B by (simp only: of_int_le_iff)
  then have "rnd x \<le> ?B" using assms by (simp add: rnd_def field_simps)
  also have "?B \<le> rnd y"
  proof -
    have "?B \<le> y" using ilog2_bounds(1) [of y] assms by simp
    moreover have By: "?B / 2 powi ?qy = of_int (2 ^ 52)"
      by (simp add: qy flip: power_int_diff)
    ultimately have "of_int (2 ^ 52) \<le> y / 2 powi ?qy"
      by (metis divide_right_mono less_imp_le powi_pos)
    then have "2 ^ 52 \<le> round_half_even (y / 2 powi ?qy)"
      using round_half_even_mono round_half_even_int by metis
    then have "?B / 2 powi ?qy \<le> of_int (round_half_even (y / 2 powi ?qy))"
      unfolding By by (simp only: of_int_le_iff)
    then show ?thesis using assms by (simp add: rnd_def field_simps)
  qed
  finally show ?thesis .
qed

lemma rnd_mono:
  assumes "x \<le> y"
  shows "rnd x \<le> rnd y"
proof (cases "0 < x \<or> y < 0")
  case True
  then show ?thesis
    using assms rnd_mono_pos [of x y] rnd_mono_pos [of "- y" "- x"] by (auto simp: rnd_minus)
next
  case False
  then have "rnd x \<le> 0" "0 \<le> rnd y"
    using rnd_nonneg [of "- x"] rnd_nonneg [of y] by (auto simp: rnd_minus)
  then show ?thesis by simp
qed

text \<open>In the normal range the relative error is at most \<open>2 ^ -53\<close>.\<close>

lemma rnd_rel_error:
  assumes "2 powi (- 1022) \<le> x"
  shows "\<bar>rnd x - x\<bar> \<le> x * 2 powi (- 53)"
proof -
  have x: "0 < x" using assms by (rule less_le_trans [OF powi_pos])
  have "- 1022 \<le> ilog2 x"
  proof (rule ccontr)
    assume "\<not> - 1022 \<le> ilog2 x"
    then have "(2 :: rat) powi (ilog2 x + 1) \<le> 2 powi (- 1022)" by (intro powi_mono) simp
    with ilog2_bounds(2) [OF x] assms show False by simp
  qed
  then have "quantum x = ilog2 x - 52" using x by (simp add: quantum_def)
  then have "2 powi quantum x / 2 = (2 powi ilog2 x :: rat) * 2 powi (- 53)"
    by (simp add: power_int_diff power_int_minus)
  also have "\<dots> \<le> x * 2 powi (- 53)"
    using ilog2_bounds(1) [OF x] by (intro mult_right_mono) auto
  finally show ?thesis using rnd_error [of x] by simp
qed

text \<open>A value close enough to an integer rounds to that integer.\<close>

lemma rnd_near_int:
  assumes "0 < n" "n < 2 ^ 52" "\<bar>x - of_int n\<bar> \<le> of_int n * 2 powi (- 55)"
  shows "rnd x = of_int n"
proof -
  let ?q = "quantum x"
  have n: "(1 :: rat) \<le> of_int n" "of_int n < (2 :: rat) ^ 52"
    using assms(1,2) by (auto simp flip: of_int_power_less_of_int_cancel_iff)
  have small: "of_int n * 2 powi (- 55) \<le> (of_int n :: rat) / 4"
    using assms(1) by (simp add: power_int_minus)
  have scale: "m < q * 2 ^ 54" if "0 < q" "m * (3 / 4) < q * 2 ^ 53" for m q :: rat
  proof -
    from that have "m * (3 / 4) < q * 9007199254740992" by simp
    with that(1) have "m < q * 18014398509481984" by linarith
    then show ?thesis by simp
  qed
  have lo: "of_int n * (3 / 4) \<le> x" and hi: "x \<le> of_int n * (5 / 4)"
    using assms(3) small by linarith+
  have x: "0 < x" "1 / 2 \<le> x" using lo n by linarith+
  have il: "ilog2 x \<le> 52"
  proof (rule ccontr)
    assume "\<not> ilog2 x \<le> 52"
    then have "(2 :: rat) powi 53 \<le> 2 powi ilog2 x" by (intro powi_mono) simp
    also have "\<dots> \<le> x" using ilog2_bounds(1) [OF x(1)] .
    finally show False using hi n by (simp add: power_int_def)
  qed
  have "- 2 \<le> ilog2 x"
  proof (rule ccontr)
    assume "\<not> - 2 \<le> ilog2 x"
    then have "(2 :: rat) powi (ilog2 x + 1) \<le> 2 powi (- 1)" by (intro powi_mono) simp
    with ilog2_bounds(2) [OF x(1)] x(2) show False by (simp add: power_int_minus)
  qed
  then have q: "?q = ilog2 x - 52" using x by (simp add: quantum_def)
  with il have "(2 :: rat) powi 0 / 2 powi ?q = of_int (2 ^ nat (0 - ?q))"
    by (intro powi_div_nat) simp
  then have int: "of_int n / 2 powi ?q = (of_int (n * 2 ^ nat (- ?q)) :: rat)"
    by (simp add: field_simps)
  have "x < 2 powi (?q + 53)" using ilog2_bounds(2) [OF x(1)] by (simp add: q add.commute)
  then have "of_int n * (3 / 4) < (2 :: rat) powi ?q * 2 ^ 53"
    using lo by (simp add: power_int_add)
  then have "of_int n * (2 :: rat) powi (- 55) < 2 powi ?q / 2"
  proof -
    have "(0 :: rat) < 2 powi ?q" by (rule powi_pos)
    moreover assume "of_int n * (3 / 4) < (2 :: rat) powi ?q * 2 ^ 53"
    ultimately have "of_int n < (2 :: rat) powi ?q * 2 ^ 54"
      by (rule scale)
    then show ?thesis by (simp add: power_int_minus)
  qed
  with assms(3) have "\<bar>x - of_int n\<bar> < 2 powi ?q / 2" by linarith
  then have "\<bar>(x - of_int n) / 2 powi ?q\<bar> < 1 / 2"
    by (simp add: abs_divide field_simps)
  then have "\<bar>x / 2 powi ?q - of_int (n * 2 ^ nat (- ?q))\<bar> < 1 / 2"
    using int by (simp add: diff_divide_distrib)
  then have "round_half_even (x / 2 powi ?q) = n * 2 ^ nat (- ?q)"
    by (rule round_half_even_near)
  then have "rnd x = of_int n / 2 powi ?q * 2 powi ?q"
    using x by (simp only: rnd_def int) simp
  then show ?thesis by simp
qed

section \<open>The type f64\<close>

datatype f64 = Fin rat | PInf | NInf | NaN

text \<open>Overflow: the rounded value reaches \<open>2 ^ 1024\<close>, in other words its exponent does.\<close>

definition mk_f64 :: "rat \<Rightarrow> f64" where
  "mk_f64 x =
     (let r = rnd x in
      if r \<noteq> 0 \<and> 1024 \<le> ilog2 \<bar>r\<bar> then if 0 < r then PInf else NInf else Fin r)"

lemma ilog2_ge: "0 < x \<Longrightarrow> k \<le> ilog2 x \<longleftrightarrow> 2 powi k \<le> x"
proof
  assume "0 < x" "k \<le> ilog2 x"
  then show "2 powi k \<le> x" using powi_mono [of k "ilog2 x"] ilog2_bounds(1) [of x] by linarith
next
  assume x: "0 < x" "2 powi k \<le> x"
  show "k \<le> ilog2 x"
  proof (rule ccontr)
    assume "\<not> k \<le> ilog2 x"
    then have "(2 :: rat) powi (ilog2 x + 1) \<le> 2 powi k" by (intro powi_mono) simp
    with ilog2_bounds(2) [OF x(1)] x(2) show False by linarith
  qed
qed

lemma mk_f64_eq:
  "mk_f64 x =
     (let r = rnd x in
      if r \<ge> 2 ^ 1024 then PInf else if r \<le> - (2 ^ 1024) then NInf else Fin r)"
proof -
  define B :: rat where "B = 2 ^ 1024"
  have B: "0 < B" "2 powi 1024 = B" by (simp_all add: B_def power_int_def del: power_numeral)
  have ge: "1024 \<le> ilog2 \<bar>r\<bar> \<longleftrightarrow> B \<le> \<bar>r\<bar>" if "r \<noteq> 0" for r
    using ilog2_ge [of "\<bar>r\<bar>" 1024] that B by simp
  show ?thesis
    using ge [of "rnd x"] B(1) unfolding mk_f64_def Let_def B_def [symmetric]
    by (cases "rnd x" "0 :: rat" rule: linorder_cases) auto
qed

definition f64_of_int :: "int \<Rightarrow> f64" where
  "f64_of_int k = mk_f64 (of_int k)"

text \<open>An overflowing infinity carries the sign of the exact result.\<close>

definition signed_inf :: "bool \<Rightarrow> f64" where
  "signed_inf positive = (if positive then PInf else NInf)"

fun f64_pos :: "f64 \<Rightarrow> bool" where
  "f64_pos (Fin x) = (0 < x)"
| "f64_pos PInf = True"
| "f64_pos NInf = False"
| "f64_pos NaN = False"

fun f64_neg :: "f64 \<Rightarrow> f64" where
  "f64_neg (Fin x) = Fin (- x)"
| "f64_neg PInf = NInf"
| "f64_neg NInf = PInf"
| "f64_neg NaN = NaN"

fun f64_add :: "f64 \<Rightarrow> f64 \<Rightarrow> f64" where
  "f64_add (Fin x) (Fin y) = mk_f64 (x + y)"
| "f64_add NaN y = NaN"
| "f64_add x NaN = NaN"
| "f64_add PInf NInf = NaN"
| "f64_add NInf PInf = NaN"
| "f64_add PInf y = PInf"
| "f64_add NInf y = NInf"
| "f64_add x PInf = PInf"
| "f64_add x NInf = NInf"

definition f64_sub :: "f64 \<Rightarrow> f64 \<Rightarrow> f64" where
  "f64_sub x y = f64_add x (f64_neg y)"

fun f64_mul :: "f64 \<Rightarrow> f64 \<Rightarrow> f64" where
  "f64_mul (Fin x) (Fin y) = mk_f64 (x * y)"
| "f64_mul NaN y = NaN"
| "f64_mul x NaN = NaN"
| "f64_mul x y =
     (if x = Fin 0 \<or> y = Fin 0 then NaN else signed_inf (f64_pos x = f64_pos y))"

text \<open>Division: the source only divides by finite values above zero.\<close>

fun f64_div :: "f64 \<Rightarrow> f64 \<Rightarrow> f64" where
  "f64_div (Fin x) (Fin y) =
     (if y = 0 then if x = 0 then NaN else signed_inf (0 < x) else mk_f64 (x / y))"
| "f64_div NaN y = NaN"
| "f64_div x NaN = NaN"
| "f64_div (Fin x) y = Fin 0"
| "f64_div x (Fin y) = signed_inf (f64_pos x = (0 \<le> y))"
| "f64_div x y = NaN"

fun f64_abs :: "f64 \<Rightarrow> f64" where
  "f64_abs (Fin x) = Fin \<bar>x\<bar>"
| "f64_abs NaN = NaN"
| "f64_abs x = PInf"

fun f64_ceil :: "f64 \<Rightarrow> f64" where
  "f64_ceil (Fin x) = Fin (of_int \<lceil>x\<rceil>)"
| "f64_ceil x = x"

fun f64_lt :: "f64 \<Rightarrow> f64 \<Rightarrow> bool" where
  "f64_lt NaN y = False"
| "f64_lt x NaN = False"
| "f64_lt (Fin x) (Fin y) = (x < y)"
| "f64_lt x PInf = (x \<noteq> PInf)"
| "f64_lt NInf y = (y \<noteq> NInf)"
| "f64_lt x y = False"

definition f64_min :: "f64 \<Rightarrow> f64 \<Rightarrow> f64" where
  "f64_min x y = (if x = NaN then y else if y = NaN then x else if f64_lt y x then y else x)"

definition f64_clamp :: "f64 \<Rightarrow> f64 \<Rightarrow> f64 \<Rightarrow> f64" where
  "f64_clamp x lo hi = (if f64_lt x lo then lo else if f64_lt hi x then hi else x)"

datatype ordering = Less | Equal | Greater

definition f64_partial_cmp :: "f64 \<Rightarrow> f64 \<Rightarrow> ordering option" where
  "f64_partial_cmp x y =
     (if x = NaN \<or> y = NaN then None
      else Some (if f64_lt x y then Less else if f64_lt y x then Greater else Equal))"

text \<open>\<open>as i64\<close> truncates towards zero, saturates, and sends NaN to 0.\<close>

definition rat_trunc :: "rat \<Rightarrow> int" where
  "rat_trunc x = (if 0 \<le> x then \<lfloor>x\<rfloor> else \<lceil>x\<rceil>)"

fun f64_as_i64 :: "f64 \<Rightarrow> int" where
  "f64_as_i64 (Fin x) = sat_i64 (rat_trunc x)"
| "f64_as_i64 PInf = i64_max"
| "f64_as_i64 NInf = i64_min"
| "f64_as_i64 NaN = 0"

lemma in_i64_f64_as_i64 [simp]: "in_i64 (f64_as_i64 x)"
  by (cases x) (auto simp: in_i64_def i64_bounds sat_i64_def)

lemma mk_f64_small: "\<bar>rnd x\<bar> < 2 ^ 1024 \<Longrightarrow> mk_f64 x = Fin (rnd x)"
  by (auto simp: mk_f64_eq Let_def abs_less_iff)

lemma rnd_abs_bound:
  assumes "\<bar>x\<bar> \<le> of_int k" "0 \<le> k" "k < 2 ^ 53"
  shows "\<bar>rnd x\<bar> \<le> of_int k"
proof -
  have "rnd x \<le> rnd (of_int k)" "rnd (of_int (- k)) \<le> rnd x"
    using assms(1) by (intro rnd_mono; simp add: abs_le_iff)+
  moreover have "rnd (of_int k) = of_int k" "rnd (of_int (- k)) = of_int (- k)"
    using assms(2,3) by (intro rnd_int; simp)+
  ultimately show ?thesis by (simp add: abs_le_iff)
qed

lemma mk_f64_bounded:
  assumes "\<bar>x\<bar> \<le> of_int k" "0 \<le> k" "k < 2 ^ 53"
  shows "mk_f64 x = Fin (rnd x)"
proof (rule mk_f64_small)
  have "\<bar>rnd x\<bar> \<le> of_int k" using assms by (rule rnd_abs_bound)
  also have "\<dots> < (of_int (2 ^ 53) :: rat)" using assms(3) by (simp only: of_int_less_iff)
  also have "\<dots> \<le> 2 ^ 1024" by simp
  finally show "\<bar>rnd x\<bar> < 2 ^ 1024" .
qed

lemma f64_of_int_small: "\<bar>k\<bar> < 2 ^ 53 \<Longrightarrow> f64_of_int k = Fin (of_int k)"
  using mk_f64_bounded [of "of_int k" "\<bar>k\<bar>"] by (simp add: f64_of_int_def)

lemma f64_lt_irrefl [simp]: "\<not> f64_lt x x"
  by (cases x) auto

lemma f64_lt_trans: "f64_lt x y \<Longrightarrow> f64_lt y z \<Longrightarrow> f64_lt x z"
  by (cases x; cases y; cases z) auto

lemma f64_lt_total: "x \<noteq> NaN \<Longrightarrow> y \<noteq> NaN \<Longrightarrow> f64_lt x y \<or> x = y \<or> f64_lt y x"
  by (cases x; cases y) auto

lemma f64_clamp_bounds:
  assumes "x \<noteq> NaN" "lo \<le> hi"
  obtains r where "f64_clamp x (Fin lo) (Fin hi) = Fin r" "lo \<le> r" "r \<le> hi"
  using assms
  by (cases x; cases "f64_lt x (Fin lo)"; cases "f64_lt (Fin hi) x") (auto simp: f64_clamp_def)

end
