(* ===== verification/Domain_Types.thy ===== *)
theory Domain_Types
  imports Float64
begin

text \<open>
  The shared domain types of \<open>decentgpu-common\<close> (\<open>types.rs\<close>, \<open>error.rs\<close>): user roles, GPU backends,
  job statuses and transaction types with their textual forms, worker capabilities, the pricing
  constants and the error type. The locale \<open>text_enum\<close> is the contract of an enum that is stored
  as text; the three enums with a \<open>FromStr\<close> implementation interpret it.
\<close>

section \<open>Identifiers\<close>

datatype uuid = Uuid (uuid_bits: "128 word")

definition uuid_nil :: uuid where
  "uuid_nil = Uuid 0"

text \<open>The order of \<open>Uuid\<close> is the order of its big-endian bytes.\<close>

instantiation uuid :: linorder
begin

definition less_eq_uuid :: "uuid \<Rightarrow> uuid \<Rightarrow> bool" where
  "less_eq_uuid a b \<longleftrightarrow> uuid_bits a \<le> uuid_bits b"

definition less_uuid :: "uuid \<Rightarrow> uuid \<Rightarrow> bool" where
  "less_uuid a b \<longleftrightarrow> uuid_bits a < uuid_bits b"

instance
  by standard (auto simp: less_eq_uuid_def less_uuid_def uuid.expand)

end

text \<open>A libp2p \<open>PeerId\<close>, by its base-58 text; a time stamp, in microseconds since the epoch.\<close>

type_synonym peer_id = string
type_synonym timestamp = int

section \<open>Errors\<close>

datatype decent_error =
    Database string
  | NotFound string
  | Conflict string
  | InsufficientComputeUnits int int
  | Unauthorized string
  | Validation string
  | P2p string
  | Docker string
  | Timeout string
  | Internal string
  | Io string

section \<open>Enums stored as text\<close>

locale text_enum =
  fixes as_str :: "'a \<Rightarrow> string"
    and from_str :: "string \<Rightarrow> decent_error + 'a"
  assumes from_as: "from_str (as_str x) = Inr x"
    and as_from: "from_str s = Inr x \<Longrightarrow> as_str x = s"
begin

lemma as_str_inj: "as_str x = as_str y \<longleftrightarrow> x = y"
  using from_as by (metis sum.inject(2))

lemma from_str_iff: "from_str s = Inr x \<longleftrightarrow> s = as_str x"
  using as_from from_as by metis

lemma from_str_range: "is_ok (from_str s) \<longleftrightarrow> s \<in> range as_str"
proof
  assume "is_ok (from_str s)"
  then obtain x where "from_str s = Inr x" by (cases "from_str s") auto
  then show "s \<in> range as_str" using as_from by blast
next
  assume "s \<in> range as_str"
  then show "is_ok (from_str s)" using from_as by auto
qed

end

datatype user_role = Hirer | Worker | Both

fun user_role_as_str :: "user_role \<Rightarrow> string" where
  "user_role_as_str Hirer = ''hirer''"
| "user_role_as_str Worker = ''worker''"
| "user_role_as_str Both = ''both''"

definition user_role_from_str :: "string \<Rightarrow> decent_error + user_role" where
  "user_role_from_str s =
     (if s = ''hirer'' then Inr Hirer
      else if s = ''worker'' then Inr Worker
      else if s = ''both'' then Inr Both
      else Inl (Validation (''unknown role: '' @ s)))"

datatype gpu_backend = CpuOnly | Cuda | Metal | Rocm

fun gpu_backend_as_str :: "gpu_backend \<Rightarrow> string" where
  "gpu_backend_as_str CpuOnly = ''cpu_only''"
| "gpu_backend_as_str Cuda = ''cuda''"
| "gpu_backend_as_str Metal = ''metal''"
| "gpu_backend_as_str Rocm = ''rocm''"

definition gpu_backend_from_str :: "string \<Rightarrow> decent_error + gpu_backend" where
  "gpu_backend_from_str s =
     (if s = ''cpu_only'' then Inr CpuOnly
      else if s = ''cuda'' then Inr Cuda
      else if s = ''metal'' then Inr Metal
      else if s = ''rocm'' then Inr Rocm
      else Inl (Validation (''unknown gpu backend: '' @ s)))"

fun price_multiplier :: "gpu_backend \<Rightarrow> f64" where
  "price_multiplier CpuOnly = Fin 1"
| "price_multiplier Cuda = Fin 5"
| "price_multiplier Metal = Fin 3"
| "price_multiplier Rocm = Fin 4"

datatype job_status = Pending | Assigned | Running | Completed | Failed | Cancelled

fun job_status_as_str :: "job_status \<Rightarrow> string" where
  "job_status_as_str Pending = ''pending''"
| "job_status_as_str Assigned = ''assigned''"
| "job_status_as_str Running = ''running''"
| "job_status_as_str Completed = ''completed''"
| "job_status_as_str Failed = ''failed''"
| "job_status_as_str Cancelled = ''cancelled''"

definition job_status_from_str :: "string \<Rightarrow> decent_error + job_status" where
  "job_status_from_str s =
     (if s = ''pending'' then Inr Pending
      else if s = ''assigned'' then Inr Assigned
      else if s = ''running'' then Inr Running
      else if s = ''completed'' then Inr Completed
      else if s = ''failed'' then Inr Failed
      else if s = ''cancelled'' then Inr Cancelled
      else Inl (Validation (''unknown job status: '' @ s)))"

datatype tx_type = Deposit | JobCharge | JobEarn | Refund

fun tx_type_as_str :: "tx_type \<Rightarrow> string" where
  "tx_type_as_str Deposit = ''deposit''"
| "tx_type_as_str JobCharge = ''job_charge''"
| "tx_type_as_str JobEarn = ''job_earn''"
| "tx_type_as_str Refund = ''refund''"

interpretation user_role: text_enum user_role_as_str user_role_from_str
proof
  show "user_role_from_str (user_role_as_str x) = Inr x" for x
    by (cases x) (simp_all add: user_role_from_str_def)
  show "user_role_from_str s = Inr x \<Longrightarrow> user_role_as_str x = s" for s x
    by (auto simp: user_role_from_str_def split: if_splits)
qed

interpretation gpu_backend: text_enum gpu_backend_as_str gpu_backend_from_str
proof
  show "gpu_backend_from_str (gpu_backend_as_str x) = Inr x" for x
    by (cases x) (simp_all add: gpu_backend_from_str_def)
  show "gpu_backend_from_str s = Inr x \<Longrightarrow> gpu_backend_as_str x = s" for s x
    by (auto simp: gpu_backend_from_str_def split: if_splits)
qed

interpretation job_status: text_enum job_status_as_str job_status_from_str
proof
  show "job_status_from_str (job_status_as_str x) = Inr x" for x
    by (cases x) (simp_all add: job_status_from_str_def)
  show "job_status_from_str s = Inr x \<Longrightarrow> job_status_as_str x = s" for s x
    by (auto simp: job_status_from_str_def split: if_splits)
qed

section \<open>Worker capabilities\<close>

record gpu_info =
  gpu_name :: string
  vram_mb :: u64
  gpu_kind :: gpu_backend

record cpu_info =
  cpu_model :: string
  cores :: u32
  threads :: u32
  freq_mhz :: u64

record worker_capabilities =
  gpus :: "gpu_info list"
  cpu :: cpu_info
  ram_mb :: u64
  disk_mb :: u64
  os_name :: string
  worker_version :: string

section \<open>JSON values\<close>

text \<open>The values of \<open>serde_json\<close>; numbers that the source takes from floats are kept as floats.\<close>

datatype json =
    JNull
  | JBool bool
  | JNum int
  | JFloat f64
  | JStr string
  | JArr "json list"
  | JObj "(string \<times> json) list"

fun json_get :: "string \<Rightarrow> json \<Rightarrow> json option" where
  "json_get k (JObj fs) = map_of fs k"
| "json_get k _ = None"

fun json_str :: "json \<Rightarrow> string option" where
  "json_str (JStr s) = Some s"
| "json_str _ = None"

fun json_items :: "json \<Rightarrow> json list" where
  "json_items (JArr xs) = xs"
| "json_items _ = []"

section \<open>Pricing constants\<close>

definition BASE_RATE_PER_HOUR :: int where
  "BASE_RATE_PER_HOUR = 10"

definition WORKER_PAYOUT_FRACTION :: f64 where
  "WORKER_PAYOUT_FRACTION = mk_f64 (85 / 100)"

text \<open>A text for UUIDs that determines them: their bits.\<close>

definition bits_text :: "uuid \<Rightarrow> string" where
  "bits_text u = map (\<lambda>i. if bit (uuid_bits u) i then CHR ''1'' else CHR ''0'') [0..<128]"

lemma inj_bits_text: "inj bits_text"
proof (rule injI)
  fix x y assume "bits_text x = bits_text y"
  then have "\<forall>i<128. bit (uuid_bits x) i = bit (uuid_bits y) i"
    by (auto simp: bits_text_def split: if_splits)
  then have "uuid_bits x = uuid_bits y" by (intro bit_word_eqI) auto
  then show "x = y" by (rule uuid.expand)
qed

definition bits_uuid :: "string \<Rightarrow> uuid option" where
  "bits_uuid s =
     (if length s = 128 then Some (Uuid (horner_sum of_bool 2 (map (\<lambda>c. c = CHR ''1'') s))) else None)"

lemma bits_uuid_text: "bits_uuid (bits_text u) = Some u"
proof -
  have len: "length (bits_text u) = 128" by (simp add: bits_text_def)
  have "map (\<lambda>c. c = CHR ''1'') (bits_text u) = map (bit (uuid_bits u)) [0..<128]"
    by (simp add: bits_text_def)
  then have "horner_sum of_bool 2 (map (\<lambda>c. c = CHR ''1'') (bits_text u)) = uuid_bits u"
    by (simp only: horner_sum_bit_eq_take_bit) (simp add: take_bit_word_eq_self)
  with len show ?thesis by (simp add: bits_uuid_def)
qed

end
