(* ===== verification/Db.thy ===== *)
theory Db
  imports Domain_Types
begin

text \<open>
  The PostgreSQL database of the master (\<open>db/migrations/*.sql\<close>): one record field per table, each a
  list of rows, and the semantics of the statements the repositories issue. A statement either
  returns a value and a new database or fails with a \<open>Database\<close> error and leaves the database as it
  was. The action type \<open>'a dbm\<close> threads the database and a list of faults: a statement may fail in
  transit before it is executed (\<open>Fail\<close>) or after (\<open>Lost\<close>: applied, but the client sees an error).
  \<open>transaction\<close> is \<open>pool.begin() .. commit()\<close>: an error rolls the database back. Row locks taken by
  \<open>SELECT .. FOR UPDATE\<close> serialise the transactions of the ledger, so a transaction is one step.
\<close>

section \<open>Rows\<close>

record user_row =
  u_id :: uuid
  u_email :: string
  u_password_hash :: string
  u_role :: string
  u_created_at :: timestamp

record balance_row =
  b_user :: uuid
  cu_balance :: int
  cu_reserved :: int

record tx_row =
  tx_id :: uuid
  tx_user :: uuid
  cu_amount :: int
  tx_kind :: string
  tx_job :: "uuid option"
  tx_created_at :: timestamp

record worker_row =
  w_peer :: peer_id
  w_user :: uuid
  w_caps :: json
  w_uptime :: f64
  w_jobs_completed :: int
  w_online :: bool
  w_last_seen :: "timestamp option"
  w_registered_at :: timestamp

record session_row =
  s_id :: uuid
  s_peer :: peer_id
  s_connected_at :: timestamp
  s_disconnected_at :: "timestamp option"
  s_reason :: "string option"

record job_row =
  j_id :: uuid
  j_hirer :: uuid
  j_worker :: "peer_id option"
  j_status :: string
  j_backend :: string
  j_memory_mb :: "int option"
  j_duration_secs :: "int option"
  j_price :: "int option"
  j_created_at :: timestamp
  j_assigned_at :: "timestamp option"
  j_started_at :: "timestamp option"
  j_finished_at :: "timestamp option"
  j_error :: "string option"
  j_result_path :: "string option"

record job_file_row =
  f_id :: uuid
  f_job :: uuid
  f_type :: string
  f_path :: string
  f_size :: int
  f_sha256 :: string
  f_uploaded_at :: timestamp

record job_log_row =
  l_id :: int
  l_job :: uuid
  l_timestamp_ms :: int
  l_level :: string
  l_message :: string

record db =
  users :: "user_row list"
  balances :: "balance_row list"
  txs :: "tx_row list"
  workers :: "worker_row list"
  sessions :: "session_row list"
  jobs :: "job_row list"
  job_files :: "job_file_row list"
  job_logs :: "job_log_row list"
  log_seq :: int

definition empty_db :: db where
  "empty_db = \<lparr>users = [], balances = [], txs = [], workers = [], sessions = [], jobs = [],
     job_files = [], job_logs = [], log_seq = 1\<rparr>"

section \<open>Actions and faults\<close>

datatype fault = NoFault | Fail string | Lost string

type_synonym 'a sql = "db \<Rightarrow> decent_error + 'a \<times> db"
type_synonym ('e, 'a) act = "db \<Rightarrow> fault list \<Rightarrow> ('e + 'a) \<times> db \<times> fault list"
type_synonym 'a dbm = "(decent_error, 'a) act"

fun pop_fault :: "fault list \<Rightarrow> fault \<times> fault list" where
  "pop_fault [] = (NoFault, [])"
| "pop_fault (f # fs) = (f, fs)"

definition run_sql :: "'a sql \<Rightarrow> db \<Rightarrow> (decent_error + 'a) \<times> db" where
  "run_sql q d = (case q d of Inl e \<Rightarrow> (Inl e, d) | Inr (x, d') \<Rightarrow> (Inr x, d'))"

text \<open>One statement outside a transaction commits by itself.\<close>

definition stmt :: "'a sql \<Rightarrow> 'a dbm" where
  "stmt q d fs =
     (case pop_fault fs of
        (NoFault, fs') \<Rightarrow> (fst (run_sql q d), snd (run_sql q d), fs')
      | (Fail m, fs') \<Rightarrow> (Inl (Database m), d, fs')
      | (Lost m, fs') \<Rightarrow> (Inl (Database m), snd (run_sql q d), fs'))"

definition return_db :: "'a \<Rightarrow> ('e, 'a) act" where
  "return_db x d fs = (Inr x, d, fs)"

definition throw_db :: "'e \<Rightarrow> ('e, 'a) act" where
  "throw_db e d fs = (Inl e, d, fs)"

definition bind_db :: "('e, 'a) act \<Rightarrow> ('a \<Rightarrow> ('e, 'b) act) \<Rightarrow> ('e, 'b) act" where
  "bind_db m k d fs =
     (case m d fs of (Inl e, d', fs') \<Rightarrow> (Inl e, d', fs') | (Inr x, d', fs') \<Rightarrow> k x d' fs')"

definition ok_or_db :: "'e \<Rightarrow> 'a option \<Rightarrow> ('e, 'a) act" where
  "ok_or_db e m = (case m of None \<Rightarrow> throw_db e | Some x \<Rightarrow> return_db x)"

definition transaction :: "'a dbm \<Rightarrow> 'a dbm" where
  "transaction body d fs =
     (case pop_fault fs of
        (NoFault, fs1) \<Rightarrow>
          (case body d fs1 of
             (Inl e, _, fs2) \<Rightarrow> (Inl e, d, fs2)
           | (Inr x, d', fs2) \<Rightarrow>
               (case pop_fault fs2 of
                  (NoFault, fs3) \<Rightarrow> (Inr x, d', fs3)
                | (Fail m, fs3) \<Rightarrow> (Inl (Database m), d, fs3)
                | (Lost m, fs3) \<Rightarrow> (Inl (Database m), d', fs3)))
      | (Fail m, fs1) \<Rightarrow> (Inl (Database m), d, fs1)
      | (Lost m, fs1) \<Rightarrow> (Inl (Database m), d, fs1))"

text \<open>\<open>match action { Ok(x) => .., Err(e) => .. }\<close>: the handler goes on whatever the outcome.\<close>

definition attempt :: "('e, 'a) act \<Rightarrow> ('f, 'e + 'a) act" where
  "attempt m d fs = (case m d fs of (r, d', fs') \<Rightarrow> (Inr r, d', fs'))"

definition map_err_db :: "('e \<Rightarrow> 'f) \<Rightarrow> ('e, 'a) act \<Rightarrow> ('f, 'a) act" where
  "map_err_db g m d fs =
     (case m d fs of (Inl e, d', fs') \<Rightarrow> (Inl (g e), d', fs') | (Inr x, d', fs') \<Rightarrow> (Inr x, d', fs'))"

fun for_each_db :: "('a \<Rightarrow> ('e, unit) act) \<Rightarrow> 'a list \<Rightarrow> ('e, unit) act" where
  "for_each_db f [] = return_db ()"
| "for_each_db f (x # xs) = bind_db (f x) (\<lambda>_. for_each_db f xs)"

text \<open>The database an action leaves behind, and its result.\<close>

definition db_after :: "('e, 'a) act \<Rightarrow> db \<Rightarrow> fault list \<Rightarrow> db" where
  "db_after m d fs = fst (snd (m d fs))"

definition db_result :: "('e, 'a) act \<Rightarrow> db \<Rightarrow> fault list \<Rightarrow> 'e + 'a" where
  "db_result m d fs = fst (m d fs)"

text \<open>
  \<open>keeps I m\<close>: the action keeps the invariant under every list of faults. The rules follow the way
  handlers are put together.
\<close>

definition keeps :: "(db \<Rightarrow> bool) \<Rightarrow> ('e, 'a) act \<Rightarrow> bool" where
  "keeps I m \<longleftrightarrow> (\<forall>d fs r d' fs'. I d \<longrightarrow> m d fs = (r, d', fs') \<longrightarrow> I d')"

named_theorems keeps_intros \<open>introduction rules for actions that keep an invariant\<close>

lemma keepsI: "(\<And>d fs r d' fs'. I d \<Longrightarrow> m d fs = (r, d', fs') \<Longrightarrow> I d') \<Longrightarrow> keeps I m"
  unfolding keeps_def by blast

lemma keepsD: "keeps I m \<Longrightarrow> I d \<Longrightarrow> m d fs = (r, d', fs') \<Longrightarrow> I d'"
  unfolding keeps_def by blast

lemma keeps_after: "keeps I m \<Longrightarrow> I d \<Longrightarrow> I (db_after m d fs)"
  unfolding db_after_def by (rule keepsD [of I m d fs "fst (m d fs)" _ "snd (snd (m d fs))"]) auto

lemma keeps_return [keeps_intros]: "keeps I (return_db x)"
  by (rule keepsI) (simp add: return_db_def)

lemma keeps_throw [keeps_intros]: "keeps I (throw_db e)"
  by (rule keepsI) (simp add: throw_db_def)

lemma keeps_ok_or [keeps_intros]: "keeps I (ok_or_db e x)"
  by (cases x) (simp_all add: ok_or_db_def keeps_return keeps_throw)

lemma keeps_bind [keeps_intros]: "keeps I m \<Longrightarrow> (\<And>x. keeps I (k x)) \<Longrightarrow> keeps I (bind_db m k)"
  by (rule keepsI) (auto simp: bind_db_def dest: keepsD split: prod.splits sum.splits)

lemma keeps_if [keeps_intros]: "keeps I m \<Longrightarrow> keeps I n \<Longrightarrow> keeps I (if b then m else n)"
  by simp

lemma keeps_attempt [keeps_intros]: "keeps I m \<Longrightarrow> keeps I (attempt m)"
  by (rule keepsI) (auto simp: attempt_def dest: keepsD split: prod.splits)

lemma keeps_map_err [keeps_intros]: "keeps I m \<Longrightarrow> keeps I (map_err_db g m)"
  by (rule keepsI) (auto simp: map_err_db_def dest: keepsD split: prod.splits sum.splits)

lemma keeps_for_each [keeps_intros]: "(\<And>x. keeps I (f x)) \<Longrightarrow> keeps I (for_each_db f xs)"
  by (induction xs) (auto intro: keeps_intros)

lemma keeps_stmt: "(\<And>d x d'. I d \<Longrightarrow> q d = Inr (x, d') \<Longrightarrow> I d') \<Longrightarrow> keeps I (stmt q)"
  by (rule keepsI)
    (auto simp: stmt_def run_sql_def split: prod.splits fault.splits sum.splits)

lemma keeps_select [keeps_intros]: "keeps I (stmt (\<lambda>d. Inr (f d, d)))"
  by (rule keeps_stmt) auto

subsection \<open>Running without faults\<close>

lemma stmt_nil [db_simps]: "stmt q d [] = (fst (run_sql q d), snd (run_sql q d), [])"
  by (simp add: stmt_def)

lemma bind_db_simps [db_simps]:
  "m d fs = (Inr x, d', fs') \<Longrightarrow> bind_db m k d fs = k x d' fs'"
  "m d fs = (Inl e, d', fs') \<Longrightarrow> bind_db m k d fs = (Inl e, d', fs')"
  by (simp_all add: bind_db_def)

lemma return_throw_simps [db_simps]:
  "return_db x d fs = (Inr x, d, fs)" "throw_db e d fs = (Inl e, d, fs)"
  "ok_or_db e (Some x) = return_db x" "ok_or_db e None = throw_db e"
  by (simp_all add: return_db_def throw_db_def ok_or_db_def)

lemma transaction_nil [db_simps]:
  "body d [] = (Inr x, d', []) \<Longrightarrow> transaction body d [] = (Inr x, d', [])"
  "body d [] = (Inl e, d', []) \<Longrightarrow> transaction body d [] = (Inl e, d, [])"
  by (simp_all add: transaction_def)

subsection \<open>Actions whose success does not depend on the faults\<close>

text \<open>
  An action is \<open>tame\<close> when a run that succeeds under some faults is the run without faults.
\<close>

definition tame :: "('e, 'a) act \<Rightarrow> bool" where
  "tame m \<longleftrightarrow>
     (\<forall>d fs x d' fs'. m d fs = (Inr x, d', fs') \<longrightarrow> m d [] = (Inr x, d', []))"

named_theorems tame_intros \<open>introduction rules for tame actions\<close>

lemma tameI: "(\<And>d fs x d' fs'. m d fs = (Inr x, d', fs') \<Longrightarrow> m d [] = (Inr x, d', [])) \<Longrightarrow> tame m"
  unfolding tame_def by blast

lemma tameD: "tame m \<Longrightarrow> m d fs = (Inr x, d', fs') \<Longrightarrow> m d [] = (Inr x, d', [])"
  unfolding tame_def by blast

lemma tame_stmt [tame_intros]: "tame (stmt q)"
  by (rule tameI) (auto simp: stmt_def run_sql_def split: prod.splits fault.splits sum.splits)

lemma tame_return [tame_intros]: "tame (return_db x)"
  by (rule tameI) (simp add: return_db_def)

lemma tame_throw [tame_intros]: "tame (throw_db e)"
  by (rule tameI) (simp add: throw_db_def)

lemma tame_ok_or [tame_intros]: "tame (ok_or_db e x)"
  by (cases x) (simp_all add: ok_or_db_def tame_return tame_throw)

lemma tame_bind [tame_intros]:
  assumes "tame m" "\<And>x. tame (k x)"
  shows "tame (bind_db m k)"
proof (rule tameI)
  fix d fs y d' fs'
  assume "bind_db m k d fs = (Inr y, d', fs')"
  then obtain x d1 fs1 where 1: "m d fs = (Inr x, d1, fs1)" "k x d1 fs1 = (Inr y, d', fs')"
    by (auto simp: bind_db_def split: prod.splits sum.splits)
  from tameD [OF assms(1) 1(1)] tameD [OF assms(2) 1(2)]
  show "bind_db m k d [] = (Inr y, d', [])" by (simp add: bind_db_def)
qed

lemma tame_if [tame_intros]: "tame m \<Longrightarrow> tame n \<Longrightarrow> tame (if b then m else n)"
  by simp

lemma tame_transaction [tame_intros]:
  assumes "tame m" shows "tame (transaction m)"
  by (rule tameI)
    (auto simp: transaction_def dest: tameD [OF assms] split: prod.splits fault.splits sum.splits)

text \<open>
  A transaction either took effect completely, as without faults, or not at all; a success
  reported to the caller means it took effect, and an error without effect is the only other
  outcome unless the acknowledgement of the commit was lost.
\<close>

lemma transaction_atomic:
  assumes "tame m" "transaction m d fs = (r, d', fs')"
  shows "d' = d \<or> (\<exists>x. m d [] = (Inr x, d', []))"
    and "r = Inr x \<Longrightarrow> m d [] = (Inr x, d', [])"
  using assms(2)
  by (auto simp: transaction_def dest: tameD [OF assms(1)] split: prod.splits fault.splits sum.splits)

lemma bind_stmt_nil:
  "bind_db (stmt q) k d [] = (case q d of Inl e \<Rightarrow> (Inl e, d, []) | Inr (x, d') \<Rightarrow> k x d' [])"
  by (simp add: bind_db_def stmt_def run_sql_def split: sum.splits prod.splits)

lemma stmt_nil_Inr: "stmt q d [] = (Inr x, d', fs) \<longleftrightarrow> q d = Inr (x, d') \<and> fs = []"
  by (auto simp: stmt_def run_sql_def split: sum.splits prod.splits)

lemma stmt_cases:
  "stmt q d fs = (r, d', fs') \<Longrightarrow> d' = d \<or> (\<exists>x. q d = Inr (x, d'))"
  "stmt q d fs = (Inr x, d', fs') \<Longrightarrow> q d = Inr (x, d')"
  by (auto simp: stmt_def run_sql_def split: sum.splits prod.splits fault.splits)

lemma bind_return [simp]: "bind_db (return_db x) k d fs = k x d fs"
  by (simp add: bind_db_def return_db_def)

lemma bind_ok_or_nil:
  "bind_db (ok_or_db e m) k d fs = (case m of None \<Rightarrow> (Inl e, d, fs) | Some x \<Rightarrow> k x d fs)"
  by (cases m) (simp_all add: bind_db_def ok_or_db_def throw_db_def return_db_def)

section \<open>Statements\<close>

definition select_sql :: "(db \<Rightarrow> 'a) \<Rightarrow> 'a sql" where
  "select_sql f d = Inr (f d, d)"

definition user_exists :: "uuid \<Rightarrow> db \<Rightarrow> bool" where
  "user_exists u d \<longleftrightarrow> u \<in> u_id ` set (users d)"

lemma run_select [simp]: "run_sql (select_sql f) d = (Inr (f d), d)"
  by (simp add: run_sql_def select_sql_def)

lemma keeps_select_sql [keeps_intros]: "keeps I (stmt (select_sql f))"
  by (rule keeps_stmt) (auto simp: select_sql_def)

text \<open>
  \<open>ORDER BY key\<close>: rows with equal keys keep the order in which they are read. SQL leaves that order open;
  a query for which it matters (\<open>jobs_get_logs_since\<close>) has it as an argument, elsewhere it is the order
  of insertion.
\<close>

fun insert_by :: "('r \<Rightarrow> 'r \<Rightarrow> bool) \<Rightarrow> 'r \<Rightarrow> 'r list \<Rightarrow> 'r list" where
  "insert_by before x [] = [x]"
| "insert_by before x (y # ys) = (if before y x then y # insert_by before x ys else x # y # ys)"

definition order_by :: "('r \<Rightarrow> 'r \<Rightarrow> bool) \<Rightarrow> 'r list \<Rightarrow> 'r list" where
  "order_by before rs = foldr (insert_by before) rs []"

definition order_desc :: "('r \<Rightarrow> int) \<Rightarrow> 'r list \<Rightarrow> 'r list" where
  "order_desc k = order_by (\<lambda>a b. k b < k a)"

definition order_asc :: "('r \<Rightarrow> int) \<Rightarrow> 'r list \<Rightarrow> 'r list" where
  "order_asc k = order_by (\<lambda>a b. k a < k b)"

lemma mset_insert_by: "mset (insert_by b x ys) = add_mset x (mset ys)"
  by (induction ys) auto

lemma mset_order_by [simp]: "mset (order_by b rs) = mset rs"
  by (induction rs) (simp_all add: order_by_def mset_insert_by)

lemma set_order_by [simp]: "set (order_by b rs) = set rs"
  using mset_order_by by (metis set_mset_mset)

lemma length_order_by [simp]: "length (order_by b rs) = length rs"
  using mset_order_by by (metis size_mset)

lemma set_order_desc [simp]: "set (order_desc k rs) = set rs" "set (order_asc k rs) = set rs"
  by (simp_all add: order_desc_def order_asc_def)

lemma length_order_desc [simp]:
  "length (order_desc k rs) = length rs" "length (order_asc k rs) = length rs"
  by (simp_all add: order_desc_def order_asc_def)

text \<open>
  Sorting by a strict weak order is correct and stable: elements that neither precedes keep their
  relative order, stated for the elements equivalent to a given one.
\<close>

definition weak_order :: "('r \<Rightarrow> 'r \<Rightarrow> bool) \<Rightarrow> 'r set \<Rightarrow> bool" where
  "weak_order b A \<longleftrightarrow>
     (\<forall>x\<in>A. \<not> b x x) \<and>
     (\<forall>x\<in>A. \<forall>y\<in>A. \<forall>z\<in>A. b x y \<longrightarrow> b y z \<longrightarrow> b x z) \<and>
     (\<forall>x\<in>A. \<forall>y\<in>A. \<forall>z\<in>A. \<not> b x y \<longrightarrow> \<not> b y z \<longrightarrow> \<not> b x z)"

lemma weak_order_mono: "weak_order b B \<Longrightarrow> A \<subseteq> B \<Longrightarrow> weak_order b A"
  unfolding weak_order_def by (intro conjI ballI impI) (meson subsetD)+

lemma weak_orderD:
  assumes "weak_order b A" "x \<in> A" "y \<in> A"
  shows "\<not> b x x" "b x y \<Longrightarrow> \<not> b y x"
    "z \<in> A \<Longrightarrow> b x y \<Longrightarrow> b y z \<Longrightarrow> b x z" "z \<in> A \<Longrightarrow> \<not> b x y \<Longrightarrow> \<not> b y z \<Longrightarrow> \<not> b x z"
  using assms unfolding weak_order_def by meson+

lemma set_insert_by: "set (insert_by b x ys) = insert x (set ys)"
  using mset_insert_by [of b x ys] by (metis set_mset_mset set_mset_add_mset_insert)

lemma sorted_insert_by:
  assumes "weak_order b (insert x (set ys))" "sorted_wrt (\<lambda>y z. \<not> b z y) ys"
  shows "sorted_wrt (\<lambda>y z. \<not> b z y) (insert_by b x ys)"
  using assms
proof (induction ys)
  case (Cons y ys)
  note wo = weak_orderD [OF Cons.prems(1)]
  have "weak_order b (insert x (set ys))"
    using Cons.prems(1) by (rule weak_order_mono) auto
  with Cons have IH: "sorted_wrt (\<lambda>y z. \<not> b z y) (insert_by b x ys)" by simp
  show ?case
  proof (cases "b y x")
    case True
    then have "\<not> b x y" using wo(2) [of y x] by simp
    with True IH Cons.prems(2) show ?thesis by (simp add: set_insert_by)
  next
    case False
    have "\<not> b z x" if z: "z \<in> set ys" for z
    proof -
      have "\<not> b z y" using Cons.prems(2) z by simp
      then show ?thesis using wo(4) [of z y x] False z by simp
    qed
    with False Cons.prems(2) show ?thesis by simp
  qed
qed simp

lemma sorted_order_by:
  "weak_order b (set rs) \<Longrightarrow> sorted_wrt (\<lambda>y z. \<not> b z y) (order_by b rs)"
proof (induction rs)
  case (Cons r rs)
  have "weak_order b (set rs)" using Cons.prems by (rule weak_order_mono) auto
  then have "sorted_wrt (\<lambda>y z. \<not> b z y) (order_by b rs)" by (rule Cons.IH)
  moreover have "weak_order b (insert r (set (order_by b rs)))" using Cons.prems by simp
  ultimately have "sorted_wrt (\<lambda>y z. \<not> b z y) (insert_by b r (order_by b rs))"
    by (intro sorted_insert_by)
  then show ?case by (simp add: order_by_def)
qed (simp add: order_by_def)

definition tied :: "('r \<Rightarrow> 'r \<Rightarrow> bool) \<Rightarrow> 'r \<Rightarrow> 'r \<Rightarrow> bool" where
  "tied b x y \<longleftrightarrow> \<not> b x y \<and> \<not> b y x"

lemma insert_by_stable:
  assumes "weak_order b (insert z (insert x (set ys)))"
  shows "filter (tied b z) (insert_by b x ys) = filter (tied b z) (x # ys)"
  using assms
proof (induction ys)
  case (Cons y ys)
  have "weak_order b (insert z (insert x (set ys)))"
    using Cons.prems by (rule weak_order_mono) auto
  then have IH: "filter (tied b z) (insert_by b x ys) = filter (tied b z) (x # ys)"
    by (rule Cons.IH)
  have "\<not> (tied b z x \<and> tied b z y)" if "b y x"
    using weak_orderD(4) [OF Cons.prems, of y z x] that by (auto simp: tied_def)
  then show ?case using IH by (cases "b y x") auto
qed simp

lemma order_by_stable:
  "weak_order b (insert z (set rs)) \<Longrightarrow> filter (tied b z) (order_by b rs) = filter (tied b z) rs"
proof (induction rs)
  case (Cons r rs)
  have "weak_order b (insert z (set rs))" using Cons.prems by (rule weak_order_mono) auto
  then have IH: "filter (tied b z) (order_by b rs) = filter (tied b z) rs" by (rule Cons.IH)
  have "filter (tied b z) (insert_by b r (order_by b rs)) = filter (tied b z) (r # order_by b rs)"
    using Cons.prems by (intro insert_by_stable) simp
  then show ?case using IH by (simp add: order_by_def)
qed (simp add: order_by_def)

lemma weak_order_less: "weak_order (\<lambda>a b. (k b :: int) < k a) A" "weak_order (\<lambda>a b. (k a :: int) < k b) A"
  by (auto simp: weak_order_def)

lemma sorted_order_desc: "sorted_wrt (\<lambda>a b. k b \<le> k a) (order_desc k rs)"
  using sorted_order_by [OF weak_order_less(1), of k rs] by (simp add: order_desc_def not_less)

lemma sorted_order_asc: "sorted_wrt (\<lambda>a b. k a \<le> k b) (order_asc k rs)"
  using sorted_order_by [OF weak_order_less(2), of k rs] by (simp add: order_asc_def not_less)

text \<open>
  Text pasted into a query. Without a quote it is the value the query means; otherwise the answer is
  whatever the database makes of the whole text, the parameter \<open>raw\<close>.
\<close>

definition sql_safe :: "string \<Rightarrow> bool" where
  "sql_safe s \<longleftrightarrow> CHR 0x27 \<notin> set s"

definition paste_sql :: "(string \<Rightarrow> 'a sql) \<Rightarrow> string option \<Rightarrow> 'a sql \<Rightarrow> 'a sql" where
  "paste_sql raw s q = (case s of None \<Rightarrow> q | Some t \<Rightarrow> if sql_safe t then q else raw t)"

definition page_sql :: "int \<Rightarrow> int \<Rightarrow> (db \<Rightarrow> 'r list) \<Rightarrow> 'r list sql" where
  "page_sql limit offset f d =
     (case sql_page limit offset (f d) of
        Inl m \<Rightarrow> Inl (Database m)
      | Inr rows \<Rightarrow> Inr (rows, d))"

lemma keeps_page_sql [keeps_intros]: "keeps I (stmt (page_sql l off f))"
  by (rule keeps_stmt) (auto simp: page_sql_def split: sum.splits)

end
