(* ===== verification/Users.thy ===== *)
theory Users
  imports Db
begin

text \<open>
  The repository of the \<open>users\<close> table (\<open>db/users.rs\<close>). The generated id and time of an insert are
  arguments. \<open>ilike\<close> is PostgreSQL's pattern match, \<open>su\<close> the text of a UUID. Ids and e-mail
  addresses are unique and roles are among the four of migration 006: the invariant \<open>users_ok\<close>.
\<close>

definition roles :: "string list" where
  "roles = [''hirer'', ''worker'', ''both'', ''admin'']"

definition users_create ::
  "uuid \<Rightarrow> timestamp \<Rightarrow> string \<Rightarrow> string \<Rightarrow> string \<Rightarrow> user_row dbm" where
  "users_create new_id now email password_hash role =
     stmt (\<lambda>d.
       let row = \<lparr>u_id = new_id, u_email = email, u_password_hash = password_hash,
                  u_role = role, u_created_at = now\<rparr> in
       if role \<notin> set roles then Inl (Database ''users_role_check'')
       else if \<exists>r\<in>set (users d). u_id r = new_id then Inl (Database ''users_pkey'')
       else if \<exists>r\<in>set (users d). u_email r = email then Inl (Conflict ''email already registered'')
       else Inr (row, d\<lparr>users := users d @ [row]\<rparr>))"

definition users_find_by_email :: "string \<Rightarrow> user_row option dbm" where
  "users_find_by_email email = stmt (select_sql (\<lambda>d. find (\<lambda>u. u_email u = email) (users d)))"

definition users_find_by_id :: "uuid \<Rightarrow> user_row option dbm" where
  "users_find_by_id i = stmt (select_sql (\<lambda>d. find (\<lambda>u. u_id u = i) (users d)))"

definition users_filter ::
  "(string \<Rightarrow> string \<Rightarrow> bool) \<Rightarrow> string option \<Rightarrow> string option \<Rightarrow> user_row \<Rightarrow> bool" where
  "users_filter ilike search role u \<longleftrightarrow>
     (case search of None \<Rightarrow> True | Some s \<Rightarrow> ilike (''%'' @ s @ ''%'') (u_email u)) \<and>
     (case role of None \<Rightarrow> True | Some r \<Rightarrow> u_role u = r)"

definition users_list_all ::
  "(string \<Rightarrow> string \<Rightarrow> bool) \<Rightarrow> string option \<Rightarrow> string option \<Rightarrow> int \<Rightarrow> int \<Rightarrow> user_row list dbm" where
  "users_list_all ilike search role limit offset =
     stmt (page_sql limit offset (\<lambda>d.
       order_desc u_created_at (filter (users_filter ilike search role) (users d))))"

definition users_count_all ::
  "(string \<Rightarrow> string \<Rightarrow> bool) \<Rightarrow> string option \<Rightarrow> string option \<Rightarrow> int dbm" where
  "users_count_all ilike search role =
     stmt (select_sql (\<lambda>d. int (length (filter (users_filter ilike search role) (users d)))))"

definition users_update_role :: "(uuid \<Rightarrow> string) \<Rightarrow> uuid \<Rightarrow> string \<Rightarrow> user_row dbm" where
  "users_update_role su i role =
     bind_db
       (stmt (\<lambda>d.
          let us = update_where (\<lambda>u. u_id u = i) (\<lambda>u. u\<lparr>u_role := role\<rparr>) (users d) in
          case find (\<lambda>u. u_id u = i) us of
            None \<Rightarrow> Inr (None, d)
          | Some r \<Rightarrow>
              if role \<notin> set roles then Inl (Database ''users_role_check'')
              else Inr (Some r, d\<lparr>users := us\<rparr>)))
       (ok_or_db (NotFound (''user '' @ su i @ '' not found'')))"

definition admin_count :: "db \<Rightarrow> int" where
  "admin_count d = int (length (filter (\<lambda>u. u_role u = ''admin'') (users d)))"

definition users_count_admins :: "int dbm" where
  "users_count_admins = stmt (select_sql admin_count)"

section \<open>The invariant of the table\<close>

definition users_ok :: "db \<Rightarrow> bool" where
  "users_ok d \<longleftrightarrow>
     distinct (map u_id (users d)) \<and> distinct (map u_email (users d)) \<and>
     (\<forall>u\<in>set (users d). u_role u \<in> set roles)"

lemma find_distinct_key:
  "distinct (map k xs) \<Longrightarrow> x \<in> set xs \<Longrightarrow> find (\<lambda>r. k r = k x) xs = Some x"
  by (induction xs) (auto simp: rev_image_eqI)

lemma users_create_ok:
  assumes "users_create i now e h r d fs = (Inr u, d', fs')"
  shows "u = \<lparr>u_id = i, u_email = e, u_password_hash = h, u_role = r, u_created_at = now\<rparr>"
    and "d' = d\<lparr>users := users d @ [u]\<rparr>" and "r \<in> set roles"
    and "i \<notin> u_id ` set (users d)" and "e \<notin> u_email ` set (users d)"
  using assms
  by (auto simp: users_create_def stmt_def run_sql_def Let_def split: prod.splits fault.splits if_splits)

lemma users_create_cases:
  "users_create i now e h r d fs = (res, d', fs') \<Longrightarrow>
   d' = d \<or> (\<exists>u. u = \<lparr>u_id = i, u_email = e, u_password_hash = h, u_role = r, u_created_at = now\<rparr> \<and>
     d' = d\<lparr>users := users d @ [u]\<rparr> \<and> r \<in> set roles \<and>
     i \<notin> u_id ` set (users d) \<and> e \<notin> u_email ` set (users d))"
  by (auto simp: users_create_def stmt_def run_sql_def Let_def split: prod.splits fault.splits if_splits)

lemma users_create_keeps:
  assumes "users_ok d" "users_create i now e h r d fs = (res, d', fs')"
  shows "users_ok d'"
  using assms(1) users_create_cases [OF assms(2)] by (auto simp: users_ok_def)

lemma users_update_role_cases:
  assumes "users_update_role su i role d fs = (res, d', fs')"
  shows "d' = d \<or> role \<in> set roles \<and>
    d' = d\<lparr>users := update_where (\<lambda>u. u_id u = i) (\<lambda>u. u\<lparr>u_role := role\<rparr>) (users d)\<rparr>"
  using assms
  by (auto simp: users_update_role_def bind_db_def stmt_def run_sql_def Let_def ok_or_db_def return_db_def
        throw_db_def split: prod.splits fault.splits if_splits option.splits sum.splits)

lemma users_update_role_ok:
  assumes "users_update_role su i role d fs = (Inr x, d', fs')"
  shows "users d' = update_where (\<lambda>u. u_id u = i) (\<lambda>u. u\<lparr>u_role := role\<rparr>) (users d)"
  using assms
  by (auto simp: users_update_role_def bind_db_def stmt_def run_sql_def Let_def ok_or_db_def return_db_def
        throw_db_def split: prod.splits fault.splits if_splits option.splits sum.splits)

lemma users_update_role_keeps:
  assumes "users_ok d" "users_update_role su i role d fs = (res, d', fs')"
  shows "users_ok d'"
  using users_update_role_cases [OF assms(2)] assms(1)
  by (auto simp: users_ok_def map_update_where set_update_where)

text \<open>Reads leave the database alone.\<close>

lemma users_reads [simp]:
  "fst (snd (users_find_by_email e d fs)) = d" "fst (snd (users_find_by_id i d fs)) = d"
  "fst (snd (users_list_all il s r l off d fs)) = d" "fst (snd (users_count_all il s r d fs)) = d"
  "fst (snd (users_count_admins d fs)) = d"
  by (auto simp: users_find_by_email_def users_find_by_id_def users_list_all_def
        users_count_all_def users_count_admins_def stmt_def run_sql_def select_sql_def
        page_sql_def split: prod.splits fault.splits sum.splits)

lemma users_create_then_find:
  assumes "users_create i now e h r d [] = (Inr u, d', [])"
  shows "users_find_by_email e d' [] = (Inr (Some u), d', [])"
    and "users_find_by_id i d' [] = (Inr (Some u), d', [])"
proof -
  note facts = users_create_ok [OF assms]
  then have "find (\<lambda>u. u_email u = e) (users d @ [u]) = Some u"
      "find (\<lambda>u. u_id u = i) (users d @ [u]) = Some u"
    by (subst find_snoc_fresh; force)+
  with facts(2) show "users_find_by_email e d' [] = (Inr (Some u), d', [])"
      "users_find_by_id i d' [] = (Inr (Some u), d', [])"
    by (simp_all add: users_find_by_email_def users_find_by_id_def stmt_def)
qed

end
