(* ===== verification/Ledger.thy ===== *)
theory Ledger
  imports Users
begin

text \<open>
  The compute-unit ledger: the pure pricing rules and the transactions of \<open>credits/engine.rs\<close>
  (\<open>initialize\<close>, \<open>allocate\<close>, \<open>reserve\<close>, \<open>settle\<close>, \<open>refund_full\<close>, \<open>get_balance\<close>) and the reads
  of \<open>db/compute_units.rs\<close>. Ids and times generated by the database are arguments; \<open>su\<close> is the
  text of a UUID. The release build does not check integer overflow, so \<open>+\<close> and \<open>-\<close> on \<open>i64\<close>
  are \<open>wrap_i64\<close>; PostgreSQL rejects an update out of the range of \<open>BIGINT\<close> or below zero.
\<close>

section \<open>Prices\<close>

definition calculate_price :: "gpu_backend \<Rightarrow> f64 \<Rightarrow> int" where
  "calculate_price backend duration_hours =
     f64_as_i64 (f64_ceil
       (f64_mul (f64_mul (f64_of_int BASE_RATE_PER_HOUR) duration_hours)
          (price_multiplier backend)))"

definition actual_hours :: "u64 \<Rightarrow> f64" where
  "actual_hours secs = f64_div (f64_of_int (uint secs)) (Fin 3600)"

definition actual_charge :: "gpu_backend \<Rightarrow> int \<Rightarrow> u64 \<Rightarrow> int" where
  "actual_charge backend reserved secs =
     min (calculate_price backend (actual_hours secs)) reserved"

definition worker_payout :: "int \<Rightarrow> int" where
  "worker_payout charge = f64_as_i64 (f64_mul (f64_of_int charge) WORKER_PAYOUT_FRACTION)"

section \<open>Statements on balances and transactions\<close>

definition balance_ok :: "balance_row \<Rightarrow> bool" where
  "balance_ok b \<longleftrightarrow>
     0 \<le> cu_balance b \<and> cu_balance b \<le> i64_max \<and> 0 \<le> cu_reserved b \<and> cu_reserved b \<le> i64_max"

definition tx_kinds :: "string list" where
  "tx_kinds = [''allocation'', ''job_debit'', ''job_credit'', ''job_refund'']"

definition sql_update_balance :: "uuid \<Rightarrow> (balance_row \<Rightarrow> balance_row) \<Rightarrow> unit sql" where
  "sql_update_balance u f d =
     (if \<forall>b\<in>set (balances d). b_user b = u \<longrightarrow> balance_ok (f b)
      then Inr ((), d\<lparr>balances := update_where (\<lambda>b. b_user b = u) f (balances d)\<rparr>)
      else Inl (Database ''compute_unit_balances check''))"

definition sql_insert_tx ::
  "uuid \<Rightarrow> timestamp \<Rightarrow> uuid \<Rightarrow> int \<Rightarrow> string \<Rightarrow> uuid option \<Rightarrow> unit sql" where
  "sql_insert_tx new_id now u amount kind job d =
     (if kind \<notin> set tx_kinds then Inl (Database ''tx_type check'')
      else if new_id \<in> tx_id ` set (txs d) then Inl (Database ''compute_unit_transactions_pkey'')
      else if \<not> user_exists u d then Inl (Database ''user_id foreign key'')
      else Inr ((), d\<lparr>txs := txs d @ [\<lparr>tx_id = new_id, tx_user = u, cu_amount = amount,
                 tx_kind = kind, tx_job = job, tx_created_at = now\<rparr>]\<rparr>))"

definition find_balance :: "uuid \<Rightarrow> db \<Rightarrow> balance_row option" where
  "find_balance u d = find (\<lambda>b. b_user b = u) (balances d)"

section \<open>Operations\<close>

definition ledger_initialize :: "uuid \<Rightarrow> unit dbm" where
  "ledger_initialize u =
     stmt (\<lambda>d.
       if u \<in> b_user ` set (balances d) then Inr ((), d)
       else if \<not> user_exists u d then Inl (Database ''user_id foreign key'')
       else Inr ((), d\<lparr>balances := balances d @
              [\<lparr>b_user = u, cu_balance = 0, cu_reserved = 0\<rparr>]\<rparr>))"

definition ledger_allocate ::
  "(uuid \<Rightarrow> string) \<Rightarrow> uuid \<Rightarrow> timestamp \<Rightarrow> uuid \<Rightarrow> int \<Rightarrow> int dbm" where
  "ledger_allocate su tid now u amount =
     transaction
       (bind_db (stmt (select_sql (find_balance u))) (\<lambda>found.
        bind_db (ok_or_db (NotFound (''balance not found for user '' @ su u)) found) (\<lambda>row.
        let new_balance = wrap_i64 (cu_balance row + amount) in
        bind_db (stmt (sql_update_balance u (\<lambda>b. b\<lparr>cu_balance := new_balance\<rparr>))) (\<lambda>_.
        bind_db (stmt (sql_insert_tx tid now u amount ''allocation'' None)) (\<lambda>_.
        return_db new_balance)))))"

definition ledger_reserve :: "uuid \<Rightarrow> timestamp \<Rightarrow> uuid \<Rightarrow> uuid \<Rightarrow> int \<Rightarrow> unit dbm" where
  "ledger_reserve tid now hirer job amount =
     transaction
       (bind_db (stmt (select_sql (find_balance hirer))) (\<lambda>found.
        bind_db (ok_or_db (NotFound ''balance not found'') found) (\<lambda>row.
        let available = wrap_i64 (cu_balance row - cu_reserved row) in
        if available < amount then throw_db (InsufficientComputeUnits available amount)
        else
          bind_db (stmt (sql_update_balance hirer
                     (\<lambda>b. b\<lparr>cu_reserved := cu_reserved b + amount\<rparr>))) (\<lambda>_.
          stmt (sql_insert_tx tid now hirer (wrap_i64 (- amount)) ''job_debit'' (Some job))))))"

definition settle_locks :: "uuid \<Rightarrow> uuid \<Rightarrow> uuid list" where
  "settle_locks hirer worker = (if hirer < worker then [hirer, worker] else [worker, hirer])"

definition ledger_settle ::
  "uuid \<Rightarrow> uuid \<Rightarrow> timestamp \<Rightarrow> uuid \<Rightarrow> uuid \<Rightarrow> uuid \<Rightarrow> int \<Rightarrow> u64 \<Rightarrow> gpu_backend \<Rightarrow> unit dbm" where
  "ledger_settle refund_tid credit_tid now hirer worker job reserved secs backend =
     (let charge = actual_charge backend reserved secs;
          refund = wrap_i64 (reserved - charge);
          payout = worker_payout charge in
      transaction
        (bind_db (stmt (select_sql (find_balance (settle_locks hirer worker ! 0)))) (\<lambda>_.
         bind_db (stmt (select_sql (find_balance (settle_locks hirer worker ! 1)))) (\<lambda>_.
         bind_db (stmt (sql_update_balance hirer
                    (\<lambda>b. b\<lparr>cu_balance := cu_balance b + refund,
                          cu_reserved := cu_reserved b - reserved\<rparr>))) (\<lambda>_.
         bind_db (stmt (sql_update_balance worker
                    (\<lambda>b. b\<lparr>cu_balance := cu_balance b + payout\<rparr>))) (\<lambda>_.
         bind_db (if 0 < refund
                  then stmt (sql_insert_tx refund_tid now hirer refund ''job_refund'' (Some job))
                  else return_db ()) (\<lambda>_.
         stmt (sql_insert_tx credit_tid now worker payout ''job_credit'' (Some job)))))))))"

definition ledger_refund_full :: "uuid \<Rightarrow> timestamp \<Rightarrow> uuid \<Rightarrow> uuid \<Rightarrow> int \<Rightarrow> unit dbm" where
  "ledger_refund_full tid now hirer job reserved =
     transaction
       (bind_db (stmt (sql_update_balance hirer
                  (\<lambda>b. b\<lparr>cu_balance := cu_balance b + reserved,
                        cu_reserved := cu_reserved b - reserved\<rparr>))) (\<lambda>_.
        stmt (sql_insert_tx tid now hirer reserved ''job_refund'' (Some job))))"

definition ledger_get_balance :: "(uuid \<Rightarrow> string) \<Rightarrow> uuid \<Rightarrow> (int \<times> int) dbm" where
  "ledger_get_balance su u =
     bind_db (stmt (select_sql (find_balance u))) (\<lambda>found.
     bind_db (ok_or_db (NotFound (''no balance for user '' @ su u)) found) (\<lambda>row.
     return_db (cu_balance row, cu_reserved row)))"

lemmas ledger_defs = ledger_allocate_def ledger_reserve_def ledger_settle_def
  ledger_refund_full_def

section \<open>The repository of balances and transactions\<close>

definition cu_init_balance :: "uuid \<Rightarrow> unit dbm" where
  "cu_init_balance = ledger_initialize"

definition cu_get_balance :: "uuid \<Rightarrow> (int \<times> int) dbm" where
  "cu_get_balance u =
     stmt (\<lambda>d. case find_balance u d of
       None \<Rightarrow> Inl (Database ''no rows returned'')
     | Some b \<Rightarrow> Inr ((cu_balance b, cu_reserved b), d))"

definition cu_list_transactions :: "uuid \<Rightarrow> tx_row list dbm" where
  "cu_list_transactions u =
     stmt (select_sql (\<lambda>d.
       take 50 (order_desc tx_created_at (filter (\<lambda>t. tx_user t = u) (txs d)))))"

text \<open>The type filter is pasted into the text of both queries.\<close>

definition cu_list_transactions_paginated ::
  "(string \<Rightarrow> int sql) \<Rightarrow> (string \<Rightarrow> tx_row list sql) \<Rightarrow> uuid \<Rightarrow> int \<Rightarrow> int \<Rightarrow> string option \<Rightarrow>
   (tx_row list \<times> int) dbm" where
  "cu_list_transactions_paginated raw_count raw_rows u limit offset kind =
     (let matches = (\<lambda>d. filter (\<lambda>t. tx_user t = u \<and>
            (case kind of None \<Rightarrow> True | Some k \<Rightarrow> tx_kind t = k)) (txs d)) in
      bind_db (stmt (paste_sql raw_count kind (select_sql (\<lambda>d. int (length (matches d)))))) (\<lambda>total.
      bind_db (stmt (paste_sql raw_rows kind
                (page_sql limit offset (\<lambda>d. order_desc tx_created_at (matches d))))) (\<lambda>rows.
      return_db (rows, total))))"

definition sum_of :: "(tx_row \<Rightarrow> int) \<Rightarrow> (tx_row \<Rightarrow> bool) \<Rightarrow> db \<Rightarrow> int" where
  "sum_of f P d = sum_list (map f (filter P (txs d)))"

definition sum_bigint :: "int \<Rightarrow> 'a \<Rightarrow> decent_error + int \<times> 'a" where
  "sum_bigint s d = (if in_i64 s then Inr (s, d) else Inl (Database ''bigint out of range''))"

definition cu_sum_allocated :: "int dbm" where
  "cu_sum_allocated =
     stmt (\<lambda>d. sum_bigint
       (sum_of cu_amount (\<lambda>t. tx_kind t = ''allocation'' \<and> 0 < cu_amount t) d) d)"

definition cu_sum_consumed :: "int dbm" where
  "cu_sum_consumed =
     stmt (\<lambda>d. sum_bigint (sum_of (\<lambda>t. \<bar>cu_amount t\<bar>) (\<lambda>t. tx_kind t = ''job_debit'') d) d)"

end
