(* ===== verification/Ledger_Spec.thy ===== *)
theory Ledger_Spec
  imports Ledger
begin

text \<open>
  What the ledger promises: the effect of each transaction on success, atomicity under faults, the
  invariants kept by every run of operations, and the amount by which each operation changes the sum
  of all balances.
\<close>

section \<open>The effect of a successful transaction\<close>

definition set_balance :: "uuid \<Rightarrow> (balance_row \<Rightarrow> balance_row) \<Rightarrow> db \<Rightarrow> db" where
  "set_balance u f d = d\<lparr>balances := update_where (\<lambda>b. b_user b = u) f (balances d)\<rparr>"

definition add_tx ::
  "uuid \<Rightarrow> timestamp \<Rightarrow> uuid \<Rightarrow> int \<Rightarrow> string \<Rightarrow> uuid option \<Rightarrow> db \<Rightarrow> db" where
  "add_tx i now u amount kind job d = d\<lparr>txs := txs d @ [\<lparr>tx_id = i, tx_user = u,
     cu_amount = amount, tx_kind = kind, tx_job = job, tx_created_at = now\<rparr>]\<rparr>"

lemma sql_update_balance_Inr:
  "sql_update_balance u f d = Inr ((), d') \<longleftrightarrow>
     (\<forall>b\<in>set (balances d). b_user b = u \<longrightarrow> balance_ok (f b)) \<and> d' = set_balance u f d"
  by (auto simp: sql_update_balance_def set_balance_def)

lemma sql_insert_tx_Inr:
  "sql_insert_tx i now u a k j d = Inr ((), d') \<longleftrightarrow>
     k \<in> set tx_kinds \<and> i \<notin> tx_id ` set (txs d) \<and> user_exists u d \<and> d' = add_tx i now u a k j d"
  by (auto simp: sql_insert_tx_def add_tx_def)

lemma tx_kinds_simps [simp]:
  "''allocation'' \<in> set tx_kinds" "''job_debit'' \<in> set tx_kinds"
  "''job_credit'' \<in> set tx_kinds" "''job_refund'' \<in> set tx_kinds"
  by (simp_all add: tx_kinds_def)

lemma set_balance_sel [simp]:
  "users (set_balance u f d) = users d" "txs (set_balance u f d) = txs d"
  "balances (set_balance u f d) = update_where (\<lambda>b. b_user b = u) f (balances d)"
  "user_exists v (set_balance u f d) = user_exists v d"
  by (simp_all add: set_balance_def user_exists_def)

lemma add_tx_sel [simp]:
  "users (add_tx i now u a k j d) = users d" "balances (add_tx i now u a k j d) = balances d"
  "txs (add_tx i now u a k j d) = txs d @ [\<lparr>tx_id = i, tx_user = u, cu_amount = a, tx_kind = k,
     tx_job = j, tx_created_at = now\<rparr>]"
  "user_exists v (add_tx i now u a k j d) = user_exists v d"
  by (simp_all add: add_tx_def user_exists_def)

lemmas ledger_run = bind_stmt_nil bind_ok_or_nil stmt_nil_Inr select_sql_def
  sql_update_balance_Inr sql_insert_tx_Inr

lemma case_sum_Inr:
  "(case s of Inl e \<Rightarrow> (Inl e, d, fs) | Inr (x, d1) \<Rightarrow> k x d1) = (Inr y, d', fs') \<longleftrightarrow>
   (\<exists>x d1. s = Inr (x, d1) \<and> k x d1 = (Inr y, d', fs'))"
  by (auto split: sum.splits prod.splits)

lemma tame_body_success:
  "tame m \<Longrightarrow> transaction m d fs = (Inr x, d', fs') \<Longrightarrow> m d [] = (Inr x, d', [])"
  by (rule transaction_atomic(2) [of m d fs "Inr x"]) auto

lemma allocate_success:
  assumes "ledger_allocate su i now u a d fs = (Inr x, d', fs')"
  obtains b where "find_balance u d = Some b" "x = wrap_i64 (cu_balance b + a)"
    "\<forall>b\<in>set (balances d). b_user b = u \<longrightarrow> balance_ok (b\<lparr>cu_balance := x\<rparr>)"
    "d' = add_tx i now u a ''allocation'' None (set_balance u (\<lambda>b. b\<lparr>cu_balance := x\<rparr>) d)"
    "user_exists u d" "i \<notin> tx_id ` set (txs d)"
  using assms unfolding ledger_allocate_def Let_def
  by (auto dest!: tame_body_success [rotated] intro!: tame_intros
      simp: ledger_run case_sum_Inr return_db_def split: option.splits)

lemma reserve_success:
  assumes "ledger_reserve i now u job a d fs = (Inr x, d', fs')"
  obtains b where "find_balance u d = Some b" "a \<le> wrap_i64 (cu_balance b - cu_reserved b)"
    "\<forall>b\<in>set (balances d). b_user b = u \<longrightarrow> balance_ok (b\<lparr>cu_reserved := cu_reserved b + a\<rparr>)"
    "d' = add_tx i now u (wrap_i64 (- a)) ''job_debit'' (Some job)
            (set_balance u (\<lambda>b. b\<lparr>cu_reserved := cu_reserved b + a\<rparr>) d)"
    "user_exists u d" "i \<notin> tx_id ` set (txs d)"
  using assms unfolding ledger_reserve_def Let_def
  by (auto dest!: tame_body_success [rotated] intro!: tame_intros
      simp: ledger_run case_sum_Inr throw_db_def split: option.splits if_splits)

lemma refund_full_success:
  assumes "ledger_refund_full i now u job a d fs = (Inr x, d', fs')"
  shows "\<forall>b\<in>set (balances d). b_user b = u \<longrightarrow>
      balance_ok (b\<lparr>cu_balance := cu_balance b + a, cu_reserved := cu_reserved b - a\<rparr>)"
    and "d' = add_tx i now u a ''job_refund'' (Some job)
      (set_balance u (\<lambda>b. b\<lparr>cu_balance := cu_balance b + a, cu_reserved := cu_reserved b - a\<rparr>) d)"
    and "user_exists u d" and "i \<notin> tx_id ` set (txs d)"
  using assms unfolding ledger_refund_full_def
  by (auto dest!: tame_body_success [rotated] intro!: tame_intros simp: ledger_run case_sum_Inr)

text \<open>The two updates of \<open>settle\<close>, and the entries it appends.\<close>

definition settle_hirer :: "int \<Rightarrow> int \<Rightarrow> balance_row \<Rightarrow> balance_row" where
  "settle_hirer refund reserved b =
     b\<lparr>cu_balance := cu_balance b + refund, cu_reserved := cu_reserved b - reserved\<rparr>"

definition settle_worker :: "int \<Rightarrow> balance_row \<Rightarrow> balance_row" where
  "settle_worker payout b = b\<lparr>cu_balance := cu_balance b + payout\<rparr>"

definition settle_refund :: "gpu_backend \<Rightarrow> int \<Rightarrow> u64 \<Rightarrow> int" where
  "settle_refund backend reserved secs =
     wrap_i64 (reserved - actual_charge backend reserved secs)"

definition settle_payout :: "gpu_backend \<Rightarrow> int \<Rightarrow> u64 \<Rightarrow> int" where
  "settle_payout backend reserved secs = worker_payout (actual_charge backend reserved secs)"

lemma settle_success:
  assumes "ledger_settle ri ci now h w job r secs k d fs = (Inr x, d', fs')"
  defines "rf \<equiv> settle_refund k r secs" and "po \<equiv> settle_payout k r secs"
  defines "d1 \<equiv> set_balance h (settle_hirer rf r) d"
  defines "d2 \<equiv> set_balance w (settle_worker po) d1"
  defines "d3 \<equiv> (if 0 < rf then add_tx ri now h rf ''job_refund'' (Some job) d2 else d2)"
  shows "\<forall>b\<in>set (balances d). b_user b = h \<longrightarrow> balance_ok (settle_hirer rf r b)"
    and "\<forall>b\<in>set (balances d1). b_user b = w \<longrightarrow> balance_ok (settle_worker po b)"
    and "d' = add_tx ci now w po ''job_credit'' (Some job) d3"
    and "user_exists w d" and "ci \<notin> tx_id ` set (txs d3)"
    and "0 < rf \<Longrightarrow> user_exists h d \<and> ri \<notin> tx_id ` set (txs d)"
proof -
  have fn: "(\<lambda>b. b\<lparr>cu_balance := cu_balance b + rf, cu_reserved := cu_reserved b - r\<rparr>) = settle_hirer rf r"
    "(\<lambda>b. b\<lparr>cu_balance := cu_balance b + po\<rparr>) = settle_worker po"
    by (simp_all add: fun_eq_iff settle_hirer_def settle_worker_def)
  from assms(1) have "transaction
      (bind_db (stmt (select_sql (find_balance (settle_locks h w ! 0)))) (\<lambda>_.
       bind_db (stmt (select_sql (find_balance (settle_locks h w ! 1)))) (\<lambda>_.
       bind_db (stmt (sql_update_balance h (settle_hirer rf r))) (\<lambda>_.
       bind_db (stmt (sql_update_balance w (settle_worker po))) (\<lambda>_.
       bind_db (if 0 < rf then stmt (sql_insert_tx ri now h rf ''job_refund'' (Some job))
                else return_db ()) (\<lambda>_.
       stmt (sql_insert_tx ci now w po ''job_credit'' (Some job))))))))
      d fs = (Inr x, d', fs')"
    unfolding ledger_settle_def Let_def settle_refund_def [symmetric] settle_payout_def [symmetric]
    by (fold rf_def po_def) (simp only: fn)
  note body = tame_body_success [rotated, OF this]
  have "(\<forall>b\<in>set (balances d). b_user b = h \<longrightarrow> balance_ok (settle_hirer rf r b)) \<and>
    (\<forall>b\<in>set (balances d1). b_user b = w \<longrightarrow> balance_ok (settle_worker po b)) \<and>
    d' = add_tx ci now w po ''job_credit'' (Some job) d3 \<and>
    user_exists w d \<and> ci \<notin> tx_id ` set (txs d3) \<and>
    (0 < rf \<longrightarrow> user_exists h d \<and> ri \<notin> tx_id ` set (txs d))"
  proof (cases "0 < rf")
    case True
    with body show ?thesis
      by (auto intro!: tame_intros simp: ledger_run case_sum_Inr d1_def d2_def d3_def)
  next
    case False
    with body show ?thesis
      by (auto intro!: tame_intros
          simp: ledger_run case_sum_Inr d1_def d2_def d3_def)
  qed
  then show "\<forall>b\<in>set (balances d). b_user b = h \<longrightarrow> balance_ok (settle_hirer rf r b)"
    "\<forall>b\<in>set (balances d1). b_user b = w \<longrightarrow> balance_ok (settle_worker po b)"
    "d' = add_tx ci now w po ''job_credit'' (Some job) d3"
    "user_exists w d" "ci \<notin> tx_id ` set (txs d3)"
    "0 < rf \<Longrightarrow> user_exists h d \<and> ri \<notin> tx_id ` set (txs d)" by blast+
qed

lemma initialize_cases:
  assumes "ledger_initialize u d fs = (x, d', fs')"
  shows "d' = d \<or> u \<notin> b_user ` set (balances d) \<and> user_exists u d \<and>
    d' = d\<lparr>balances := balances d @ [\<lparr>b_user = u, cu_balance = 0, cu_reserved = 0\<rparr>]\<rparr>"
  using stmt_cases(1) [OF assms [unfolded ledger_initialize_def]] by (auto split: if_splits)

section \<open>Runs of ledger operations\<close>

datatype ledger_op =
    OpInitialize uuid
  | OpAllocate uuid timestamp uuid int
  | OpReserve uuid timestamp uuid uuid int
  | OpSettle uuid uuid timestamp uuid uuid uuid int u64 gpu_backend
  | OpRefundFull uuid timestamp uuid uuid int

fun ledger_exec :: "(uuid \<Rightarrow> string) \<Rightarrow> ledger_op \<Rightarrow> unit dbm" where
  "ledger_exec su (OpInitialize u) = ledger_initialize u"
| "ledger_exec su (OpAllocate i now u a) =
     bind_db (ledger_allocate su i now u a) (\<lambda>_. return_db ())"
| "ledger_exec su (OpReserve i now u job a) = ledger_reserve i now u job a"
| "ledger_exec su (OpSettle ri ci now h w job r secs k) = ledger_settle ri ci now h w job r secs k"
| "ledger_exec su (OpRefundFull i now u job a) = ledger_refund_full i now u job a"

text \<open>One request against the database, under the faults it meets.\<close>

definition ledger_step :: "(uuid \<Rightarrow> string) \<Rightarrow> db \<Rightarrow> ledger_op \<times> fault list \<Rightarrow> db" where
  "ledger_step su d e = fst (snd (ledger_exec su (fst e) d (snd e)))"

lemma tame_ledger_exec: "tame (ledger_exec su e)"
  by (cases e) (auto simp: ledger_initialize_def ledger_defs Let_def intro!: tame_intros)

lemma transaction_step:
  assumes "tame m" "transaction m d fs = (r, d', fs')"
  shows "d' = d \<or> (\<exists>x. transaction m d [] = (Inr x, d', []))"
  using transaction_atomic(1) [OF assms] by (auto simp: transaction_nil)

lemma ledger_step_cases:
  obtains "ledger_step su d (e, fs) = d"
  | x where "ledger_exec su e d [] = (Inr x, ledger_step su d (e, fs), [])"
proof -
  obtain r d' fs' where run: "ledger_exec su e d fs = (r, d', fs')"
    by (cases "ledger_exec su e d fs")
  then have step: "ledger_step su d (e, fs) = d'" by (simp add: ledger_step_def)
  have "d' = d \<or> (\<exists>x. ledger_exec su e d [] = (Inr x, d', []))"
  proof (cases e)
    case (OpInitialize u)
    with run have "ledger_initialize u d fs = (r, d', fs')" by simp
    from stmt_cases(1) [OF this [unfolded ledger_initialize_def]] show ?thesis
      unfolding OpInitialize ledger_exec.simps ledger_initialize_def stmt_nil_Inr by blast
  next
    case (OpAllocate i now u a)
    obtain q where q: "ledger_allocate su i now u a d fs = (q, d', fs')"
      using run OpAllocate by (auto simp: bind_db_def return_db_def split: prod.splits sum.splits)
    then have "d' = d \<or> (\<exists>y. ledger_allocate su i now u a d [] = (Inr y, d', []))"
      unfolding ledger_allocate_def Let_def by (intro transaction_step) (auto intro!: tame_intros)
    then show ?thesis by (auto simp: OpAllocate bind_db_def return_db_def)
  next
    case (OpReserve i now u job a)
    with run show ?thesis unfolding ledger_exec.simps ledger_reserve_def Let_def
      by (simp only: OpReserve ledger_exec.simps ledger_reserve_def Let_def)
        (intro transaction_step, auto intro!: tame_intros)
  next
    case (OpSettle ri ci now h w job r secs k)
    with run show ?thesis
      by (simp only: OpSettle ledger_exec.simps ledger_settle_def Let_def)
        (intro transaction_step, auto intro!: tame_intros)
  next
    case (OpRefundFull i now u job a)
    with run show ?thesis
      by (simp only: OpRefundFull ledger_exec.simps ledger_refund_full_def)
        (intro transaction_step, auto intro!: tame_intros)
  qed
  with step that show thesis by auto
qed

section \<open>Prices are never negative\<close>

lemma mk_f64_nonneg: "0 \<le> x \<Longrightarrow> mk_f64 x = PInf \<or> (\<exists>r. mk_f64 x = Fin r \<and> 0 \<le> r)"
  using rnd_nonneg [of x] by (auto simp: mk_f64_def Let_def)

definition f64_nonneg :: "f64 \<Rightarrow> bool" where
  "f64_nonneg x \<longleftrightarrow> (x = PInf \<or> (\<exists>r\<ge>0. x = Fin r))"

lemma f64_nonneg_ops:
  "0 \<le> r \<Longrightarrow> f64_nonneg (mk_f64 r)"
  "f64_nonneg x \<Longrightarrow> 0 < c \<Longrightarrow> f64_nonneg (f64_mul (Fin c) x)"
  "f64_nonneg x \<Longrightarrow> 0 < c \<Longrightarrow> f64_nonneg (f64_mul x (Fin c))"
  "f64_nonneg x \<Longrightarrow> 0 < c \<Longrightarrow> f64_nonneg (f64_div x (Fin c))"
  "f64_nonneg x \<Longrightarrow> f64_nonneg (f64_ceil x)"
proof -
  have mk: "f64_nonneg (mk_f64 r)" if "0 \<le> r" for r
    using mk_f64_nonneg [OF that] by (auto simp: f64_nonneg_def)
  then show "0 \<le> r \<Longrightarrow> f64_nonneg (mk_f64 r)" .
  assume x: "f64_nonneg x"
  then consider "x = PInf" | r where "x = Fin r" "0 \<le> r" by (auto simp: f64_nonneg_def)
  note cases = this
  show "f64_nonneg (f64_ceil x)"
    using x by (auto simp: f64_nonneg_def)
  assume c: "0 < c"
  from cases show "f64_nonneg (f64_mul (Fin c) x)"
    by cases (use c in \<open>auto intro: mk simp: signed_inf_def, simp_all add: f64_nonneg_def\<close>)
  from cases show "f64_nonneg (f64_mul x (Fin c))"
    by cases (use c in \<open>auto intro: mk simp: signed_inf_def, simp_all add: f64_nonneg_def\<close>)
  from cases show "f64_nonneg (f64_div x (Fin c))"
    by cases (use c in \<open>auto intro: mk simp: signed_inf_def, simp_all add: f64_nonneg_def\<close>)
qed

lemma of_int_uint_nonneg: "(0 :: rat) \<le> of_int (uint w)"
  by (simp only: of_int_0_le_iff uint_ge_0)

lemma f64_nonneg_as_i64: "f64_nonneg x \<Longrightarrow> 0 \<le> f64_as_i64 x"
  by (auto simp: f64_nonneg_def i64_bounds rat_trunc_def sat_i64_def)

lemma base_rate_f64 [f64_simps]: "f64_of_int BASE_RATE_PER_HOUR = Fin 10"
  using f64_of_int_small [of 10] by (simp add: BASE_RATE_PER_HOUR_def)

lemma price_nonneg: "0 \<le> calculate_price k (actual_hours secs)"
proof -
  have "f64_nonneg (f64_mul (Fin 10) (actual_hours secs))"
    unfolding actual_hours_def f64_of_int_def
    by (intro f64_nonneg_ops of_int_uint_nonneg) auto
  then have "f64_nonneg (f64_ceil (f64_mul (f64_mul (Fin 10) (actual_hours secs)) (price_multiplier k)))"
    by (cases k; simp only: price_multiplier.simps; intro f64_nonneg_ops(3,5)) auto
  then show ?thesis
    unfolding calculate_price_def base_rate_f64 by (rule f64_nonneg_as_i64)
qed

lemma payout_nonneg: "0 \<le> c \<Longrightarrow> 0 \<le> worker_payout c"
proof -
  assume "0 \<le> c"
  have "WORKER_PAYOUT_FRACTION = Fin (rnd (85 / 100))"
    unfolding WORKER_PAYOUT_FRACTION_def by (rule mk_f64_bounded [of _ 1]) auto
  moreover have "(0 :: rat) < rnd (85 / 100)" by code_simp
  moreover have "f64_nonneg (f64_of_int c)"
    unfolding f64_of_int_def using \<open>0 \<le> c\<close> by (intro f64_nonneg_ops) auto
  ultimately have "f64_nonneg (f64_mul (f64_of_int c) WORKER_PAYOUT_FRACTION)"
    by (metis f64_nonneg_ops(3))
  then show ?thesis unfolding worker_payout_def by (rule f64_nonneg_as_i64)
qed

lemma refund_exact:
  assumes "in_i64 r"
  shows "settle_refund k r secs = r - actual_charge k r secs" "0 \<le> settle_refund k r secs"
proof -
  have "in_i64 (calculate_price k (actual_hours secs))" by (simp add: calculate_price_def)
  with assms price_nonneg [of k secs] have "in_i64 (r - actual_charge k r secs)"
    by (auto simp: actual_charge_def in_i64_def i64_bounds)
  then show "settle_refund k r secs = r - actual_charge k r secs"
    by (simp add: settle_refund_def)
  then show "0 \<le> settle_refund k r secs" by (simp add: actual_charge_def)
qed

section \<open>The invariant of the balances\<close>

definition ledger_inv :: "db \<Rightarrow> bool" where
  "ledger_inv d \<longleftrightarrow>
     distinct (map b_user (balances d)) \<and>
     (\<forall>b\<in>set (balances d). balance_ok b \<and> cu_reserved b \<le> cu_balance b)"

text \<open>What the callers of the ledger promise: amounts are \<open>i64\<close> values and not negative.\<close>

fun good_op :: "ledger_op \<Rightarrow> bool" where
  "good_op (OpInitialize u) = True"
| "good_op (OpAllocate i now u a) = (in_i64 a \<and> 0 \<le> a)"
| "good_op (OpReserve i now u job a) = (in_i64 a \<and> 0 \<le> a)"
| "good_op (OpSettle ri ci now h w job r secs k) = (in_i64 r \<and> 0 \<le> r)"
| "good_op (OpRefundFull i now u job a) = (in_i64 a \<and> 0 \<le> a)"

lemma distinct_set_balance:
  "(\<And>b. b_user (f b) = b_user b) \<Longrightarrow>
   map b_user (balances (set_balance u f d)) = map b_user (balances d)"
  by (simp add: map_update_where)

lemma ledger_inv_add_tx [simp]: "ledger_inv (add_tx i now u a k j d) = ledger_inv d"
  by (simp add: ledger_inv_def)

lemma ledger_inv_set_balance:
  assumes "ledger_inv d" "\<And>b. b_user (f b) = b_user b"
    and "\<And>b. b \<in> set (balances d) \<Longrightarrow> b_user b = u \<Longrightarrow> balance_ok (f b) \<and> cu_reserved (f b) \<le> cu_balance (f b)"
  shows "ledger_inv (set_balance u f d)"
  using assms by (auto simp: ledger_inv_def map_update_where set_update_where)

lemma ledger_inv_rows:
  "ledger_inv d \<Longrightarrow> b \<in> set (balances d) \<Longrightarrow>
   0 \<le> cu_reserved b \<and> cu_reserved b \<le> cu_balance b \<and> cu_balance b \<le> i64_max"
  by (auto simp: ledger_inv_def balance_ok_def)

lemma find_balance_unique:
  "distinct (map b_user (balances d)) \<Longrightarrow> find_balance u d = Some b \<Longrightarrow>
   c \<in> set (balances d) \<and> b_user c = u \<longleftrightarrow> c = b"
  unfolding find_balance_def
  by (auto dest: find_Some_set) (metis find_Some_set find_distinct_key option.inject)

lemma wrap_checked:
  assumes "in_i64 a" "0 \<le> b" "b \<le> i64_max" "0 \<le> wrap_i64 (b + a)"
  shows "wrap_i64 (b + a) = b + a"
proof (cases "0 \<le> a")
  case True
  have "in_i64 b" using assms by (simp add: in_i64_def i64_bounds)
  then show ?thesis using wrap_i64_add_nonneg [of b a] assms True by simp
next
  case False
  then have "in_i64 (b + a)" using assms by (simp add: in_i64_def)
  then show ?thesis by simp
qed

lemma ledger_exec_inv:
  assumes inv: "ledger_inv d" and good: "good_op e"
    and run: "ledger_exec su e d [] = (Inr x, d', [])"
  shows "ledger_inv d'"
proof (cases e)
  case (OpInitialize u)
  then show ?thesis
    using initialize_cases [of u d "[]" "Inr x" d' "[]"] run inv
    by (auto simp: ledger_inv_def balance_ok_def i64_bounds)
next
  case (OpAllocate i now u a)
  with run obtain y where y: "ledger_allocate su i now u a d [] = (Inr y, d', [])"
    by (auto simp: bind_db_def return_db_def split: prod.splits sum.splits)
  obtain b where b: "find_balance u d = Some b" "y = wrap_i64 (cu_balance b + a)"
    and ok: "\<forall>b\<in>set (balances d). b_user b = u \<longrightarrow> balance_ok (b\<lparr>cu_balance := y\<rparr>)"
    and d': "d' = add_tx i now u a ''allocation'' None (set_balance u (\<lambda>b. b\<lparr>cu_balance := y\<rparr>) d)"
    using allocate_success [OF y] by blast
  have uniq: "c \<in> set (balances d) \<and> b_user c = u \<longleftrightarrow> c = b" for c
    using inv b by (intro find_balance_unique) (auto simp: ledger_inv_def)
  then have rows: "b \<in> set (balances d)" "b_user b = u" by auto
  with ok have "0 \<le> y" by (auto simp: balance_ok_def)
  with ledger_inv_rows [OF inv rows(1)] good OpAllocate b(2) have "y = cu_balance b + a" "0 \<le> a"
    using wrap_checked [of a "cu_balance b"] by auto
  with ledger_inv_rows [OF inv rows(1)] have le: "cu_reserved b \<le> y" by simp
  show ?thesis unfolding d' ledger_inv_add_tx
  proof (intro ledger_inv_set_balance [OF inv])
    fix c assume "c \<in> set (balances d)" "b_user c = u"
    then show "balance_ok (c\<lparr>cu_balance := y\<rparr>) \<and> cu_reserved (c\<lparr>cu_balance := y\<rparr>) \<le> cu_balance (c\<lparr>cu_balance := y\<rparr>)"
      using ok uniq [of c] le by auto
  qed simp
next
  case (OpReserve i now u job a)
  with run have y: "ledger_reserve i now u job a d [] = (Inr x, d', [])" by simp
  obtain b where b: "find_balance u d = Some b" "a \<le> wrap_i64 (cu_balance b - cu_reserved b)"
    and ok: "\<forall>b\<in>set (balances d). b_user b = u \<longrightarrow> balance_ok (b\<lparr>cu_reserved := cu_reserved b + a\<rparr>)"
    and d': "d' = add_tx i now u (wrap_i64 (- a)) ''job_debit'' (Some job)
            (set_balance u (\<lambda>b. b\<lparr>cu_reserved := cu_reserved b + a\<rparr>) d)"
    using reserve_success [OF y] by blast
  have uniq: "c \<in> set (balances d) \<and> b_user c = u \<longleftrightarrow> c = b" for c
    using inv b by (intro find_balance_unique) (auto simp: ledger_inv_def)
  then have "b \<in> set (balances d)" by auto
  from ledger_inv_rows [OF inv this] have "in_i64 (cu_balance b - cu_reserved b)"
    by (simp add: in_i64_def i64_bounds)
  with b(2) have le: "cu_reserved b + a \<le> cu_balance b" by simp
  show ?thesis unfolding d' ledger_inv_add_tx
  proof (intro ledger_inv_set_balance [OF inv])
    fix c assume "c \<in> set (balances d)" "b_user c = u"
    then show "balance_ok (c\<lparr>cu_reserved := cu_reserved c + a\<rparr>) \<and>
        cu_reserved (c\<lparr>cu_reserved := cu_reserved c + a\<rparr>) \<le> cu_balance (c\<lparr>cu_reserved := cu_reserved c + a\<rparr>)"
      using ok uniq [of c] le by auto
  qed simp
next
  case (OpSettle ri ci now h w job r secs k)
  with run have y: "ledger_settle ri ci now h w job r secs k d [] = (Inr x, d', [])" by simp
  note s = settle_success [OF y]
  from good OpSettle have r: "in_i64 r" "0 \<le> r" by auto
  have po: "0 \<le> settle_payout k r secs"
    unfolding settle_payout_def actual_charge_def
    using price_nonneg [of k secs] r by (intro payout_nonneg) simp
  let ?d1 = "set_balance h (settle_hirer (settle_refund k r secs) r) d"
  have 1: "ledger_inv ?d1"
    using s(1) refund_exact [OF r(1), of k secs] r inv
    by (intro ledger_inv_set_balance) (auto simp: settle_hirer_def ledger_inv_def)
  have "ledger_inv (set_balance w (settle_worker (settle_payout k r secs)) ?d1)"
  proof (intro ledger_inv_set_balance [OF 1])
    fix b assume b: "b \<in> set (balances ?d1)" "b_user b = w"
    with s(2) have "balance_ok (settle_worker (settle_payout k r secs) b)" by blast
    with ledger_inv_rows [OF 1 b(1)] po
    show "balance_ok (settle_worker (settle_payout k r secs) b) \<and>
        cu_reserved (settle_worker (settle_payout k r secs) b)
          \<le> cu_balance (settle_worker (settle_payout k r secs) b)"
      by (simp add: settle_worker_def)
  qed (simp add: settle_worker_def)
  then show ?thesis unfolding s(3) by simp
next
  case (OpRefundFull i now u job a)
  with run have y: "ledger_refund_full i now u job a d [] = (Inr x, d', [])" by simp
  show ?thesis unfolding refund_full_success(2) [OF y] ledger_inv_add_tx
    using refund_full_success(1) [OF y] inv good OpRefundFull
    by (intro ledger_inv_set_balance) (auto simp: ledger_inv_def)
qed

interpretation ledger: stepwise "ledger_step su" "\<lambda>e. good_op (fst e)" ledger_inv for su
proof
  fix d and e :: "ledger_op \<times> fault list"
  assume "ledger_inv d" "good_op (fst e)"
  then show "ledger_inv (ledger_step su d e)"
    by (cases rule: ledger_step_cases [of su d "fst e" "snd e"]) (auto intro: ledger_exec_inv)
qed

end
