(* ===== verification/Pricing.thy ===== *)
theory Pricing
  imports Ledger_Spec
begin

text \<open>
  The accuracy of \<open>calculate_price\<close> and of the 85 percent payout of \<open>settle\<close>
  (\<open>credits/engine.rs\<close>), which compute in \<open>f64\<close>, against exact integer arithmetic.
\<close>

definition multiplier_int :: "gpu_backend \<Rightarrow> int" where
  "multiplier_int k = (case k of CpuOnly \<Rightarrow> 1 | Cuda \<Rightarrow> 5 | Metal \<Rightarrow> 3 | Rocm \<Rightarrow> 4)"

text \<open>Ten units an hour times the multiplier, for \<open>s\<close> seconds, rounded up.\<close>

definition exact_price :: "gpu_backend \<Rightarrow> int \<Rightarrow> int" where
  "exact_price k s = (s * multiplier_int k + 359) div 360"

lemma price_multiplier_int: "price_multiplier k = Fin (of_int (multiplier_int k))"
  by (cases k) (simp_all add: multiplier_int_def)

lemma multiplier_bounds: "1 \<le> multiplier_int k" "multiplier_int k \<le> 5"
  by (cases k; simp add: multiplier_int_def)+

text \<open>Relative errors compose: \<open>close_rel n x y\<close> is \<open>|x - y| \<le> y * n * 2 ^ -53\<close>.\<close>

definition close_rel :: "nat \<Rightarrow> rat \<Rightarrow> rat \<Rightarrow> bool" where
  "close_rel n x y \<longleftrightarrow> \<bar>x - y\<bar> \<le> y * of_nat n * 2 powi (- 53)"

lemma close_rel_scale:
  assumes "close_rel n x y" "0 < c"
  shows "close_rel n (c * x) (c * y)"
proof -
  have "\<bar>c * x - c * y\<bar> = c * \<bar>x - y\<bar>"
    using assms(2) by (simp add: abs_mult flip: right_diff_distrib)
  also have "\<dots> \<le> c * (y * of_nat n * 2 powi (- 53))"
    using assms by (intro mult_left_mono) (auto simp: close_rel_def)
  finally show ?thesis by (simp add: close_rel_def mult.assoc)
qed

lemma close_rel_rnd:
  assumes "close_rel n x y" "0 < y" "2 powi (- 1022) \<le> x" "n \<le> 4"
  shows "close_rel (n + 2) (rnd x) y"
proof -
  define e :: rat where "e = 2 powi (- 53)"
  have e: "0 < e" "e * 8 \<le> 1" by (simp_all add: e_def power_int_minus)
  have n: "0 \<le> (of_nat n :: rat)" "(of_nat n :: rat) \<le> 4" using assms(4) by auto
  have xy: "\<bar>x - y\<bar> \<le> y * of_nat n * e" using assms(1) by (simp add: close_rel_def e_def)
  have "y * of_nat n * e \<le> y * (4 * e)"
    using assms(2) e n by (simp add: mult.assoc mult_left_mono mult_right_mono)
  also have "\<dots> \<le> y * 1" using assms(2) e by (intro mult_left_mono) auto
  finally have "x \<le> 2 * y" using xy by linarith
  then have "x * e \<le> 2 * y * e" using e by (intro mult_right_mono) auto
  with rnd_rel_error [OF assms(3)] have "\<bar>rnd x - x\<bar> \<le> 2 * y * e" by (simp add: e_def)
  with xy have "\<bar>rnd x - y\<bar> \<le> 2 * y * e + y * of_nat n * e" by linarith
  then show ?thesis by (simp add: close_rel_def e_def algebra_simps)
qed

lemma close_rel_rnd_exact:
  assumes "2 powi (- 1022) \<le> x"
  shows "close_rel 1 (rnd x) x"
  using rnd_rel_error [OF assms] by (simp add: close_rel_def)

lemma normal_half: "(1 / 7200 :: rat) \<le> x \<Longrightarrow> 2 powi (- 1022) \<le> x"
proof -
  assume "1 / 7200 \<le> x"
  moreover have "(2 :: rat) powi (- 1022) \<le> 2 powi (- 13)" by (rule powi_mono) simp
  ultimately show ?thesis by (simp add: power_int_minus)
qed

text \<open>The floating-point rate before \<open>ceil\<close>, within \<open>5 * 2 ^ -53\<close> of the exact rate.\<close>

definition price_rate :: "gpu_backend \<Rightarrow> int \<Rightarrow> rat" where
  "price_rate k s = rnd (rnd (10 * rnd (of_int s / 3600)) * of_int (multiplier_int k))"

lemma close_rel_half: "close_rel n x y \<Longrightarrow> 0 < y \<Longrightarrow> n \<le> 4 \<Longrightarrow> y / 2 \<le> x \<and> x \<le> 2 * y"
proof -
  assume a: "close_rel n x y" "0 < y" "n \<le> 4"
  define e :: rat where "e = 2 powi (- 53)"
  have e: "0 < e" "e * 8 \<le> 1" by (simp_all add: e_def power_int_minus)
  have "of_nat n * e \<le> 4 * e" using a(3) e by (intro mult_right_mono) auto
  with e have "of_nat n * e \<le> 1 / 2" by linarith
  then have "y * (of_nat n * e) \<le> y * (1 / 2)" using a(2) by (intro mult_left_mono) auto
  moreover have "\<bar>x - y\<bar> \<le> y * (of_nat n * e)"
    using a(1) by (simp add: close_rel_def e_def mult.assoc)
  ultimately show ?thesis using a(2) unfolding abs_le_iff by (intro conjI) linarith+
qed

lemma price_rate_close:
  assumes "0 < s"
  shows "close_rel 5 (price_rate k s) (of_int (s * multiplier_int k) / 360)"
proof -
  let ?m = "of_int (multiplier_int k) :: rat"
  have m: "1 \<le> ?m" using multiplier_bounds(1) by simp
  have s: "(1 :: rat) \<le> of_int s" using assms by simp
  define h where "h = (of_int s / 3600 :: rat)"
  have h: "1 / 3600 \<le> h" using s by (simp add: h_def)
  have 1: "close_rel 1 (rnd h) h" using h by (intro close_rel_rnd_exact normal_half) simp
  have 2: "close_rel 1 (10 * rnd h) (10 * h)" using 1 by (rule close_rel_scale) simp
  have "close_rel 3 (rnd (10 * rnd h)) (10 * h)"
    using close_rel_rnd [OF 2] close_rel_half [OF 2] h
    by (simp add: normal_half numeral_3_eq_3 eval_nat_numeral)
  then have 3: "close_rel 3 (?m * rnd (10 * rnd h)) (?m * (10 * h))"
    using m by (intro close_rel_scale) auto
  have "1 * (10 * h) \<le> ?m * (10 * h)" using m h by (intro mult_right_mono) auto
  then have big: "1 / 360 \<le> ?m * (10 * h)" using h by linarith
  have "close_rel (3 + 2) (rnd (?m * rnd (10 * rnd h))) (?m * (10 * h))"
  proof (rule close_rel_rnd [OF 3])
    show "0 < ?m * (10 * h)" using big by linarith
    have "?m * (10 * h) / 2 \<le> ?m * rnd (10 * rnd h)"
      using big by (intro conjunct1 [OF close_rel_half [OF 3]]) (linarith, simp)
    then show "2 powi (- 1022) \<le> ?m * rnd (10 * rnd h)"
      using big by (intro normal_half) linarith
  qed simp
  then show ?thesis by (simp add: price_rate_def h_def mult.commute)
qed

section \<open>The price\<close>

lemma rnd_abs_le: "\<bar>x\<bar> \<le> 2 ^ 52 \<Longrightarrow> \<bar>rnd x\<bar> \<le> 2 ^ 52 \<and> mk_f64 x = Fin (rnd x)"
  using rnd_abs_bound [of x "2 ^ 52"] mk_f64_bounded [of x "2 ^ 52"] by simp

lemma calculate_price_rate:
  assumes "uint secs < 2 ^ 40"
  shows "calculate_price k (actual_hours secs) = \<lceil>price_rate k (uint secs)\<rceil>"
    and "0 \<le> price_rate k (uint secs)"
proof -
  let ?s = "uint secs" and ?m = "of_int (multiplier_int k) :: rat"
  have m: "1 \<le> ?m" "?m \<le> 5" using multiplier_bounds [of k] by auto
  have s: "0 \<le> (of_int ?s :: rat)" "(of_int ?s :: rat) \<le> 2 ^ 40"
  proof -
    show "0 \<le> (of_int ?s :: rat)" by (rule of_int_uint_nonneg)
    have "(of_int ?s :: rat) \<le> of_int (2 ^ 40)" using assms by (simp only: of_int_le_iff)
    then show "(of_int ?s :: rat) \<le> 2 ^ 40" by simp
  qed
  let ?h = "rnd (of_int ?s / 3600)"
  have bound: "0 \<le> rnd x \<and> rnd x \<le> 2 ^ n" if "0 \<le> x" "x \<le> 2 ^ n" "n \<le> 50" for x and n :: nat
  proof -
    have "(2 :: int) ^ n \<le> 2 ^ 50" using that(3) by (intro power_increasing) auto
    then have "rnd (of_int (2 ^ n)) = of_int (2 ^ n)" by (intro rnd_int) simp
    then show ?thesis using rnd_mono [of x "2 ^ n"] rnd_nonneg that by simp
  qed
  have 0: "f64_of_int ?s = Fin (of_int ?s)"
    using assms by (intro f64_of_int_small) simp
  have 1: "0 \<le> ?h" "?h \<le> 2 ^ 40" using bound [of "of_int ?s / 3600" 40] s by auto
  have f1: "actual_hours secs = Fin ?h"
    unfolding actual_hours_def 0 using s rnd_abs_le [of "of_int ?s / 3600"] by simp
  have 2: "0 \<le> rnd (10 * ?h)" "rnd (10 * ?h) \<le> 2 ^ 44"
    using bound [of "10 * ?h" 44] 1 by auto
  have f2: "f64_mul (Fin 10) (Fin ?h) = Fin (rnd (10 * ?h))"
    using 1 rnd_abs_le [of "10 * ?h"] by simp
  have "rnd (10 * ?h) * ?m \<le> 2 ^ 44 * 5" using 2 m by (intro mult_mono) auto
  moreover have "0 \<le> rnd (10 * ?h) * ?m" using 2 m by simp
  ultimately have 3: "0 \<le> price_rate k ?s" "price_rate k ?s \<le> 2 ^ 47"
    and f3: "f64_mul (Fin (rnd (10 * ?h))) (price_multiplier k) = Fin (price_rate k ?s)"
    using bound [of "rnd (10 * ?h) * ?m" 47] rnd_abs_le [of "rnd (10 * ?h) * ?m"]
    by (auto simp: price_rate_def price_multiplier_int)
  show "0 \<le> price_rate k ?s" by (rule 3)
  have "\<lceil>price_rate k ?s\<rceil> \<le> 2 ^ 47" "0 \<le> \<lceil>price_rate k ?s\<rceil>"
    using 3 by (simp_all add: ceiling_le_iff zero_le_ceiling)
  then show "calculate_price k (actual_hours secs) = \<lceil>price_rate k ?s\<rceil>"
    unfolding calculate_price_def base_rate_f64 f1 f2 f3
    by (simp add: rat_trunc_def in_i64_def i64_bounds)
qed

lemma price_rate_error:
  assumes "0 < s" "s < 2 ^ 40"
  shows "\<bar>price_rate k s - of_int (s * multiplier_int k) / 360\<bar> < 1 / 360"
proof -
  define X where "X = (of_int (s * multiplier_int k) :: rat)"
  have "s * multiplier_int k \<le> 2 ^ 40 * 5"
    using assms multiplier_bounds [of k] by (intro mult_mono) auto
  then have "X \<le> of_int (2 ^ 40 * 5)" unfolding X_def by (simp only: of_int_le_iff)
  then have X: "X \<le> 2 ^ 40 * 5" by simp
  have "\<bar>price_rate k s - X / 360\<bar> \<le> X / 360 * 5 * 2 powi (- 53)"
    using price_rate_close [OF assms(1), of k] by (simp add: close_rel_def X_def)
  also have "\<dots> < 1 / 360" using X by (simp add: power_int_minus)
  finally show ?thesis by (simp add: X_def)
qed

lemma ceiling_near_fraction:
  fixes r :: rat and a :: int
  assumes "\<bar>r - of_int a / 360\<bar> < 1 / 360"
  shows "(a + 359) div 360 \<le> \<lceil>r\<rceil>"
    and "\<lceil>r\<rceil> \<le> (a + 359) div 360 + (if 360 dvd a then 1 else 0)"
proof -
  let ?N = "(a + 359) div 360"
  have r: "of_int (a - 1) < 360 * r" "360 * r < of_int (a + 1)"
    using assms unfolding abs_less_iff by simp_all
  have "360 * ?N + (a + 359) mod 360 = a + 359" by (rule mult_div_mod_eq)
  moreover have "0 \<le> (a + 359) mod 360" "(a + 359) mod 360 < 360" by simp_all
  ultimately have N: "360 * (?N - 1) \<le> a - 1" "a \<le> 360 * ?N" by simp_all
  have "(of_int (360 * (?N - 1)) :: rat) \<le> of_int (a - 1)" using N(1) by (simp only: of_int_le_iff)
  then have "of_int (?N - 1) < r" using r(1) by simp
  then have "?N - 1 < \<lceil>r\<rceil>" by (simp only: less_ceiling_iff)
  then show "?N \<le> \<lceil>r\<rceil>" by simp
  have up: "r \<le> of_int z" if "a + 1 \<le> 360 * z" for z
  proof -
    have "(of_int (a + 1) :: rat) \<le> of_int (360 * z)" using that by (simp only: of_int_le_iff)
    then show ?thesis using r(2) by simp
  qed
  show "\<lceil>r\<rceil> \<le> ?N + (if 360 dvd a then 1 else 0)"
  proof (cases "360 dvd a")
    case True
    then show ?thesis using up [of "?N + 1"] N(2) by (simp add: ceiling_le_iff)
  next
    case False
    then have "a \<noteq> 360 * ?N" by (metis dvd_triv_left)
    then show ?thesis using up [of ?N] N(2) False by (simp add: ceiling_le_iff)
  qed
qed

section \<open>The payout\<close>

lemma payout_factor: "WORKER_PAYOUT_FRACTION = Fin (7656119366529843 / 2 ^ 53)"
proof -
  have "rnd (85 / 100) = (7656119366529843 / 2 ^ 53 :: rat)" by code_simp
  moreover have "WORKER_PAYOUT_FRACTION = Fin (rnd (85 / 100))"
    unfolding WORKER_PAYOUT_FRACTION_def by (rule mk_f64_bounded [of _ 1]) auto
  ultimately show ?thesis by (simp only:)
qed

lemma payout_round:
  assumes "0 \<le> c" "c < 2 ^ 40"
  shows "\<lfloor>rnd (of_int c * (7656119366529843 / 2 ^ 53))\<rfloor> = 85 * c div 100"
proof (cases "20 dvd c \<and> c \<noteq> 0")
  case True
  then obtain n where c: "c = 20 * n" by auto
  with True assms have n: "0 < n" "n < 2 ^ 40" by auto
  have "rnd (of_int c * (7656119366529843 / 2 ^ 53)) = of_int (17 * n)"
  proof (rule rnd_near_int)
    have "of_int c * (7656119366529843 / 2 ^ 53) - of_int (17 * n) = - (of_int n * (4 / 2 ^ 53) :: rat)"
      by (simp add: c)
    then have "\<bar>of_int c * (7656119366529843 / 2 ^ 53) - of_int (17 * n)\<bar> = (of_int n * (4 / 2 ^ 53) :: rat)"
      using n by simp
    also have "\<dots> \<le> of_int (17 * n) * 2 powi (- 55)"
      using n by (simp add: power_int_minus)
    finally show "\<bar>of_int c * (7656119366529843 / 2 ^ 53) - of_int (17 * n)\<bar>
        \<le> (of_int (17 * n) * 2 powi (- 55) :: rat)" .
  qed (use n in auto)
  then have "\<lfloor>rnd (of_int c * (7656119366529843 / 2 ^ 53))\<rfloor> = 17 * n"
    by (simp only: floor_of_int)
  then show ?thesis by (simp add: c)
next
  case False
  define x where "x = (of_int c * (7656119366529843 / 2 ^ 53) :: rat)"
  show ?thesis
  proof (cases "c = 0")
    case True
    then show ?thesis by simp
  next
    case c: False
    with False assms have c1: "1 \<le> c" "\<not> 20 dvd c" by auto
    have cr: "1 \<le> (of_int c :: rat)" "(of_int c :: rat) \<le> 2 ^ 40"
      using c1 assms(2) of_int_le_iff [of c "2 ^ 40", where 'a = rat] by auto
    have "2 powi (- 1022) \<le> x"
      using cr by (intro normal_half) (simp add: x_def)
    from rnd_rel_error [OF this] have 1: "\<bar>rnd x - x\<bar> \<le> x * 2 powi (- 53)" .
    have "x - of_int (85 * c) / 100 = - (of_int c / (5 * 2 ^ 53))"
      by (simp add: x_def)
    moreover have "x * 2 powi (- 53) \<le> 1 / 8000"
      using cr by (simp add: x_def power_int_minus)
    moreover have "of_int c / (5 * 2 ^ 53) \<le> (1 / 8000 :: rat)" using cr by simp
    moreover have "0 < of_int c / (5 * 2 ^ 53 :: rat)" using cr by simp
    ultimately have "\<bar>rnd x - of_int (85 * c) / 100\<bar> < 1 / 100"
      using 1 unfolding abs_le_iff abs_less_iff by linarith
    then have r: "of_int (85 * c - 1) < 100 * rnd x" "100 * rnd x < of_int (85 * c + 1)"
      unfolding abs_less_iff by simp_all
    define N where "N = 85 * c div 100"
    have "\<not> 100 dvd 85 * c"
    proof
      assume "100 dvd 85 * c"
      then have "5 * 20 dvd 5 * (17 * c)" by simp
      then have "20 dvd 17 * c" by (subst (asm) dvd_mult_cancel_left) simp
      moreover have "coprime (20 :: int) 17" by (simp add: coprime_iff_gcd_eq_1 gcd_non_0_int)
      ultimately show False using c1(2) by (simp only: coprime_dvd_mult_right_iff)
    qed
    then have "85 * c mod 100 \<noteq> 0" "0 \<le> 85 * c mod 100" "85 * c mod 100 < 100"
      by (simp_all add: dvd_eq_mod_eq_0)
    moreover have "100 * N + 85 * c mod 100 = 85 * c"
      unfolding N_def by (rule mult_div_mod_eq)
    ultimately have "100 * N + 1 \<le> 85 * c" "85 * c \<le> 100 * N + 99" by simp_all
    then have "100 * N \<le> 85 * c - 1 \<and> 85 * c + 1 \<le> 100 * (N + 1)" by simp
    then have "(of_int (100 * N) :: rat) \<le> of_int (85 * c - 1)"
      "(of_int (85 * c + 1) :: rat) \<le> of_int (100 * (N + 1))"
      unfolding of_int_le_iff by blast+
    with r have "of_int N \<le> rnd x" "rnd x < of_int (N + 1)" by simp_all
    then have "\<lfloor>rnd x\<rfloor> = N" by (intro floor_unique) auto
    then show ?thesis by (simp add: x_def N_def)
  qed
qed

text \<open>
  C10. The worker is paid exactly 85 percent of the charge, rounded down: the detour through \<open>f64\<close>
  with the inexact constant 0.85 loses nothing for charges below 2^40 compute units.
\<close>
theorem payout_exact:
  "0 \<le> charge \<Longrightarrow> charge < 2 ^ 40 \<Longrightarrow> worker_payout charge = 85 * charge div 100"
proof -
  assume c: "0 \<le> charge" "charge < 2 ^ 40"
  let ?x = "of_int charge * (7656119366529843 / 2 ^ 53) :: rat"
  have cr: "0 \<le> (of_int charge :: rat)" "(of_int charge :: rat) \<le> 2 ^ 40"
    using c of_int_le_iff [of charge "2 ^ 40", where 'a = rat] by auto
  have 1: "f64_of_int charge = Fin (of_int charge)" using c by (intro f64_of_int_small) simp
  have "\<bar>?x\<bar> \<le> 2 ^ 52" using cr by (simp add: abs_mult)
  then have 2: "f64_mul (Fin (of_int charge)) WORKER_PAYOUT_FRACTION = Fin (rnd ?x)"
    unfolding payout_factor using rnd_abs_le by simp
  have "0 \<le> rnd ?x" using cr by (intro rnd_nonneg) simp
  then have "f64_as_i64 (Fin (rnd ?x)) = sat_i64 (85 * charge div 100)"
    using payout_round [OF c] by (simp add: rat_trunc_def)
  moreover have "in_i64 (85 * charge div 100)" using c by (auto simp: in_i64_def i64_bounds)
  ultimately show ?thesis unfolding worker_payout_def 1 2 by simp
qed

lemma payout_exact_witness: "worker_payout 20 = 17"
  using payout_exact [of 20] by simp

text \<open>
  C9. For any duration below 2^40 seconds the price that \<open>calculate_price\<close> computes in \<open>f64\<close> is
  the exact price rounded up, ten units an hour times the multiplier of the backend; when the exact
  price is already a whole number, rounding errors may push it up by one unit, never more and never
  down.
\<close>
theorem price_accurate:
  assumes "uint secs < 2 ^ 40"
  shows "exact_price k (uint secs) \<le> calculate_price k (actual_hours secs) \<and>
    calculate_price k (actual_hours secs) \<le>
      exact_price k (uint secs) + (if 360 dvd uint secs * multiplier_int k then 1 else 0)"
proof (cases "uint secs = 0")
  case True
  then show ?thesis
    using calculate_price_rate [OF assms, of k] by (simp add: price_rate_def exact_price_def)
next
  case False
  then have "0 < uint secs" using uint_ge_0 [of secs] by linarith
  from ceiling_near_fraction [OF price_rate_error [OF this assms]]
  show ?thesis by (simp only: calculate_price_rate [OF assms] exact_price_def)
qed

text \<open>The overcharge happens: 504 seconds on CUDA cost exactly 7 units, and 8 are charged.\<close>

lemma price_accurate_witness:
  "exact_price Cuda 504 \<le> calculate_price Cuda (actual_hours 504) \<and>
   calculate_price Cuda (actual_hours 504) \<le> exact_price Cuda 504 + 1"
  using price_accurate [of 504 Cuda] by (simp add: multiplier_int_def)

text \<open>
  The bound of one unit is reached: 504 seconds on CUDA come to exactly 7 units, and the code
  charges 8.
\<close>
theorem price_overcharges:
  "calculate_price Cuda (actual_hours 504) = 8 \<and> exact_price Cuda 504 = 7 \<and>
   504 * multiplier_int Cuda = 7 * 360"
proof -
  have "rnd (rnd (10 * rnd (504 / 3600)) * 5) = 7881299347898369 / 2 ^ 50" by code_simp
  then have "price_rate Cuda 504 = 7881299347898369 / 2 ^ 50"
    by (simp only: price_rate_def multiplier_int_def gpu_backend.case of_int_numeral)
  then have "calculate_price Cuda (actual_hours 504) = \<lceil>7881299347898369 / 2 ^ 50 :: rat\<rceil>"
    using calculate_price_rate(1) [of 504 Cuda] by (simp del: divide_eq_eq_numeral1 eq_divide_eq_numeral1 eq_divide_eq divide_eq_eq)
  also have "\<dots> = 8" by code_simp
  finally show ?thesis by (simp add: exact_price_def multiplier_int_def)
qed

end
