(* ===== verification/Ledger_Audit.thy ===== *)
theory Ledger_Audit
  imports Ledger_Spec
begin

text \<open>
  Accounting over runs of the ledger: how the sum of all balances moves and how balances relate to
  the log of transactions. The runs are those of \<open>ledger_step\<close>, one operation per step under
  arbitrary faults.
\<close>

section \<open>The sum of all balances\<close>

definition total_cu :: "db \<Rightarrow> int" where
  "total_cu d = sum_list (map cu_balance (balances d))"

definition has_balance :: "uuid \<Rightarrow> db \<Rightarrow> bool" where
  "has_balance u d \<longleftrightarrow> u \<in> b_user ` set (balances d)"

fun op_amount :: "ledger_op \<Rightarrow> db \<Rightarrow> int" where
  "op_amount (OpInitialize u) d = 0"
| "op_amount (OpAllocate i now u a) d = (if has_balance u d then a else 0)"
| "op_amount (OpReserve i now u job a) d = 0"
| "op_amount (OpSettle ri ci now h w job r secs k) d =
     (if has_balance h d then settle_refund k r secs else 0) +
     (if has_balance w d then settle_payout k r secs else 0)"
| "op_amount (OpRefundFull i now u job a) d = (if has_balance u d then a else 0)"

definition step_amount :: "(uuid \<Rightarrow> string) \<Rightarrow> db \<Rightarrow> ledger_op \<times> fault list \<Rightarrow> int" where
  "step_amount su d e = (if ledger_step su d e = d then 0 else op_amount (fst e) d)"

lemma sum_update_balance:
  assumes "distinct (map b_user bs)" "\<And>b. b_user b = u \<Longrightarrow> cu_balance (f b) = cu_balance b + k"
  shows "sum_list (map cu_balance (update_where (\<lambda>b. b_user b = u) f bs)) =
    sum_list (map cu_balance bs) + (if u \<in> b_user ` set bs then k else 0)"
  using assms
proof (induction bs)
  case (Cons b bs)
  have same: "update_where (\<lambda>b. b_user b = u) f bs = bs" if "u \<notin> b_user ` set bs"
    using that by (intro update_where_none) auto
  show ?case
  proof (cases "b_user b = u")
    case True
    then have "u \<notin> b_user ` set bs" using Cons.prems(1) by auto
    then show ?thesis using same Cons.prems True by simp
  next
    case False
    then show ?thesis using Cons by auto
  qed
qed simp

lemma total_set_balance:
  assumes "distinct (map b_user (balances d))"
    and "\<And>b. b \<in> set (balances d) \<Longrightarrow> b_user b = u \<Longrightarrow> cu_balance (f b) = cu_balance b + k"
  shows "total_cu (set_balance u f d) = total_cu d + (if has_balance u d then k else 0)"
proof -
  let ?g = "\<lambda>b. if b \<in> set (balances d) then f b else b\<lparr>cu_balance := cu_balance b + k\<rparr>"
  have "update_where (\<lambda>b. b_user b = u) f (balances d) = update_where (\<lambda>b. b_user b = u) ?g (balances d)"
    by (simp add: update_where_def)
  moreover have "sum_list (map cu_balance (update_where (\<lambda>b. b_user b = u) ?g (balances d))) =
      sum_list (map cu_balance (balances d)) + (if u \<in> b_user ` set (balances d) then k else 0)"
    using assms by (intro sum_update_balance) auto
  ultimately show ?thesis by (simp add: total_cu_def has_balance_def)
qed

lemma total_add_tx [simp]:
  "total_cu (add_tx i now u a k j d) = total_cu d" "has_balance v (add_tx i now u a k j d) = has_balance v d"
  by (simp_all add: total_cu_def has_balance_def)

lemma has_set_balance:
  "(\<And>b. b_user (f b) = b_user b) \<Longrightarrow> has_balance v (set_balance u f d) = has_balance v d"
  by (metis has_balance_def list.set_map distinct_set_balance)

lemma find_balance_has: "find_balance u d = Some b \<Longrightarrow> b \<in> set (balances d) \<and> b_user b = u \<and> has_balance u d"
  by (auto simp: find_balance_def has_balance_def dest: find_Some_set)

text \<open>The new balance of an allocation is exact: a sum out of range fails the \<open>CHECK\<close>.\<close>

lemma allocate_exact:
  assumes run: "ledger_allocate su i now u a d fs = (Inr y, d', fs')"
    and inv: "ledger_inv d" and a: "in_i64 a"
  obtains b where "find_balance u d = Some b" "y = cu_balance b + a" "0 \<le> y" "y \<le> i64_max"
proof -
  obtain b where b: "find_balance u d = Some b" "y = wrap_i64 (cu_balance b + a)"
    and ok: "\<forall>b\<in>set (balances d). b_user b = u \<longrightarrow> balance_ok (b\<lparr>cu_balance := y\<rparr>)"
    using allocate_success [OF run] by blast
  have "balance_ok (b\<lparr>cu_balance := y\<rparr>)" using ok find_balance_has [OF b(1)] by blast
  then have y: "0 \<le> y" "y \<le> i64_max" by (auto simp: balance_ok_def)
  with ledger_inv_rows [OF inv, of b] find_balance_has [OF b(1)] b(2) a
  have "y = cu_balance b + a" using wrap_checked [of a "cu_balance b"] by auto
  with b y that show thesis by blast
qed

lemma ledger_exec_total:
  assumes inv: "ledger_inv d" and good: "good_op e"
    and run: "ledger_exec su e d [] = (Inr x, d', [])"
  shows "total_cu d' = total_cu d + op_amount e d"
proof (cases e)
  case (OpInitialize u)
  then show ?thesis
    using initialize_cases [of u d "[]" "Inr x" d' "[]"] run by (auto simp: total_cu_def)
next
  case (OpAllocate i now u a)
  with run obtain y where y: "ledger_allocate su i now u a d [] = (Inr y, d', [])"
    by (auto simp: bind_db_def return_db_def split: prod.splits sum.splits)
  have d': "d' = add_tx i now u a ''allocation'' None (set_balance u (\<lambda>b. b\<lparr>cu_balance := y\<rparr>) d)"
    using allocate_success [OF y] by blast
  obtain b where b: "find_balance u d = Some b" "y = cu_balance b + a"
    using allocate_exact [OF y inv] good OpAllocate by auto
  have "total_cu (set_balance u (\<lambda>b. b\<lparr>cu_balance := y\<rparr>) d) = total_cu d + (if has_balance u d then a else 0)"
  proof (intro total_set_balance)
    show "distinct (map b_user (balances d))" using inv by (simp add: ledger_inv_def)
    fix c assume "c \<in> set (balances d)" "b_user c = u"
    then have "c = b" using find_balance_unique [of d u b c] inv b(1) by (simp add: ledger_inv_def)
    then show "cu_balance (c\<lparr>cu_balance := y\<rparr>) = cu_balance c + a" using b(2) by simp
  qed
  then show ?thesis by (simp add: d' OpAllocate)
next
  case (OpReserve i now u job a)
  with run have "ledger_reserve i now u job a d [] = (Inr x, d', [])" by simp
  then have "d' = add_tx i now u (wrap_i64 (- a)) ''job_debit'' (Some job)
            (set_balance u (\<lambda>b. b\<lparr>cu_reserved := cu_reserved b + a\<rparr>) d)"
    by (elim reserve_success) blast
  moreover have "total_cu (set_balance u (\<lambda>b. b\<lparr>cu_reserved := cu_reserved b + a\<rparr>) d) = total_cu d"
    using total_set_balance [of d u _ 0] inv by (simp add: ledger_inv_def)
  ultimately show ?thesis by (simp add: OpReserve)
next
  case (OpSettle ri ci now h w job r secs k)
  with run have y: "ledger_settle ri ci now h w job r secs k d [] = (Inr x, d', [])" by simp
  let ?rf = "settle_refund k r secs" and ?po = "settle_payout k r secs"
  let ?d1 = "set_balance h (settle_hirer ?rf r) d"
  have "total_cu ?d1 = total_cu d + (if has_balance h d then ?rf else 0)"
    using inv by (intro total_set_balance) (auto simp: ledger_inv_def settle_hirer_def)
  moreover have "distinct (map b_user (balances ?d1))"
    using inv by (simp add: ledger_inv_def map_update_where settle_hirer_def)
  then have "total_cu (set_balance w (settle_worker ?po) ?d1) =
      total_cu ?d1 + (if has_balance w ?d1 then ?po else 0)"
    by (intro total_set_balance) (auto simp: settle_worker_def)
  moreover have "has_balance w ?d1 = has_balance w d"
    by (rule has_set_balance) (simp add: settle_hirer_def)
  ultimately show ?thesis by (simp add: settle_success(3) [OF y] OpSettle)
next
  case (OpRefundFull i now u job a)
  with run have y: "ledger_refund_full i now u job a d [] = (Inr x, d', [])" by simp
  show ?thesis unfolding refund_full_success(2) [OF y]
    using inv total_set_balance [of d u _ a] by (simp add: OpRefundFull ledger_inv_def)
qed

interpretation ledger_total:
  stepwise_sum "ledger_step su" "\<lambda>e. good_op (fst e)" ledger_inv total_cu "step_amount su" for su
proof
  fix d and e :: "ledger_op \<times> fault list"
  assume "ledger_inv d" "good_op (fst e)"
  then show "total_cu (ledger_step su d e) = total_cu d + step_amount su d e"
    by (cases rule: ledger_step_cases [of su d "fst e" "snd e"])
      (auto simp: step_amount_def dest!: ledger_exec_total [rotated 2])
qed

section \<open>Balances against the log\<close>

text \<open>
  The entries of a user, the debits left out: \<open>reserve\<close> writes a debit but takes nothing from the
  balance.
\<close>

definition user_sum :: "uuid \<Rightarrow> db \<Rightarrow> int" where
  "user_sum u d =
     sum_list (map cu_amount (filter (\<lambda>t. tx_user t = u \<and> tx_kind t \<noteq> ''job_debit'') (txs d)))"

definition audit_inv :: "db \<Rightarrow> bool" where
  "audit_inv d \<longleftrightarrow> ledger_inv d \<and> u_id ` set (users d) \<subseteq> b_user ` set (balances d) \<and>
     (\<forall>b\<in>set (balances d). cu_balance b = user_sum (b_user b) d)"

lemma user_sum_add_tx [simp]:
  "user_sum v (add_tx i now u a k j d) =
     user_sum v d + (if u = v \<and> k \<noteq> ''job_debit'' then a else 0)"
  by (simp add: user_sum_def)

lemma user_sum_set_balance [simp]: "user_sum v (set_balance u f d) = user_sum v d"
  by (simp add: user_sum_def)

text \<open>
  \<open>audit_from d d'\<close>: from \<open>d\<close> to \<open>d'\<close> every balance moved by as much as the sum of its user's entries.
\<close>

definition audit_from :: "db \<Rightarrow> db \<Rightarrow> bool" where
  "audit_from d d' \<longleftrightarrow> users d' = users d \<and> map b_user (balances d') = map b_user (balances d) \<and>
     (\<forall>b\<in>set (balances d'). \<exists>c\<in>set (balances d). b_user c = b_user b \<and>
        cu_balance b - cu_balance c = user_sum (b_user b) d' - user_sum (b_user b) d)"

lemma audit_inv_from:
  assumes "audit_inv d" "ledger_inv d'" "audit_from d d'"
  shows "audit_inv d'"
proof -
  have "b_user ` set (balances d') = b_user ` set (balances d)"
    using assms(3) unfolding audit_from_def by (metis list.set_map)
  moreover have "cu_balance b = user_sum (b_user b) d'" if b: "b \<in> set (balances d')" for b
  proof -
    obtain c where "c \<in> set (balances d)" "b_user c = b_user b"
      "cu_balance b - cu_balance c = user_sum (b_user b) d' - user_sum (b_user b) d"
      using assms(3) b unfolding audit_from_def by blast
    moreover from this have "cu_balance c = user_sum (b_user b) d"
      using assms(1) by (auto simp: audit_inv_def)
    ultimately show ?thesis by simp
  qed
  ultimately show ?thesis using assms by (auto simp: audit_inv_def audit_from_def)
qed

lemma audit_from_add:
  assumes "\<And>b. b_user (f b) = b_user b"
    and "\<And>b. b \<in> set (balances d) \<Longrightarrow> b_user b = u \<Longrightarrow> cu_balance (f b) = cu_balance b + (if k = ''job_debit'' then 0 else a)"
  shows "audit_from d (add_tx i now u a k j (set_balance u f d))"
  unfolding audit_from_def
proof (intro conjI ballI)
  let ?d = "add_tx i now u a k j (set_balance u f d)"
  show "users ?d = users d" by simp
  show "map b_user (balances ?d) = map b_user (balances d)"
    using assms(1) by (simp add: map_update_where)
  fix b assume "b \<in> set (balances ?d)"
  then obtain c where c: "c \<in> set (balances d)" "b = (if b_user c = u then f c else c)"
    by (auto simp only: add_tx_sel set_balance_sel set_update_where)
  have same: "b_user b = b_user c" unfolding c(2) using assms(1) by (metis (full_types))
  have "cu_balance b - cu_balance c = user_sum (b_user b) ?d - user_sum (b_user b) d"
  proof (cases "b_user c = u")
    case True
    with c(2) have "b = f c" by simp
    then show ?thesis using assms(2) [OF c(1) True] True same by simp
  next
    case False
    with c(2) have "b = c" by simp
    then show ?thesis using False by simp
  qed
  with same c(1) show "\<exists>c\<in>set (balances d). b_user c = b_user b \<and>
      cu_balance b - cu_balance c = user_sum (b_user b) ?d - user_sum (b_user b) d"
    by (intro bexI [of _ c]) auto
qed

lemma audit_from_trans:
  assumes "audit_from d1 d2" "audit_from d2 d3"
  shows "audit_from d1 d3"
proof -
  have "\<exists>c\<in>set (balances d1). b_user c = b_user b \<and>
      cu_balance b - cu_balance c = user_sum (b_user b) d3 - user_sum (b_user b) d1"
    if b: "b \<in> set (balances d3)" for b
  proof -
    obtain c where c: "c \<in> set (balances d2)" "b_user c = b_user b"
      "cu_balance b - cu_balance c = user_sum (b_user b) d3 - user_sum (b_user b) d2"
      using assms(2) b unfolding audit_from_def by blast
    moreover obtain e where "e \<in> set (balances d1)" "b_user e = b_user c"
      "cu_balance c - cu_balance e = user_sum (b_user c) d2 - user_sum (b_user c) d1"
      using assms(1) c(1) unfolding audit_from_def by blast
    ultimately show ?thesis by (intro bexI [of _ e]) auto
  qed
  with assms show ?thesis by (auto simp: audit_from_def)
qed

lemma ledger_exec_audit:
  assumes inv: "audit_inv d" and good: "good_op e"
    and run: "ledger_exec su e d [] = (Inr x, d', [])"
  shows "audit_inv d'"
proof -
  have li: "ledger_inv d" using inv by (simp add: audit_inv_def)
  have li': "ledger_inv d'" using li good run by (rule ledger_exec_inv)
  have "d' = d \<or> audit_from d d'"
  proof (cases e)
    case (OpInitialize u)
    have "u \<in> b_user ` set (balances d)" if "user_exists u d"
      using that inv by (auto simp: user_exists_def audit_inv_def)
    then show ?thesis
      using initialize_cases [of u d "[]" "Inr x" d' "[]"] run OpInitialize by auto
  next
    case (OpAllocate i now u a)
    with run obtain y where y: "ledger_allocate su i now u a d [] = (Inr y, d', [])"
      by (auto simp: bind_db_def return_db_def split: prod.splits sum.splits)
    have d': "d' = add_tx i now u a ''allocation'' None (set_balance u (\<lambda>b. b\<lparr>cu_balance := y\<rparr>) d)"
      using allocate_success [OF y] by blast
    obtain b where b: "find_balance u d = Some b" "y = cu_balance b + a"
      using allocate_exact [OF y li] good OpAllocate by auto
    have "c = b" if "c \<in> set (balances d)" "b_user c = u" for c
      using find_balance_unique [of d u b c] li b(1) that by (simp add: ledger_inv_def)
    then show ?thesis unfolding d' using b(2) by (intro disjI2 audit_from_add) auto
  next
    case (OpReserve i now u job a)
    with run have "ledger_reserve i now u job a d [] = (Inr x, d', [])" by simp
    then have "d' = add_tx i now u (wrap_i64 (- a)) ''job_debit'' (Some job)
              (set_balance u (\<lambda>b. b\<lparr>cu_reserved := cu_reserved b + a\<rparr>) d)"
      by (elim reserve_success) blast
    then show ?thesis by (auto intro!: audit_from_add)
  next
    case (OpSettle ri ci now h w job r secs k)
    with run have y: "ledger_settle ri ci now h w job r secs k d [] = (Inr x, d', [])" by simp
    let ?rf = "settle_refund k r secs" and ?po = "settle_payout k r secs"
    let ?d1 = "set_balance h (settle_hirer ?rf r) d"
    let ?f = "settle_worker ?po"
    let ?t = "add_tx ri now h ?rf ''job_refund'' (Some job)"
    have rf: "0 \<le> ?rf" using refund_exact(2) [of r k secs] good OpSettle by simp
    have one: "audit_from d (?t ?d1)"
      by (intro audit_from_add) (auto simp: settle_hirer_def)
    have swap: "?t (set_balance w ?f ?d1) = set_balance w ?f (?t ?d1)"
      by (simp add: add_tx_def set_balance_def)
    have zero: "audit_from d ?d1" if "?rf = 0"
      using one that by (simp add: audit_from_def)
    have "audit_from d (add_tx ci now w ?po ''job_credit'' (Some job) (set_balance w ?f (?t ?d1)))"
      by (rule audit_from_trans [OF one], rule audit_from_add) (auto simp: settle_worker_def)
    moreover have "audit_from d (add_tx ci now w ?po ''job_credit'' (Some job) (set_balance w ?f ?d1))"
      if "?rf = 0"
      by (rule audit_from_trans [OF zero [OF that]], rule audit_from_add) (auto simp: settle_worker_def)
    ultimately show ?thesis
      unfolding settle_success(3) [OF y] using rf swap by (cases "0 < ?rf") auto
  next
    case (OpRefundFull i now u job a)
    with run have y: "ledger_refund_full i now u job a d [] = (Inr x, d', [])" by simp
    show ?thesis unfolding refund_full_success(2) [OF y] by (intro disjI2 audit_from_add) auto
  qed
  with inv li' audit_inv_from show ?thesis by blast
qed

interpretation audit: stepwise "ledger_step su" "\<lambda>e. good_op (fst e)" audit_inv for su
proof
  fix d and e :: "ledger_op \<times> fault list"
  assume "audit_inv d" "good_op (fst e)"
  then show "audit_inv (ledger_step su d e)"
    by (cases rule: ledger_step_cases [of su d "fst e" "snd e"]) (auto intro: ledger_exec_audit)
qed

section \<open>Properties of the ledger\<close>

lemma find_set_balance:
  assumes "\<And>b. b_user (f b) = b_user b"
  shows "find_balance v (set_balance u f d) = map_option (\<lambda>b. if b_user b = u then f b else b) (find_balance v d)"
  unfolding find_balance_def set_balance_sel by (rule find_update_where) (simp add: assms)

lemma find_balance_add_tx [simp]: "find_balance v (add_tx i now u a k j d) = find_balance v d"
  by (simp add: find_balance_def)

lemma find_balance_user: "find_balance u d = Some b \<Longrightarrow> b_user b = u"
  using find_balance_has by blast

text \<open>
  C1. Every ledger transaction is atomic under faults. Whatever statement fails or whatever
  acknowledgement is lost, the database afterwards is either untouched or the one of the run without
  faults, and a success reported to the caller means that the whole operation took effect.
\<close>
theorem ledger_atomic:
  "case ledger_exec su e d fs of
     (Inr x, d', _) \<Rightarrow> ledger_exec su e d [] = (Inr x, d', [])
   | (Inl err, d', _) \<Rightarrow> d' = d \<or> (\<exists>x. ledger_exec su e d [] = (Inr x, d', []))"
proof -
  obtain r d' fs' where run: "ledger_exec su e d fs = (r, d', fs')" by (cases "ledger_exec su e d fs")
  have "ledger_step su d (e, fs) = d'" using run by (simp add: ledger_step_def)
  then have "d' = d \<or> (\<exists>x. ledger_exec su e d [] = (Inr x, d', []))"
    by (cases rule: ledger_step_cases [of su d e fs]) auto
  then show ?thesis using run tameD [OF tame_ledger_exec] by (auto split: sum.splits)
qed

text \<open>
  C2. In every sequence of ledger operations with non-negative amounts, under any faults, every
  balance keeps 0 <= reserved <= balance within the range of BIGINT, and no user has two rows.
\<close>
theorem ledger_invariant:
  "ledger_inv d \<Longrightarrow> list_all (\<lambda>e. good_op (fst e)) es \<Longrightarrow> ledger_inv (run_ops (ledger_step su) d es)"
  by (rule ledger.inv_run)

text \<open>
  The compute units in the system move exactly by the amounts of the operations that took
  effect: an allocation and a full refund add their amount, a reservation nothing, and a settlement
  adds refund plus payout. No operation ever takes units out.
\<close>
theorem ledger_total_moves:
  "ledger_inv d \<Longrightarrow> list_all (\<lambda>e. good_op (fst e)) es \<Longrightarrow>
   total_cu (run_ops (ledger_step su) d es) =
     total_cu d + total_delta (ledger_step su) (step_amount su) d es"
  by (rule ledger_total.quantity_run)

text \<open>
  C3. The log explains the balances: in every run from a database where it does, each balance is the
  sum of its user's allocation, credit and refund entries. Debit entries never enter a balance.
\<close>
theorem ledger_audit:
  "audit_inv d \<Longrightarrow> list_all (\<lambda>e. good_op (fst e)) es \<Longrightarrow> audit_inv (run_ops (ledger_step su) d es)"
  by (rule audit.inv_run)

text \<open>
  C8. A job that is reserved and settled never costs its hirer anything: the unused part of the
  reservation is added to the balance although it was never taken from it, the charge is never
  subtracted, and the worker's payout is created on top.
\<close>
theorem settle_mints:
  assumes inv: "ledger_inv d" and amount: "in_i64 a" "0 \<le> a" and users: "h \<noteq> w"
    and rows: "find_balance h d = Some bh" "find_balance w d = Some bw"
    and reserve: "ledger_reserve i now h job a d fs1 = (Inr (), d1, fs1')"
    and settle: "ledger_settle ri ci now' h w job a secs k d1 fs2 = (Inr (), d2, fs2')"
  shows "find_balance h d2 = Some (bh\<lparr>cu_balance := cu_balance bh + (a - actual_charge k a secs)\<rparr>) \<and>
    find_balance w d2 = Some (bw\<lparr>cu_balance := cu_balance bw + worker_payout (actual_charge k a secs)\<rparr>)"
proof -
  have d1: "d1 = add_tx i now h (wrap_i64 (- a)) ''job_debit'' (Some job)
      (set_balance h (\<lambda>b. b\<lparr>cu_reserved := cu_reserved b + a\<rparr>) d)"
    using reserve by (elim reserve_success) blast
  have u: "b_user bh = h" "b_user bw = w" using rows by (auto dest: find_balance_user)
  have "find_balance v d2 = find_balance v
      (set_balance w (settle_worker (settle_payout k a secs))
        (set_balance h (settle_hirer (settle_refund k a secs) a) d1))" for v
    using settle_success(3) [OF settle] by simp
  then show ?thesis
    using users u rows refund_exact(1) [OF amount(1)]
    by (simp add: find_set_balance settle_hirer_def settle_worker_def d1 settle_payout_def)
qed

text \<open>
  Reserving compute units for a job and refunding them in full leaves the hirer with more than
  before: the balance has grown by the whole amount.
\<close>
theorem refund_mints:
  assumes rows: "find_balance h d = Some bh"
    and reserve: "ledger_reserve i now h job a d fs1 = (Inr (), d1, fs1')"
    and refund: "ledger_refund_full i' now' h job a d1 fs2 = (Inr (), d2, fs2')"
  shows "find_balance h d2 = Some (bh\<lparr>cu_balance := cu_balance bh + a\<rparr>)"
proof -
  have d1: "d1 = add_tx i now h (wrap_i64 (- a)) ''job_debit'' (Some job)
      (set_balance h (\<lambda>b. b\<lparr>cu_reserved := cu_reserved b + a\<rparr>) d)"
    using reserve by (elim reserve_success) blast
  show ?thesis unfolding refund_full_success(2) [OF refund] d1
    using rows find_balance_user [OF rows] by (simp add: find_set_balance)
qed

section \<open>Concrete runs\<close>

definition demo_user :: "uuid \<Rightarrow> user_row" where
  "demo_user i = \<lparr>u_id = i, u_email = ''a@b'', u_password_hash = [], u_role = ''both'', u_created_at = 0\<rparr>"

definition demo_db :: db where
  "demo_db = empty_db\<lparr>users := [demo_user (Uuid 1), demo_user (Uuid 2)],
     balances := [\<lparr>b_user = Uuid 1, cu_balance = 0, cu_reserved = 0\<rparr>,
                  \<lparr>b_user = Uuid 2, cu_balance = 0, cu_reserved = 0\<rparr>]\<rparr>"

definition demo_ops :: "(ledger_op \<times> fault list) list" where
  "demo_ops =
     [(OpAllocate (Uuid 10) 1 (Uuid 1) 100, []),
      (OpReserve (Uuid 11) 2 (Uuid 1) (Uuid 50) 20, [NoFault, Lost ''timeout'']),
      (OpReserve (Uuid 12) 3 (Uuid 1) (Uuid 50) 20, []),
      (OpRefundFull (Uuid 13) 4 (Uuid 1) (Uuid 50) 20, [])]"

definition demo_reserved :: db where
  "demo_reserved = run_ops (ledger_step (\<lambda>_. [])) demo_db (take 3 demo_ops)"

lemma demo_inv: "ledger_inv demo_db" "audit_inv demo_db" "list_all (\<lambda>e. good_op (fst e)) demo_ops"
  by code_simp+

lemma ledger_invariant_witness:
  "ledger_inv (run_ops (ledger_step (\<lambda>_. [])) demo_db demo_ops)"
  by (rule ledger_invariant) (rule demo_inv)+

lemma ledger_total_moves_witness:
  "total_cu (run_ops (ledger_step (\<lambda>_. [])) demo_db demo_ops) = 120"
proof -
  have "total_delta (ledger_step (\<lambda>_. [])) (step_amount (\<lambda>_. [])) demo_db demo_ops = 120" by code_simp
  moreover have "total_cu demo_db = 0" by code_simp
  ultimately show ?thesis
    using ledger_total_moves [of demo_db demo_ops "\<lambda>_. []"] demo_inv by simp
qed

lemma ledger_audit_witness: "audit_inv (run_ops (ledger_step (\<lambda>_. [])) demo_db demo_ops)"
  by (rule ledger_audit) (rule demo_inv)+

definition demo_funded :: db where
  "demo_funded = ledger_step (\<lambda>_. []) demo_db (hd demo_ops)"

definition demo_after_reserve :: db where
  "demo_after_reserve =
     fst (snd (ledger_reserve (Uuid 11) 2 (Uuid 1) (Uuid 50) 100 demo_funded []))"

definition demo_after_settle :: db where
  "demo_after_settle = fst (snd (ledger_settle (Uuid 12) (Uuid 13) 3 (Uuid 1) (Uuid 2) (Uuid 50)
     100 1800 Cuda demo_after_reserve []))"

definition demo_after_refund :: db where
  "demo_after_refund =
     fst (snd (ledger_refund_full (Uuid 12) 3 (Uuid 1) (Uuid 50) 100 demo_after_reserve []))"

lemma demo_charge: "actual_charge Cuda 100 1800 = 25" "worker_payout 25 = 21"
  by code_simp+

lemma demo_settle:
  "ledger_settle (Uuid 12) (Uuid 13) 3 (Uuid 1) (Uuid 2) (Uuid 50) 100 1800 Cuda
     demo_after_reserve [] = (Inr (), demo_after_settle, [])"
  unfolding demo_after_settle_def ledger_settle_def Let_def demo_charge by code_simp

lemma demo_runs:
  "ledger_reserve (Uuid 11) 2 (Uuid 1) (Uuid 50) 100 demo_funded [] = (Inr (), demo_after_reserve, [])"
  "ledger_refund_full (Uuid 12) 3 (Uuid 1) (Uuid 50) 100 demo_after_reserve [] =
     (Inr (), demo_after_refund, [])"
  "ledger_inv demo_funded"
  "find_balance (Uuid 1) demo_funded = Some \<lparr>b_user = Uuid 1, cu_balance = 100, cu_reserved = 0\<rparr>"
  "find_balance (Uuid 2) demo_funded = Some \<lparr>b_user = Uuid 2, cu_balance = 0, cu_reserved = 0\<rparr>"
  by code_simp+

lemma settle_mints_witness:
  "find_balance (Uuid 1) demo_after_settle = Some \<lparr>b_user = Uuid 1, cu_balance = 175, cu_reserved = 0\<rparr> \<and>
   find_balance (Uuid 2) demo_after_settle = Some \<lparr>b_user = Uuid 2, cu_balance = 21, cu_reserved = 0\<rparr>"
  using settle_mints [OF demo_runs(3) _ _ _ demo_runs(4,5,1) demo_settle] demo_charge
  by (simp add: in_i64_def i64_bounds)

lemma refund_mints_witness:
  "find_balance (Uuid 1) demo_after_refund = Some \<lparr>b_user = Uuid 1, cu_balance = 200, cu_reserved = 0\<rparr>"
  using refund_mints [OF demo_runs(4,1,2)] by simp

end
