(* ===== verification/Ledger_Locks.thy ===== *)
theory Ledger_Locks
  imports Ledger_Audit
begin

text \<open>
  The row locks of concurrent ledger transactions (\<open>SELECT .. FOR UPDATE\<close> and \<open>UPDATE\<close> in
  \<open>credits/engine.rs\<close>): each transaction asks for the rows of \<open>lock_requests\<close> one after the other,
  waits while another holds the row it asks for, and releases everything when it commits. A statement
  about a user without a balance locks nothing: \<open>present\<close> tells whose balances exist. Balances are never
  deleted; the transactions considered run while none is added.
\<close>

fun named_rows :: "ledger_op \<Rightarrow> uuid list" where
  "named_rows (OpInitialize u) = []"
| "named_rows (OpAllocate i now u a) = [u]"
| "named_rows (OpReserve i now u job a) = [u]"
| "named_rows (OpSettle ri ci now h w job r secs k) = settle_locks h w"
| "named_rows (OpRefundFull i now u job a) = [u]"

definition lock_requests :: "(uuid \<Rightarrow> bool) \<Rightarrow> ledger_op \<Rightarrow> uuid list" where
  "lock_requests present e = filter present (named_rows e)"

record lock_tx =
  held :: "uuid list"
  todo :: "uuid list"

definition start_tx :: "(uuid \<Rightarrow> bool) \<Rightarrow> ledger_op \<Rightarrow> lock_tx" where
  "start_tx present e = \<lparr>held = [], todo = lock_requests present e\<rparr>"

definition tx_done :: "lock_tx \<Rightarrow> bool" where
  "tx_done t \<longleftrightarrow> held t = [] \<and> todo t = []"

text \<open>The row is held by a transaction other than number \<open>i\<close>.\<close>

definition held_elsewhere :: "lock_tx list \<Rightarrow> nat \<Rightarrow> uuid \<Rightarrow> bool" where
  "held_elsewhere ts i k \<longleftrightarrow> (\<exists>j<length ts. j \<noteq> i \<and> k \<in> set (held (ts ! j)))"

inductive lock_step :: "lock_tx list \<Rightarrow> lock_tx list \<Rightarrow> bool" where
  acquire: "i < length ts \<Longrightarrow> todo (ts ! i) = k # ks \<Longrightarrow> \<not> held_elsewhere ts i k \<Longrightarrow>
    lock_step ts (ts[i := \<lparr>held = k # held (ts ! i), todo = ks\<rparr>])"
| commit: "i < length ts \<Longrightarrow> todo (ts ! i) = [] \<Longrightarrow> held (ts ! i) \<noteq> [] \<Longrightarrow>
    lock_step ts (ts[i := \<lparr>held = [], todo = []\<rparr>])"

inductive lock_reachable :: "(uuid \<Rightarrow> bool) \<Rightarrow> ledger_op list \<Rightarrow> lock_tx list \<Rightarrow> bool" for present es where
  start: "lock_reachable present es (map (start_tx present) es)"
| step: "lock_reachable present es ts \<Longrightarrow> lock_step ts us \<Longrightarrow> lock_reachable present es us"

inductive_cases lock_stepE: "lock_step ts us"

definition lock_inv :: "lock_tx list \<Rightarrow> bool" where
  "lock_inv ts \<longleftrightarrow>
     (\<forall>t\<in>set ts. sorted (todo t) \<and> (\<forall>k\<in>set (held t). \<forall>l\<in>set (todo t). k \<le> l)) \<and>
     (\<forall>i<length ts. \<forall>j<length ts. i \<noteq> j \<longrightarrow> set (held (ts ! i)) \<inter> set (held (ts ! j)) = {})"

lemma lock_requests_sorted: "sorted (lock_requests present e)"
  by (cases e) (auto simp: lock_requests_def settle_locks_def)

lemma lock_inv_start: "lock_inv (map (start_tx present) es)"
  by (auto simp: lock_inv_def start_tx_def lock_requests_sorted)

lemma lock_inv_update:
  assumes inv: "lock_inv ts" and i: "i < length ts"
    and t: "sorted (todo t)" "\<forall>k\<in>set (held t). \<forall>l\<in>set (todo t). k \<le> l"
    and fresh: "\<And>k. k \<in> set (held t) \<Longrightarrow> k \<in> set (held (ts ! i)) \<or> \<not> held_elsewhere ts i k"
  shows "lock_inv (ts[i := t])"
proof -
  have dis: "set (held t) \<inter> set (held (ts ! j)) = {}" if "j < length ts" "j \<noteq> i" for j
    using fresh that inv i unfolding lock_inv_def held_elsewhere_def by blast
  have "set (held (ts[i := t] ! a)) \<inter> set (held (ts[i := t] ! b)) = {}"
    if "a < length ts" "b < length ts" "a \<noteq> b" for a b
  proof (cases "a = i \<or> b = i")
    case True
    then show ?thesis using dis [of a] dis [of b] that i by (auto simp: Int_commute)
  next
    case False
    then show ?thesis using inv that by (auto simp: lock_inv_def)
  qed
  moreover have "\<forall>s\<in>set (ts[i := t]). sorted (todo s) \<and> (\<forall>k\<in>set (held s). \<forall>l\<in>set (todo s). k \<le> l)"
    using inv t set_update_subset_insert [of ts i t] by (auto simp: lock_inv_def)
  ultimately show ?thesis by (simp add: lock_inv_def)
qed

lemma lock_inv_step: "lock_step ts us \<Longrightarrow> lock_inv ts \<Longrightarrow> lock_inv us"
proof (induction rule: lock_step.induct)
  case (acquire i ts k ks)
  then have "ts ! i \<in> set ts" by simp
  with acquire have "sorted (k # ks)" "\<forall>h\<in>set (held (ts ! i)). \<forall>l\<in>set (k # ks). h \<le> l"
    unfolding lock_inv_def by metis+
  with acquire show ?case by (intro lock_inv_update) auto
next
  case (commit i ts)
  then show ?case by (intro lock_inv_update) auto
qed

lemma lock_inv_reachable: "lock_reachable present es ts \<Longrightarrow> lock_inv ts"
  by (induction rule: lock_reachable.induct) (auto intro: lock_inv_start lock_inv_step)

lemma lock_progress:
  assumes inv: "lock_inv ts" and unfinished: "\<exists>t\<in>set ts. \<not> tx_done t"
  shows "\<exists>us. lock_step ts us"
proof (rule ccontr)
  assume stuck: "\<nexists>us. lock_step ts us"
  let ?W = "{i. i < length ts \<and> \<not> tx_done (ts ! i)}"
  have wait: "\<exists>k ks. todo (ts ! i) = k # ks \<and> held_elsewhere ts i k" if "i \<in> ?W" for i
    using stuck that lock_step.acquire [of i ts] lock_step.commit [of i ts]
    by (cases "todo (ts ! i)") (auto simp: tx_done_def)
  let ?K = "(\<lambda>i. hd (todo (ts ! i))) ` ?W"
  have "?W \<noteq> {}" using unfinished by (auto simp: in_set_conv_nth)
  then obtain i where i: "i \<in> ?W" "hd (todo (ts ! i)) = Max ?K"
    using Max_in [of ?K] by fastforce
  obtain k ks where k: "todo (ts ! i) = k # ks" "held_elsewhere ts i k" using wait [OF i(1)] by blast
  then obtain j where j: "j < length ts" "j \<noteq> i" "k \<in> set (held (ts ! j))"
    by (auto simp: held_elsewhere_def)
  then have jW: "j \<in> ?W" by (auto simp: tx_done_def)
  obtain l ls where l: "todo (ts ! j) = l # ls" "held_elsewhere ts j l" using wait [OF jW] by blast
  have "k \<le> l" using inv j l(1) unfolding lock_inv_def by (metis list.set_intros(1) nth_mem)
  moreover have "l \<le> Max ?K" using jW l(1) by (intro Max_ge) (auto intro!: image_eqI [of _ _ j])
  ultimately have "l = k" using i(2) k(1) by simp
  with l(2) inv j show False unfolding held_elsewhere_def lock_inv_def by blast
qed

text \<open>The work left: every step does some of it, so every schedule ends.\<close>

definition lock_work :: "lock_tx list \<Rightarrow> nat" where
  "lock_work ts = sum_list (map (\<lambda>t. 2 * length (todo t) + (if held t = [] then 0 else 1)) ts)"

lemma sum_list_update_less:
  fixes f :: "'a \<Rightarrow> nat"
  shows "i < length ts \<Longrightarrow> f t < f (ts ! i) \<Longrightarrow> sum_list (map f (ts[i := t])) < sum_list (map f ts)"
proof (induction ts arbitrary: i)
  case (Cons a ts)
  then show ?case by (cases i) auto
qed simp

lemma lock_work_step: "lock_step ts us \<Longrightarrow> lock_work us < lock_work ts"
  unfolding lock_work_def
  by (induction rule: lock_step.induct) (auto intro!: sum_list_update_less)

lemma lock_step_length: "lock_step ts us \<Longrightarrow> length us = length ts"
  by (auto elim: lock_stepE)

text \<open>
  C21. Concurrent ledger transactions never deadlock: in every state that any number of them can
  reach by taking their row locks in the order of the code (for \<open>settle\<close>, the smaller UUID first), whichever
  balances exist, either all have committed or one of them can go on; and no schedule runs for ever, since every
  step decreases the work left.
\<close>
theorem ledger_deadlock_free:
  "lock_reachable present es ts \<Longrightarrow>
   (list_all tx_done ts \<or> (\<exists>us. lock_step ts us)) \<and> (\<forall>us. lock_step ts us \<longrightarrow> lock_work us < lock_work ts)"
  using lock_inv_reachable lock_progress lock_work_step by (metis (no_types, lifting) list_all_iff)

text \<open>Two settlements with the roles of hirer and worker exchanged, the first holding one row.\<close>

lemma ledger_deadlock_free_witness:
  "\<exists>es us. es = [OpSettle (Uuid 8) (Uuid 9) 0 (Uuid 1) (Uuid 2) (Uuid 7) 0 0 Cuda,
                 OpSettle (Uuid 8) (Uuid 9) 0 (Uuid 2) (Uuid 1) (Uuid 7) 0 0 Cuda] \<and>
     lock_step ((map (start_tx (\<lambda>_. True)) es)[0 := \<lparr>held = [Uuid 1], todo = [Uuid 2]\<rparr>]) us"
proof -
  let ?es = "[OpSettle (Uuid 8) (Uuid 9) 0 (Uuid 1) (Uuid 2) (Uuid 7) 0 0 Cuda,
              OpSettle (Uuid 8) (Uuid 9) 0 (Uuid 2) (Uuid 1) (Uuid 7) 0 0 Cuda]"
  let ?ts = "(map (start_tx (\<lambda>_. True)) ?es)[0 := \<lparr>held = [Uuid 1], todo = [Uuid 2]\<rparr>]"
  have todo: "todo (start_tx (\<lambda>_. True) (?es ! 0)) = [Uuid 1, Uuid 2]" by code_simp
  have "\<not> held_elsewhere (map (start_tx (\<lambda>_. True)) ?es) 0 (Uuid 1)"
    by (auto simp: held_elsewhere_def start_tx_def less_Suc_eq)
  then have "lock_step (map (start_tx (\<lambda>_. True)) ?es) ?ts"
    using lock_step.acquire [of 0 "map (start_tx (\<lambda>_. True)) ?es" "Uuid 1" "[Uuid 2]"] todo
    by (simp add: start_tx_def)
  then have "lock_reachable (\<lambda>_. True) ?es ?ts" by (blast intro: lock_reachable.intros)
  from ledger_deadlock_free [OF this] show ?thesis by (auto simp: tx_done_def)
qed

end
