(* ===== verification/Matcher.thy ===== *)
theory Matcher
  imports Db
begin

text \<open>
  The worker selection of \<open>scheduler/matcher.rs\<close>: hard filters, a score in \<open>f64\<close>, a stable sort by
  descending score and the first three. Scores are compared by \<open>partial_cmp\<close>; the sort is
  Rust's stable \<open>sort_by\<close>, which is \<open>order_by\<close> as long as the comparison is a weak order, that is
  as long as no score is NaN.
\<close>

section \<open>Data\<close>

record worker_candidate =
  c_peer :: peer_id
  c_caps :: worker_capabilities
  c_uptime :: f64
  c_jobs :: u64
  c_busy :: bool

record match_request =
  required_backend :: gpu_backend
  memory_limit_mb :: u64
  max_duration_secs :: u64

section \<open>Hard filters\<close>

definition backend_matches :: "worker_candidate \<Rightarrow> gpu_backend \<Rightarrow> bool" where
  "backend_matches c required \<longleftrightarrow>
     required = CpuOnly \<or> list_ex (\<lambda>g. gpu_kind g = required) (gpus (c_caps c))"

definition has_enough_vram :: "worker_candidate \<Rightarrow> u64 \<Rightarrow> bool" where
  "has_enough_vram c limit \<longleftrightarrow> list_ex (\<lambda>g. limit \<le> vram_mb g) (gpus (c_caps c))"

section \<open>Scores\<close>

definition lit_0_40 :: f64 where "lit_0_40 = mk_f64 (40 / 100)"
definition lit_0_30 :: f64 where "lit_0_30 = mk_f64 (30 / 100)"
definition lit_0_7 :: f64 where "lit_0_7 = mk_f64 (7 / 10)"

fun min_list_opt :: "u64 list \<Rightarrow> u64 option" where
  "min_list_opt [] = None"
| "min_list_opt (x # xs) = Some (fold min xs x)"

definition resource_match_score :: "worker_candidate \<Rightarrow> match_request \<Rightarrow> f64" where
  "resource_match_score c req =
     (if required_backend req = CpuOnly then Fin 1
      else
        let available = unwrap_or 0 (min_list_opt (map vram_mb
              (filter (\<lambda>g. memory_limit_mb req \<le> vram_mb g) (gpus (c_caps c))))) in
        if available = 0 then Fin 0
        else
          let utilization = f64_div (f64_of_int (uint (memory_limit_mb req)))
                (f64_of_int (uint available));
              score = f64_sub (Fin 1) (f64_mul (f64_abs (f64_sub utilization lit_0_7)) (Fin 2)) in
          f64_clamp score (Fin 0) (Fin 1))"

definition max_jobs :: "worker_candidate list \<Rightarrow> f64" where
  "max_jobs cs = f64_of_int (uint (fold max (map c_jobs cs) 1))"

definition candidate_score :: "f64 \<Rightarrow> match_request \<Rightarrow> worker_candidate \<Rightarrow> f64" where
  "candidate_score mj req c =
     (let uptime_component = f64_mul (f64_clamp (f64_div (c_uptime c) (Fin 100)) (Fin 0) (Fin 1)) lit_0_40;
          jobs_component = f64_mul (f64_min (f64_div (f64_of_int (uint (c_jobs c))) mj) (Fin 1)) lit_0_30;
          resource_component = f64_mul (resource_match_score c req) lit_0_30 in
      f64_add (f64_add uptime_component jobs_component) resource_component)"

definition score_candidate ::
  "f64 \<Rightarrow> match_request \<Rightarrow> worker_candidate \<Rightarrow> (f64 \<times> peer_id) option" where
  "score_candidate mj req c =
     (if c_busy c then None
      else if \<not> backend_matches c (required_backend req) then None
      else if required_backend req \<noteq> CpuOnly \<and> \<not> has_enough_vram c (memory_limit_mb req) then None
      else Some (candidate_score mj req c, c_peer c))"

section \<open>Selection\<close>

definition sort_by :: "('a \<Rightarrow> 'a \<Rightarrow> ordering) \<Rightarrow> 'a list \<Rightarrow> 'a list" where
  "sort_by cmp = order_by (\<lambda>a b. cmp a b = Less)"

definition score_cmp :: "f64 \<times> peer_id \<Rightarrow> f64 \<times> peer_id \<Rightarrow> ordering" where
  "score_cmp a b = unwrap_or Equal (f64_partial_cmp (fst b) (fst a))"

definition select_workers :: "worker_candidate list \<Rightarrow> match_request \<Rightarrow> peer_id list" where
  "select_workers cs req =
     map snd (take 3 (sort_by score_cmp (List.map_filter (score_candidate (max_jobs cs) req) cs)))"

section \<open>What is selected\<close>

definition eligible :: "match_request \<Rightarrow> worker_candidate \<Rightarrow> bool" where
  "eligible req c \<longleftrightarrow>
     \<not> c_busy c \<and> backend_matches c (required_backend req) \<and>
     (required_backend req = CpuOnly \<or> has_enough_vram c (memory_limit_mb req))"

lemma score_candidate_eq:
  "score_candidate mj req c = (if eligible req c then Some (candidate_score mj req c, c_peer c) else None)"
  by (auto simp: score_candidate_def eligible_def)

lemma scored_list:
  "List.map_filter (score_candidate mj req) cs =
   map (\<lambda>c. (candidate_score mj req c, c_peer c)) (filter (eligible req) cs)"
  by (induction cs) (auto simp: map_filter_simps score_candidate_eq)

lemma score_cmp_less:
  "fst a \<noteq> NaN \<Longrightarrow> fst b \<noteq> NaN \<Longrightarrow> score_cmp a b = Less \<longleftrightarrow> f64_lt (fst b) (fst a)"
  by (auto simp: score_cmp_def f64_partial_cmp_def)

lemma f64_lt_negtrans:
  "x \<noteq> NaN \<Longrightarrow> y \<noteq> NaN \<Longrightarrow> z \<noteq> NaN \<Longrightarrow> \<not> f64_lt x y \<Longrightarrow> \<not> f64_lt y z \<Longrightarrow> \<not> f64_lt x z"
  by (cases x; cases y; cases z) auto

lemma weak_order_scores:
  assumes "\<And>a. a \<in> A \<Longrightarrow> fst a \<noteq> NaN"
  shows "weak_order (\<lambda>a b. score_cmp a b = Less) A"
  unfolding weak_order_def using assms
  by (intro conjI ballI impI)
    (simp_all add: score_cmp_less, meson f64_lt_trans, meson f64_lt_negtrans)

subsection \<open>Scores lie between 0 and 1\<close>

lemma rnd_pow2: "n \<le> 1023 \<Longrightarrow> rnd (2 ^ n) = 2 ^ n"
  using rnd_exact [of 1 "int n"] by (simp add: power_int_def)

lemma mk_f64_pow2:
  assumes "\<bar>x\<bar> \<le> 2 ^ n" "n \<le> 1023"
  shows "mk_f64 x = Fin (rnd x)" "\<bar>rnd x\<bar> \<le> 2 ^ n"
proof -
  show b: "\<bar>rnd x\<bar> \<le> 2 ^ n"
    using rnd_mono [of x "2 ^ n"] rnd_mono [of "- (2 ^ n)" x] rnd_pow2 [OF assms(2)] assms(1)
    by (simp add: abs_le_iff rnd_minus)
  have "(2 :: rat) ^ n < 2 ^ 1024" using assms(2) by (intro power_strict_increasing) auto
  with b show "mk_f64 x = Fin (rnd x)" by (intro mk_f64_small) (rule le_less_trans)
qed

definition unit_f64 :: "f64 \<Rightarrow> bool" where
  "unit_f64 x \<longleftrightarrow> (\<exists>r. x = Fin r \<and> 0 \<le> r \<and> r \<le> 1)"

lemma unit_clamp: "x \<noteq> NaN \<Longrightarrow> unit_f64 (f64_clamp x (Fin 0) (Fin 1))"
  by (rule f64_clamp_bounds [of x 0 1]) (auto simp: unit_f64_def)

lemma uint_rat: "(0 :: rat) \<le> of_int (uint (w :: u64))" "of_int (uint (w :: u64)) \<le> (2 :: rat) ^ 64"
proof -
  show "(0 :: rat) \<le> of_int (uint w)" by (simp only: of_int_0_le_iff uint_ge_0)
  have "uint w \<le> 2 ^ 64" using uint_lt2p [of w] by simp
  then have "(of_int (uint w) :: rat) \<le> of_int (2 ^ 64)" by (simp only: of_int_le_iff)
  then show "of_int (uint w) \<le> (2 :: rat) ^ 64" by simp
qed

lemma u64_as_f64:
  obtains r where "f64_of_int (uint (w :: u64)) = Fin r" "0 \<le> r" "r \<le> 2 ^ 64" "w \<noteq> 0 \<longrightarrow> 1 \<le> r"
proof -
  have r: "f64_of_int (uint w) = Fin (rnd (of_int (uint w)))"
    "\<bar>rnd (of_int (uint w))\<bar> \<le> (2 :: rat) ^ 64"
    using mk_f64_pow2 [of "of_int (uint w)" 64] uint_rat [of w] by (auto simp: f64_of_int_def)
  have "1 \<le> rnd (of_int (uint w))" if "w \<noteq> 0"
  proof -
    have "uint w \<noteq> 0" using that by (simp add: unsigned_eq_0_iff)
    then have "1 \<le> uint w" using uint_ge_0 [of w] by linarith
    then have "(of_int 1 :: rat) \<le> of_int (uint w)" by (simp only: of_int_le_iff)
    then have "rnd (of_int 1) \<le> rnd (of_int (uint w))" by (rule rnd_mono)
    then show ?thesis using rnd_int [of 1] by simp
  qed
  with r that rnd_nonneg [OF uint_rat(1)] show thesis by (auto simp: abs_le_iff)
qed

lemma unit_resource: "unit_f64 (resource_match_score c req)"
proof -
  obtain m where m: "f64_of_int (uint (memory_limit_mb req)) = Fin m" "0 \<le> m" "m \<le> 2 ^ 64"
    using u64_as_f64 by metis
  have "unit_f64 (f64_clamp (f64_sub (Fin 1) (f64_mul (f64_abs (f64_sub
      (f64_div (Fin m) (f64_of_int (uint a))) lit_0_7)) (Fin 2))) (Fin 0) (Fin 1))"
    if a: "a \<noteq> 0" for a :: u64
  proof -
    obtain v where v: "f64_of_int (uint a) = Fin v" "1 \<le> v" using u64_as_f64 a by metis
    have "m / v \<le> m / 1" using v m by (intro divide_left_mono) auto
    then have q: "\<bar>m / v\<bar> \<le> 2 ^ 64" using v m by simp
    obtain u where u: "f64_div (Fin m) (Fin v) = Fin u" "\<bar>u\<bar> \<le> 2 ^ 64"
      using mk_f64_pow2 [OF q] v by auto
    obtain s where s: "lit_0_7 = Fin s" "\<bar>s\<bar> \<le> 1"
      using mk_f64_pow2 [of "7 / 10" 0] by (auto simp: lit_0_7_def)
    have "\<bar>u - s\<bar> \<le> 2 ^ 65" using u(2) s(2) by (simp add: abs_le_iff)
    then obtain t where t: "f64_sub (Fin u) (Fin s) = Fin t" "\<bar>t\<bar> \<le> 2 ^ 65"
      using mk_f64_pow2 [of "u - s" 65] by (auto simp: f64_sub_def)
    then have "\<bar>\<bar>t\<bar> * 2\<bar> \<le> 2 ^ 66" by (simp add: abs_mult)
    then obtain w where w: "f64_mul (Fin \<bar>t\<bar>) (Fin 2) = Fin w" "\<bar>w\<bar> \<le> 2 ^ 66"
      using mk_f64_pow2 [of "\<bar>t\<bar> * 2" 66] by auto
    have "\<bar>1 - w\<bar> \<le> 2 ^ 67" using w(2) by (simp add: abs_le_iff)
    then have "f64_sub (Fin 1) (Fin w) \<noteq> NaN"
      using mk_f64_pow2 [of "1 - w" 67] by (simp add: f64_sub_def)
    then show ?thesis using u s t w v by (simp add: unit_clamp)
  qed
  then show ?thesis
    using m by (auto simp: resource_match_score_def Let_def) (auto simp: unit_f64_def)
qed

lemma weights:
  "lit_0_40 = Fin (rnd (40 / 100))" "lit_0_30 = Fin (rnd (30 / 100))"
  unfolding lit_0_40_def lit_0_30_def using mk_f64_pow2 [of "40 / 100" 0] mk_f64_pow2 [of "30 / 100" 0]
  by auto

lemma weights_total:
  "rnd (rnd (rnd (rnd (40 / 100)) + rnd (rnd (30 / 100))) + rnd (rnd (30 / 100))) = 1"
  by code_simp

lemma unit_weighted:
  assumes "unit_f64 x" "0 \<le> c" "c \<le> 1"
  obtains r where "f64_mul x (Fin c) = Fin r" "0 \<le> r" "r \<le> rnd c" "r \<le> 1"
proof -
  obtain y where y: "x = Fin y" "0 \<le> y" "y \<le> 1" using assms(1) by (auto simp: unit_f64_def)
  have "y * c \<le> 1 * c" using y assms by (intro mult_right_mono) auto
  then have p: "0 \<le> y * c" "y * c \<le> c" using y assms by auto
  have "f64_mul x (Fin c) = Fin (rnd (y * c))"
    using mk_f64_pow2 [of "y * c" 0] p assms y by simp
  moreover have "rnd (y * c) \<le> rnd 1" using p assms by (intro rnd_mono) simp
  then have "rnd (y * c) \<le> 1" using rnd_int [of 1] by simp
  ultimately show thesis using that rnd_mono [OF p(2)] rnd_nonneg [OF p(1)] by blast
qed

lemma unit_uptime: "u \<noteq> NaN \<Longrightarrow> unit_f64 (f64_clamp (f64_div u (Fin 100)) (Fin 0) (Fin 1))"
  by (rule unit_clamp) (cases u; auto simp: mk_f64_def Let_def signed_inf_def)

lemma unit_jobs: "unit_f64 (f64_min (f64_div (f64_of_int (uint (j :: u64))) (max_jobs cs)) (Fin 1))"
proof -
  have "fold max xs a \<noteq> 0" if "a \<noteq> 0" for xs and a :: u64
    using that
  proof (induction xs arbitrary: a)
    case (Cons x xs)
    have "max x a \<noteq> 0" using Cons.prems by (cases "x \<le> a") (auto simp: max_def)
    then show ?case using Cons.IH [of "max x a"] by simp
  qed simp
  then have "fold max (map c_jobs cs) 1 \<noteq> 0" by simp
  then obtain v where v: "max_jobs cs = Fin v" "1 \<le> v"
    unfolding max_jobs_def using u64_as_f64 by metis
  obtain m where m: "f64_of_int (uint j) = Fin m" "0 \<le> m" "m \<le> 2 ^ 64" using u64_as_f64 by metis
  have "m / v \<le> m / 1" using v m by (intro divide_left_mono) auto
  then have "\<bar>m / v\<bar> \<le> 2 ^ 64" "0 \<le> m / v" using v m by auto
  then obtain u where u: "f64_div (Fin m) (Fin v) = Fin u" "0 \<le> u"
    using mk_f64_pow2 [of "m / v" 64] v rnd_nonneg by auto
  then show ?thesis using v m by (auto simp: f64_min_def unit_f64_def)
qed

lemma score_in_unit_aux:
  "c_uptime c \<noteq> NaN \<Longrightarrow> \<exists>r. candidate_score (max_jobs cs) req c = Fin r \<and> 0 \<le> r \<and> r \<le> 1"
proof -
  assume u: "c_uptime c \<noteq> NaN"
  have w: "0 \<le> rnd (40 / 100)" "rnd (40 / 100) \<le> 1" "0 \<le> rnd (30 / 100)" "rnd (30 / 100) \<le> 1"
    using rnd_nonneg [of "40 / 100"] rnd_nonneg [of "30 / 100"]
      mk_f64_pow2(2) [of "40 / 100" 0] mk_f64_pow2(2) [of "30 / 100" 0] by (simp_all add: abs_le_iff)
  obtain a where a: "f64_mul (f64_clamp (f64_div (c_uptime c) (Fin 100)) (Fin 0) (Fin 1)) lit_0_40 = Fin a"
    "0 \<le> a" "a \<le> rnd (rnd (40 / 100))" "a \<le> 1"
    using unit_weighted [OF unit_uptime [OF u] w(1,2)] weights(1) by metis
  obtain b where b: "f64_mul (f64_min (f64_div (f64_of_int (uint (c_jobs c))) (max_jobs cs)) (Fin 1)) lit_0_30 = Fin b"
    "0 \<le> b" "b \<le> rnd (rnd (30 / 100))" "b \<le> 1"
    using unit_weighted [OF unit_jobs w(3,4)] weights(2) by metis
  obtain e where e: "f64_mul (resource_match_score c req) lit_0_30 = Fin e"
    "0 \<le> e" "e \<le> rnd (rnd (30 / 100))" "e \<le> 1"
    using unit_weighted [OF unit_resource w(3,4)] weights(2) by metis
  have ab: "f64_add (Fin a) (Fin b) = Fin (rnd (a + b))" "0 \<le> rnd (a + b)"
    "rnd (a + b) \<le> rnd (rnd (rnd (40 / 100)) + rnd (rnd (30 / 100)))" "rnd (a + b) \<le> 2"
    using mk_f64_pow2 [of "a + b" 1] a b rnd_nonneg [of "a + b"] by (auto intro!: rnd_mono simp: abs_le_iff)
  have "f64_add (Fin (rnd (a + b))) (Fin e) = Fin (rnd (rnd (a + b) + e))"
    using mk_f64_pow2 [of "rnd (a + b) + e" 2] ab e by simp
  moreover have "rnd (rnd (a + b) + e) \<le> rnd (rnd (rnd (rnd (40 / 100)) + rnd (rnd (30 / 100))) + rnd (rnd (30 / 100)))"
    using ab(3) e(3) by (rule rnd_mono [OF add_mono])
  then have "rnd (rnd (a + b) + e) \<le> 1" unfolding weights_total .
  moreover have "0 \<le> rnd (rnd (a + b) + e)" using ab(2) e(2) by (intro rnd_nonneg) simp
  ultimately show ?thesis
    unfolding candidate_score_def Let_def a(1) b(1) e(1) ab(1) by blast
qed

lemma score_not_NaN: "c_uptime c \<noteq> NaN \<Longrightarrow> candidate_score (max_jobs cs) req c \<noteq> NaN"
  using score_in_unit_aux [of c cs req] by auto

text \<open>
  The score of every candidate whose uptime is not NaN is a finite number between 0 and 1,
  rounding included: the weights 0.40, 0.30 and 0.30 sum to exactly 1 in \<open>f64\<close>.
\<close>
theorem score_in_unit:
  "c_uptime c \<noteq> NaN \<Longrightarrow> \<exists>r. candidate_score (max_jobs cs) req c = Fin r \<and> 0 \<le> r \<and> r \<le> 1"
  by (rule score_in_unit_aux)

subsection \<open>The best three\<close>

definition scored :: "worker_candidate list \<Rightarrow> match_request \<Rightarrow> (f64 \<times> peer_id) list" where
  "scored cs req =
     map (\<lambda>c. (candidate_score (max_jobs cs) req c, c_peer c)) (filter (eligible req) cs)"

lemma select_workers_scored: "select_workers cs req = map snd (take 3 (sort_by score_cmp (scored cs req)))"
  by (simp add: select_workers_def scored_list scored_def)

lemma take_drop_sorted:
  "sorted_wrt R xs \<Longrightarrow> x \<in> set (take n xs) \<Longrightarrow> y \<in> set (drop n xs) \<Longrightarrow> R x y"
  by (metis append_take_drop_id sorted_wrt_append)

text \<open>
  C20. At most three workers are selected, three if that many are eligible, all of them eligible
  and pairwise different, and no eligible worker that is left out scores higher than one that is
  selected.
\<close>
theorem select_workers_best:
  "list_all (\<lambda>c. c_uptime c \<noteq> NaN) cs \<Longrightarrow> distinct (map c_peer cs) \<Longrightarrow>
   length (select_workers cs req) = min 3 (length (filter (eligible req) cs)) \<and>
   distinct (select_workers cs req) \<and>
   set (select_workers cs req) \<subseteq> c_peer ` set (filter (eligible req) cs) \<and>
   (\<forall>c\<in>set (filter (eligible req) cs). \<forall>b\<in>set (filter (eligible req) cs).
      c_peer b \<in> set (select_workers cs req) \<longrightarrow> c_peer c \<notin> set (select_workers cs req) \<longrightarrow>
      \<not> f64_lt (candidate_score (max_jobs cs) req b) (candidate_score (max_jobs cs) req c))"
proof -
  assume nan: "list_all (\<lambda>c. c_uptime c \<noteq> NaN) cs" and dist: "distinct (map c_peer cs)"
  let ?s = "\<lambda>c. candidate_score (max_jobs cs) req c"
  let ?E = "filter (eligible req) cs" and ?S = "sort_by score_cmp (scored cs req)"
  have sc: "scored cs req = map (\<lambda>c. (?s c, c_peer c)) ?E" by (simp add: scored_def)
  have ms: "mset ?S = mset (scored cs req)" by (simp add: sort_by_def)
  have no_nan: "fst a \<noteq> NaN" if "a \<in> set (scored cs req)" for a
    using that nan score_not_NaN by (auto simp: sc list_all_iff)
  have sorted: "sorted_wrt (\<lambda>a b. \<not> score_cmp b a = Less) ?S"
    unfolding sort_by_def using no_nan by (intro sorted_order_by weak_order_scores)
  have peers: "distinct (map c_peer ?E)" using dist by (induction cs) auto
  have "mset (map snd ?S) = mset (map snd (scored cs req))" using ms by (simp only: mset_map)
  also have "\<dots> = mset (map c_peer ?E)" by (simp add: sc comp_def)
  finally have dS: "distinct (map snd ?S)" and setS: "set (map snd ?S) = c_peer ` set ?E"
    using peers mset_eq_imp_distinct_iff mset_eq_setD by (metis, metis list.set_map)
  have sel: "select_workers cs req = take 3 (map snd ?S)" by (simp add: select_workers_scored take_map)
  have len: "length ?S = length ?E" using ms by (metis sc length_map size_mset)
  have best: "\<not> f64_lt (?s b) (?s c)"
    if c: "c \<in> set ?E" "c_peer c \<notin> set (take 3 (map snd ?S))"
      and b: "b \<in> set ?E" "c_peer b \<in> set (take 3 (map snd ?S))" for b c
  proof -
    have inS: "(?s x, c_peer x) \<in> set ?S" if "x \<in> set ?E" for x
      using that ms by (metis (mono_tags, lifting) image_eqI list.set_map mset_eq_setD sc)
    have "(?s b, c_peer b) \<in> set (take 3 ?S)"
    proof -
      obtain a where a: "a \<in> set (take 3 ?S)" "snd a = c_peer b" using b(2) by (auto simp: take_map)
      then have "a \<in> set ?S" by (meson in_set_takeD)
      then have "a = (?s b, c_peer b)" using inS [OF b(1)] dS a(2) by (auto simp: distinct_map inj_on_def)
      with a show ?thesis by simp
    qed
    moreover have "(?s c, c_peer c) \<in> set (drop 3 ?S)"
    proof -
      have "(?s c, c_peer c) \<notin> set (take 3 ?S)" using c(2) by (force simp: take_map)
      then show ?thesis using inS [OF c(1)] by (metis Un_iff append_take_drop_id set_append)
    qed
    ultimately have "\<not> score_cmp (?s c, c_peer c) (?s b, c_peer b) = Less"
      by (rule take_drop_sorted [OF sorted])
    moreover have "?s c \<noteq> NaN" "?s b \<noteq> NaN"
      using nan c(1) b(1) score_not_NaN by (auto simp: list_all_iff)
    ultimately show ?thesis by (simp add: score_cmp_less)
  qed
  have "set (take 3 (map snd ?S)) \<subseteq> c_peer ` set ?E" using setS set_take_subset by metis
  then show ?thesis unfolding sel using dS best len by (auto simp: min_def)
qed

section \<open>Concrete candidates\<close>

definition demo_caps :: "gpu_info list \<Rightarrow> worker_capabilities" where
  "demo_caps gs = \<lparr>gpus = gs, cpu = \<lparr>cpu_model = [], cores = 4, threads = 8, freq_mhz = 3000\<rparr>,
     ram_mb = 8192, disk_mb = 100000, os_name = ''linux'', worker_version = ''0.1.0''\<rparr>"

definition demo_candidate :: "peer_id \<Rightarrow> gpu_info list \<Rightarrow> rat \<Rightarrow> u64 \<Rightarrow> worker_candidate" where
  "demo_candidate p gs uptime n =
     \<lparr>c_peer = p, c_caps = demo_caps gs, c_uptime = Fin uptime, c_jobs = n, c_busy = False\<rparr>"

definition mixed_gpus :: "gpu_info list" where
  "mixed_gpus = [\<lparr>gpu_name = ''small'', vram_mb = 4096, gpu_kind = Cuda\<rparr>,
                 \<lparr>gpu_name = ''large'', vram_mb = 16384, gpu_kind = Rocm\<rparr>]"

definition cuda_8g :: match_request where
  "cuda_8g = \<lparr>required_backend = Cuda, memory_limit_mb = 8192, max_duration_secs = 3600\<rparr>"

lemma score_in_unit_witness:
  "\<exists>r. candidate_score (max_jobs []) cuda_8g (demo_candidate ''a'' mixed_gpus 90 3) = Fin r \<and> 0 \<le> r \<and> r \<le> 1"
  by (rule score_in_unit) (simp add: demo_candidate_def)

lemma select_workers_best_witness:
  "length (select_workers [demo_candidate ''a'' mixed_gpus 90 3, demo_candidate ''b'' [] 50 1] cuda_8g) = 1"
proof -
  let ?cs = "[demo_candidate ''a'' mixed_gpus 90 3, demo_candidate ''b'' [] 50 1]"
  have "length (filter (eligible cuda_8g) ?cs) = 1" by code_simp
  then show ?thesis using select_workers_best [of ?cs cuda_8g] by (simp add: demo_candidate_def)
qed

text \<open>
  The memory filter does not look at the backend: a CUDA job that needs 8 GB is given to a
  worker whose only CUDA device has 4 GB, because its ROCm device has 16 GB.
\<close>
theorem vram_of_any_backend:
  "select_workers [demo_candidate ''a'' mixed_gpus 90 3] cuda_8g = [''a''] \<and>
   \<not> list_ex (\<lambda>g. gpu_kind g = Cuda \<and> memory_limit_mb cuda_8g \<le> vram_mb g) mixed_gpus"
proof -
  have e: "eligible cuda_8g (demo_candidate ''a'' mixed_gpus 90 3)"
    and v: "\<not> list_ex (\<lambda>g. gpu_kind g = Cuda \<and> memory_limit_mb cuda_8g \<le> vram_mb g) mixed_gpus"
    by code_simp+
  have "select_workers [demo_candidate ''a'' mixed_gpus 90 3] cuda_8g = [''a'']"
    by (simp add: select_workers_scored scored_def sort_by_def order_by_def e)
      (simp add: demo_candidate_def)
  with v show ?thesis by simp
qed

end
