(* ===== verification/Jobs_Db.thy ===== *)
theory Jobs_Db
  imports Users
begin

text \<open>
  The repository of jobs, job files and job logs (\<open>db/jobs.rs\<close>). Generated ids and times are
  arguments. The heart is \<open>jobs_transition_status\<close>, a compare-and-set on the status column; the
  locale \<open>cas_table\<close> of its contract gives that at most one of several racers wins and that a status
  nobody leaves is final. \<open>su\<close> is the text of a UUID.
\<close>

section \<open>Statements\<close>

definition job_statuses :: "string list" where
  "job_statuses =
     [''pending'', ''assigned'', ''running'', ''completed'', ''failed'', ''cancelled'']"

definition find_job :: "uuid \<Rightarrow> db \<Rightarrow> job_row option" where
  "find_job i d = find (\<lambda>j. j_id j = i) (jobs d)"

definition jobs_create ::
  "uuid \<Rightarrow> timestamp \<Rightarrow> uuid \<Rightarrow> string \<Rightarrow> int option \<Rightarrow> int option \<Rightarrow> int option \<Rightarrow> job_row dbm" where
  "jobs_create new_id now hirer backend memory duration price =
     stmt (\<lambda>d.
       let row = \<lparr>j_id = new_id, j_hirer = hirer, j_worker = None, j_status = ''pending'',
                  j_backend = backend, j_memory_mb = memory, j_duration_secs = duration,
                  j_price = price, j_created_at = now, j_assigned_at = None, j_started_at = None,
                  j_finished_at = None, j_error = None, j_result_path = None\<rparr> in
       if new_id \<in> j_id ` set (jobs d) then Inl (Database ''jobs_pkey'')
       else if \<not> user_exists hirer d then Inl (Database ''hirer_id foreign key'')
       else Inr (row, d\<lparr>jobs := jobs d @ [row]\<rparr>))"

definition coalesce :: "'a option \<Rightarrow> 'a option \<Rightarrow> 'a option" where
  "coalesce a b = (case a of None \<Rightarrow> b | Some x \<Rightarrow> Some x)"

definition apply_transition ::
  "timestamp \<Rightarrow> string \<Rightarrow> peer_id option \<Rightarrow> string option \<Rightarrow> string option \<Rightarrow> job_row \<Rightarrow> job_row" where
  "apply_transition now to_status worker err result j =
     j\<lparr>j_status := to_status,
       j_worker := coalesce worker (j_worker j),
       j_error := coalesce err (j_error j),
       j_result_path := coalesce result (j_result_path j),
       j_assigned_at := (if to_status = ''assigned'' then Some now else j_assigned_at j),
       j_started_at := (if to_status = ''running'' then Some now else j_started_at j),
       j_finished_at := (if to_status \<in> {''completed'', ''failed'', ''cancelled''}
                         then Some now else j_finished_at j)\<rparr>"

definition worker_fk :: "peer_id option \<Rightarrow> db \<Rightarrow> bool" where
  "worker_fk worker d \<longleftrightarrow>
     (case worker of None \<Rightarrow> True | Some p \<Rightarrow> p \<in> w_peer ` set (workers d))"

definition jobs_transition_status ::
  "(uuid \<Rightarrow> string) \<Rightarrow> timestamp \<Rightarrow> uuid \<Rightarrow> string \<Rightarrow> string \<Rightarrow> peer_id option \<Rightarrow> string option \<Rightarrow>
   string option \<Rightarrow> job_row dbm" where
  "jobs_transition_status su now i from_status to_status worker err result =
     bind_db
       (stmt (\<lambda>d.
          case find (\<lambda>j. j_id j = i \<and> j_status j = from_status) (jobs d) of
            None \<Rightarrow> Inr (None, d)
          | Some j \<Rightarrow>
              if to_status \<notin> set job_statuses then Inl (Database ''jobs_status_check'')
              else if \<not> worker_fk worker d
                then Inl (Database ''worker_peer_id foreign key'')
              else Inr (Some (apply_transition now to_status worker err result j),
                        d\<lparr>jobs := update_where (\<lambda>j. j_id j = i \<and> j_status j = from_status)
                            (apply_transition now to_status worker err result) (jobs d)\<rparr>)))
       (ok_or_db (Conflict
          (''job '' @ su i @ '' not in status '' @ [CHR 0x27] @ from_status @ [CHR 0x27])))"

definition jobs_find_by_id :: "uuid \<Rightarrow> job_row option dbm" where
  "jobs_find_by_id i = stmt (select_sql (find_job i))"

definition jobs_list_by_hirer :: "uuid \<Rightarrow> int \<Rightarrow> int \<Rightarrow> job_row list dbm" where
  "jobs_list_by_hirer hirer limit offset =
     stmt (page_sql limit offset (\<lambda>d.
       order_desc j_created_at (filter (\<lambda>j. j_hirer j = hirer) (jobs d))))"

definition jobs_append_log :: "uuid \<Rightarrow> int \<Rightarrow> string \<Rightarrow> string \<Rightarrow> unit dbm" where
  "jobs_append_log job ts level message =
     stmt (\<lambda>d.
       if job \<notin> j_id ` set (jobs d) then Inl (Database ''job_id foreign key'')
       else Inr ((), d\<lparr>job_logs := job_logs d @ [\<lparr>l_id = log_seq d, l_job = job,
                  l_timestamp_ms = ts, l_level = level, l_message = message\<rparr>],
                  log_seq := log_seq d + 1\<rparr>))"

text \<open>\<open>scan\<close>: the order in which the server reads the rows, so that lines of the same time come in any order.\<close>

type_synonym log_scan = "job_log_row list \<Rightarrow> job_log_row list"

definition log_view :: "job_log_row \<Rightarrow> int \<times> string \<times> string" where
  "log_view l = (l_timestamp_ms l, l_level l, l_message l)"

definition jobs_get_logs_since :: "log_scan \<Rightarrow> uuid \<Rightarrow> int \<Rightarrow> int \<Rightarrow> (int \<times> string \<times> string) list dbm" where
  "jobs_get_logs_since scan job since_ms limit =
     bind_db
       (stmt (page_sql limit 0 (\<lambda>d. order_asc l_timestamp_ms
          (scan (filter (\<lambda>l. l_job l = job \<and> since_ms < l_timestamp_ms l) (job_logs d))))))
       (\<lambda>rows. return_db (map log_view rows))"

definition file_types :: "string list" where
  "file_types = [''code'', ''requirements'', ''result'']"

definition jobs_insert_file ::
  "uuid \<Rightarrow> timestamp \<Rightarrow> uuid \<Rightarrow> string \<Rightarrow> string \<Rightarrow> int \<Rightarrow> string \<Rightarrow> uuid dbm" where
  "jobs_insert_file new_id now job kind path bytes sha =
     stmt (\<lambda>d.
       if kind \<notin> set file_types then Inl (Database ''job_files_file_type_check'')
       else if new_id \<in> f_id ` set (job_files d) then Inl (Database ''job_files_pkey'')
       else if job \<notin> j_id ` set (jobs d) then Inl (Database ''job_id foreign key'')
       else Inr (new_id, d\<lparr>job_files := job_files d @ [\<lparr>f_id = new_id, f_job = job, f_type = kind,
              f_path = path, f_size = bytes, f_sha256 = sha, f_uploaded_at = now\<rparr>]\<rparr>))"

definition jobs_update_cu_price :: "uuid \<Rightarrow> int \<Rightarrow> unit dbm" where
  "jobs_update_cu_price i price =
     stmt (\<lambda>d. Inr ((), d\<lparr>jobs :=
       update_where (\<lambda>j. j_id j = i) (\<lambda>j. j\<lparr>j_price := Some price\<rparr>) (jobs d)\<rparr>))"

definition status_filter :: "string option \<Rightarrow> job_row \<Rightarrow> bool" where
  "status_filter status j = (case status of None \<Rightarrow> True | Some s \<Rightarrow> j_status j = s)"

definition jobs_list_all ::
  "(string \<Rightarrow> job_row list sql) \<Rightarrow> string option \<Rightarrow> int \<Rightarrow> int \<Rightarrow> job_row list dbm" where
  "jobs_list_all raw status limit offset =
     stmt (paste_sql raw status (page_sql limit offset (\<lambda>d.
       order_desc j_created_at (filter (status_filter status) (jobs d)))))"

definition jobs_count_all :: "(string \<Rightarrow> int sql) \<Rightarrow> string option \<Rightarrow> int dbm" where
  "jobs_count_all raw status =
     stmt (paste_sql raw status (select_sql (\<lambda>d.
       int (length (filter (status_filter status) (jobs d))))))"

text \<open>\<open>today\<close> is the time of the last midnight of the database session.\<close>

definition jobs_count_today :: "timestamp \<Rightarrow> int dbm" where
  "jobs_count_today today =
     stmt (select_sql (\<lambda>d. int (length (filter (\<lambda>j. today \<le> j_created_at j) (jobs d)))))"

section \<open>Facts about transitions\<close>

definition jobs_ok :: "db \<Rightarrow> bool" where
  "jobs_ok d \<longleftrightarrow> distinct (map j_id (jobs d)) \<and> (\<forall>j\<in>set (jobs d). j_status j \<in> set job_statuses)"

definition job_status_of :: "db \<Rightarrow> uuid \<Rightarrow> string option" where
  "job_status_of d i = map_option j_status (find_job i d)"

lemma apply_transition_sel [simp]:
  "j_id (apply_transition now t w e r j) = j_id j"
  "j_status (apply_transition now t w e r j) = t"
  "j_hirer (apply_transition now t w e r j) = j_hirer j"
  "j_worker (apply_transition now t w e r j) = coalesce w (j_worker j)"
  by (simp_all add: apply_transition_def)

lemma transition_success:
  assumes "jobs_transition_status su now i f t w e r d fs = (Inr row, d', fs')"
  shows "d' = d\<lparr>jobs := update_where (\<lambda>j. j_id j = i \<and> j_status j = f) (apply_transition now t w e r) (jobs d)\<rparr>"
    and "\<exists>j. find (\<lambda>j. j_id j = i \<and> j_status j = f) (jobs d) = Some j \<and> row = apply_transition now t w e r j"
    and "t \<in> set job_statuses"
    and "worker_fk w d"
  using assms
  by (auto simp: jobs_transition_status_def bind_db_def stmt_def run_sql_def ok_or_db_def
        throw_db_def return_db_def split: prod.splits fault.splits sum.splits option.splits if_splits)

lemma transition_cases:
  assumes "jobs_transition_status su now i f t w e r d fs = (res, d', fs')"
  obtains "d' = d" | row where "jobs_transition_status su now i f t w e r d [] = (Inr row, d', [])"
  using assms
  by (auto simp: jobs_transition_status_def bind_db_def stmt_def run_sql_def ok_or_db_def
        throw_db_def return_db_def split: prod.splits fault.splits sum.splits option.splits if_splits)

lemma tame_transition: "tame (jobs_transition_status su now i f t w e r)"
  unfolding jobs_transition_status_def by (intro tame_intros)

lemma find_key_status:
  assumes "distinct (map j_id js)"
  shows "find (\<lambda>j. j_id j = i \<and> j_status j = f) js =
    (case find (\<lambda>j. j_id j = i) js of None \<Rightarrow> None | Some j \<Rightarrow> if j_status j = f then Some j else None)"
  using assms
proof (induction js)
  case (Cons a js)
  show ?case
  proof (cases "j_id a = i")
    case True
    then have "find (\<lambda>j. j_id j = i \<and> j_status j = f) js = None"
      using Cons.prems by (auto simp: find_eq_None) (metis image_eqI)
    with True show ?thesis by simp
  next
    case False
    with Cons show ?thesis by simp
  qed
qed simp

lemma transition_job_status:
  assumes ok: "jobs_ok d" and run: "jobs_transition_status su now i f t w e r d fs = (Inr row, d', fs')"
  shows "job_status_of d i = Some f" and "job_status_of d' k = (if k = i then Some t else job_status_of d k)"
    and "jobs_ok d'"
proof -
  have dist: "distinct (map j_id (jobs d))" using ok by (simp add: jobs_ok_def)
  note d' = transition_success(1) [OF run]
  obtain j where "find (\<lambda>j. j_id j = i \<and> j_status j = f) (jobs d) = Some j"
    using transition_success(2) [OF run] by blast
  then have j: "find_job i d = Some j" "j_status j = f"
    unfolding find_key_status [OF dist] by (auto simp: find_job_def split: option.splits if_splits)
  then show "job_status_of d i = Some f" by (simp add: job_status_of_def)
  have "find (\<lambda>x. j_id x = k) (update_where (\<lambda>x. j_id x = i \<and> j_status x = f)
      (apply_transition now t w e r) (jobs d)) =
    map_option (\<lambda>x. if j_id x = i \<and> j_status x = f then apply_transition now t w e r x else x)
      (find (\<lambda>x. j_id x = k) (jobs d))"
    by (rule find_update_where) simp
  then have fk: "find_job k d' =
    map_option (\<lambda>x. if j_id x = i \<and> j_status x = f then apply_transition now t w e r x else x) (find_job k d)"
    by (simp add: find_job_def d')
  have key: "j_id x = k" if "find_job k d = Some x" for x
    using that unfolding find_job_def by (auto dest: find_Some_set)
  show "job_status_of d' k = (if k = i then Some t else job_status_of d k)"
    using j fk key by (cases "find_job k d") (auto simp: job_status_of_def)
  show "jobs_ok d'"
    using ok transition_success(3) [OF run]
    by (auto simp: jobs_ok_def d' map_update_where set_update_where)
qed

lemma transition_from_status:
  assumes ok: "jobs_ok d" and st: "job_status_of d i = Some f"
    and t: "t \<in> set job_statuses" and w: "worker_fk w d"
  obtains row d' where "jobs_transition_status su now i f t w e r d [] = (Inr row, d', [])"
proof -
  have dist: "distinct (map j_id (jobs d))" using ok by (simp add: jobs_ok_def)
  obtain j where j: "find_job i d = Some j" "j_status j = f"
    using st by (auto simp: job_status_of_def)
  then have "find (\<lambda>j. j_id j = i \<and> j_status j = f) (jobs d) = Some j"
    unfolding find_key_status [OF dist] by (simp add: find_job_def)
  then show thesis
    using that t w by (simp add: jobs_transition_status_def bind_db_def stmt_nil run_sql_def
        ok_or_db_def return_db_def)
qed

lemma transition_conflict:
  assumes ok: "jobs_ok d" and st: "job_status_of d i \<noteq> Some f"
  shows "fst (jobs_transition_status su now i f t w e r d []) = Inl (Conflict
    (''job '' @ su i @ '' not in status '' @ [CHR 0x27] @ f @ [CHR 0x27]))"
    and "fst (snd (jobs_transition_status su now i f t w e r d fs)) = d"
proof -
  have dist: "distinct (map j_id (jobs d))" using ok by (simp add: jobs_ok_def)
  have none: "find (\<lambda>j. j_id j = i \<and> j_status j = f) (jobs d) = None"
    unfolding find_key_status [OF dist]
    using st by (auto simp: job_status_of_def find_job_def split: option.splits)
  then show "fst (jobs_transition_status su now i f t w e r d []) = Inl (Conflict
    (''job '' @ su i @ '' not in status '' @ [CHR 0x27] @ f @ [CHR 0x27]))"
    by (simp add: jobs_transition_status_def bind_db_def stmt_nil run_sql_def ok_or_db_def throw_db_def)
  from none show "fst (snd (jobs_transition_status su now i f t w e r d fs)) = d"
    by (auto simp: jobs_transition_status_def bind_db_def stmt_def run_sql_def ok_or_db_def
        throw_db_def return_db_def split: prod.splits fault.splits)
qed

section \<open>Compare and set\<close>

locale cas_table =
  fixes status :: "'s \<Rightarrow> 'k \<Rightarrow> 'st option"
    and cas :: "'k \<Rightarrow> 'st \<Rightarrow> 'st \<Rightarrow> 'a \<Rightarrow> 's \<Rightarrow> 's option"
    and wf :: "'s \<Rightarrow> bool"
  assumes cas_from: "wf s \<Longrightarrow> cas k f t a s = Some s' \<Longrightarrow> status s k = Some f"
    and cas_to: "wf s \<Longrightarrow> cas k f t a s = Some s' \<Longrightarrow> status s' j = (if j = k then Some t else status s j)"
    and cas_wf: "wf s \<Longrightarrow> cas k f t a s = Some s' \<Longrightarrow> wf s'"
begin

lemma only_one_wins:
  "wf s \<Longrightarrow> cas k f t a s = Some s' \<Longrightarrow> t \<noteq> f \<Longrightarrow> cas k f t2 a2 s' = None"
  using cas_from [of s' k f t2 a2] cas_to [of s k f t a s' k] cas_wf [of s k f t a s']
  by (cases "cas k f t2 a2 s'") auto

definition attempt_cas :: "'s \<Rightarrow> 'k \<times> 'st \<times> 'st \<times> 'a \<Rightarrow> 's" where
  "attempt_cas s e = (case e of (k, f, t, a) \<Rightarrow> case cas k f t a s of None \<Rightarrow> s | Some s' \<Rightarrow> s')"

lemma attempt_cas_wf: "wf s \<Longrightarrow> wf (attempt_cas s e)"
  by (auto simp: attempt_cas_def cas_wf split: prod.splits option.splits)

text \<open>A status that no attempt starts from is never left.\<close>

lemma final_status:
  "wf s \<Longrightarrow> status s k = Some st \<Longrightarrow> list_all (\<lambda>(k, f, t, a). f \<noteq> st) es \<Longrightarrow>
   status (run_ops attempt_cas s es) k = Some st"
proof (induction es arbitrary: s)
  case (Cons e es)
  obtain k' f t a where e: "e = (k', f, t, a)" by (cases e)
  have "status (attempt_cas s e) k = Some st"
    using Cons.prems cas_from [of s k' f t a] cas_to [of s k' f t a]
    by (auto simp: attempt_cas_def e split: option.splits)
  with Cons show ?case by (simp add: attempt_cas_wf)
qed simp

end

record cas_args =
  ca_now :: timestamp
  ca_worker :: "peer_id option"
  ca_error :: "string option"
  ca_result :: "string option"

definition job_cas ::
  "(uuid \<Rightarrow> string) \<Rightarrow> uuid \<Rightarrow> string \<Rightarrow> string \<Rightarrow> cas_args \<Rightarrow> db \<Rightarrow> db option" where
  "job_cas su i f t a d =
     (case jobs_transition_status su (ca_now a) i f t (ca_worker a) (ca_error a) (ca_result a) d [] of
        (Inr _, d', _) \<Rightarrow> Some d'
      | (Inl _, _, _) \<Rightarrow> None)"

interpretation jobs_cas: cas_table job_status_of "job_cas su" jobs_ok for su
proof
  fix s i f t a s' j
  assume ok: "jobs_ok s" and cas: "job_cas su i f t a s = Some s'"
  obtain row fs where run: "jobs_transition_status su (ca_now a) i f t (ca_worker a) (ca_error a)
      (ca_result a) s [] = (Inr row, s', fs)"
    using cas by (auto simp: job_cas_def split: prod.splits sum.splits)
  show "job_status_of s i = Some f" "job_status_of s' j = (if j = i then Some t else job_status_of s j)"
    "jobs_ok s'"
    using transition_job_status [OF ok run] by auto
qed

text \<open>
  C12. A status transition takes effect exactly when the job is in the expected status, the target
  is a status of the schema and the worker named is registered; then the job, and no other, has the
  new status. Otherwise nothing changes.
\<close>
theorem transition_exact:
  "jobs_ok d \<Longrightarrow>
   (case jobs_transition_status su now i f t w e r d [] of
      (Inr row, d', _) \<Rightarrow> job_status_of d i = Some f \<and> j_status row = t \<and> jobs_ok d' \<and>
        job_status_of d' = (job_status_of d)(i \<mapsto> t)
    | (Inl _, d', _) \<Rightarrow> d' = d \<and>
        (job_status_of d i \<noteq> Some f \<or> t \<notin> set job_statuses \<or> \<not> worker_fk w d))"
proof -
  assume ok: "jobs_ok d"
  obtain res d' fs' where run: "jobs_transition_status su now i f t w e r d [] = (res, d', fs')"
    by (cases "jobs_transition_status su now i f t w e r d []")
  show ?thesis
  proof (cases res)
    case (Inr row)
    note run' = run [unfolded Inr]
    have "j_status row = t" using transition_success(2) [OF run'] by auto
    then show ?thesis
      using transition_job_status [OF ok run'] by (auto simp: run' fun_eq_iff)
  next
    case (Inl err)
    have "d' = d" by (rule transition_cases [OF run]) (use run Inl in auto)
    moreover have "job_status_of d i \<noteq> Some f \<or> t \<notin> set job_statuses \<or> \<not> worker_fk w d"
      using transition_from_status [OF ok, of i f t w su now e r] run Inl by auto
    ultimately show ?thesis by (simp add: run Inl)
  qed
qed

text \<open>
  When several callers race to move a job out of the same status, at most one of them succeeds:
  after a successful transition every further attempt from the old status is refused.
\<close>
theorem transition_one_winner:
  "jobs_ok d \<Longrightarrow> t \<noteq> f \<Longrightarrow>
   jobs_transition_status su now i f t w e r d fs = (Inr row, d', fs') \<Longrightarrow>
   \<not> is_ok (fst (jobs_transition_status su2 now2 i f t2 w2 e2 r2 d' fs2))"
proof -
  assume a: "jobs_ok d" "t \<noteq> f" "jobs_transition_status su now i f t w e r d fs = (Inr row, d', fs')"
  have ok: "jobs_ok d'" and st: "job_status_of d' i \<noteq> Some f"
    using transition_job_status [OF a(1,3)] a(2) by auto
  obtain res d2 fs3 where run: "jobs_transition_status su2 now2 i f t2 w2 e2 r2 d' fs2 = (res, d2, fs3)"
    by (cases "jobs_transition_status su2 now2 i f t2 w2 e2 r2 d' fs2")
  show ?thesis
    using run st transition_job_status(1) [OF ok, of su2 now2 i f t2 w2 e2 r2 fs2]
    by (cases res) auto
qed

section \<open>Concrete values\<close>

definition demo_job :: "uuid \<Rightarrow> string \<Rightarrow> job_row" where
  "demo_job i st = \<lparr>j_id = i, j_hirer = Uuid 1, j_worker = None, j_status = st,
     j_backend = ''cuda'', j_memory_mb = Some 4096, j_duration_secs = Some 3600, j_price = None,
     j_created_at = 0, j_assigned_at = None, j_started_at = None, j_finished_at = None,
     j_error = None, j_result_path = None\<rparr>"

definition demo_worker :: "peer_id \<Rightarrow> worker_row" where
  "demo_worker p = \<lparr>w_peer = p, w_user = Uuid 2, w_caps = JNull, w_uptime = Fin 100,
     w_jobs_completed = 0, w_online = True, w_last_seen = None, w_registered_at = 0\<rparr>"

definition demo_jobs_db :: db where
  "demo_jobs_db = empty_db\<lparr>jobs := [demo_job (Uuid 1) ''pending'', demo_job (Uuid 2) ''assigned''],
     workers := [demo_worker ''w1'', demo_worker ''w2'']\<rparr>"

lemma demo_jobs_ok: "jobs_ok demo_jobs_db"
  by code_simp

lemma transition_exact_witness:
  "case jobs_transition_status (\<lambda>_. []) 5 (Uuid 1) ''pending'' ''assigned'' (Some ''w1'') None None
      demo_jobs_db [] of
    (Inr row, d', _) \<Rightarrow> job_status_of demo_jobs_db (Uuid 1) = Some ''pending'' \<and>
      j_status row = ''assigned'' \<and> jobs_ok d' \<and>
      job_status_of d' = (job_status_of demo_jobs_db)(Uuid 1 \<mapsto> ''assigned'')
  | (Inl _, d', _) \<Rightarrow> False"
proof -
  let ?t = "jobs_transition_status (\<lambda>_. []) 5 (Uuid 1) ''pending'' ''assigned'' (Some ''w1'') None None
      demo_jobs_db []"
  have "is_ok (fst ?t)" by code_simp
  then show ?thesis
    using transition_exact [OF demo_jobs_ok, where su = "\<lambda>_. []" and now = 5 and i = "Uuid 1"
        and f = "''pending''" and t = "''assigned''" and w = "Some ''w1''" and e = None and r = None]
    by (cases ?t; cases "fst ?t") auto
qed

lemma transition_one_winner_witness:
  "\<not> is_ok (fst (jobs_transition_status (\<lambda>_. []) 6 (Uuid 1) ''pending'' ''cancelled'' None None None
     (fst (snd (jobs_transition_status (\<lambda>_. []) 5 (Uuid 1) ''pending'' ''assigned'' (Some ''w1'')
        None None demo_jobs_db []))) []))"
proof -
  let ?t = "jobs_transition_status (\<lambda>_. []) 5 (Uuid 1) ''pending'' ''assigned'' (Some ''w1'') None None
      demo_jobs_db []"
  have "is_ok (fst ?t)" by code_simp
  then obtain row where "?t = (Inr row, fst (snd ?t), snd (snd ?t))"
    by (cases ?t; cases "fst ?t") auto
  from transition_one_winner [OF demo_jobs_ok _ this] show ?thesis by simp
qed

end
