(* ===== verification/Proto.thy ===== *)
theory Proto
  imports Domain_Types
begin

text \<open>
  The messages of the protocol (\<open>decentgpu-proto/proto/messages.proto\<close>): the protobuf types the
  binaries exchange. Enumerations travel as \<open>i32\<close>. The wire format itself is the work of the
  protobuf library: encoders and decoders are arguments of the definitions that use them, with
  \<open>faithful_on\<close> as the documented fact that a decoder undoes its encoder on the messages at hand.
\<close>

type_synonym bytes = "u8 list"

datatype proto_gpu = ProtoGpu (pg_name: string) (pg_vram: u64) (pg_backend: int)
datatype proto_cpu = ProtoCpu (pc_model: string) (pc_cores: u32) (pc_threads: u32) (pc_freq: u64)

record proto_caps =
  pcap_peer :: string
  pcap_gpus :: "proto_gpu list"
  pcap_cpu :: "proto_cpu option"
  pcap_ram :: u64
  pcap_disk :: u64
  pcap_os :: string
  pcap_version :: string

definition default_proto_caps :: proto_caps where
  "default_proto_caps = \<lparr>pcap_peer = [], pcap_gpus = [], pcap_cpu = None, pcap_ram = 0,
     pcap_disk = 0, pcap_os = [], pcap_version = []\<rparr>"

record job_spec =
  js_job_id :: string
  js_hirer_id :: string
  js_duration :: u64
  js_memory :: u64
  js_cpu_percent :: u64
  js_backend :: int
  js_image_hash :: string
  js_image_size :: u64
  js_code :: bytes
  js_requirements :: bytes

record job_assignment =
  ja_spec :: "job_spec option"
  ja_master :: string

record job_ack =
  jk_job_id :: string
  jk_accepted :: bool
  jk_reason :: string

record job_completed =
  jc_job_id :: string
  jc_success :: bool
  jc_error :: string
  jc_duration :: u64
  jc_result_size :: u64
  jc_output :: string

record heart_beat =
  hb_peer :: string
  hb_uptime :: f64
  hb_busy :: bool
  hb_jobs :: u64

record transfer_chunk =
  tc_id :: string
  tc_offset :: u64
  tc_data :: bytes
  tc_last :: bool
  tc_sha256 :: string

record transfer_ack =
  ta_id :: string
  ta_offset :: u64
  ta_ok :: bool

record register_worker =
  rw_peer :: string
  rw_jwt :: string
  rw_caps :: "proto_caps option"

record register_ack =
  ra_success :: bool
  ra_error :: string
  ra_user :: string

datatype payload =
    PWorkerCapabilities proto_caps
  | PJobAssignment job_assignment
  | PJobAccepted string
  | PJobRejected string string
  | PLogLine string int int string
  | PTransferChunk transfer_chunk
  | PTransferAck transfer_ack
  | PJobCompleted job_completed
  | PHeartBeat heart_beat
  | PRegisterWorker register_worker
  | PRegisterWorkerAck register_ack

text \<open>An envelope is an optional payload.\<close>

type_synonym envelope = "payload option"

definition faithful_on :: "('m \<Rightarrow> bytes) \<Rightarrow> (bytes \<Rightarrow> 'm option) \<Rightarrow> 'm set \<Rightarrow> bool" where
  "faithful_on enc dec M \<longleftrightarrow> (\<forall>m\<in>M. dec (enc m) = Some m)"

lemma faithful_onD: "faithful_on enc dec M \<Longrightarrow> m \<in> M \<Longrightarrow> dec (enc m) = Some m"
  by (simp add: faithful_on_def)

section \<open>Backends on the wire\<close>

text \<open>\<open>GpuBackend::try_from(i).unwrap_or_default()\<close>\<close>

definition backend_of_i32 :: "int \<Rightarrow> gpu_backend" where
  "backend_of_i32 i = (if i = 1 then Cuda else if i = 2 then Metal else if i = 3 then Rocm else CpuOnly)"

fun i32_of_backend :: "gpu_backend \<Rightarrow> int" where
  "i32_of_backend CpuOnly = 0"
| "i32_of_backend Cuda = 1"
| "i32_of_backend Metal = 2"
| "i32_of_backend Rocm = 3"

lemma backend_i32_roundtrip [simp]: "backend_of_i32 (i32_of_backend b) = b"
  by (cases b) (simp_all add: backend_of_i32_def)

definition proto_caps_to_common :: "proto_caps \<Rightarrow> worker_capabilities" where
  "proto_caps_to_common c =
     \<lparr>gpus = map (\<lambda>g. \<lparr>gpu_name = pg_name g, vram_mb = pg_vram g,
                       gpu_kind = backend_of_i32 (pg_backend g)\<rparr>) (pcap_gpus c),
      cpu = (case pcap_cpu c of
               Some p \<Rightarrow> \<lparr>cpu_model = pc_model p, cores = pc_cores p, threads = pc_threads p,
                          freq_mhz = pc_freq p\<rparr>
             | None \<Rightarrow> \<lparr>cpu_model = [], cores = 1, threads = 1, freq_mhz = 0\<rparr>),
      ram_mb = pcap_ram c, disk_mb = pcap_disk c, os_name = pcap_os c,
      worker_version = pcap_version c\<rparr>"

text \<open>The JSON that registration stores in the database.\<close>

definition serialize_capabilities :: "proto_caps option \<Rightarrow> json" where
  "serialize_capabilities caps =
     (case caps of
        None \<Rightarrow> JObj [(''gpus'', JArr []), (''ram_mb'', JNum 0), (''disk_mb'', JNum 0),
                      (''os'', JStr []), (''worker_version'', JStr [])]
      | Some c \<Rightarrow>
          JObj [(''gpus'', JArr (map (\<lambda>g. JObj [(''name'', JStr (pg_name g)),
                   (''vram_mb'', JNum (uint (pg_vram g))),
                   (''backend'', JStr (gpu_backend_as_str (backend_of_i32 (pg_backend g))))]) (pcap_gpus c))),
                (''cpu'', case pcap_cpu c of
                   None \<Rightarrow> JNull
                 | Some p \<Rightarrow> JObj [(''model'', JStr (pc_model p)), (''cores'', JNum (uint (pc_cores p))),
                     (''threads'', JNum (uint (pc_threads p))), (''freq_mhz'', JNum (uint (pc_freq p)))]),
                (''ram_mb'', JNum (uint (pcap_ram c))), (''disk_mb'', JNum (uint (pcap_disk c))),
                (''os'', JStr (pcap_os c)), (''worker_version'', JStr (pcap_version c))])"

end
