(* ===== verification/Scheduler.thy ===== *)
theory Scheduler
  imports Matcher Jobs_Db Proto
begin

text \<open>
  The job scheduler (\<open>scheduler/mod.rs\<close>): its map of online workers, its map of pending jobs with
  the workers already tried, and one function per event of its loop. The state also holds the
  database, the faults its statements will meet and the commands sent to the P2P layer. The
  iteration orders of the two hash maps, the clock, the file system and the text of a UUID are the
  fields of the environment.
\<close>

section \<open>State\<close>

record sched_env =
  se_values :: "worker_candidate list \<Rightarrow> worker_candidate list"
  se_keys :: "uuid list \<Rightarrow> uuid list"
  se_now :: timestamp
  se_read :: "string list \<Rightarrow> bytes option"
  se_uuid :: "uuid \<Rightarrow> string"
  se_storage :: string

record sched =
  sc_online :: "(peer_id \<times> worker_candidate) list"
  sc_pending :: "(uuid \<times> peer_id list) list"
  sc_db :: db
  sc_faults :: "fault list"
  sc_sent :: "(peer_id \<times> job_assignment) list"

definition with_db :: "sched \<Rightarrow> db \<Rightarrow> fault list \<Rightarrow> sched" where
  "with_db s d fs = s\<lparr>sc_db := d, sc_faults := fs\<rparr>"

section \<open>Assigning one job\<close>

definition proto_backend_of_text :: "string \<Rightarrow> int" where
  "proto_backend_of_text b =
     (if b = ''cuda'' then 1 else if b = ''metal'' then 2 else if b = ''rocm'' then 3 else 0)"

definition build_job_assignment :: "sched_env \<Rightarrow> uuid \<Rightarrow> peer_id \<Rightarrow> job_assignment dbm" where
  "build_job_assignment env i peer =
     bind_db (jobs_find_by_id i) (\<lambda>found.
     bind_db (ok_or_db (Internal (''job not found: '' @ se_uuid env i)) found) (\<lambda>row.
     return_db
       \<lparr>ja_spec = Some
          \<lparr>js_job_id = se_uuid env i,
           js_hirer_id = se_uuid env (j_hirer row),
           js_duration = i64_as_u64 (unwrap_or 3600 (j_duration_secs row)),
           js_memory = i64_as_u64 (unwrap_or 512 (j_memory_mb row)),
           js_cpu_percent = 50,
           js_backend = proto_backend_of_text (j_backend row),
           js_image_hash = [],
           js_image_size = 0,
           js_code = unwrap_or [] (se_read env [se_storage env, se_uuid env i, ''code.py'']),
           js_requirements =
             unwrap_or [] (se_read env [se_storage env, se_uuid env i, ''requirements.txt''])\<rparr>,
        ja_master = peer\<rparr>))"

definition tried_peers :: "sched \<Rightarrow> uuid \<Rightarrow> peer_id list" where
  "tried_peers s i = unwrap_or [] (map_of (sc_pending s) i)"

definition sched_candidates :: "sched_env \<Rightarrow> sched \<Rightarrow> uuid \<Rightarrow> worker_candidate list" where
  "sched_candidates env s i =
     filter (\<lambda>w. c_peer w \<notin> set (tried_peers s i)) (se_values env (map snd (sc_online s)))"

definition assign_to :: "sched_env \<Rightarrow> uuid \<Rightarrow> peer_id \<Rightarrow> sched \<Rightarrow> sched" where
  "assign_to env i peer s =
     (case jobs_transition_status (se_uuid env) (se_now env) i ''pending'' ''assigned''
             (Some peer) None None (sc_db s) (sc_faults s) of
        (Inl _, d, fs) \<Rightarrow> with_db s d fs
      | (Inr _, d, fs) \<Rightarrow>
          (case build_job_assignment env i peer d fs of
             (Inl _, d', fs') \<Rightarrow> with_db s d' fs'
           | (Inr a, d', fs') \<Rightarrow>
               (with_db s d' fs')
                 \<lparr>sc_sent := sc_sent s @ [(peer, a)],
                  sc_pending := hm_insert i (tried_peers s i @ [peer]) (sc_pending s)\<rparr>))"

definition try_assign_one :: "sched_env \<Rightarrow> uuid \<Rightarrow> match_request \<Rightarrow> sched \<Rightarrow> sched" where
  "try_assign_one env i req s =
     (case select_workers (sched_candidates env s i) req of
        [] \<Rightarrow> s
      | peer # _ \<Rightarrow> assign_to env i peer s)"

section \<open>Loops over the pending jobs\<close>

definition request_of_row :: "job_row \<Rightarrow> match_request" where
  "request_of_row row =
     \<lparr>required_backend = (case gpu_backend_from_str (j_backend row) of Inr b \<Rightarrow> b | Inl _ \<Rightarrow> CpuOnly),
      memory_limit_mb = i64_as_u64 (unwrap_or 512 (j_memory_mb row)),
      max_duration_secs = i64_as_u64 (unwrap_or 3600 (j_duration_secs row))\<rparr>"

definition drop_pending :: "uuid \<Rightarrow> sched \<Rightarrow> sched" where
  "drop_pending i s = s\<lparr>sc_pending := hm_remove i (sc_pending s)\<rparr>"

definition assign_pending_job :: "sched_env \<Rightarrow> uuid \<Rightarrow> sched \<Rightarrow> sched" where
  "assign_pending_job env i s =
     (case jobs_find_by_id i (sc_db s) (sc_faults s) of
        (Inr (Some row), d, fs) \<Rightarrow>
          if j_status row \<noteq> ''pending'' then drop_pending i (with_db s d fs)
          else try_assign_one env i (request_of_row row) (with_db s d fs)
      | (_, d, fs) \<Rightarrow> with_db s d fs)"

definition try_assign_pending :: "sched_env \<Rightarrow> sched \<Rightarrow> sched" where
  "try_assign_pending env s = fold (assign_pending_job env) (se_keys env (map fst (sc_pending s))) s"

text \<open>\<open>num_seconds\<close> of a difference of two times, truncated towards zero.\<close>

definition num_seconds :: "int \<Rightarrow> int" where
  "num_seconds us = (if 0 \<le> us then us div 1000000 else - ((- us) div 1000000))"

definition retry_job :: "sched_env \<Rightarrow> uuid \<Rightarrow> sched \<Rightarrow> sched" where
  "retry_job env i s =
     (case jobs_find_by_id i (sc_db s) (sc_faults s) of
        (Inr (Some row), d, fs) \<Rightarrow>
          if j_status row \<noteq> ''pending'' then drop_pending i (with_db s d fs)
          else if 30 < num_seconds (se_now env - j_created_at row)
            then try_assign_one env i (request_of_row row) (with_db s d fs)
          else with_db s d fs
      | (_, d, fs) \<Rightarrow> drop_pending i (with_db s d fs))"

definition retry_stale_pending :: "sched_env \<Rightarrow> sched \<Rightarrow> sched" where
  "retry_stale_pending env s = fold (retry_job env) (se_keys env (map fst (sc_pending s))) s"

section \<open>A worker goes offline\<close>

definition fail_and_requeue :: "sched_env \<Rightarrow> peer_id \<Rightarrow> job_row \<Rightarrow> sched \<Rightarrow> sched" where
  "fail_and_requeue env peer row s =
     (if j_worker row = Some peer \<and> j_status row \<in> {''assigned'', ''running''} then
        let (_, d, fs) = jobs_transition_status (se_uuid env) (se_now env) (j_id row) (j_status row)
              ''failed'' None (Some ''worker went offline'') None (sc_db s) (sc_faults s);
            s' = (with_db s d fs)\<lparr>sc_pending := hm_insert (j_id row) [peer] (sc_pending s)\<rparr>;
            (_, d', fs') = jobs_transition_status (se_uuid env) (se_now env) (j_id row) ''failed''
              ''pending'' None None None (sc_db s') (sc_faults s') in
        with_db s' d' fs'
      else s)"

definition handle_worker_offline :: "sched_env \<Rightarrow> peer_id \<Rightarrow> sched \<Rightarrow> sched" where
  "handle_worker_offline env peer s =
     (case jobs_list_by_hirer uuid_nil 1000 0 (sc_db s) (sc_faults s) of
        (Inl _, d, fs) \<Rightarrow> with_db s d fs
      | (Inr rows, d, fs) \<Rightarrow> fold (fail_and_requeue env peer) rows (with_db s d fs))"

section \<open>Events\<close>

datatype sched_event =
    Enqueue uuid match_request
  | WorkerOnline peer_id proto_caps
  | WorkerOffline peer_id
  | WorkerHeartbeat peer_id f64 bool u64
  | RetryTick

definition default_caps :: worker_capabilities where
  "default_caps =
     \<lparr>gpus = [], cpu = \<lparr>cpu_model = [], cores = 1, threads = 1, freq_mhz = 0\<rparr>,
      ram_mb = 0, disk_mb = 0, os_name = [], worker_version = []\<rparr>"

fun sched_step :: "sched_env \<Rightarrow> sched \<Rightarrow> sched_event \<Rightarrow> sched" where
  "sched_step env s (Enqueue i req) =
     try_assign_one env i req (s\<lparr>sc_pending := hm_insert i [] (sc_pending s)\<rparr>)"
| "sched_step env s (WorkerOnline peer caps) =
     try_assign_pending env (s\<lparr>sc_online := hm_insert peer
       \<lparr>c_peer = peer, c_caps = proto_caps_to_common caps, c_uptime = Fin 100, c_jobs = 0,
        c_busy = False\<rparr> (sc_online s)\<rparr>)"
| "sched_step env s (WorkerOffline peer) =
     handle_worker_offline env peer (s\<lparr>sc_online := hm_remove peer (sc_online s)\<rparr>)"
| "sched_step env s (WorkerHeartbeat peer uptime busy n) =
     (case map_of (sc_online s) peer of
        Some w \<Rightarrow>
          s\<lparr>sc_online := hm_insert peer (w\<lparr>c_uptime := uptime, c_busy := busy, c_jobs := n\<rparr>)
              (sc_online s)\<rparr>
      | None \<Rightarrow>
          let s' = s\<lparr>sc_online := hm_insert peer
                \<lparr>c_peer = peer, c_caps = default_caps, c_uptime = uptime, c_jobs = n, c_busy = busy\<rparr>
                (sc_online s)\<rparr> in
          if \<not> busy then try_assign_pending env s' else s')"
| "sched_step env s RetryTick = retry_stale_pending env s"

section \<open>One assignment\<close>

text \<open>The two hash maps have distinct keys, and a candidate is stored under its own peer id.\<close>

definition sched_wf :: "sched \<Rightarrow> bool" where
  "sched_wf s \<longleftrightarrow> hm_wf (sc_online s) \<and> hm_wf (sc_pending s) \<and>
     (\<forall>(p, w)\<in>set (sc_online s). c_peer w = p) \<and> jobs_ok (sc_db s)"

lemma with_db_sel [simp]:
  "sc_online (with_db s d fs) = sc_online s" "sc_pending (with_db s d fs) = sc_pending s"
  "sc_db (with_db s d fs) = d" "sc_faults (with_db s d fs) = fs" "sc_sent (with_db s d fs) = sc_sent s"
  "tried_peers (with_db s d fs) i = tried_peers s i"
  "sched_candidates env (with_db s d fs) i = sched_candidates env s i"
  by (simp_all add: with_db_def tried_peers_def sched_candidates_def)

lemma find_by_id_db [simp]: "fst (snd (jobs_find_by_id i d fs)) = d"
  by (auto simp: jobs_find_by_id_def stmt_def split: prod.splits fault.splits)

lemma find_by_id_ok: "jobs_find_by_id i d fs = (Inr x, d', fs') \<Longrightarrow> d' = d \<and> x = find_job i d"
  by (auto simp: jobs_find_by_id_def stmt_def split: prod.splits fault.splits)

lemma build_assignment_db: "build_job_assignment env i p d fs = (r, d', fs') \<Longrightarrow> d' = d"
  using find_by_id_db [of i d fs]
  by (cases "jobs_find_by_id i d fs")
    (auto simp: build_job_assignment_def bind_db_def ok_or_db_def throw_db_def return_db_def
      split: sum.splits option.splits)

lemma build_assignment_ok:
  "build_job_assignment env i p d fs = (Inr a, d', fs') \<Longrightarrow>
   \<exists>spec. ja_spec a = Some spec \<and> ja_master a = p \<and> js_job_id spec = se_uuid env i"
  by (auto simp: build_job_assignment_def bind_db_def ok_or_db_def throw_db_def return_db_def
      dest: find_by_id_ok split: prod.splits sum.splits option.splits)

lemma select_workers_eligible:
  "p \<in> set (select_workers cs req) \<Longrightarrow> \<exists>c\<in>set cs. c_peer c = p \<and> eligible req c"
  unfolding select_workers_scored scored_def sort_by_def
  by (auto dest!: in_set_takeD)

text \<open>
  \<open>assign_outcome\<close>: either nothing was sent and at most the database moved the job to assigned, or
  the job was moved to assigned and one assignment was sent.
\<close>

lemma try_assign_one_cases:
  assumes ok: "jobs_ok (sc_db s)"
  obtains
    (none) "sc_db (try_assign_one env i req s) = sc_db s" "sc_sent (try_assign_one env i req s) = sc_sent s"
      "sc_pending (try_assign_one env i req s) = sc_pending s"
  | (lost) p row where "sc_sent (try_assign_one env i req s) = sc_sent s"
      "sc_pending (try_assign_one env i req s) = sc_pending s"
      "jobs_transition_status (se_uuid env) (se_now env) i ''pending'' ''assigned'' (Some p) None None
         (sc_db s) [] = (Inr row, sc_db (try_assign_one env i req s), [])"
      "p \<in> set (select_workers (sched_candidates env s i) req)"
  | (sent) p row a where "sc_sent (try_assign_one env i req s) = sc_sent s @ [(p, a)]"
      "sc_pending (try_assign_one env i req s) = hm_insert i (tried_peers s i @ [p]) (sc_pending s)"
      "jobs_transition_status (se_uuid env) (se_now env) i ''pending'' ''assigned'' (Some p) None None
         (sc_db s) [] = (Inr row, sc_db (try_assign_one env i req s), [])"
      "p \<in> set (select_workers (sched_candidates env s i) req)"
      "\<exists>spec. ja_spec a = Some spec \<and> js_job_id spec = se_uuid env i"
proof (cases "select_workers (sched_candidates env s i) req")
  case Nil
  then show thesis using none by (simp add: try_assign_one_def)
next
  case (Cons p ps)
  then have p: "p \<in> set (select_workers (sched_candidates env s i) req)" by simp
  obtain r d fs where t: "jobs_transition_status (se_uuid env) (se_now env) i ''pending'' ''assigned''
      (Some p) None None (sc_db s) (sc_faults s) = (r, d, fs)"
    by (cases "jobs_transition_status (se_uuid env) (se_now env) i ''pending'' ''assigned''
      (Some p) None None (sc_db s) (sc_faults s)")
  show thesis
  proof (cases r)
    case (Inl e)
    then have eq: "try_assign_one env i req s = with_db s d fs"
      using Cons t by (simp add: try_assign_one_def assign_to_def)
    show thesis
    proof (cases rule: transition_cases [OF t])
      case 1
      with eq none show thesis by simp
    next
      case (2 row)
      with eq lost [of p row] p show thesis by simp
    qed
  next
    case (Inr row)
    have d: "jobs_transition_status (se_uuid env) (se_now env) i ''pending'' ''assigned''
        (Some p) None None (sc_db s) [] = (Inr row, d, [])"
      by (rule tameD [OF tame_transition t [unfolded Inr]])
    obtain r2 d2 fs2 where b: "build_job_assignment env i p d fs = (r2, d2, fs2)"
      by (cases "build_job_assignment env i p d fs")
    have d2: "d2 = d" using build_assignment_db [OF b] .
    show thesis
    proof (cases r2)
      case (Inl e)
      then have "try_assign_one env i req s = with_db s d fs2"
        using Cons t Inr b d2 by (simp add: try_assign_one_def assign_to_def)
      with lost [of p row] p d show thesis by simp
    next
      case (Inr a)
      then have "try_assign_one env i req s = (with_db s d fs2)\<lparr>sc_sent := sc_sent s @ [(p, a)],
          sc_pending := hm_insert i (tried_peers s i @ [p]) (sc_pending s)\<rparr>"
        using Cons t \<open>r = Inr row\<close> b d2 by (simp add: try_assign_one_def assign_to_def)
      with sent [of p a row] p d build_assignment_ok [OF b [unfolded Inr]] show thesis by auto
    qed
  qed
qed

lemma sched_candidate_online:
  assumes "sched_wf s" "iter_order (se_values env)" "c \<in> set (sched_candidates env s i)"
  shows "map_of (sc_online s) (c_peer c) = Some c \<and> c_peer c \<notin> set (tried_peers s i)"
proof -
  have "c \<in> snd ` set (sc_online s)" "c_peer c \<notin> set (tried_peers s i)"
    using assms(2,3) by (auto simp: sched_candidates_def iter_order_set)
  moreover from this(1) obtain p where "(p, c) \<in> set (sc_online s)" by force
  ultimately show ?thesis using assms(1) by (auto simp: sched_wf_def hm_wf_def)
qed

text \<open>
  C15. An assignment goes only to an online worker that is idle, fits the request and was not tried
  before for this job, and only after the job went from pending to assigned in the database; the
  worker is then recorded as tried.
\<close>
theorem assignment_is_sound:
  "sched_wf s \<Longrightarrow> iter_order (se_values env) \<Longrightarrow>
   sc_sent (try_assign_one env i req s) = sc_sent s \<or>
   (\<exists>p a w. sc_sent (try_assign_one env i req s) = sc_sent s @ [(p, a)] \<and>
      map_of (sc_online s) p = Some w \<and> eligible req w \<and> p \<notin> set (tried_peers s i) \<and>
      job_status_of (sc_db s) i = Some ''pending'' \<and>
      job_status_of (sc_db (try_assign_one env i req s)) i = Some ''assigned'' \<and>
      p \<in> set (tried_peers (try_assign_one env i req s) i))"
proof -
  assume wf: "sched_wf s" and it: "iter_order (se_values env)"
  then have ok: "jobs_ok (sc_db s)" by (simp add: sched_wf_def)
  show ?thesis
  proof (cases rule: try_assign_one_cases [OF ok, of env i req])
    case (3 p row a)
    note sent = 3
    obtain c where c: "c \<in> set (sched_candidates env s i)" "c_peer c = p" "eligible req c"
      using select_workers_eligible [OF sent(4)] by blast
    with sched_candidate_online [OF wf it c(1)] sent(1) transition_job_status [OF ok sent(3)]
    show ?thesis by (auto simp: sent(2) tried_peers_def)
  qed simp_all
qed

section \<open>No job is dispatched twice\<close>

definition no_nil_hirer :: "db \<Rightarrow> bool" where
  "no_nil_hirer d \<longleftrightarrow> (\<forall>j\<in>set (jobs d). j_hirer j \<noteq> uuid_nil)"

definition dispatched_id :: "peer_id \<times> job_assignment \<Rightarrow> string" where
  "dispatched_id m = js_job_id (the (ja_spec (snd m)))"

definition dispatch_inv :: "(uuid \<Rightarrow> string) \<Rightarrow> sched \<Rightarrow> bool" where
  "dispatch_inv su s \<longleftrightarrow>
     jobs_ok (sc_db s) \<and> no_nil_hirer (sc_db s) \<and> distinct (map dispatched_id (sc_sent s)) \<and>
     (\<forall>m\<in>set (sc_sent s). \<exists>i st. dispatched_id m = su i \<and>
        job_status_of (sc_db s) i = Some st \<and> st \<noteq> ''pending'')"

lemma no_nil_transition:
  assumes "no_nil_hirer d" "jobs_transition_status su now i f t w e r d fs = (Inr row, d', fs')"
  shows "no_nil_hirer d'"
  using assms(1) unfolding no_nil_hirer_def transition_success(1) [OF assms(2)]
  by (auto simp: set_update_where)

lemma dispatch_inv_pending [simp]:
  "dispatch_inv su (s\<lparr>sc_pending := p\<rparr>) = dispatch_inv su s"
  "dispatch_inv su (s\<lparr>sc_online := q\<rparr>) = dispatch_inv su s"
  "dispatch_inv su (drop_pending i s) = dispatch_inv su s"
  "dispatch_inv su (with_db s (sc_db s) fs) = dispatch_inv su s"
  by (simp_all add: dispatch_inv_def drop_pending_def)

lemma dispatch_inv_assign:
  assumes inj: "inj su" and su: "se_uuid env = su" and inv: "dispatch_inv su s"
  shows "dispatch_inv su (try_assign_one env i req s)"
proof -
  let ?s = "try_assign_one env i req s"
  from inv have ok: "jobs_ok (sc_db s)" and nn: "no_nil_hirer (sc_db s)"
    and sent: "\<forall>m\<in>set (sc_sent s). \<exists>i st. dispatched_id m = su i \<and>
        job_status_of (sc_db s) i = Some st \<and> st \<noteq> ''pending''"
    by (simp_all add: dispatch_inv_def)
  have moved: "jobs_ok (sc_db ?s) \<and> no_nil_hirer (sc_db ?s) \<and> job_status_of (sc_db s) i = Some ''pending'' \<and>
      job_status_of (sc_db ?s) i = Some ''assigned'' \<and>
      (\<forall>m\<in>set (sc_sent s). \<exists>k st. k \<noteq> i \<and> dispatched_id m = su k \<and>
        job_status_of (sc_db ?s) k = Some st \<and> st \<noteq> ''pending'')"
    if "jobs_transition_status (se_uuid env) (se_now env) i ''pending'' ''assigned'' (Some p) None None
         (sc_db s) [] = (Inr row, sc_db ?s, [])" for p row
  proof -
    note st = transition_job_status [OF ok that]
    have "\<exists>k st. k \<noteq> i \<and> dispatched_id m = su k \<and> job_status_of (sc_db ?s) k = Some st \<and> st \<noteq> ''pending''"
      if m: "m \<in> set (sc_sent s)" for m
    proof -
      obtain k x where k: "dispatched_id m = su k" "job_status_of (sc_db s) k = Some x" "x \<noteq> ''pending''"
        using bspec [OF sent m] by (elim exE conjE)
      have "k \<noteq> i"
      proof
        assume "k = i"
        with k(2) st(1) have "x = ''pending''" by simp
        with k(3) show False by simp
      qed
      then have "job_status_of (sc_db ?s) k = Some x" using k(2) st(2) [of k] by simp
      then show ?thesis using k \<open>k \<noteq> i\<close> by (intro exI [of _ k] exI [of _ x]) simp
    qed
    then show ?thesis using st no_nil_transition [OF nn that] by auto
  qed
  show ?thesis
  proof (cases rule: try_assign_one_cases [OF ok, of env i req])
    case 1
    with inv show ?thesis by (simp add: dispatch_inv_def)
  next
    case (2 p row)
    with moved [OF 2(3)] inv show ?thesis unfolding dispatch_inv_def by metis
  next
    case (3 p row a)
    note sent = 3
    have id: "dispatched_id (p, a) = su i" using sent(5) su by (auto simp: dispatched_id_def)
    have "su i \<notin> dispatched_id ` set (sc_sent s)"
      using moved [OF sent(3)] inj by (auto simp: inj_eq)
    moreover have "\<exists>k st. dispatched_id m = su k \<and> job_status_of (sc_db ?s) k = Some st \<and> st \<noteq> ''pending''"
      if m: "m \<in> set (sc_sent s @ [(p, a)])" for m
    proof (cases "m \<in> set (sc_sent s)")
      case True
      then show ?thesis using moved [OF sent(3)] by blast
    next
      case False
      then have "dispatched_id m = su i" using m id by simp
      then show ?thesis using moved [OF sent(3)]
        by (intro exI [of _ i] exI [of _ "''assigned''"]) simp
    qed
    ultimately show ?thesis
      using moved [OF sent(3)] inv id unfolding dispatch_inv_def sent(1) by simp
  qed
qed

lemma offline_lists_nothing:
  assumes "no_nil_hirer d" "jobs_list_by_hirer uuid_nil 1000 0 d fs = (r, d', fs')"
  shows "d' = d \<and> (\<forall>rows. r = Inr rows \<longrightarrow> rows = [])"
proof -
  have "filter (\<lambda>j. j_hirer j = uuid_nil) (jobs d) = []"
    using assms(1) by (auto simp: no_nil_hirer_def filter_empty_conv)
  with assms(2) show ?thesis
    by (auto simp: jobs_list_by_hirer_def stmt_def run_sql_def page_sql_def sql_page_def
        order_desc_def order_by_def split: prod.splits fault.splits)
qed

lemma offline_does_nothing:
  assumes "no_nil_hirer (sc_db s)"
  shows "\<exists>fs. handle_worker_offline env p s = with_db s (sc_db s) fs"
proof -
  obtain r d fs where run: "jobs_list_by_hirer uuid_nil 1000 0 (sc_db s) (sc_faults s) = (r, d, fs)"
    by (cases "jobs_list_by_hirer uuid_nil 1000 0 (sc_db s) (sc_faults s)")
  from offline_lists_nothing [OF assms run] run show ?thesis
    by (cases r) (auto simp: handle_worker_offline_def)
qed

text \<open>
  What an event of the scheduler preserves: whatever one assignment preserves, as long as it does not
  depend on the maps and the faults and excludes the nil hirer.
\<close>

locale assign_invariant =
  fixes env :: sched_env and inv :: "sched \<Rightarrow> bool"
  assumes inv_maps: "inv s \<Longrightarrow> inv (s\<lparr>sc_pending := p\<rparr>)" "inv s \<Longrightarrow> inv (s\<lparr>sc_online := q\<rparr>)"
    and inv_faults: "inv s \<Longrightarrow> inv (with_db s (sc_db s) fs)"
    and inv_hirers: "inv s \<Longrightarrow> no_nil_hirer (sc_db s)"
    and inv_assign: "inv s \<Longrightarrow> inv (try_assign_one env i req s)"
begin

lemma inv_drop: "inv s \<Longrightarrow> inv (drop_pending i s)"
  by (simp add: drop_pending_def inv_maps)

lemma inv_one_job:
  assumes "inv s" shows "inv (assign_pending_job env i s) \<and> inv (retry_job env i s)"
proof -
  obtain r d fs where f: "jobs_find_by_id i (sc_db s) (sc_faults s) = (r, d, fs)"
    by (cases "jobs_find_by_id i (sc_db s) (sc_faults s)")
  have d: "d = sc_db s" using find_by_id_db [of i "sc_db s" "sc_faults s"] f by simp
  have w: "inv (with_db s d fs)" using inv_faults [OF assms] by (simp add: d)
  note ok = w inv_drop [OF w] inv_assign [OF w]
  show ?thesis
  proof (cases r)
    case (Inl e)
    then show ?thesis using ok by (simp add: assign_pending_job_def retry_job_def f)
  next
    case (Inr found)
    then show ?thesis using ok
      by (cases found) (simp_all add: assign_pending_job_def retry_job_def f)
  qed
qed

lemma inv_loops:
  assumes "inv s"
  shows "inv (try_assign_pending env s)" "inv (retry_stale_pending env s)"
proof -
  show "inv (try_assign_pending env s)"
    unfolding try_assign_pending_def
    by (rule fold_invariant [where Q = "\<lambda>_. True"]) (use assms inv_one_job in auto)
  show "inv (retry_stale_pending env s)"
    unfolding retry_stale_pending_def
    by (rule fold_invariant [where Q = "\<lambda>_. True"]) (use assms inv_one_job in auto)
qed

lemma inv_offline: "inv s \<Longrightarrow> inv (handle_worker_offline env p s)"
  using offline_does_nothing [OF inv_hirers, of s env p] inv_faults by auto

lemma inv_step: "inv s \<Longrightarrow> inv (sched_step env s ev)"
  by (cases ev) (auto simp: Let_def intro!: inv_assign inv_loops inv_offline inv_maps split: option.splits)

end

lemma dispatch_inv_hirers: "dispatch_inv su s \<Longrightarrow> no_nil_hirer (sc_db s)"
  by (simp add: dispatch_inv_def)

interpretation dispatch_assign: assign_invariant env "\<lambda>s. inj su \<and> se_uuid env = su \<and> dispatch_inv su s" for env su
  by unfold_locales (auto simp: dispatch_inv_assign intro: dispatch_inv_hirers)

text \<open>
  When a worker goes offline the scheduler forgets it and does nothing else: as long as no user
  has the nil UUID, the query for its jobs finds none, so they stay assigned to it and are not
  queued again.
\<close>
theorem offline_strands_jobs:
  "no_nil_hirer (sc_db s) \<Longrightarrow>
   sc_db (sched_step env s (WorkerOffline p)) = sc_db s \<and>
   sc_pending (sched_step env s (WorkerOffline p)) = sc_pending s \<and>
   sc_sent (sched_step env s (WorkerOffline p)) = sc_sent s \<and>
   map_of (sc_online (sched_step env s (WorkerOffline p))) p = None"
  using offline_does_nothing [of "s\<lparr>sc_online := hm_remove p (sc_online s)\<rparr>" env p] by auto

section \<open>The retry timer\<close>

lemma retry_job_frame:
  assumes ok: "jobs_ok (sc_db s)" and nf: "sc_faults s = []"
  shows "jobs_ok (sc_db (retry_job env i s))" "sc_faults (retry_job env i s) = []"
    "k \<noteq> i \<Longrightarrow> job_status_of (sc_db (retry_job env i s)) k = job_status_of (sc_db s) k"
    "k \<noteq> i \<Longrightarrow> map_of (sc_pending (retry_job env i s)) k = map_of (sc_pending s) k"
    "map_of (sc_pending (retry_job env i s)) i \<noteq> None \<Longrightarrow> job_status_of (sc_db s) i = Some ''pending''"
proof -
  have f: "jobs_find_by_id i (sc_db s) (sc_faults s) = (Inr (find_job i (sc_db s)), sc_db s, [])"
    by (simp add: jobs_find_by_id_def stmt_nil nf)
  have ws: "with_db s (sc_db s) [] = s" by (simp add: with_db_def nf)
  have assign: "jobs_ok (sc_db (try_assign_one env i req s)) \<and> sc_faults (try_assign_one env i req s) = [] \<and>
      (k \<noteq> i \<longrightarrow> job_status_of (sc_db (try_assign_one env i req s)) k = job_status_of (sc_db s) k) \<and>
      (k \<noteq> i \<longrightarrow> map_of (sc_pending (try_assign_one env i req s)) k = map_of (sc_pending s) k)" for req k
  proof -
    have fl: "sc_faults (try_assign_one env i req s) = []"
      by (auto simp: try_assign_one_def assign_to_def nf jobs_transition_status_def build_job_assignment_def
          jobs_find_by_id_def bind_db_def stmt_def ok_or_db_def throw_db_def return_db_def
          split: list.splits prod.splits sum.splits option.splits)
    show ?thesis
    proof (cases rule: try_assign_one_cases [OF ok, of env i req])
      case 1
      then show ?thesis using ok fl by simp
    next
      case (2 p row)
      then show ?thesis using transition_job_status [OF ok 2(3)] fl by simp
    next
      case (3 p row a)
      then show ?thesis using transition_job_status [OF ok 3(3)] fl by simp
    qed
  qed
  show "jobs_ok (sc_db (retry_job env i s))" "sc_faults (retry_job env i s) = []"
    "k \<noteq> i \<Longrightarrow> job_status_of (sc_db (retry_job env i s)) k = job_status_of (sc_db s) k"
    "k \<noteq> i \<Longrightarrow> map_of (sc_pending (retry_job env i s)) k = map_of (sc_pending s) k"
    using assign [of "request_of_row (the (find_job i (sc_db s)))" k] ok nf
    by (cases "find_job i (sc_db s)"; simp add: retry_job_def f [unfolded nf] f ws drop_pending_def)+
  show "map_of (sc_pending (retry_job env i s)) i \<noteq> None \<Longrightarrow> job_status_of (sc_db s) i = Some ''pending''"
    by (auto simp: retry_job_def f [unfolded nf] f ws drop_pending_def job_status_of_def
        split: option.splits if_splits)
qed

lemma retry_fold:
  assumes "distinct ks" "jobs_ok (sc_db s)" "sc_faults s = []"
  shows "(k \<in> set ks \<longrightarrow> map_of (sc_pending (fold (retry_job env) ks s)) k \<noteq> None \<longrightarrow>
      job_status_of (sc_db s) k = Some ''pending'') \<and>
    (k \<notin> set ks \<longrightarrow> map_of (sc_pending (fold (retry_job env) ks s)) k = map_of (sc_pending s) k)"
  using assms
proof (induction ks arbitrary: s)
  case (Cons i ks)
  note frame = retry_job_frame [OF Cons.prems(2,3), where env = env]
  have IH: "(k \<in> set ks \<longrightarrow> map_of (sc_pending (fold (retry_job env) ks (retry_job env i s))) k \<noteq> None \<longrightarrow>
      job_status_of (sc_db (retry_job env i s)) k = Some ''pending'') \<and>
    (k \<notin> set ks \<longrightarrow> map_of (sc_pending (fold (retry_job env) ks (retry_job env i s))) k =
      map_of (sc_pending (retry_job env i s)) k)"
    using Cons.prems frame(1,2) by (intro Cons.IH) auto
  then show ?case using frame(3) [of k i] frame(4) [of k i] frame(5) [of i] Cons.prems(1) by (cases "k = i") auto
qed simp

text \<open>
  The retry timer keeps the queue clean: after a tick without database faults, every job still
  queued was pending in the database when the timer fired. Jobs that were assigned, cancelled or
  finished in the meantime have left the queue.
\<close>
theorem tick_cleans_queue:
  "sched_wf s \<Longrightarrow> sc_faults s = [] \<Longrightarrow> (\<And>ks. mset (se_keys env ks) = mset ks) \<Longrightarrow>
   map_of (sc_pending (sched_step env s RetryTick)) i = Some tried \<Longrightarrow>
   job_status_of (sc_db s) i = Some ''pending''"
proof -
  assume wf: "sched_wf s" and nf: "sc_faults s = []" and keys: "\<And>ks. mset (se_keys env ks) = mset ks"
    and queued: "map_of (sc_pending (sched_step env s RetryTick)) i = Some tried"
  let ?ks = "se_keys env (map fst (sc_pending s))"
  have "distinct (map fst (sc_pending s))" using wf by (simp add: sched_wf_def hm_wf_def)
  then have d: "distinct ?ks" and st: "set ?ks = fst ` set (sc_pending s)"
    using keys by (metis mset_eq_imp_distinct_iff, metis list.set_map mset_eq_setD)
  have ok: "jobs_ok (sc_db s)" using wf by (simp add: sched_wf_def)
  note r = retry_fold [OF d ok nf, of i env]
  have "i \<in> set ?ks"
  proof (rule ccontr)
    assume "i \<notin> set ?ks"
    with r queued have "map_of (sc_pending s) i = Some tried" by (simp add: retry_stale_pending_def)
    then have "i \<in> fst ` set (sc_pending s)" by (force dest: map_of_SomeD)
    with \<open>i \<notin> set ?ks\<close> st show False by simp
  qed
  with r queued show ?thesis by (simp add: retry_stale_pending_def)
qed

section \<open>Concrete runs\<close>

definition demo_env :: sched_env where
  "demo_env = \<lparr>se_values = (\<lambda>xs. xs), se_keys = (\<lambda>xs. xs), se_now = 40000000,
     se_read = (\<lambda>_. None), se_uuid = bits_text, se_storage = ''data''\<rparr>"

definition demo_two_jobs :: db where
  "demo_two_jobs = empty_db\<lparr>workers := [demo_worker ''w1''],
     jobs := [(demo_job (Uuid 1) ''pending'')\<lparr>j_backend := ''cpu_only''\<rparr>,
              (demo_job (Uuid 2) ''pending'')\<lparr>j_backend := ''cpu_only''\<rparr>]\<rparr>"

definition demo_sched :: sched where
  "demo_sched = \<lparr>sc_online = [(''w1'', demo_candidate ''w1'' [] 100 0)], sc_pending = [],
     sc_db = demo_two_jobs, sc_faults = [], sc_sent = []\<rparr>"

definition cpu_request :: match_request where
  "cpu_request = \<lparr>required_backend = CpuOnly, memory_limit_mb = 512, max_duration_secs = 60\<rparr>"

lemma demo_select:
  "select_workers [demo_candidate ''w1'' [] 100 0] cpu_request = [''w1'']"
proof -
  have "eligible cpu_request (demo_candidate ''w1'' [] 100 0)" by code_simp
  then show ?thesis
    by (simp add: select_workers_scored scored_def sort_by_def order_by_def)
      (simp add: demo_candidate_def)
qed

definition demo_queued :: "uuid \<Rightarrow> sched \<Rightarrow> sched" where
  "demo_queued i s = s\<lparr>sc_pending := hm_insert i [] (sc_pending s)\<rparr>"

definition demo_sched1 :: sched where
  "demo_sched1 = assign_to demo_env (Uuid 1) ''w1'' (demo_queued (Uuid 1) demo_sched)"

lemma demo_candidates:
  "sched_candidates demo_env (demo_queued (Uuid 1) demo_sched) (Uuid 1) = [demo_candidate ''w1'' [] 100 0]"
  "sched_candidates demo_env (demo_queued (Uuid 2) demo_sched1) (Uuid 2) = [demo_candidate ''w1'' [] 100 0]"
  by code_simp+

lemma demo_assign:
  "sched_step demo_env demo_sched (Enqueue (Uuid 1) cpu_request) = demo_sched1"
  "sched_step demo_env demo_sched1 (Enqueue (Uuid 2) cpu_request) =
     assign_to demo_env (Uuid 2) ''w1'' (demo_queued (Uuid 2) demo_sched1)"
  using demo_candidates
  by (simp_all add: try_assign_one_def demo_select demo_sched1_def flip: demo_queued_def)

text \<open>
  One worker gets two jobs at once: an assignment does not mark the worker as busy, so two jobs
  submitted one after the other both go to the only idle worker.
\<close>
theorem double_booking:
  "map fst (sc_sent (run_ops (sched_step demo_env) demo_sched
     [Enqueue (Uuid 1) cpu_request, Enqueue (Uuid 2) cpu_request])) = [''w1'', ''w1'']"
proof -
  have "map fst (sc_sent (assign_to demo_env (Uuid 2) ''w1'' (demo_queued (Uuid 2) demo_sched1))) =
      [''w1'', ''w1'']" by code_simp
  then show ?thesis unfolding run_ops.simps demo_assign .
qed

lemma demo_sched_wf: "sched_wf demo_sched" "sched_wf (demo_queued (Uuid 1) demo_sched)"
  by code_simp+

lemma demo_env_iter: "iter_order (se_values demo_env)" "mset (se_keys demo_env ks) = mset ks"
  by (simp_all add: demo_env_def)

lemma assignment_is_sound_witness:
  "\<exists>p a w. sc_sent (try_assign_one demo_env (Uuid 1) cpu_request (demo_queued (Uuid 1) demo_sched)) = [(p, a)] \<and>
     map_of (sc_online demo_sched) p = Some w \<and> eligible cpu_request w"
proof -
  have eq: "try_assign_one demo_env (Uuid 1) cpu_request (demo_queued (Uuid 1) demo_sched) = demo_sched1"
    using demo_assign(1) by (simp add: demo_queued_def)
  have "sc_sent demo_sched1 \<noteq> []" "sc_sent (demo_queued (Uuid 1) demo_sched) = []"
    "sc_online (demo_queued (Uuid 1) demo_sched) = sc_online demo_sched" by code_simp+
  then show ?thesis
    using assignment_is_sound [OF demo_sched_wf(2) demo_env_iter(1), of "Uuid 1" cpu_request]
    unfolding eq by auto
qed

lemma offline_strands_jobs_witness:
  "sc_db (sched_step demo_env demo_sched1 (WorkerOffline ''w1'')) = sc_db demo_sched1"
proof -
  have "no_nil_hirer (sc_db demo_sched1)" by code_simp
  from offline_strands_jobs [OF this] show ?thesis by simp
qed

lemma tick_cleans_queue_witness:
  "map_of (sc_pending (sched_step demo_env (demo_sched\<lparr>sc_pending := [(Uuid 1, [''w1''])]\<rparr>) RetryTick))
     (Uuid 1) = Some [''w1''] \<and> job_status_of (sc_db demo_sched) (Uuid 1) = Some ''pending''"
proof -
  let ?s = "demo_sched\<lparr>sc_pending := [(Uuid 1, [''w1''])]\<rparr>"
  have wf: "sched_wf ?s" "sc_faults ?s = []" by code_simp+
  have q: "map_of (sc_pending (sched_step demo_env ?s RetryTick)) (Uuid 1) = Some [''w1'']" by code_simp
  from tick_cleans_queue [OF wf demo_env_iter(2) q] q show ?thesis by simp
qed

end
