(* ===== verification/Auth.thy ===== *)
theory Auth
  imports Ledger_Spec
begin

text \<open>
  Accounts and tokens (\<open>api/auth.rs\<close>): validation, registration, login, the JWT middleware, the
  extractors that protect the routes and the errors of the API. Password hashing, JWT signatures,
  the text of UUIDs and times, and the Unicode case tables above ASCII are fields of the
  environment.
\<close>

section \<open>Text\<close>

fun show_nat :: "nat \<Rightarrow> string" where
  "show_nat n =
     (if n < 10 then [char_of (48 + n)] else show_nat (n div 10) @ [char_of (48 + n mod 10)])"

definition show_int :: "int \<Rightarrow> string" where
  "show_int i = (if i < 0 then ''-'' @ show_nat (nat (- i)) else show_nat (nat i))"

declare show_nat.simps [simp del]

text \<open>The characters of a valid UTF-8 string, as code points.\<close>

fun utf8_decode :: "nat list \<Rightarrow> nat list" where
  "utf8_decode [] = []"
| "utf8_decode (a # bs) =
     (if a < 128 then a # utf8_decode bs
      else if a < 224 then
        (case bs of b # r \<Rightarrow> ((a mod 32) * 64 + b mod 64) # utf8_decode r | _ \<Rightarrow> [])
      else if a < 240 then
        (case bs of b # c # r \<Rightarrow> ((a mod 16) * 4096 + (b mod 64) * 64 + c mod 64) # utf8_decode r | _ \<Rightarrow> [])
      else
        (case bs of
           b # c # e # r \<Rightarrow>
             ((a mod 8) * 262144 + (b mod 64) * 4096 + (c mod 64) * 64 + e mod 64) # utf8_decode r
         | _ \<Rightarrow> []))"

definition str_chars :: "string \<Rightarrow> nat list" where
  "str_chars s = utf8_decode (map of_char s)"

section \<open>Errors of the API\<close>

record api_error =
  ae_status :: nat
  ae_message :: string

definition bad_request :: "string \<Rightarrow> api_error" where "bad_request m = \<lparr>ae_status = 400, ae_message = m\<rparr>"
definition unauthorized :: "string \<Rightarrow> api_error" where "unauthorized m = \<lparr>ae_status = 401, ae_message = m\<rparr>"
definition not_found :: "string \<Rightarrow> api_error" where "not_found m = \<lparr>ae_status = 404, ae_message = m\<rparr>"
definition forbidden :: "string \<Rightarrow> api_error" where "forbidden m = \<lparr>ae_status = 403, ae_message = m\<rparr>"
definition internal :: "string \<Rightarrow> api_error" where "internal m = \<lparr>ae_status = 500, ae_message = m\<rparr>"

fun decent_display :: "decent_error \<Rightarrow> string" where
  "decent_display (Database m) = ''database error: '' @ m"
| "decent_display (NotFound m) = ''not found: '' @ m"
| "decent_display (Conflict m) = ''conflict: '' @ m"
| "decent_display (InsufficientComputeUnits a r) =
     ''insufficient compute units: available='' @ show_int a @ '', required='' @ show_int r"
| "decent_display (Unauthorized m) = ''unauthorized: '' @ m"
| "decent_display (Validation m) = ''validation error: '' @ m"
| "decent_display (P2p m) = ''p2p error: '' @ m"
| "decent_display (Docker m) = ''docker error: '' @ m"
| "decent_display (Timeout m) = ''timeout: '' @ m"
| "decent_display (Internal m) = ''internal error: '' @ m"
| "decent_display (Io m) = ''io error: '' @ m"

fun api_of_decent :: "decent_error \<Rightarrow> api_error" where
  "api_of_decent (NotFound m) = not_found m"
| "api_of_decent (Unauthorized m) = unauthorized m"
| "api_of_decent (Validation m) = bad_request m"
| "api_of_decent (Conflict m) = bad_request m"
| "api_of_decent (InsufficientComputeUnits a r) =
     bad_request (''insufficient compute units: have '' @ show_int a @ '', need '' @ show_int r)"
| "api_of_decent other = internal (decent_display other)"

type_synonym 'a api = "(api_error, 'a) act"

definition lift_api :: "'a dbm \<Rightarrow> 'a api" where
  "lift_api m = map_err_db api_of_decent m"

lemma keeps_lift [keeps_intros]: "keeps I m \<Longrightarrow> keeps I (lift_api m)"
  unfolding lift_api_def by (rule keeps_map_err)

lemma lift_api_run:
  "lift_api m d fs = (case m d fs of (Inl e, d', fs') \<Rightarrow> (Inl (api_of_decent e), d', fs') | (Inr x, d', fs') \<Rightarrow> (Inr x, d', fs'))"
  by (simp add: lift_api_def map_err_db_def)

section \<open>Environment\<close>

record claims =
  cl_sub :: string
  cl_email :: string
  cl_role :: string
  cl_exp :: u64

record auth_user =
  au_id :: uuid
  au_email :: string
  au_role :: string

datatype verdict = BadHash string | Mismatch | Match

record auth_env =
  en_now :: u64
  en_uuid :: "uuid \<Rightarrow> string"
  en_parse_uuid :: "string \<Rightarrow> uuid option"
  en_hash :: "string \<Rightarrow> string + string"
  en_verify :: "string \<Rightarrow> string \<Rightarrow> verdict"
  en_encode :: "claims \<Rightarrow> string \<Rightarrow> string + string"
  en_decode :: "string \<Rightarrow> string \<Rightarrow> u64 \<Rightarrow> string + claims"
  en_secret :: string
  en_expiry_secs :: u64
  en_rfc3339 :: "u64 \<Rightarrow> string"
  en_upper :: "nat \<Rightarrow> bool"
  en_lower :: "nat \<Rightarrow> bool"

text \<open>
  What the code relies on from the libraries: a hash verifies the password it was made from, a token
  decodes to its claims with the secret it was signed with until it expires, and the text of a UUID
  parses back to it.
\<close>

definition libs_ok :: "auth_env \<Rightarrow> bool" where
  "libs_ok env \<longleftrightarrow>
     (\<forall>p h. en_hash env p = Inr h \<longrightarrow> en_verify env p h = Match) \<and>
     (\<forall>c t. en_encode env c (en_secret env) = Inr t \<longrightarrow> en_now env < cl_exp c \<longrightarrow>
        en_decode env t (en_secret env) (en_now env) = Inr c) \<and>
     (\<forall>u. en_parse_uuid env (en_uuid env u) = Some u)"

section \<open>Validation\<close>

definition validate_email :: "string \<Rightarrow> bool" where
  "validate_email email \<longleftrightarrow>
     (let local_part = takeWhile (\<lambda>c. c \<noteq> CHR ''@'') email;
          domain = drop 1 (dropWhile (\<lambda>c. c \<noteq> CHR ''@'') email) in
      local_part \<noteq> [] \<and> CHR ''.'' \<in> set domain \<and> hd domain \<noteq> CHR ''.'' \<and> last domain \<noteq> CHR ''.'')"

definition is_uppercase :: "auth_env \<Rightarrow> nat \<Rightarrow> bool" where
  "is_uppercase env c \<longleftrightarrow> (if c < 128 then 65 \<le> c \<and> c \<le> 90 else en_upper env c)"

definition is_lowercase :: "auth_env \<Rightarrow> nat \<Rightarrow> bool" where
  "is_lowercase env c \<longleftrightarrow> (if c < 128 then 97 \<le> c \<and> c \<le> 122 else en_lower env c)"

definition is_ascii_digit :: "nat \<Rightarrow> bool" where
  "is_ascii_digit c \<longleftrightarrow> 48 \<le> c \<and> c \<le> 57"

definition validate_password :: "auth_env \<Rightarrow> string \<Rightarrow> bool" where
  "validate_password env password \<longleftrightarrow>
     8 \<le> length password \<and> list_ex (is_uppercase env) (str_chars password) \<and>
     list_ex (is_lowercase env) (str_chars password) \<and> list_ex is_ascii_digit (str_chars password)"

section \<open>Tokens\<close>

definition mint_token :: "auth_env \<Rightarrow> uuid \<Rightarrow> string \<Rightarrow> string \<Rightarrow> api_error + (string \<times> string)" where
  "mint_token env user_id email role =
     (let exp = en_now env + en_expiry_secs env;
          c = \<lparr>cl_sub = en_uuid env user_id, cl_email = email, cl_role = role, cl_exp = exp\<rparr> in
      case en_encode env c (en_secret env) of
        Inl e \<Rightarrow> Inl (internal (''token encode error: '' @ e))
      | Inr token \<Rightarrow> Inr (token, en_rfc3339 env exp))"

definition result_api :: "api_error + 'a \<Rightarrow> 'a api" where
  "result_api r = (case r of Inl e \<Rightarrow> throw_db e | Inr x \<Rightarrow> return_db x)"

lemma keeps_result [keeps_intros]: "keeps I (result_api r)"
  by (cases r) (simp_all add: result_api_def keeps_throw keeps_return)

definition strip_prefix :: "string \<Rightarrow> string \<Rightarrow> string option" where
  "strip_prefix p s = (if take (length p) s = p then Some (drop (length p) s) else None)"

text \<open>
  The header is the text of \<open>Authorization\<close>, if there is one and it is visible ASCII; the query is
  the value of \<open>?token=\<close>, or the rejection of a query string that cannot be parsed, which comes before
  everything else, with status 400.
\<close>

definition jwt_middleware :: "auth_env \<Rightarrow> string option \<Rightarrow> string + string option \<Rightarrow> api_error + auth_user" where
  "jwt_middleware env header query =
     (case query of
        Inl rejection \<Rightarrow> Inl (bad_request rejection)
      | Inr q_token \<Rightarrow>
          (let raw = (case Option.bind header (strip_prefix ''Bearer '') of
                        Some t \<Rightarrow> Some t | None \<Rightarrow> q_token) in
           case raw of
             None \<Rightarrow> Inl (unauthorized ''missing Bearer token'')
           | Some t \<Rightarrow>
               (case en_decode env t (en_secret env) (en_now env) of
                  Inl e \<Rightarrow> Inl (unauthorized (''invalid token: '' @ e))
                | Inr c \<Rightarrow>
                    (case en_parse_uuid env (cl_sub c) of
                       None \<Rightarrow> Inl (unauthorized ''invalid sub in token'')
                     | Some u \<Rightarrow> Inr \<lparr>au_id = u, au_email = cl_email c, au_role = cl_role c\<rparr>))))"

definition auth_extractor :: "auth_user option \<Rightarrow> api_error + auth_user" where
  "auth_extractor ext = ok_or (unauthorized ''not authenticated'') ext"

definition admin_extractor :: "auth_user option \<Rightarrow> api_error + uuid" where
  "admin_extractor ext =
     (case ext of
        None \<Rightarrow> Inl (unauthorized ''not authenticated'')
      | Some u \<Rightarrow>
          if au_role u \<noteq> ''admin'' then Inl (forbidden ''admin role required'') else Inr (au_id u))"

section \<open>Handlers\<close>

record auth_response =
  rs_token :: string
  rs_user_id :: uuid
  rs_email :: string
  rs_role :: string
  rs_expires_at :: string
  rs_cu_balance :: "int option"

definition register ::
  "auth_env \<Rightarrow> uuid \<Rightarrow> timestamp \<Rightarrow> string \<Rightarrow> string \<Rightarrow> string \<Rightarrow> auth_response api" where
  "register env new_id created email password role =
     (if \<not> validate_email email then throw_db (bad_request ''invalid email address'')
      else if \<not> validate_password env password then
        throw_db (bad_request
          ''password must be at least 8 characters with uppercase, lowercase, and a digit'')
      else if role \<notin> {''hirer'', ''worker'', ''both''} then
        throw_db (bad_request ''role must be hirer, worker, or both'')
      else
        case en_hash env password of
          Inl e \<Rightarrow> throw_db (internal (''hash error: '' @ e))
        | Inr h \<Rightarrow>
            bind_db (lift_api (users_create new_id created email h role)) (\<lambda>user.
            bind_db (lift_api (ledger_initialize (u_id user))) (\<lambda>_.
            bind_db (result_api (mint_token env (u_id user) (u_email user) role)) (\<lambda>(token, expires).
            return_db \<lparr>rs_token = token, rs_user_id = u_id user, rs_email = u_email user,
              rs_role = role, rs_expires_at = expires, rs_cu_balance = None\<rparr>))))"

definition login :: "auth_env \<Rightarrow> string \<Rightarrow> string \<Rightarrow> auth_response api" where
  "login env email password =
     bind_db (lift_api (users_find_by_email email)) (\<lambda>found.
     bind_db (ok_or_db (unauthorized ''invalid credentials'') found) (\<lambda>user.
     case en_verify env password (u_password_hash user) of
       BadHash e \<Rightarrow> throw_db (internal (''invalid stored hash: '' @ e))
     | Mismatch \<Rightarrow> throw_db (unauthorized ''invalid credentials'')
     | Match \<Rightarrow>
         bind_db (result_api (mint_token env (u_id user) (u_email user) (u_role user))) (\<lambda>(token, expires).
         bind_db (attempt (ledger_get_balance (en_uuid env) (u_id user))) (\<lambda>balance.
         return_db \<lparr>rs_token = token, rs_user_id = u_id user, rs_email = u_email user,
           rs_role = u_role user, rs_expires_at = expires,
           rs_cu_balance = map_option fst (to_option balance)\<rparr>))))"

definition me :: "auth_env \<Rightarrow> auth_user \<Rightarrow> (user_row \<times> int option) api" where
  "me env auth =
     bind_db (lift_api (users_find_by_id (au_id auth))) (\<lambda>found.
     bind_db (ok_or_db (not_found ''user not found'') found) (\<lambda>user.
     bind_db (attempt (ledger_get_balance (en_uuid env) (u_id user))) (\<lambda>balance.
     return_db (user, map_option fst (to_option balance)))))"

text \<open>\<open>bootstrap_admin\<close> of \<open>main.rs\<close>, run at every start when the two variables are set.\<close>

definition bootstrap_admin :: "auth_env \<Rightarrow> uuid \<Rightarrow> timestamp \<Rightarrow> string \<Rightarrow> string \<Rightarrow> (api_error, unit) act" where
  "bootstrap_admin env new_id created email password =
     bind_db (attempt (users_find_by_email email)) (\<lambda>found.
     case Option.bind (to_option found) id of
       Some _ \<Rightarrow> return_db ()
     | None \<Rightarrow>
         (case en_hash env password of
            Inl _ \<Rightarrow> return_db ()
          | Inr h \<Rightarrow>
              bind_db (attempt (users_create new_id created email h ''admin'')) (\<lambda>r.
              case r of
                Inl _ \<Rightarrow> return_db ()
              | Inr user \<Rightarrow>
                  bind_db (attempt (ledger_initialize (u_id user))) (\<lambda>_. return_db ()))))"

end
