(* ===== verification/Web.thy ===== *)
theory Web
  imports Auth Proto
begin

text \<open>
  Handlers that also touch the file system: files are a store keyed by resolved paths, a handler
  passes the database, its faults and the files along. Text that arrives with requests: numbers as
  \<open>i64::from_str\<close> reads them, lines as \<open>str::lines\<close> cuts them, paths as \<open>PathBuf::join\<close> builds them and
  the operating system resolves them.
\<close>

section \<open>Numbers in text\<close>

definition digit_val :: "char \<Rightarrow> int option" where
  "digit_val c = (let n = of_char c :: nat in if 48 \<le> n \<and> n \<le> 57 then Some (int n - 48) else None)"

fun parse_digits :: "int \<Rightarrow> string \<Rightarrow> int option" where
  "parse_digits acc [] = Some acc"
| "parse_digits acc (c # cs) =
     (case digit_val c of None \<Rightarrow> None | Some v \<Rightarrow> parse_digits (10 * acc + v) cs)"

definition parse_nat_text :: "string \<Rightarrow> int option" where
  "parse_nat_text s = (if s = [] then None else parse_digits 0 s)"

text \<open>An optional sign, then digits, within the range of the type.\<close>

definition parse_i64 :: "string \<Rightarrow> int option" where
  "parse_i64 s =
     (let v = (case s of
                 [] \<Rightarrow> None
               | c # cs \<Rightarrow>
                   if c = CHR ''-'' then map_option uminus (parse_nat_text cs)
                   else if c = CHR ''+'' then parse_nat_text cs
                   else parse_nat_text s) in
      case v of None \<Rightarrow> None | Some i \<Rightarrow> if in_i64 i then Some i else None)"

lemma digit_val_digit: "n < 10 \<Longrightarrow> digit_val (char_of (48 + n)) = Some (int n)"
  by (simp add: digit_val_def)

lemma parse_digits_append:
  "parse_digits acc (s @ t) = (case parse_digits acc s of None \<Rightarrow> None | Some a \<Rightarrow> parse_digits a t)"
  by (induction s arbitrary: acc) (auto split: option.splits)

lemma parse_show_nat: "parse_digits 0 (show_nat n) = Some (int n)"
proof (induction n rule: show_nat.induct)
  case (1 n)
  show ?case
  proof (cases "n < 10")
    case True
    then show ?thesis by (simp add: show_nat.simps [of n] digit_val_digit)
  next
    case False
    have "int (10 * (n div 10) + n mod 10) = int n" by (simp only: mult_div_mod_eq)
    then have "10 * int (n div 10) + int (n mod 10) = int n"
      by (simp only: of_nat_add of_nat_mult of_nat_numeral)
    with False 1 show ?thesis
      by (simp add: show_nat.simps [of n] parse_digits_append digit_val_digit)
  qed
qed

lemma show_nat_shape: "show_nat n \<noteq> [] \<and> hd (show_nat n) \<noteq> CHR ''-'' \<and> hd (show_nat n) \<noteq> CHR ''+''"
proof (induction n rule: show_nat.induct)
  case (1 n)
  show ?case
  proof (cases "n < 10")
    case True
    then have "(of_char (char_of (48 + n) :: char) :: nat) = 48 + n" by simp
    then have "char_of (48 + n) \<noteq> CHR ''-'' \<and> char_of (48 + n) \<noteq> CHR ''+''"
      by (intro conjI notI) (simp_all add: char_of_def)
    with True show ?thesis by (simp add: show_nat.simps [of n])
  next
    case False
    with 1 show ?thesis by (simp add: show_nat.simps [of n])
  qed
qed

lemma parse_show_int:
  assumes "in_i64 i" shows "parse_i64 (show_int i) = Some i"
proof (cases "i < 0")
  case True
  then show ?thesis
    using assms show_nat_shape [of "nat (- i)"]
    by (simp add: parse_i64_def show_int_def parse_nat_text_def parse_show_nat)
next
  case False
  obtain c cs where s: "show_nat (nat i) = c # cs" "c \<noteq> CHR ''-''" "c \<noteq> CHR ''+''"
    using show_nat_shape [of "nat i"] by (cases "show_nat (nat i)") auto
  with False assms parse_show_nat [of "nat i"] show ?thesis
    by (simp add: parse_i64_def show_int_def parse_nat_text_def)
qed

section \<open>Lines\<close>

definition strip_cr :: "string \<Rightarrow> string" where
  "strip_cr l = (if l \<noteq> [] \<and> last l = CHR 0x0D then butlast l else l)"

text \<open>A final line feed does not begin a line, and a carriage return before a line feed is dropped.\<close>

function str_lines :: "string \<Rightarrow> string list" where
  "str_lines [] = []"
| "str_lines (c # cs) =
     (let l = takeWhile (\<lambda>x. x \<noteq> CHR 0x0A) (c # cs); rest = dropWhile (\<lambda>x. x \<noteq> CHR 0x0A) (c # cs) in
      case rest of [] \<Rightarrow> [l] | _ # r \<Rightarrow> strip_cr l # str_lines r)"
  by pat_completeness auto
termination
proof (relation "measure length")
  fix c cs l rest x r
  assume "rest = dropWhile (\<lambda>x. x \<noteq> CHR 0x0A) (c # cs)" "rest = x # r"
  then have "x # r = dropWhile (\<lambda>x. x \<noteq> CHR 0x0A) (c # cs)" by simp
  then have "length (x # r) \<le> length (c # cs)" by (metis length_dropWhile_le)
  then show "(r, c # cs) \<in> measure length" by simp
qed simp

section \<open>Paths and files\<close>

definition to_bytes :: "string \<Rightarrow> bytes" where
  "to_bytes s = map (\<lambda>c. word_of_nat (of_char c)) s"

fun split_slash :: "string \<Rightarrow> string list" where
  "split_slash [] = [[]]"
| "split_slash (c # cs) =
     (case split_slash cs of
        [] \<Rightarrow> [[c]]
      | s # ss \<Rightarrow> if c = CHR ''/'' then [] # s # ss else (c # s) # ss)"

fun resolve_from :: "string list \<Rightarrow> string list \<Rightarrow> string list" where
  "resolve_from base [] = base"
| "resolve_from base (s # ss) =
     (if s = [] \<or> s = ''.'' then resolve_from base ss
      else if s = ''..'' then resolve_from (butlast base) ss
      else resolve_from (base @ [s]) ss)"

text \<open>\<open>dir.join(p)\<close> for a resolved directory; an absolute \<open>p\<close> replaces it.\<close>

definition path_join :: "string list \<Rightarrow> string \<Rightarrow> string list" where
  "path_join dir p = resolve_from (if take 1 p = ''/'' then [] else dir) (split_slash p)"

definition path_text :: "string list \<Rightarrow> string" where
  "path_text p = concat (map (\<lambda>s. ''/'' @ s) p)"

definition under :: "string list \<Rightarrow> string list \<Rightarrow> bool" where
  "under dir p \<longleftrightarrow> take (length dir) p = dir"

lemma split_slash_plain: "CHR ''/'' \<notin> set s \<Longrightarrow> split_slash s = [s]"
  by (induction s) auto

lemma path_join_plain:
  assumes "CHR ''/'' \<notin> set s" "s \<noteq> []" "s \<noteq> ''.''" "s \<noteq> ''..''"
  shows "path_join dir s = dir @ [s]"
proof -
  have "take 1 s \<noteq> ''/''" using assms(1) by (cases s) auto
  with assms show ?thesis by (simp add: path_join_def split_slash_plain)
qed

type_synonym files = "(string list \<times> bytes) list"

text \<open>
  What the operating system answers: \<open>None\<close> for success; a write that fails may leave some other
  content behind.
\<close>

record io =
  io_mkdir :: "string list \<Rightarrow> string option"
  io_write :: "string list \<Rightarrow> (string \<times> bytes option) option"

definition put_file :: "io \<Rightarrow> string list \<Rightarrow> bytes \<Rightarrow> files \<Rightarrow> string option \<times> files" where
  "put_file os p data fl =
     (case io_write os p of
        None \<Rightarrow> (None, hm_insert p data fl)
      | Some (e, left) \<Rightarrow> (Some e, case left of None \<Rightarrow> fl | Some b \<Rightarrow> hm_insert p b fl))"

type_synonym 'a web = "db \<Rightarrow> fault list \<Rightarrow> files \<Rightarrow> (api_error + 'a) \<times> db \<times> fault list \<times> files"

definition return_web :: "'a \<Rightarrow> 'a web" where
  "return_web x d fs fl = (Inr x, d, fs, fl)"

definition throw_web :: "api_error \<Rightarrow> 'a web" where
  "throw_web e d fs fl = (Inl e, d, fs, fl)"

definition bind_web :: "'a web \<Rightarrow> ('a \<Rightarrow> 'b web) \<Rightarrow> 'b web" where
  "bind_web m k d fs fl =
     (case m d fs fl of
        (Inl e, d', fs', fl') \<Rightarrow> (Inl e, d', fs', fl')
      | (Inr x, d', fs', fl') \<Rightarrow> k x d' fs' fl')"

definition db_web :: "'a api \<Rightarrow> 'a web" where
  "db_web m d fs fl = (case m d fs of (r, d', fs') \<Rightarrow> (r, d', fs', fl))"

definition mkdir_web :: "io \<Rightarrow> string \<Rightarrow> string list \<Rightarrow> unit web" where
  "mkdir_web env what dir =
     (case io_mkdir env dir of None \<Rightarrow> return_web () | Some e \<Rightarrow> throw_web (internal (what @ e)))"

definition write_web :: "io \<Rightarrow> string \<Rightarrow> string list \<Rightarrow> bytes \<Rightarrow> unit web" where
  "write_web env what p data d fs fl =
     (case io_write env p of
        None \<Rightarrow> (Inr (), d, fs, hm_insert p data fl)
      | Some (e, left) \<Rightarrow>
          (Inl (internal (what @ e)), d, fs,
           case left of None \<Rightarrow> fl | Some b \<Rightarrow> hm_insert p b fl))"

lemma bind_web_simps:
  "m d fs fl = (Inr x, d', fs', fl') \<Longrightarrow> bind_web m k d fs fl = k x d' fs' fl'"
  "m d fs fl = (Inl e, d', fs', fl') \<Longrightarrow> bind_web m k d fs fl = (Inl e, d', fs', fl')"
  by (simp_all add: bind_web_def)

end
