(* ===== verification/File_Transfer.thy ===== *)
theory File_Transfer
  imports Web
begin

text \<open>
  The byte framing and the chunked file transfer of \<open>decentgpu-common/transfer.rs\<close>, and the codec of
  the job protocol (\<open>job_codec\<close> in \<open>p2p/behaviour.rs\<close> of both binaries). A byte stream is the list of
  bytes still to be read. The locale \<open>framing\<close> is the contract both codecs share: a frame that was
  written is read back and leaves the rest of the stream. SHA-256 and the protobuf codec are
  arguments.
\<close>

section \<open>Big-endian lengths\<close>

definition to_be_bytes :: "u32 \<Rightarrow> bytes" where
  "to_be_bytes n =
     [of_nat (unat n div 2 ^ 24), of_nat (unat n div 2 ^ 16), of_nat (unat n div 2 ^ 8), of_nat (unat n)]"

fun from_be_bytes :: "bytes \<Rightarrow> nat" where
  "from_be_bytes bs = foldl (\<lambda>n b. n * 256 + unat b) 0 bs"

lemma length_to_be_bytes [simp]: "length (to_be_bytes n) = 4"
  by (simp add: to_be_bytes_def)

lemma unat_u8: "unat (of_nat n :: u8) = n mod 256"
  by (simp add: unat_of_nat)

lemma from_to_be_bytes: "from_be_bytes (to_be_bytes n) = unat n"
proof -
  define k where "k = unat n"
  have k: "k < 2 ^ 32" using unsigned_less [of n, where 'a = nat] by (simp add: k_def)
  have 3: "k div 2 ^ 24 mod 256 = k div 2 ^ 24" using k by (simp add: div_less_iff_less_mult)
  have 2: "k div 2 ^ 24 * 256 + k div 2 ^ 16 mod 256 = k div 2 ^ 16"
    using div_mult_mod_eq [of "k div 2 ^ 16" 256] by (simp add: div_mult2_eq [symmetric])
  have 1: "k div 2 ^ 16 * 256 + k div 2 ^ 8 mod 256 = k div 2 ^ 8"
    using div_mult_mod_eq [of "k div 2 ^ 8" 256] by (simp add: div_mult2_eq [symmetric])
  have 0: "k div 2 ^ 8 * 256 + k mod 256 = k" using div_mult_mod_eq [of k 256] by simp
  show ?thesis
    using 3 2 1 0 by (simp add: to_be_bytes_def unat_u8 flip: k_def)
qed

section \<open>Frames\<close>

locale framing =
  fixes put_frame :: "bytes \<Rightarrow> bytes"
    and get_frame :: "bytes \<Rightarrow> 'e + bytes \<times> bytes"
    and limit :: nat
  assumes read_write: "length b \<le> limit \<Longrightarrow> get_frame (put_frame b @ rest) = Inr (b, rest)"
begin

fun read_many :: "nat \<Rightarrow> bytes \<Rightarrow> 'e + bytes list \<times> bytes" where
  "read_many 0 s = Inr ([], s)"
| "read_many (Suc n) s =
     (case get_frame s of
        Inl e \<Rightarrow> Inl e
      | Inr (b, s') \<Rightarrow> (case read_many n s' of Inl e \<Rightarrow> Inl e | Inr (bs, s'') \<Rightarrow> Inr (b # bs, s'')))"

lemma read_many_written:
  "list_all (\<lambda>b. length b \<le> limit) bs \<Longrightarrow>
   read_many (length bs) (concat (map put_frame bs) @ rest) = Inr (bs, rest)"
  by (induction bs) (auto simp: read_write)

lemma write_unambiguous:
  "length a \<le> limit \<Longrightarrow> length b \<le> limit \<Longrightarrow> put_frame a @ r = put_frame b @ s \<longleftrightarrow> a = b \<and> r = s"
  by (metis read_write prod.inject sum.inject(2))

end

definition MAX_FRAME :: nat where
  "MAX_FRAME = 512 * 1024 * 1024"

text \<open>\<open>bytes.len() as u32\<close> keeps the low 32 bits.\<close>

definition write_length_prefixed :: "bytes \<Rightarrow> bytes" where
  "write_length_prefixed bs = to_be_bytes (of_nat (length bs)) @ bs"

definition read_exact :: "nat \<Rightarrow> bytes \<Rightarrow> string + bytes \<times> bytes" where
  "read_exact n s = (if length s < n then Inl ''early eof'' else Inr (take n s, drop n s))"

definition read_length_prefixed :: "bytes \<Rightarrow> string + bytes \<times> bytes" where
  "read_length_prefixed s =
     (case read_exact 4 s of
        Inl e \<Rightarrow> Inl e
      | Inr (len_buf, s') \<Rightarrow>
          let len = from_be_bytes len_buf in
          if MAX_FRAME < len then Inl ''message too large'' else read_exact len s')"

text \<open>The codec of the job protocol has the same frames and no limit.\<close>

definition codec_write :: "bytes \<Rightarrow> bytes" where
  "codec_write req = to_be_bytes (of_nat (length req)) @ req"

definition codec_read :: "bytes \<Rightarrow> string + bytes \<times> bytes" where
  "codec_read s =
     (case read_exact 4 s of
        Inl e \<Rightarrow> Inl e
      | Inr (len_buf, s') \<Rightarrow> read_exact (from_be_bytes len_buf) s')"

lemma be_length: "length b < 2 ^ 32 \<Longrightarrow> from_be_bytes (to_be_bytes (of_nat (length b))) = length b"
  unfolding from_to_be_bytes by (simp add: unat_of_nat)

lemma read_exact_append [simp]: "length b = n \<Longrightarrow> read_exact n (b @ rest) = Inr (b, rest)"
  by (auto simp: read_exact_def)

lemma read_header [simp]: "read_exact 4 (to_be_bytes n @ rest) = Inr (to_be_bytes n, rest)"
  by simp

interpretation transfer_frames: framing write_length_prefixed read_length_prefixed MAX_FRAME
proof
  fix b rest :: bytes
  assume len: "length b \<le> MAX_FRAME"
  then have "length b < 2 ^ 32" by (simp add: MAX_FRAME_def)
  with len show "read_length_prefixed (write_length_prefixed b @ rest) = Inr (b, rest)"
    by (simp add: read_length_prefixed_def write_length_prefixed_def be_length
        del: from_be_bytes.simps)
qed

interpretation codec_frames: framing codec_write codec_read "2 ^ 32 - 1"
proof
  fix b rest :: bytes
  assume "length b \<le> 2 ^ 32 - 1"
  then have "length b < 2 ^ 32" by simp
  then show "codec_read (codec_write b @ rest) = Inr (b, rest)"
    by (simp add: codec_read_def codec_write_def be_length del: from_be_bytes.simps)
qed

text \<open>
  Framing is unambiguous: any sequence of messages of at most 512 MiB, written one after the
  other, is read back message by message, whatever follows on the stream.
\<close>
theorem frames_roundtrip:
  "list_all (\<lambda>b. length b \<le> MAX_FRAME) bs \<Longrightarrow>
   transfer_frames.read_many (length bs) (concat (map write_length_prefixed bs) @ rest) = Inr (bs, rest)"
  by (rule transfer_frames.read_many_written)

lemma frames_roundtrip_witness:
  "transfer_frames.read_many 2 (concat (map write_length_prefixed [[1, 2], []]) @ [9]) = Inr ([[1, 2], []], [9])"
  using frames_roundtrip [of "[[1, 2], []]" "[9]"] by (simp add: MAX_FRAME_def numeral_2_eq_2)

section \<open>Chunked transfer\<close>

definition CHUNK_SIZE :: nat where
  "CHUNK_SIZE = 64 * 1024"

text \<open>
  What a read of the peer's next frame gives: its bytes, a failure of the stream, or a timeout. And what
  becomes of the writes of frames, one after the other: \<open>Some\<close> error ends the transfer; when the list is
  used up every write succeeds. A frame whose write failed is not among the frames sent.
\<close>

datatype arrival = Frame bytes | Broken string | Silence

definition next_write :: "string option list \<Rightarrow> string option \<times> string option list" where
  "next_write ws = (case ws of [] \<Rightarrow> (None, []) | w # ws' \<Rightarrow> (w, ws'))"

lemma next_write_simps [simp]: "next_write [] = (None, [])" "next_write (w # ws) = (w, ws)"
  by (simp_all add: next_write_def)

text \<open>
  The sender, given the acknowledgements it will read, writes frames and ends with the number of
  bytes sent or an error. \<open>sha\<close> is the hexadecimal SHA-256 and \<open>enc\<close>, \<open>dec\<close> the protobuf codec.
\<close>

function send_loop ::
  "(bytes \<Rightarrow> string) \<Rightarrow> (envelope \<Rightarrow> bytes) \<Rightarrow> (bytes \<Rightarrow> envelope option) \<Rightarrow> string \<Rightarrow> nat \<Rightarrow>
   u64 \<Rightarrow> bytes \<Rightarrow> string option list \<Rightarrow> arrival list \<Rightarrow> bytes list \<times> (string + nat)" where
  "send_loop sha enc dec tid fsize offset [] ws acks = ([], Inr fsize)"
| "send_loop sha enc dec tid fsize offset (b # bs) ws acks =
     (let remaining = b # bs;
          n = min (length remaining) CHUNK_SIZE;
          chunk = take n remaining;
          rest = drop n remaining;
          frame = enc (Some (PTransferChunk \<lparr>tc_id = tid, tc_offset = offset, tc_data = chunk,
                    tc_last = (rest = []), tc_sha256 = sha chunk\<rparr>)) in
      case next_write ws of
        (Some e, ws') \<Rightarrow> ([], Inl e)
      | (None, ws') \<Rightarrow>
          (case acks of
             Frame ack # acks' \<Rightarrow>
               (case dec ack of
                  None \<Rightarrow> ([frame], Inl ''failed to decode'')
                | Some (Some (PTransferAck a)) \<Rightarrow>
                    if ta_ok a then
                      let (frames, r) = send_loop sha enc dec tid fsize (offset + of_nat n) rest ws' acks' in
                      (frame # frames, r)
                    else ([frame], Inl ''transfer rejected'')
                | Some _ \<Rightarrow> ([frame], Inl ''invalid ACK envelope''))
           | Broken e # _ \<Rightarrow> ([frame], Inl e)
           | _ \<Rightarrow> ([frame], Inl ''ACK timeout'')))"
  by pat_completeness auto

termination
  by (relation "measure (\<lambda>(sha, enc, dec, tid, fsize, offset, remaining, ws, acks). length remaining)")
    (auto simp: CHUNK_SIZE_def)

text \<open>\<open>contents\<close>: the file, or the error of reading it.\<close>

definition send_file_chunked ::
  "(bytes \<Rightarrow> string) \<Rightarrow> (envelope \<Rightarrow> bytes) \<Rightarrow> (bytes \<Rightarrow> envelope option) \<Rightarrow> string \<Rightarrow>
   string + bytes \<Rightarrow> string option list \<Rightarrow> arrival list \<Rightarrow> bytes list \<times> (string + nat)" where
  "send_file_chunked sha enc dec tid contents ws acks =
     (case contents of
        Inl e \<Rightarrow> ([], Inl e)
      | Inr file_data \<Rightarrow> send_loop sha enc dec tid (length file_data) 0 file_data ws acks)"

text \<open>
  The receiver, given the frames it will read, writes acknowledgements; the loop ends with the content of
  the file and the number of bytes or an error, and then the file is written.
\<close>

fun receive_loop ::
  "(bytes \<Rightarrow> string) \<Rightarrow> (envelope \<Rightarrow> bytes) \<Rightarrow> (bytes \<Rightarrow> envelope option) \<Rightarrow>
   bytes \<Rightarrow> nat \<Rightarrow> string option list \<Rightarrow> arrival list \<Rightarrow> bytes list \<times> (string + bytes \<times> nat)" where
  "receive_loop sha enc dec file_data received ws (Frame f # fs) =
     (case dec f of
        None \<Rightarrow> ([], Inl ''failed to decode'')
      | Some (Some (PTransferChunk c)) \<Rightarrow>
          let ok = (sha (tc_data c) = tc_sha256 c);
              ack = enc (Some (PTransferAck \<lparr>ta_id = tc_id c, ta_offset = tc_offset c, ta_ok = ok\<rparr>)) in
          (case next_write ws of
             (Some e, ws') \<Rightarrow> ([], Inl e)
           | (None, ws') \<Rightarrow>
               if \<not> ok then ([ack], Inl ''integrity check failed'')
               else
                 let file_data' = file_data @ tc_data c; received' = received + length (tc_data c) in
                 if tc_last c then ([ack], Inr (file_data', received'))
                 else let (acks, r) = receive_loop sha enc dec file_data' received' ws' fs in (ack # acks, r))
      | Some _ \<Rightarrow> ([], Inl ''expected TransferChunk''))"
| "receive_loop sha enc dec file_data received ws (Broken e # fs) = ([], Inl e)"
| "receive_loop sha enc dec file_data received ws (Silence # fs) = ([], Inl ''chunk timeout'')"
| "receive_loop sha enc dec file_data received ws [] = ([], Inl ''chunk timeout'')"

text \<open>The root has no parent that would be created.\<close>

definition receive_file_chunked ::
  "(bytes \<Rightarrow> string) \<Rightarrow> (envelope \<Rightarrow> bytes) \<Rightarrow> (bytes \<Rightarrow> envelope option) \<Rightarrow> io \<Rightarrow> string list \<Rightarrow>
   string option list \<Rightarrow> arrival list \<Rightarrow> files \<Rightarrow> bytes list \<times> (string + nat) \<times> files" where
  "receive_file_chunked sha enc dec os output_path ws frames fl =
     (case (if output_path = [] then None else io_mkdir os (butlast output_path)) of
        Some e \<Rightarrow> ([], Inl e, fl)
      | None \<Rightarrow>
          (case receive_loop sha enc dec [] 0 ws frames of
             (acks, Inl e) \<Rightarrow> (acks, Inl e, fl)
           | (acks, Inr (file_data, received)) \<Rightarrow>
               (case put_file os output_path file_data fl of
                  (Some e, fl') \<Rightarrow> (acks, Inl e, fl')
                | (None, fl') \<Rightarrow> (acks, Inr received, fl'))))"

section \<open>Properties of the transfer\<close>

text \<open>The chunks of a file, as the sender cuts it.\<close>

function chunks :: "(bytes \<Rightarrow> string) \<Rightarrow> string \<Rightarrow> u64 \<Rightarrow> bytes \<Rightarrow> transfer_chunk list" where
  "chunks sha tid offset [] = []"
| "chunks sha tid offset (b # bs) =
     (let n = min (length (b # bs)) CHUNK_SIZE; chunk = take n (b # bs); rest = drop n (b # bs) in
      \<lparr>tc_id = tid, tc_offset = offset, tc_data = chunk, tc_last = (rest = []), tc_sha256 = sha chunk\<rparr>
      # chunks sha tid (offset + of_nat n) rest)"
  by pat_completeness auto

termination
  by (relation "measure (\<lambda>(sha, tid, offset, remaining). length remaining)") (auto simp: CHUNK_SIZE_def)

definition ack_of :: "transfer_chunk \<Rightarrow> transfer_ack" where
  "ack_of c = \<lparr>ta_id = tc_id c, ta_offset = tc_offset c, ta_ok = True\<rparr>"

definition chunk_frame :: "(envelope \<Rightarrow> bytes) \<Rightarrow> transfer_chunk \<Rightarrow> bytes" where
  "chunk_frame enc c = enc (Some (PTransferChunk c))"

definition ack_frame :: "(envelope \<Rightarrow> bytes) \<Rightarrow> transfer_chunk \<Rightarrow> bytes" where
  "ack_frame enc c = enc (Some (PTransferAck (ack_of c)))"

definition transfer_messages :: "transfer_chunk list \<Rightarrow> envelope set" where
  "transfer_messages cs =
     (\<lambda>c. Some (PTransferChunk c)) ` set cs \<union> (\<lambda>c. Some (PTransferAck (ack_of c))) ` set cs"

lemma transfer_messages_Cons [simp]:
  "faithful_on enc dec (transfer_messages (c # cs)) \<longleftrightarrow>
   dec (chunk_frame enc c) = Some (Some (PTransferChunk c)) \<and>
   dec (ack_frame enc c) = Some (Some (PTransferAck (ack_of c))) \<and>
   faithful_on enc dec (transfer_messages cs)"
  by (auto simp: faithful_on_def transfer_messages_def chunk_frame_def ack_frame_def)

lemma chunks_data: "concat (map tc_data (chunks sha tid offset data)) = data"
  by (induction sha tid offset data rule: chunks.induct) (simp_all add: Let_def)

lemma chunks_Nil [simp]: "chunks sha tid offset data = [] \<longleftrightarrow> data = []"
  by (cases data) (simp_all add: Let_def)

lemma send_loop_chunks:
  "faithful_on enc dec (transfer_messages (chunks sha tid offset data)) \<Longrightarrow>
   send_loop sha enc dec tid fsize offset data [] (map (\<lambda>c. Frame (ack_frame enc c)) (chunks sha tid offset data)) =
   (map (chunk_frame enc) (chunks sha tid offset data), Inr fsize)"
proof (induction sha tid offset data rule: chunks.induct)
  case (2 sha tid offset b bs)
  then show ?case
    by (simp add: Let_def ack_of_def chunk_frame_def split del: if_split)
qed simp

lemma receive_loop_chunks:
  "data \<noteq> [] \<Longrightarrow> faithful_on enc dec (transfer_messages (chunks sha tid offset data)) \<Longrightarrow>
   receive_loop sha enc dec acc received [] (map (\<lambda>c. Frame (chunk_frame enc c)) (chunks sha tid offset data)) =
   (map (ack_frame enc) (chunks sha tid offset data), Inr (acc @ data, received + length data))"
proof (induction sha tid offset data arbitrary: acc received rule: chunks.induct)
  case (2 sha tid offset b bs)
  let ?n = "min (length (b # bs)) CHUNK_SIZE"
  show ?case
  proof (cases "drop ?n (b # bs) = []")
    case True
    then have "take ?n (b # bs) = b # bs" by simp
    with True 2 show ?thesis by (simp add: Let_def ack_frame_def ack_of_def)
  next
    case False
    with 2 have "receive_loop sha enc dec (acc @ take ?n (b # bs)) (received + ?n) []
        (map (\<lambda>c. Frame (chunk_frame enc c)) (chunks sha tid (offset + of_nat ?n) (drop ?n (b # bs)))) =
      (map (ack_frame enc) (chunks sha tid (offset + of_nat ?n) (drop ?n (b # bs))),
       Inr (acc @ b # bs, received + length (b # bs)))"
      by (simp add: Let_def)
    with False 2(3) show ?thesis by (simp add: Let_def ack_frame_def ack_of_def)
  qed
qed simp

text \<open>
  C23. A non-empty file arrives as it was sent: reading each other's frames, with no write failing, the
  sender reports the size of the file, and so does the receiver, whose file has exactly its bytes, with
  no other file changed; whatever the hash function, as long as the protobuf codec is faithful on the
  chunks and acknowledgements exchanged.
\<close>
theorem transfer_delivers:
  assumes "data \<noteq> []" "faithful_on enc dec (transfer_messages (chunks sha tid 0 data))"
    and "io_mkdir os (butlast output_path) = None" "io_write os output_path = None"
  shows "\<exists>frames acks.
    send_file_chunked sha enc dec tid (Inr data) [] (map Frame acks) = (frames, Inr (length data)) \<and>
    receive_file_chunked sha enc dec os output_path [] (map Frame frames) fl =
      (acks, Inr (length data), hm_insert output_path data fl)"
proof -
  let ?frames = "map (chunk_frame enc) (chunks sha tid 0 data)"
  let ?acks = "map (ack_frame enc) (chunks sha tid 0 data)"
  have "send_file_chunked sha enc dec tid (Inr data) [] (map Frame ?acks) = (?frames, Inr (length data))"
    using send_loop_chunks [OF assms(2), of "length data"] by (simp add: send_file_chunked_def comp_def)
  moreover have "receive_file_chunked sha enc dec os output_path [] (map Frame ?frames) fl =
      (?acks, Inr (length data), hm_insert output_path data fl)"
    using receive_loop_chunks [OF assms(1,2), of "[]" 0] assms(3,4)
    by (cases "output_path = []") (simp_all add: receive_file_chunked_def put_file_def comp_def)
  ultimately show ?thesis by blast
qed

text \<open>A codec for the two messages of a one-chunk transfer.\<close>

definition demo_chunk :: transfer_chunk where
  "demo_chunk = \<lparr>tc_id = ''t'', tc_offset = 0, tc_data = [7, 8], tc_last = True, tc_sha256 = ''h''\<rparr>"

definition demo_enc :: "envelope \<Rightarrow> bytes" where
  "demo_enc m =
     (if m = Some (PTransferChunk demo_chunk) then [1]
      else if m = Some (PTransferAck (ack_of demo_chunk)) then [2] else [])"

definition demo_dec :: "bytes \<Rightarrow> envelope option" where
  "demo_dec b =
     (if b = [1] then Some (Some (PTransferChunk demo_chunk))
      else if b = [2] then Some (Some (PTransferAck (ack_of demo_chunk))) else None)"

lemma transfer_delivers_witness:
  "\<exists>frames acks.
     send_file_chunked (\<lambda>_. ''h'') demo_enc demo_dec ''t'' (Inr [7, 8]) [] (map Frame acks) = (frames, Inr 2) \<and>
     receive_file_chunked (\<lambda>_. ''h'') demo_enc demo_dec \<lparr>io_mkdir = \<lambda>_. None, io_write = \<lambda>_. None\<rparr> [''in'', ''x'']
       [] (map Frame frames) [] = (acks, Inr 2, [([''in'', ''x''], [7, 8])])"
proof -
  have "chunks (\<lambda>_. ''h'') ''t'' 0 [7, 8] = [demo_chunk]"
    by (simp add: demo_chunk_def CHUNK_SIZE_def Let_def)
  moreover have "faithful_on demo_enc demo_dec (transfer_messages [demo_chunk])"
    by (auto simp: faithful_on_def transfer_messages_def demo_enc_def demo_dec_def)
  ultimately show ?thesis
    using transfer_delivers [of "[7, 8]" demo_enc demo_dec "\<lambda>_. ''h''" "''t''"
        "\<lparr>io_mkdir = \<lambda>_. None, io_write = \<lambda>_. None\<rparr>" "[''in'', ''x'']" "[]"]
    by (simp add: numeral_2_eq_2 hm_insert_def del: chunks.simps)
qed

text \<open>The chunk in a frame, if it holds one.\<close>

definition frame_chunk :: "(bytes \<Rightarrow> envelope option) \<Rightarrow> arrival \<Rightarrow> transfer_chunk option" where
  "frame_chunk dec a =
     (case a of Frame f \<Rightarrow> (case dec f of Some (Some (PTransferChunk c)) \<Rightarrow> Some c | _ \<Rightarrow> None) | _ \<Rightarrow> None)"

lemma receive_loop_ok:
  "receive_loop sha enc dec acc received ws frames = (acks, Inr (out, n)) \<Longrightarrow>
   \<exists>cs. map Some cs = map (frame_chunk dec) (take (length cs) frames) \<and>
     list_all (\<lambda>c. sha (tc_data c) = tc_sha256 c) cs \<and>
     out = acc @ concat (map tc_data cs) \<and> n = received + length (concat (map tc_data cs)) \<and>
     cs \<noteq> [] \<and> tc_last (last cs) \<and> list_all (\<lambda>c. \<not> tc_last c) (butlast cs)"
proof (induction sha enc dec acc received ws frames arbitrary: acks out n rule: receive_loop.induct)
  case (1 sha enc dec acc received ws f fs)
  from 1(2) obtain c ws' where c: "dec f = Some (Some (PTransferChunk c))" and w: "next_write ws = (None, ws')"
    and sha: "sha (tc_data c) = tc_sha256 c"
    by (auto simp: Let_def split: option.splits payload.splits if_splits prod.splits)
  show ?case
  proof (cases "tc_last c")
    case True
    with 1(2) c sha w show ?thesis
      by (intro exI [of _ "[c]"]) (auto simp: Let_def frame_chunk_def)
  next
    case False
    obtain acks' where r: "receive_loop sha enc dec (acc @ tc_data c) (received + length (tc_data c)) ws' fs = (acks', Inr (out, n))"
      using 1(2) c sha w False by (auto simp: Let_def split: prod.splits)
    have "\<exists>cs. map Some cs = map (frame_chunk dec) (take (length cs) fs) \<and>
        list_all (\<lambda>c. sha (tc_data c) = tc_sha256 c) cs \<and>
        out = (acc @ tc_data c) @ concat (map tc_data cs) \<and>
        n = (received + length (tc_data c)) + length (concat (map tc_data cs)) \<and>
        cs \<noteq> [] \<and> tc_last (last cs) \<and> list_all (\<lambda>c. \<not> tc_last c) (butlast cs)"
      using 1(1) [where acks = acks' and out = out and n = n] c w sha False r by simp
    then obtain cs where "map Some cs = map (frame_chunk dec) (take (length cs) fs)"
      "list_all (\<lambda>c. sha (tc_data c) = tc_sha256 c) cs"
      "out = (acc @ tc_data c) @ concat (map tc_data cs)"
      "n = (received + length (tc_data c)) + length (concat (map tc_data cs))"
      "cs \<noteq> []" "tc_last (last cs)" "list_all (\<lambda>c. \<not> tc_last c) (butlast cs)" by blast
    with c sha show ?thesis
      by (intro exI [of _ "c # cs"]) (auto simp: frame_chunk_def False)
  qed
qed simp_all

text \<open>
  C22. Whatever arrives on the stream and whichever writes fail, a receiver that reports success has
  written to its file, and to no other, the concatenation of the chunks in the frames it read, each
  chunk with the hash that came with it and only the last one marked as last, and it reports their
  length. Nothing binds the chunks to one transfer or to their offsets.
\<close>
theorem receive_integrity:
  assumes "receive_file_chunked sha enc dec os output_path ws frames fl = (acks, Inr n, fl')"
  shows "\<exists>cs. map Some cs = map (frame_chunk dec) (take (length cs) frames) \<and>
    list_all (\<lambda>c. sha (tc_data c) = tc_sha256 c) cs \<and>
    fl' = hm_insert output_path (concat (map tc_data cs)) fl \<and> n = length (concat (map tc_data cs)) \<and>
    cs \<noteq> [] \<and> tc_last (last cs) \<and> list_all (\<lambda>c. \<not> tc_last c) (butlast cs)"
proof -
  obtain out where loop: "receive_loop sha enc dec [] 0 ws frames = (acks, Inr (out, n))"
    and put: "put_file os output_path out fl = (None, fl')"
    using assms by (auto simp: receive_file_chunked_def split: option.splits prod.splits sum.splits)
  from put have "fl' = hm_insert output_path out fl" by (auto simp: put_file_def split: option.splits prod.splits)
  with receive_loop_ok [OF loop] show ?thesis by auto
qed

lemma receive_integrity_witness:
  "\<exists>cs. map Some cs = map (frame_chunk demo_dec) (take (length cs) [Frame [1]]) \<and>
     list_all (\<lambda>c. ''h'' = tc_sha256 c) cs \<and> [([''x''], [7, 8])] = hm_insert [''x''] (concat (map tc_data cs)) [] \<and>
     cs \<noteq> [] \<and> tc_last (last cs) \<and> list_all (\<lambda>c. \<not> tc_last c) (butlast cs)"
proof -
  have "receive_file_chunked (\<lambda>_. ''h'') demo_enc demo_dec \<lparr>io_mkdir = \<lambda>_. None, io_write = \<lambda>_. None\<rparr> [''x''] []
      [Frame [1]] [] = ([[2]], Inr 2, [([''x''], [7, 8])])"
    by (simp add: receive_file_chunked_def demo_dec_def demo_chunk_def demo_enc_def ack_of_def put_file_def hm_insert_def
        Let_def)
  from receive_integrity [OF this] show ?thesis by auto
qed

text \<open>
  An empty file cannot be transferred: the sender reports success without sending anything,
  and the receiver gives up with a timeout.
\<close>
theorem empty_file_not_received:
  "send_file_chunked sha enc dec tid (Inr []) ws acks = ([], Inr 0) \<and>
   receive_file_chunked sha enc dec \<lparr>io_mkdir = \<lambda>_. None, io_write = \<lambda>_. None\<rparr> output_path ws'
     (map Frame (fst (send_file_chunked sha enc dec tid (Inr []) ws acks))) fl = ([], Inl ''chunk timeout'', fl)"
  by (simp add: send_file_chunked_def receive_file_chunked_def)

end
