(* ===== verification/Accounts.thy ===== *)
theory Accounts
  imports Auth
begin

text \<open>
  What registration, login and the middleware guarantee together: the life of an account from its
  registration to a request that carries its token, what a registration interrupted by the database
  leaves behind, and that no registration makes an administrator.
\<close>

section \<open>Registration, step by step\<close>

definition new_user :: "uuid \<Rightarrow> timestamp \<Rightarrow> string \<Rightarrow> string \<Rightarrow> string \<Rightarrow> user_row" where
  "new_user i created email h role =
     \<lparr>u_id = i, u_email = email, u_password_hash = h, u_role = role, u_created_at = created\<rparr>"

definition zero_balance :: "uuid \<Rightarrow> balance_row" where
  "zero_balance i = \<lparr>b_user = i, cu_balance = 0, cu_reserved = 0\<rparr>"

definition acceptable :: "auth_env \<Rightarrow> string \<Rightarrow> string \<Rightarrow> string \<Rightarrow> bool" where
  "acceptable env email password role \<longleftrightarrow>
     validate_email email \<and> validate_password env password \<and> role \<in> {''hirer'', ''worker'', ''both''}"

definition fresh_account :: "uuid \<Rightarrow> string \<Rightarrow> db \<Rightarrow> bool" where
  "fresh_account i email d \<longleftrightarrow>
     i \<notin> u_id ` set (users d) \<and> email \<notin> u_email ` set (users d) \<and> i \<notin> b_user ` set (balances d)"

lemma self_service_roles: "role \<in> {''hirer'', ''worker'', ''both''} \<Longrightarrow> role \<in> set roles \<and> role \<noteq> ''admin''"
  by (auto simp: roles_def)

lemma users_create_fresh:
  assumes "role \<in> set roles" "i \<notin> u_id ` set (users d)" "email \<notin> u_email ` set (users d)"
  shows "users_create i now email h role d fs =
    (case pop_fault fs of
       (NoFault, fs') \<Rightarrow> (Inr (new_user i now email h role), d\<lparr>users := users d @ [new_user i now email h role]\<rparr>, fs')
     | (Fail m, fs') \<Rightarrow> (Inl (Database m), d, fs')
     | (Lost m, fs') \<Rightarrow> (Inl (Database m), d\<lparr>users := users d @ [new_user i now email h role]\<rparr>, fs'))"
  using assms
  by (auto simp: users_create_def stmt_def run_sql_def Let_def new_user_def split: prod.splits fault.splits)

lemma users_create_taken:
  assumes "role \<in> set roles" "j \<notin> u_id ` set (users d)" "email \<in> u_email ` set (users d)"
  shows "users_create j now email h role d [] = (Inl (Conflict ''email already registered''), d, [])"
  using assms by (auto simp: users_create_def stmt_def run_sql_def Let_def)

lemma ledger_initialize_new:
  assumes "i \<in> u_id ` set (users d)" "i \<notin> b_user ` set (balances d)"
  shows "ledger_initialize i d fs =
    (case pop_fault fs of
       (NoFault, fs') \<Rightarrow> (Inr (), d\<lparr>balances := balances d @ [zero_balance i]\<rparr>, fs')
     | (Fail m, fs') \<Rightarrow> (Inl (Database m), d, fs')
     | (Lost m, fs') \<Rightarrow> (Inl (Database m), d\<lparr>balances := balances d @ [zero_balance i]\<rparr>, fs'))"
  using assms
  by (auto simp: ledger_initialize_def stmt_def run_sql_def user_exists_def zero_balance_def
      split: prod.splits fault.splits)

lemma ledger_initialize_cases:
  assumes "ledger_initialize i d fs = (r, d', fs')"
  shows "d' = d \<or> i \<in> u_id ` set (users d) \<and> i \<notin> b_user ` set (balances d) \<and>
    d' = d\<lparr>balances := balances d @ [zero_balance i]\<rparr>"
    and "r = Inr u \<Longrightarrow> i \<in> b_user ` set (balances d')"
  using assms
  by (auto simp: ledger_initialize_def stmt_def run_sql_def user_exists_def zero_balance_def
      split: prod.splits fault.splits if_splits)

definition register_tail ::
  "auth_env \<Rightarrow> string \<Rightarrow> user_row \<Rightarrow> auth_response api" where
  "register_tail env role u =
     bind_db (lift_api (ledger_initialize (u_id u))) (\<lambda>_.
     bind_db (result_api (mint_token env (u_id u) (u_email u) role)) (\<lambda>(token, expires).
     return_db \<lparr>rs_token = token, rs_user_id = u_id u, rs_email = u_email u,
       rs_role = role, rs_expires_at = expires, rs_cu_balance = None\<rparr>))"

lemma register_eq:
  "register env i now email pw role =
     (if acceptable env email pw role then
        (case en_hash env pw of
           Inl e \<Rightarrow> throw_db (internal (''hash error: '' @ e))
         | Inr h \<Rightarrow> bind_db (lift_api (users_create i now email h role)) (register_tail env role))
      else throw_db (if \<not> validate_email email then bad_request ''invalid email address''
        else if \<not> validate_password env pw then bad_request
          ''password must be at least 8 characters with uppercase, lowercase, and a digit''
        else bad_request ''role must be hirer, worker, or both''))"
proof -
  have tail: "register_tail env role = (\<lambda>u.
     bind_db (lift_api (ledger_initialize (u_id u))) (\<lambda>_.
     bind_db (result_api (mint_token env (u_id u) (u_email u) role)) (\<lambda>(token, expires).
     return_db \<lparr>rs_token = token, rs_user_id = u_id u, rs_email = u_email u,
       rs_role = role, rs_expires_at = expires, rs_cu_balance = None\<rparr>)))"
    by (rule ext) (rule register_tail_def)
  show ?thesis unfolding register_def acceptable_def tail by auto
qed

lemma register_tail_cases:
  assumes "register_tail env role u d fs = (res, d', fs')"
  shows "d' = d \<or> u_id u \<notin> b_user ` set (balances d) \<and> d' = d\<lparr>balances := balances d @ [zero_balance (u_id u)]\<rparr>"
    and "res = Inr r \<Longrightarrow> u_id u \<in> b_user ` set (balances d')"
    and "res = Inr r \<Longrightarrow> rs_user_id r = u_id u \<and> rs_role r = role"
  using assms ledger_initialize_cases [of "u_id u" d fs]
  unfolding register_tail_def
  by (auto simp: bind_db_def lift_api_def map_err_db_def result_api_def return_db_def throw_db_def
      split: prod.splits sum.splits)

lemma register_refused:
  assumes "\<not> (acceptable env email pw role \<and> (\<exists>h. en_hash env pw = Inr h))"
  obtains e where "register env i now email pw role d fs = (Inl e, d, fs)"
proof (cases "acceptable env email pw role")
  case True
  with assms obtain e where "en_hash env pw = Inl e" by (cases "en_hash env pw") auto
  with True that show thesis by (simp add: register_eq throw_db_def)
next
  case False
  with that show thesis by (simp add: register_eq throw_db_def)
qed

lemma register_run:
  assumes "acceptable env email pw role" "en_hash env pw = Inr h" "fresh_account i email d"
  shows "register env i now email pw role d fs =
    (case pop_fault fs of
       (NoFault, fs') \<Rightarrow> register_tail env role (new_user i now email h role)
                         (d\<lparr>users := users d @ [new_user i now email h role]\<rparr>) fs'
     | (Fail m, fs') \<Rightarrow> (Inl (internal (''database error: '' @ m)), d, fs')
     | (Lost m, fs') \<Rightarrow> (Inl (internal (''database error: '' @ m)),
                         d\<lparr>users := users d @ [new_user i now email h role]\<rparr>, fs'))"
proof -
  have "role \<in> set roles" "i \<notin> u_id ` set (users d)" "email \<notin> u_email ` set (users d)"
    using assms(1,3) self_service_roles by (auto simp: acceptable_def fresh_account_def)
  from users_create_fresh [OF this, of now h fs] assms(1,2) show ?thesis
    by (simp add: register_eq bind_db_def lift_api_run split: prod.splits fault.splits)
qed

section \<open>Properties\<close>

text \<open>
  C31. Registration changes the database in one of two ways or not at all: it appends the new
  user, with a role among hirer, worker and both and a fresh id and e-mail, and then possibly the
  zero balance of that user. Whatever the outcome and the faults, no administrator appears or
  disappears; and a success means that the account has its balance.
\<close>

theorem register_effect:
  assumes "register env i now email pw role d fs = (res, d', fs')"
  shows "(d' = d \<or>
      (\<exists>h. acceptable env email pw role \<and> en_hash env pw = Inr h \<and>
         i \<notin> u_id ` set (users d) \<and> email \<notin> u_email ` set (users d) \<and>
         d' \<in> {d\<lparr>users := users d @ [new_user i now email h role]\<rparr>,
               d\<lparr>users := users d @ [new_user i now email h role],
                 balances := balances d @ [zero_balance i]\<rparr>})) \<and>
    filter (\<lambda>u. u_role u = ''admin'') (users d') = filter (\<lambda>u. u_role u = ''admin'') (users d) \<and>
    (\<forall>r. res = Inr r \<longrightarrow> rs_user_id r = i \<and> rs_role r = role \<and>
       i \<in> u_id ` set (users d') \<and> i \<in> b_user ` set (balances d'))"
proof (cases "acceptable env email pw role \<and> (\<exists>h. en_hash env pw = Inr h)")
  case False
  then obtain e where "register env i now email pw role d fs = (Inl e, d, fs)" by (rule register_refused)
  with assms show ?thesis by auto
next
  case True
  then obtain h where acc: "acceptable env email pw role" and h: "en_hash env pw = Inr h" by blast
  then have role: "role \<in> set roles" "role \<noteq> ''admin''"
    using self_service_roles [of role] by (auto simp: acceptable_def)
  let ?u = "new_user i now email h role"
  let ?m = "users_create i now email h role"
  obtain r1 d1 fs1 where m: "?m d fs = (r1, d1, fs1)" by (cases "?m d fs") auto
  note d1 = users_create_cases [OF m]
  have filt: "filter (\<lambda>u. u_role u = ''admin'') (xs @ [?u]) = filter (\<lambda>u. u_role u = ''admin'') xs" for xs
    using role(2) by (simp add: new_user_def)
  show ?thesis
  proof (cases r1)
    case (Inl e)
    then have "d' = d1" "res = Inl (api_of_decent e)"
      using assms acc h m by (simp_all add: register_eq bind_db_def lift_api_run)
    with d1 acc h filt show ?thesis by (auto simp: new_user_def)
  next
    case (Inr u)
    then have u: "u = ?u" "d1 = d\<lparr>users := users d @ [?u]\<rparr>" "i \<notin> u_id ` set (users d)"
        "email \<notin> u_email ` set (users d)"
      using users_create_ok [of i now email h role d fs u d1 fs1] m by (auto simp: new_user_def)
    have tail: "register_tail env role ?u d1 fs1 = (res, d', fs')"
      using assms acc h m Inr u(1) by (simp add: register_eq bind_db_def lift_api_run)
    have id: "u_id ?u = i" by (simp add: new_user_def)
    have "d' = d1 \<or> d' = d1\<lparr>balances := balances d1 @ [zero_balance i]\<rparr>"
      using register_tail_cases(1) [OF tail] by (auto simp: id)
    moreover have "rs_user_id r = i \<and> rs_role r = role \<and> i \<in> b_user ` set (balances d')" if "res = Inr r" for r
      using register_tail_cases(2,3) [OF tail that] by (simp add: id)
    ultimately show ?thesis
      using u(2-4) acc h filt by (auto simp: id rev_image_eqI)
  qed
qed

text \<open>
  C30. The life of an account. After a registration that succeeds, logging in with the same
  password answers with the account, its role and a balance of 0; and the token of that answer,
  sent as a Bearer header at any later time before it expires, is accepted as that user with that
  role, whatever \<open>?token=\<close> says, if the query string can be parsed.
\<close>

theorem account_roundtrip:
  assumes libs: "libs_ok env" "libs_ok (env\<lparr>en_now := later\<rparr>)"
    and fresh: "fresh_account i email d"
    and reg: "register env i now email pw role d [] = (Inr r, d', fs')"
    and alive: "later < en_now env + en_expiry_secs env"
  shows "\<exists>token expires.
    login env email pw d' [] =
      (Inr \<lparr>rs_token = token, rs_user_id = i, rs_email = email, rs_role = role,
            rs_expires_at = expires, rs_cu_balance = Some 0\<rparr>, d', []) \<and>
    jwt_middleware (env\<lparr>en_now := later\<rparr>) (Some (''Bearer '' @ token)) (Inr q) =
      Inr \<lparr>au_id = i, au_email = email, au_role = role\<rparr>"
proof -
  have "acceptable env email pw role \<and> (\<exists>h. en_hash env pw = Inr h)"
    using register_refused [of env email pw role i now d "[]"] reg
    by (metis Inl_Inr_False fst_conv)
  then obtain h where acc: "acceptable env email pw role" and h: "en_hash env pw = Inr h" by blast
  let ?u = "new_user i now email h role"
  let ?d1 = "d\<lparr>users := users d @ [?u]\<rparr>"
  let ?c = "\<lparr>cl_sub = en_uuid env i, cl_email = email, cl_role = role, cl_exp = en_now env + en_expiry_secs env\<rparr>"
  have init: "ledger_initialize i ?d1 [] = (Inr (), ?d1\<lparr>balances := balances d @ [zero_balance i]\<rparr>, [])"
    using fresh by (subst ledger_initialize_new) (auto simp: fresh_account_def new_user_def)
  have "register_tail env role ?u ?d1 [] = (Inr r, d', fs')"
    using reg register_run [OF acc h fresh, of now "[]"] by simp
  with init obtain token where tok: "en_encode env ?c (en_secret env) = Inr token"
    and d': "d' = ?d1\<lparr>balances := balances d @ [zero_balance i]\<rparr>"
    by (auto simp: register_tail_def bind_db_def lift_api_run new_user_def result_api_def
        mint_token_def Let_def return_db_def throw_db_def split: sum.splits)
  have mint: "mint_token env i email role = Inr (token, en_rfc3339 env (en_now env + en_expiry_secs env))"
    using tok by (simp add: mint_token_def)
  have found: "find (\<lambda>u. u_email u = email) (users d') = Some ?u"
    using fresh by (simp add: d') (subst find_snoc_fresh, auto simp: fresh_account_def new_user_def)
  have bal: "find_balance i d' = Some (zero_balance i)"
    using fresh by (simp add: d' find_balance_def) (subst find_snoc_fresh, auto simp: fresh_account_def zero_balance_def)
  have verify: "en_verify env pw h = Match" using libs(1) h by (simp add: libs_ok_def)
  have "login env email pw d' [] =
      (Inr \<lparr>rs_token = token, rs_user_id = i, rs_email = email, rs_role = role,
            rs_expires_at = en_rfc3339 env (en_now env + en_expiry_secs env), rs_cu_balance = Some 0\<rparr>, d', [])"
    using found bal verify mint
    by (simp add: login_def bind_db_def lift_api_run users_find_by_email_def stmt_def ok_or_db_def return_db_def
        result_api_def attempt_def ledger_get_balance_def new_user_def zero_balance_def)
  moreover have "jwt_middleware (env\<lparr>en_now := later\<rparr>) (Some (''Bearer '' @ token)) (Inr q) =
      Inr \<lparr>au_id = i, au_email = email, au_role = role\<rparr>"
  proof -
    have "en_decode env token (en_secret env) later = Inr ?c"
      using libs(2) tok alive by (simp add: libs_ok_def)
    moreover have "en_parse_uuid env (en_uuid env i) = Some i" using libs(1) by (simp add: libs_ok_def)
    ultimately show ?thesis by (simp add: jwt_middleware_def strip_prefix_def)
  qed
  ultimately show ?thesis by blast
qed

text \<open>
  Registration is not atomic. When the statement that creates the balance fails, the client
  sees an internal error while the user is already stored without a balance; every later attempt
  with that e-mail is refused as already registered, so the account cannot be completed.
\<close>

theorem register_not_atomic:
  assumes "acceptable env email pw role" "en_hash env pw = Inr h" "fresh_account i email d"
    and "j \<noteq> i" "j \<notin> u_id ` set (users d)"
  shows "register env i now email pw role d [NoFault, Fail m] =
      (Inl (internal (''database error: '' @ m)), d\<lparr>users := users d @ [new_user i now email h role]\<rparr>, []) \<and>
    register env j now' email pw role (d\<lparr>users := users d @ [new_user i now email h role]\<rparr>) [] =
      (Inl (bad_request ''email already registered''), d\<lparr>users := users d @ [new_user i now email h role]\<rparr>, [])"
proof
  let ?u = "new_user i now email h role"
  let ?d1 = "d\<lparr>users := users d @ [?u]\<rparr>"
  have "ledger_initialize i ?d1 [Fail m] = (Inl (Database m), ?d1, [])"
    using assms(3) by (subst ledger_initialize_new) (auto simp: fresh_account_def new_user_def)
  then show "register env i now email pw role d [NoFault, Fail m] = (Inl (internal (''database error: '' @ m)), ?d1, [])"
    using register_run [OF assms(1-3), of now "[NoFault, Fail m]"]
    by (simp add: register_tail_def bind_db_def lift_api_run new_user_def)
  have "role \<in> set roles" using assms(1) self_service_roles by (auto simp: acceptable_def)
  then have "users_create j now' email h role ?d1 [] = (Inl (Conflict ''email already registered''), ?d1, [])"
    using assms(4,5) by (intro users_create_taken) (auto simp: new_user_def)
  then show "register env j now' email pw role ?d1 [] = (Inl (bad_request ''email already registered''), ?d1, [])"
    using assms(1,2) by (simp add: register_eq bind_db_def lift_api_run)
qed

text \<open>
  \<open>validate_password\<close> measures the length in bytes: five characters that take eight bytes in
  UTF-8 are accepted (the message asks for eight characters), seven ASCII characters are not.
\<close>

theorem password_length_in_bytes:
  "validate_password env (''Aa1'' @ [CHR 0xE2, CHR 0x82, CHR 0xAC, CHR 0xC3, CHR 0xA9]) \<and>
   length (str_chars (''Aa1'' @ [CHR 0xE2, CHR 0x82, CHR 0xAC, CHR 0xC3, CHR 0xA9])) = 5 \<and>
   \<not> validate_password env ''Aa1bcde''"
  by (simp add: validate_password_def str_chars_def is_uppercase_def is_lowercase_def is_ascii_digit_def
      char_of_def)

section \<open>Witnesses\<close>

definition demo_claims :: claims where
  "demo_claims = \<lparr>cl_sub = bits_text (Uuid 7), cl_email = ''ann@x.io'', cl_role = ''both'', cl_exp = 4600\<rparr>"

definition demo_auth :: "u64 \<Rightarrow> auth_env" where
  "demo_auth now =
     \<lparr>en_now = now, en_uuid = bits_text, en_parse_uuid = bits_uuid,
      en_hash = Inr, en_verify = (\<lambda>p h. if p = h then Match else Mismatch),
      en_encode = (\<lambda>c s. if c = demo_claims then Inr ''tok'' else Inl ''unsupported''),
      en_decode = (\<lambda>t s n. if t = ''tok'' \<and> n < 4600 then Inr demo_claims else Inl ''bad token''),
      en_secret = ''k'', en_expiry_secs = 3600, en_rfc3339 = (\<lambda>_. ''t''),
      en_upper = (\<lambda>_. False), en_lower = (\<lambda>_. False)\<rparr>"

lemma demo_auth_ok: "libs_ok (demo_auth now)"
  by (auto simp: libs_ok_def demo_auth_def demo_claims_def bits_uuid_text split: if_splits)

lemma demo_acceptable: "acceptable (demo_auth 1000) ''ann@x.io'' ''Passw0rd'' ''both''"
  by (simp add: acceptable_def validate_email_def validate_password_def str_chars_def is_uppercase_def
      is_lowercase_def is_ascii_digit_def)

lemma demo_fresh: "fresh_account (Uuid 7) ''ann@x.io'' empty_db"
  by (simp add: fresh_account_def empty_db_def)

lemma demo_register:
  "\<exists>r d'. register (demo_auth 1000) (Uuid 7) 0 ''ann@x.io'' ''Passw0rd'' ''both'' empty_db [] = (Inr r, d', [])"
proof -
  have "en_hash (demo_auth 1000) ''Passw0rd'' = Inr ''Passw0rd''" by (simp add: demo_auth_def)
  moreover have "mint_token (demo_auth 1000) (Uuid 7) ''ann@x.io'' ''both'' = Inr (''tok'', ''t'')"
    by (simp add: mint_token_def demo_auth_def demo_claims_def)
  moreover have "ledger_initialize (Uuid 7) (empty_db\<lparr>users := [new_user (Uuid 7) 0 ''ann@x.io'' ''Passw0rd'' ''both'']\<rparr>) [] =
      (Inr (), empty_db\<lparr>users := [new_user (Uuid 7) 0 ''ann@x.io'' ''Passw0rd'' ''both''],
        balances := [zero_balance (Uuid 7)]\<rparr>, [])"
    by (subst ledger_initialize_new) (simp_all add: empty_db_def new_user_def)
  ultimately show ?thesis
    using register_run [OF demo_acceptable _ demo_fresh, of "''Passw0rd''" 0 "[]"]
    by (simp add: register_tail_def bind_db_def lift_api_run new_user_def result_api_def return_db_def empty_db_def)
qed

lemma register_effect_witness:
  "\<exists>r d'. register (demo_auth 1000) (Uuid 7) 0 ''ann@x.io'' ''Passw0rd'' ''both'' empty_db [] = (Inr r, d', []) \<and>
     Uuid 7 \<in> b_user ` set (balances d')"
proof -
  obtain r d' where "register (demo_auth 1000) (Uuid 7) 0 ''ann@x.io'' ''Passw0rd'' ''both'' empty_db [] = (Inr r, d', [])"
    using demo_register by blast
  with register_effect [OF this] show ?thesis by blast
qed

lemma account_roundtrip_witness:
  "\<exists>d' r token expires.
     login (demo_auth 1000) ''ann@x.io'' ''Passw0rd'' d' [] = (Inr r, d', []) \<and> rs_token r = token \<and>
     rs_expires_at r = expires \<and>
     jwt_middleware (demo_auth 2000) (Some (''Bearer '' @ token)) (Inr None) =
       Inr \<lparr>au_id = Uuid 7, au_email = ''ann@x.io'', au_role = ''both''\<rparr>"
proof -
  obtain r d' where reg: "register (demo_auth 1000) (Uuid 7) 0 ''ann@x.io'' ''Passw0rd'' ''both'' empty_db [] = (Inr r, d', [])"
    using demo_register by blast
  have later: "(demo_auth 1000)\<lparr>en_now := 2000\<rparr> = demo_auth 2000" by (simp add: demo_auth_def)
  have "libs_ok ((demo_auth 1000)\<lparr>en_now := 2000\<rparr>)" unfolding later by (rule demo_auth_ok)
  moreover have "2000 < en_now (demo_auth 1000) + en_expiry_secs (demo_auth 1000)"
    by (simp add: demo_auth_def)
  ultimately obtain token expires where
    "login (demo_auth 1000) ''ann@x.io'' ''Passw0rd'' d' [] =
      (Inr \<lparr>rs_token = token, rs_user_id = Uuid 7, rs_email = ''ann@x.io'', rs_role = ''both'',
            rs_expires_at = expires, rs_cu_balance = Some 0\<rparr>, d', [])"
    "jwt_middleware (demo_auth 2000) (Some (''Bearer '' @ token)) (Inr None) =
       Inr \<lparr>au_id = Uuid 7, au_email = ''ann@x.io'', au_role = ''both''\<rparr>"
    using account_roundtrip [OF demo_auth_ok _ demo_fresh reg, of 2000 None] later by auto
  then show ?thesis by (intro exI conjI) (assumption | simp)+
qed

lemma register_not_atomic_witness:
  "fst (register (demo_auth 1000) (Uuid 7) 0 ''ann@x.io'' ''Passw0rd'' ''both'' empty_db [NoFault, Fail ''down'']) =
     Inl (internal ''database error: down'') \<and>
   fst (register (demo_auth 1000) (Uuid 8) 9 ''ann@x.io'' ''Passw0rd'' ''both''
     (empty_db\<lparr>users := [new_user (Uuid 7) 0 ''ann@x.io'' ''Passw0rd'' ''both'']\<rparr>) []) =
     Inl (bad_request ''email already registered'')"
proof -
  have "en_hash (demo_auth 1000) ''Passw0rd'' = Inr ''Passw0rd''" by (simp add: demo_auth_def)
  from register_not_atomic [OF demo_acceptable this demo_fresh, of "Uuid 8" 0 "''down''" 9]
  show ?thesis by (simp add: empty_db_def)
qed

end
