(* ===== verification/Workers_Db.thy ===== *)
theory Workers_Db
  imports Users
begin

text \<open>
  The repository of workers and their sessions (\<open>db/workers.rs\<close>). Capabilities are the JSON value
  that registration stored. A column of type double orders NaN above every number.
\<close>

section \<open>Operations\<close>

definition workers_upsert :: "timestamp \<Rightarrow> peer_id \<Rightarrow> uuid \<Rightarrow> json \<Rightarrow> unit dbm" where
  "workers_upsert now peer user caps =
     stmt (\<lambda>d.
       if peer \<in> w_peer ` set (workers d) then
         Inr ((), d\<lparr>workers := update_where (\<lambda>w. w_peer w = peer)
           (\<lambda>w. w\<lparr>w_caps := caps, w_online := True, w_last_seen := Some now\<rparr>) (workers d)\<rparr>)
       else if \<not> user_exists user d then Inl (Database ''user_id foreign key'')
       else Inr ((), d\<lparr>workers := workers d @ [\<lparr>w_peer = peer, w_user = user, w_caps = caps,
              w_uptime = Fin 100, w_jobs_completed = 0, w_online = True, w_last_seen = Some now,
              w_registered_at = now\<rparr>]\<rparr>))"

definition workers_set_online :: "timestamp \<Rightarrow> peer_id \<Rightarrow> bool \<Rightarrow> unit dbm" where
  "workers_set_online now peer online =
     stmt (\<lambda>d. Inr ((), d\<lparr>workers := update_where (\<lambda>w. w_peer w = peer)
       (\<lambda>w. w\<lparr>w_online := online,
              w_last_seen := (if online then Some now else w_last_seen w)\<rparr>) (workers d)\<rparr>))"

definition workers_mark_all_offline :: "u64 dbm" where
  "workers_mark_all_offline =
     stmt (\<lambda>d. Inr (of_nat (length (workers d)),
       d\<lparr>workers := map (\<lambda>w. w\<lparr>w_online := False\<rparr>) (workers d)\<rparr>))"

definition workers_update_uptime :: "peer_id \<Rightarrow> f64 \<Rightarrow> unit dbm" where
  "workers_update_uptime peer score =
     stmt (\<lambda>d. Inr ((), d\<lparr>workers :=
       update_where (\<lambda>w. w_peer w = peer) (\<lambda>w. w\<lparr>w_uptime := score\<rparr>) (workers d)\<rparr>))"

definition workers_increment_jobs :: "peer_id \<Rightarrow> unit dbm" where
  "workers_increment_jobs peer =
     stmt (\<lambda>d.
       if \<exists>w\<in>set (workers d). w_peer w = peer \<and> i64_max < w_jobs_completed w + 1
       then Inl (Database ''bigint out of range'')
       else Inr ((), d\<lparr>workers := update_where (\<lambda>w. w_peer w = peer)
              (\<lambda>w. w\<lparr>w_jobs_completed := w_jobs_completed w + 1\<rparr>) (workers d)\<rparr>))"

definition pg_f64_less :: "f64 \<Rightarrow> f64 \<Rightarrow> bool" where
  "pg_f64_less x y = (if x = NaN then False else if y = NaN then True else f64_lt x y)"

definition by_uptime_jobs :: "worker_row \<Rightarrow> worker_row \<Rightarrow> bool" where
  "by_uptime_jobs a b \<longleftrightarrow>
     pg_f64_less (w_uptime b) (w_uptime a) \<or>
     w_uptime a = w_uptime b \<and> w_jobs_completed b < w_jobs_completed a"

definition by_online_uptime :: "worker_row \<Rightarrow> worker_row \<Rightarrow> bool" where
  "by_online_uptime a b \<longleftrightarrow>
     w_online a \<and> \<not> w_online b \<or>
     w_online a = w_online b \<and> pg_f64_less (w_uptime b) (w_uptime a)"

definition workers_list_online :: "worker_row list dbm" where
  "workers_list_online =
     stmt (select_sql (\<lambda>d. order_by by_uptime_jobs (filter w_online (workers d))))"

definition workers_list_all :: "worker_row list dbm" where
  "workers_list_all = stmt (select_sql (\<lambda>d. order_by by_online_uptime (workers d)))"

definition workers_count_online :: "int dbm" where
  "workers_count_online = stmt (select_sql (\<lambda>d. int (length (filter w_online (workers d)))))"

definition workers_record_session_start :: "uuid \<Rightarrow> timestamp \<Rightarrow> peer_id \<Rightarrow> uuid dbm" where
  "workers_record_session_start new_id now peer =
     stmt (\<lambda>d.
       if new_id \<in> s_id ` set (sessions d) then Inl (Database ''worker_sessions_pkey'')
       else if peer \<notin> w_peer ` set (workers d) then Inl (Database ''peer_id foreign key'')
       else Inr (new_id, d\<lparr>sessions := sessions d @ [\<lparr>s_id = new_id, s_peer = peer,
              s_connected_at = now, s_disconnected_at = None, s_reason = None\<rparr>]\<rparr>))"

definition workers_record_session_end :: "timestamp \<Rightarrow> uuid \<Rightarrow> string option \<Rightarrow> unit dbm" where
  "workers_record_session_end now session reason =
     stmt (\<lambda>d. Inr ((), d\<lparr>sessions := update_where (\<lambda>s. s_id s = session)
       (\<lambda>s. s\<lparr>s_disconnected_at := Some now, s_reason := reason\<rparr>) (sessions d)\<rparr>))"

text \<open>Seconds of all sessions that began in the last thirty days; times are in microseconds.\<close>

definition thirty_days :: int where
  "thirty_days = 30 * 24 * 3600 * 1000000"

definition session_micros :: "timestamp \<Rightarrow> session_row \<Rightarrow> int" where
  "session_micros now s =
     (case s_disconnected_at s of None \<Rightarrow> now | Some t \<Rightarrow> t) - s_connected_at s"

definition connected_seconds :: "timestamp \<Rightarrow> peer_id \<Rightarrow> db \<Rightarrow> f64" where
  "connected_seconds now peer d =
     mk_f64 (of_int (sum_list (map (session_micros now)
       (filter (\<lambda>s. s_peer s = peer \<and> now - thirty_days < s_connected_at s) (sessions d)))) / 1000000)"

definition workers_calculate_uptime :: "timestamp \<Rightarrow> peer_id \<Rightarrow> f64 dbm" where
  "workers_calculate_uptime now peer =
     bind_db (stmt (select_sql (connected_seconds now peer))) (\<lambda>connected.
     return_db (f64_min (f64_mul (f64_div connected (Fin (30 * 24 * 3600))) (Fin 100)) (Fin 100)))"

definition workers_find_by_peer_id :: "peer_id \<Rightarrow> worker_row option dbm" where
  "workers_find_by_peer_id peer =
     stmt (select_sql (\<lambda>d. find (\<lambda>w. w_peer w = peer) (workers d)))"

definition workers_find_by_user_id :: "uuid \<Rightarrow> worker_row option dbm" where
  "workers_find_by_user_id user =
     stmt (select_sql (\<lambda>d.
       case order_desc w_registered_at (filter (\<lambda>w. w_user w = user) (workers d)) of
         [] \<Rightarrow> None | w # _ \<Rightarrow> Some w))"

definition workers_count_total :: "int dbm" where
  "workers_count_total = stmt (select_sql (\<lambda>d. int (length (workers d))))"

subsection \<open>Filtered lists\<close>

text \<open>
  \<open>b[..1].to_uppercase() + &b[1..]\<close>: slicing inside a multi-byte character panics, the result \<open>None\<close>.
\<close>

definition ascii_upper :: "char \<Rightarrow> char" where
  "ascii_upper c =
     (if 97 \<le> (of_char c :: nat) \<and> (of_char c :: nat) \<le> 122 then char_of (of_char c - 32 :: nat) else c)"

fun capitalise :: "string \<Rightarrow> string option" where
  "capitalise [] = Some []"
| "capitalise (c # cs) = (if 128 \<le> (of_char c :: nat) then None else Some (ascii_upper c # cs))"

text \<open>\<open>capabilities->'gpus' @> '[{"backend": b}]'\<close>\<close>

definition has_gpu_backend :: "string \<Rightarrow> json \<Rightarrow> bool" where
  "has_gpu_backend b caps =
     (case json_get ''gpus'' caps of
        None \<Rightarrow> False
      | Some gs \<Rightarrow> list_ex (\<lambda>g. json_get ''backend'' g = Some (JStr b)) (json_items gs))"

text \<open>\<open>EXISTS (.. WHERE (g->>'vram_mb')::bigint >= mb)\<close>; the cast fails outside \<open>BIGINT\<close>.\<close>

fun some_vram :: "int \<Rightarrow> json list \<Rightarrow> string + bool" where
  "some_vram mb [] = Inr False"
| "some_vram mb (g # gs) =
     (case json_get ''vram_mb'' g of
        Some (JNum v) \<Rightarrow>
          if \<not> in_i64 v then Inl ''bigint out of range''
          else if mb \<le> v then Inr True else some_vram mb gs
      | Some JNull \<Rightarrow> some_vram mb gs
      | None \<Rightarrow> some_vram mb gs
      | Some _ \<Rightarrow> Inl ''invalid input syntax for type bigint'')"

fun filter_result :: "('r \<Rightarrow> string + bool) \<Rightarrow> 'r list \<Rightarrow> string + 'r list" where
  "filter_result P [] = Inr []"
| "filter_result P (r # rs) =
     (case P r of
        Inl e \<Rightarrow> Inl e
      | Inr b \<Rightarrow> (case filter_result P rs of Inl e \<Rightarrow> Inl e | Inr xs \<Rightarrow> Inr (if b then r # xs else xs)))"

definition worker_matches :: "string option \<Rightarrow> int option \<Rightarrow> bool \<Rightarrow> worker_row \<Rightarrow> string + bool" where
  "worker_matches cap min_vram online_only w =
     (if online_only \<and> \<not> w_online w then Inr False
      else if (case cap of None \<Rightarrow> False | Some b \<Rightarrow> \<not> has_gpu_backend b (w_caps w)) then Inr False
      else case min_vram of
          None \<Rightarrow> Inr True
        | Some mb \<Rightarrow> some_vram mb (case json_get ''gpus'' (w_caps w) of None \<Rightarrow> [] | Some g \<Rightarrow> json_items g))"

definition json_plain :: "string \<Rightarrow> bool" where
  "json_plain s \<longleftrightarrow> sql_safe s \<and> CHR 0x22 \<notin> set s \<and> CHR 0x5C \<notin> set s"

definition workers_list_with_filters ::
  "(string \<Rightarrow> worker_row list sql) \<Rightarrow> string option \<Rightarrow> int option \<Rightarrow> bool \<Rightarrow> int \<Rightarrow> int \<Rightarrow>
   worker_row list dbm option" where
  "workers_list_with_filters raw backend min_vram online_only limit offset =
     (let query = (\<lambda>cap. stmt (\<lambda>d.
            case filter_result (worker_matches cap min_vram online_only) (workers d) of
              Inl m \<Rightarrow> Inl (Database m)
            | Inr rows \<Rightarrow> page_sql limit offset (\<lambda>_. order_by by_online_uptime rows) d)) in
      case backend of
        None \<Rightarrow> Some (query None)
      | Some b \<Rightarrow>
          (case capitalise b of
             None \<Rightarrow> None
           | Some cap \<Rightarrow> Some (if json_plain cap then query (Some cap) else stmt (raw cap))))"

section \<open>The invariant of the table\<close>

definition workers_ok :: "db \<Rightarrow> bool" where
  "workers_ok d \<longleftrightarrow> distinct (map w_peer (workers d)) \<and> w_user ` set (workers d) \<subseteq> u_id ` set (users d)"

definition worker_online :: "peer_id \<Rightarrow> db \<Rightarrow> bool" where
  "worker_online p d \<longleftrightarrow> (\<exists>w\<in>set (workers d). w_peer w = p \<and> w_online w)"

lemma upsert_cases:
  assumes "workers_upsert now p u caps d fs = (r, d', fs')"
  shows "d' = d \<or>
    p \<in> w_peer ` set (workers d) \<and> d' = d\<lparr>workers := update_where (\<lambda>w. w_peer w = p)
      (\<lambda>w. w\<lparr>w_caps := caps, w_online := True, w_last_seen := Some now\<rparr>) (workers d)\<rparr> \<or>
    p \<notin> w_peer ` set (workers d) \<and> user_exists u d \<and> d' = d\<lparr>workers := workers d @ [\<lparr>w_peer = p,
      w_user = u, w_caps = caps, w_uptime = Fin 100, w_jobs_completed = 0, w_online = True,
      w_last_seen = Some now, w_registered_at = now\<rparr>]\<rparr>"
  using stmt_cases(1) [OF assms [unfolded workers_upsert_def]] by (auto split: if_splits)

lemma upsert_keeps:
  assumes "workers_ok d" "workers_upsert now p u caps d fs = (r, d', fs')"
  shows "workers_ok d'"
proof -
  let ?f = "\<lambda>w. w\<lparr>w_caps := caps, w_online := True, w_last_seen := Some now\<rparr>"
  have img: "w_user ` set (update_where (\<lambda>w. w_peer w = p) ?f (workers d)) = w_user ` set (workers d)"
    by (rule image_update_where) simp
  show ?thesis
    using upsert_cases [OF assms(2)] assms(1) img unfolding workers_ok_def user_exists_def
    by (elim disjE) (simp_all add: map_update_where)
qed

lemma upsert_online:
  assumes "workers_upsert now p u caps d fs = (Inr x, d', fs')"
  shows "worker_online p d'"
  using stmt_cases(2) [OF assms [unfolded workers_upsert_def]]
  by (auto simp: worker_online_def bex_update_where split: if_splits)

text \<open>
  After a worker registers it is listed, online and with the capabilities it sent, and it keeps
  the owner of its first registration: a second registration of the same peer under another account
  does not move it.
\<close>
theorem upsert_keeps_owner:
  "case workers_upsert now p u caps d [] of
     (Inr _, d', _) \<Rightarrow>
       map_option w_user (find (\<lambda>w. w_peer w = p) (workers d')) =
         Some (case find (\<lambda>w. w_peer w = p) (workers d) of None \<Rightarrow> u | Some w \<Rightarrow> w_user w) \<and>
       map_option w_caps (find (\<lambda>w. w_peer w = p) (workers d')) = Some caps \<and> worker_online p d'
   | (Inl _, d', _) \<Rightarrow> d' = d \<and> find (\<lambda>w. w_peer w = p) (workers d) = None \<and> \<not> user_exists u d"
proof -
  obtain r d' fs' where run: "workers_upsert now p u caps d [] = (r, d', fs')"
    by (cases "workers_upsert now p u caps d []")
  let ?f = "\<lambda>w. w\<lparr>w_caps := caps, w_online := True, w_last_seen := Some now\<rparr>"
  have upd: "find (\<lambda>w. w_peer w = p) (update_where (\<lambda>w. w_peer w = p) ?f (workers d)) =
      map_option ?f (find (\<lambda>w. w_peer w = p) (workers d))"
    by (rule find_update_same) simp
  show ?thesis
  proof (cases "find (\<lambda>w. w_peer w = p) (workers d)")
    case None
    then have "p \<notin> w_peer ` set (workers d)" by (auto simp: find_eq_None)
    with None run show ?thesis
      by (auto simp: workers_upsert_def stmt_nil run_sql_def find_append worker_online_def)
  next
    case (Some w)
    then have "p \<in> w_peer ` set (workers d)" "w \<in> set (workers d)" "w_peer w = p"
      by (auto dest: find_Some_set)
    with Some upd show ?thesis
      by (auto simp: workers_upsert_def stmt_nil run_sql_def worker_online_def bex_update_where)
  qed
qed

end
