(* ===== verification/Admin_Api.thy ===== *)
theory Admin_Api
  imports Accounts Ledger_Audit Workers_Db Jobs_Db Proto
begin

text \<open>
  The handlers of administrators, of compute units and of the worker list (\<open>api/admin.rs\<close>,
  \<open>api/credits.rs\<close>, \<open>api/workers.rs\<close>). A handler is an action on the database that answers with JSON
  or an API error; \<open>su\<close> is the text of a UUID, \<open>ts\<close> the text of a time. \<open>update_user_role\<close> is kept as
  a check followed by a commit, because nothing holds the rows in between.
\<close>

section \<open>Access\<close>

text \<open>A route behind the middleware, and one that asks for an administrator.\<close>

definition with_user ::
  "auth_env \<Rightarrow> string option \<Rightarrow> string + string option \<Rightarrow> (auth_user \<Rightarrow> 'a api) \<Rightarrow> 'a api" where
  "with_user env header query handler =
     bind_db (result_api (jwt_middleware env header query)) (\<lambda>u.
     bind_db (result_api (auth_extractor (Some u))) handler)"

definition with_admin ::
  "auth_env \<Rightarrow> string option \<Rightarrow> string + string option \<Rightarrow> (uuid \<Rightarrow> 'a api) \<Rightarrow> 'a api" where
  "with_admin env header query handler =
     bind_db (result_api (jwt_middleware env header query)) (\<lambda>u.
     bind_db (result_api (admin_extractor (Some u))) handler)"

definition page_limit :: "int \<Rightarrow> int \<Rightarrow> int option \<Rightarrow> int" where
  "page_limit standard most limit = max 1 (min most (unwrap_or standard limit))"

definition page_offset :: "int option \<Rightarrow> int" where
  "page_offset offset = max 0 (unwrap_or 0 offset)"

section \<open>Users\<close>

definition user_json :: "(uuid \<Rightarrow> string) \<Rightarrow> (timestamp \<Rightarrow> string) \<Rightarrow> user_row \<Rightarrow> json" where
  "user_json su ts u =
     JObj [(''id'', JStr (su (u_id u))), (''email'', JStr (u_email u)), (''role'', JStr (u_role u)),
           (''created_at'', JStr (ts (u_created_at u)))]"

definition list_users ::
  "(uuid \<Rightarrow> string) \<Rightarrow> (timestamp \<Rightarrow> string) \<Rightarrow> (string \<Rightarrow> string \<Rightarrow> bool) \<Rightarrow> string option \<Rightarrow>
   string option \<Rightarrow> int option \<Rightarrow> int option \<Rightarrow> json api" where
  "list_users su ts ilike search role limit offset =
     (let l = page_limit 50 200 limit; off = page_offset offset in
      bind_db (lift_api (users_count_all ilike search role)) (\<lambda>total.
      bind_db (lift_api (users_list_all ilike search role l off)) (\<lambda>us.
      return_db (JObj [(''users'', JArr (map (user_json su ts) us)), (''total'', JNum total),
        (''limit'', JNum l), (''offset'', JNum off)]))))"

definition get_user :: "(uuid \<Rightarrow> string) \<Rightarrow> (timestamp \<Rightarrow> string) \<Rightarrow> uuid \<Rightarrow> json api" where
  "get_user su ts i =
     bind_db (lift_api (users_find_by_id i)) (\<lambda>found.
     bind_db (ok_or_db (not_found ''user not found'') found) (\<lambda>u.
     return_db (user_json su ts u)))"

definition role_check :: "uuid \<Rightarrow> uuid \<Rightarrow> string \<Rightarrow> unit api" where
  "role_check admin i role =
     (if role \<notin> set roles then
        throw_db (bad_request ''invalid role; must be one of: hirer, worker, both, admin'')
      else if i = admin \<and> role \<noteq> ''admin'' then throw_db (bad_request ''cannot demote yourself'')
      else if role \<noteq> ''admin'' then
        bind_db (lift_api (users_find_by_id i)) (\<lambda>found.
        bind_db (ok_or_db (not_found ''user not found'') found) (\<lambda>target.
        if u_role target = ''admin'' then
          bind_db (lift_api users_count_admins) (\<lambda>n.
          if n \<le> 1 then throw_db (bad_request ''cannot demote the last admin'') else return_db ())
        else return_db ()))
      else return_db ())"

definition role_commit :: "(uuid \<Rightarrow> string) \<Rightarrow> uuid \<Rightarrow> string \<Rightarrow> json api" where
  "role_commit su i role =
     bind_db (lift_api (users_update_role su i role)) (\<lambda>u.
     return_db (JObj [(''id'', JStr (su (u_id u))), (''role'', JStr (u_role u))]))"

definition update_user_role :: "(uuid \<Rightarrow> string) \<Rightarrow> uuid \<Rightarrow> uuid \<Rightarrow> string \<Rightarrow> json api" where
  "update_user_role su admin i role = bind_db (role_check admin i role) (\<lambda>_. role_commit su i role)"

section \<open>Statistics\<close>

text \<open>
  A number in an answer is \<open>BIGINT\<close> or \<open>NUMERIC\<close>; \<open>sum\<close> over \<open>BIGINT\<close> is \<open>NUMERIC\<close>, which does not
  decode as \<open>i64\<close>.
\<close>

datatype pg_number = Bigint int | Numeric int

fun decode_i64 :: "pg_number \<Rightarrow> decent_error + int" where
  "decode_i64 (Bigint n) = Inr n"
| "decode_i64 (Numeric n) = Inl (Database ''mismatched types'')"

definition scalar_or_zero :: "(db \<Rightarrow> pg_number) \<Rightarrow> int api" where
  "scalar_or_zero q =
     bind_db (attempt (stmt (select_sql q))) (\<lambda>r.
     return_db (case r of Inl _ \<Rightarrow> 0 | Inr x \<Rightarrow> unwrap_or 0 (to_option (decode_i64 x))))"

definition count_where :: "('r \<Rightarrow> bool) \<Rightarrow> (db \<Rightarrow> 'r list) \<Rightarrow> db \<Rightarrow> pg_number" where
  "count_where P table d = Bigint (int (length (filter P (table d))))"

definition group_count :: "('r \<Rightarrow> 'k) \<Rightarrow> 'r list \<Rightarrow> ('k \<times> 'r list) list" where
  "group_count key rs = map (\<lambda>k. (k, filter (\<lambda>r. key r = k) rs)) (remdups (map key rs))"

definition count_json :: "('r \<Rightarrow> bool) \<Rightarrow> 'r list \<Rightarrow> json" where
  "count_json P rs = JNum (int (length (filter P rs)))"

definition rows_or_empty :: "(db \<Rightarrow> 'r list) \<Rightarrow> 'r list api" where
  "rows_or_empty q =
     bind_db (attempt (stmt (select_sql q))) (\<lambda>r. return_db (case r of Inl _ \<Rightarrow> [] | Inr rs \<Rightarrow> rs))"

text \<open>\<open>day\<close> numbers the dates in the time zone of the session; \<open>dt\<close> is the text of a date.\<close>

definition get_stats ::
  "(timestamp \<Rightarrow> int) \<Rightarrow> (int \<Rightarrow> string) \<Rightarrow> timestamp \<Rightarrow> timestamp \<Rightarrow> json api" where
  "get_stats day dt now today =
     bind_db (scalar_or_zero (count_where (\<lambda>_. True) users)) (\<lambda>users_total.
     bind_db (scalar_or_zero (count_where w_online workers)) (\<lambda>workers_online.
     bind_db (scalar_or_zero (count_where (\<lambda>j. j_status j = ''running'') jobs)) (\<lambda>jobs_running.
     bind_db (scalar_or_zero (count_where (\<lambda>j. j_status j = ''completed'' \<and>
                (case j_finished_at j of None \<Rightarrow> False | Some t \<Rightarrow> today \<le> t)) jobs)) (\<lambda>jobs_today.
     bind_db (scalar_or_zero (count_where (\<lambda>_. True) jobs)) (\<lambda>jobs_total.
     bind_db (scalar_or_zero (\<lambda>d. Numeric (sum_of cu_amount (\<lambda>t. tx_kind t = ''allocation'') d))) (\<lambda>cu_allocated.
     bind_db (scalar_or_zero (\<lambda>d. Numeric (sum_of (\<lambda>t. \<bar>cu_amount t\<bar>) (\<lambda>t. tx_kind t = ''job_debit'') d))) (\<lambda>cu_consumed.
     bind_db (rows_or_empty (\<lambda>d. order_asc fst (group_count (\<lambda>j. day (j_created_at j))
                (filter (\<lambda>j. now - 14 * 24 * 3600 * 1000000 \<le> j_created_at j) (jobs d))))) (\<lambda>by_day.
     bind_db (rows_or_empty (\<lambda>d. order_desc (\<lambda>g. int (length (snd g)))
                (group_count j_backend (jobs d)))) (\<lambda>by_backend.
     return_db (JObj
       [(''users_total'', JNum users_total), (''workers_online'', JNum workers_online),
        (''jobs_running'', JNum jobs_running), (''jobs_today'', JNum jobs_today),
        (''jobs_total'', JNum jobs_total), (''cu_allocated_total'', JNum cu_allocated),
        (''cu_consumed_total'', JNum cu_consumed),
        (''jobs_by_day'', JArr (map (\<lambda>(k, js). JObj
           [(''day'', JStr (dt k)), (''count'', count_json (\<lambda>_. True) js),
            (''completed'', count_json (\<lambda>j. j_status j = ''completed'') js),
            (''failed'', count_json (\<lambda>j. j_status j = ''failed'') js)]) by_day)),
        (''jobs_by_backend'', JArr (map (\<lambda>(b, js). JObj
           [(''backend'', JStr b), (''count'', count_json (\<lambda>_. True) js)]) by_backend))]))))))))))"

section \<open>Workers\<close>

text \<open>The commands of the API and the scheduler to the P2P layer.\<close>

datatype job_command = AssignJob peer_id job_assignment | CancelJob peer_id string

definition disconnect_worker ::
  "(string \<Rightarrow> peer_id option) \<Rightarrow> bool \<Rightarrow> timestamp \<Rightarrow> string \<Rightarrow> (json \<times> job_command list) api" where
  "disconnect_worker parse channel_open now peer_str =
     (case parse peer_str of
        None \<Rightarrow> throw_db (bad_request ''invalid peer_id format'')
      | Some peer \<Rightarrow>
          bind_db (lift_api (workers_set_online now peer_str False)) (\<lambda>_.
          if channel_open then
            return_db (JObj [(''disconnected'', JStr peer_str)], [CancelJob peer []])
          else throw_db (internal ''P2P command channel closed'')))"

definition worker_summary :: "(timestamp \<Rightarrow> string) \<Rightarrow> worker_row \<Rightarrow> json" where
  "worker_summary ts w =
     JObj [(''peer_id'', JStr (w_peer w)), (''is_online'', JBool (w_online w)),
           (''uptime_score'', JFloat (w_uptime w)), (''jobs_completed'', JNum (w_jobs_completed w)),
           (''capabilities'', w_caps w),
           (''last_seen'', case w_last_seen w of None \<Rightarrow> JNull | Some t \<Rightarrow> JStr (ts t))]"

text \<open>The result \<open>None\<close> is the panic of \<open>list_with_filters\<close> on a multi-byte backend.\<close>

definition list_workers ::
  "(timestamp \<Rightarrow> string) \<Rightarrow> (string \<Rightarrow> worker_row list sql) \<Rightarrow> string option \<Rightarrow> int option \<Rightarrow>
   bool option \<Rightarrow> int option \<Rightarrow> int option \<Rightarrow> json api option" where
  "list_workers ts raw backend min_vram online_only limit offset =
     map_option
       (\<lambda>m. bind_db (lift_api m) (\<lambda>rows. return_db (JArr (map (worker_summary ts) rows))))
       (workers_list_with_filters raw backend min_vram (unwrap_or False online_only)
         (page_limit 50 200 limit) (page_offset offset))"

definition get_my_worker :: "(timestamp \<Rightarrow> string) \<Rightarrow> auth_user \<Rightarrow> json api" where
  "get_my_worker ts user =
     bind_db (lift_api (workers_find_by_user_id (au_id user))) (\<lambda>found.
     bind_db (ok_or_db (not_found ''no worker registered for this account'') found) (\<lambda>w.
     return_db (worker_summary ts w)))"

definition get_worker_by_peer_id :: "(timestamp \<Rightarrow> string) \<Rightarrow> peer_id \<Rightarrow> json api" where
  "get_worker_by_peer_id ts peer =
     bind_db (lift_api (workers_find_by_peer_id peer)) (\<lambda>found.
     bind_db (ok_or_db (not_found ''worker not found'') found) (\<lambda>w.
     return_db (worker_summary ts w)))"

section \<open>Compute units\<close>

definition get_pricing :: json where
  "get_pricing =
     JObj [(''base_rate_per_hour'', JNum BASE_RATE_PER_HOUR),
       (''multipliers'', JObj [(''cpu_only'', JFloat (Fin 1)), (''metal'', JFloat (Fin 3)),
          (''rocm'', JFloat (Fin 4)), (''cuda'', JFloat (Fin 5))]),
       (''example_prices_1h'', JObj
          [(''cpu_only'', JNum (calculate_price CpuOnly (Fin 1))),
           (''metal'', JNum (calculate_price Metal (Fin 1))),
           (''rocm'', JNum (calculate_price Rocm (Fin 1))),
           (''cuda'', JNum (calculate_price Cuda (Fin 1)))]),
       (''unit'', JStr ''CU'')]"

definition tx_json :: "(uuid \<Rightarrow> string) \<Rightarrow> (timestamp \<Rightarrow> string) \<Rightarrow> tx_row \<Rightarrow> json" where
  "tx_json su ts t =
     JObj [(''id'', JStr (su (tx_id t))), (''cu_amount'', JNum (cu_amount t)),
           (''tx_type'', JStr (tx_kind t)),
           (''job_id'', case tx_job t of None \<Rightarrow> JNull | Some j \<Rightarrow> JStr (su j)),
           (''created_at'', JStr (ts (tx_created_at t)))]"

definition internal_err :: "decent_error \<Rightarrow> api_error" where
  "internal_err e = internal (decent_display e)"

definition get_balance ::
  "(uuid \<Rightarrow> string) \<Rightarrow> (timestamp \<Rightarrow> string) \<Rightarrow> (string \<Rightarrow> int sql) \<Rightarrow> (string \<Rightarrow> tx_row list sql) \<Rightarrow>
   auth_user \<Rightarrow> json api" where
  "get_balance su ts raw_count raw_rows user =
     bind_db (lift_api (ledger_get_balance su (au_id user))) (\<lambda>(balance, reserved).
     bind_db (map_err_db internal_err
       (cu_list_transactions_paginated raw_count raw_rows (au_id user) 10 0 None)) (\<lambda>(recent, _).
     return_db (JObj [(''cu_balance'', JNum balance), (''cu_reserved'', JNum reserved),
       (''cu_available'', JNum (wrap_i64 (balance - reserved))), (''unit'', JStr ''CU''),
       (''recent_transactions'', JArr (map (tx_json su ts) recent))])))"

definition list_transactions ::
  "(uuid \<Rightarrow> string) \<Rightarrow> (timestamp \<Rightarrow> string) \<Rightarrow> (string \<Rightarrow> int sql) \<Rightarrow> (string \<Rightarrow> tx_row list sql) \<Rightarrow>
   auth_user \<Rightarrow> int option \<Rightarrow> int option \<Rightarrow> string option \<Rightarrow> json api" where
  "list_transactions su ts raw_count raw_rows user limit offset kind =
     (let l = page_limit 25 100 limit; off = page_offset offset in
      bind_db (map_err_db internal_err
        (cu_list_transactions_paginated raw_count raw_rows (au_id user) l off kind)) (\<lambda>(rows, total).
      return_db (JObj [(''transactions'', JArr (map (tx_json su ts) rows)), (''total'', JNum total),
        (''limit'', JNum l), (''offset'', JNum off)])))"

definition allocate :: "(uuid \<Rightarrow> string) \<Rightarrow> uuid \<Rightarrow> timestamp \<Rightarrow> uuid \<Rightarrow> int \<Rightarrow> json api" where
  "allocate su new_id now user amount =
     (if amount < 1 \<or> 1000000 < amount then
        throw_db (bad_request ''amount must be between 1 and 1,000,000'')
      else
        bind_db (lift_api (ledger_allocate su new_id now user amount)) (\<lambda>new_balance.
        return_db (JObj [(''user_id'', JStr (su user)), (''allocated'', JNum amount),
          (''cu_balance'', JNum new_balance)])))"

section \<open>Properties of the roles\<close>

lemma role_check_same: "role_check admin i role d fs = (r, d', fs') \<Longrightarrow> d' = d"
  by (auto simp: role_check_def bind_db_def lift_api_run throw_db_def return_db_def ok_or_db_def
      users_find_by_id_def users_count_admins_def stmt_def
      split: if_splits prod.splits sum.splits option.splits fault.splits)

lemma role_check_demotion:
  assumes "role_check admin i role d fs = (Inr x, d', fs')" "role \<noteq> ''admin''"
    "find (\<lambda>u. u_id u = i) (users d) = Some target" "u_role target = ''admin''"
  shows "1 < admin_count d"
  using assms
  by (auto simp: role_check_def bind_db_def lift_api_run throw_db_def return_db_def ok_or_db_def
      users_find_by_id_def users_count_admins_def stmt_def
      split: if_splits prod.splits sum.splits option.splits fault.splits)

lemma role_commit_cases:
  assumes "role_commit su i role d fs = (r, d', fs')"
  shows "d' = d \<or> role \<in> set roles \<and>
    d' = d\<lparr>users := update_where (\<lambda>u. u_id u = i) (\<lambda>u. u\<lparr>u_role := role\<rparr>) (users d)\<rparr>"
proof -
  obtain q d1 fs1 where q: "users_update_role su i role d fs = (q, d1, fs1)"
    by (cases "users_update_role su i role d fs") auto
  then have "d' = d1"
    using assms by (auto simp: role_commit_def bind_db_def lift_api_run return_db_def split: sum.splits)
  with users_update_role_cases [OF q] show ?thesis by blast
qed

lemma role_commit_ok:
  assumes "role_commit su i role d fs = (Inr x, d', fs')"
  shows "users d' = update_where (\<lambda>u. u_id u = i) (\<lambda>u. u\<lparr>u_role := role\<rparr>) (users d)"
proof -
  obtain q d1 fs1 where q: "users_update_role su i role d fs = (q, d1, fs1)"
    by (cases "users_update_role su i role d fs") auto
  with assms obtain u where "q = Inr u" "d' = d1"
    by (auto simp: role_commit_def bind_db_def lift_api_run return_db_def split: sum.splits)
  with users_update_role_ok [of su i role d fs u d1 fs1] q show ?thesis by simp
qed

lemma role_check_passes:
  assumes "find (\<lambda>u. u_id u = i) (users d) = Some t" "role \<in> set roles" "role \<noteq> ''admin''" "i \<noteq> admin"
    and "u_role t = ''admin'' \<Longrightarrow> 1 < admin_count d"
  shows "role_check admin i role d [] = (Inr (), d, [])"
  using assms
  by (auto simp: role_check_def bind_db_def lift_api_run users_find_by_id_def users_count_admins_def
      stmt_nil ok_or_db_def return_db_def)

lemma role_commit_run:
  assumes "find (\<lambda>u. u_id u = i) (users d) = Some t" "role \<in> set roles"
  shows "db_after (role_commit su i role) d [] =
      d\<lparr>users := update_where (\<lambda>u. u_id u = i) (\<lambda>u. u\<lparr>u_role := role\<rparr>) (users d)\<rparr>"
    and "\<exists>x. role_commit su i role d [] = (Inr x, db_after (role_commit su i role) d [], [])"
  using assms
  by (auto simp: db_after_def role_commit_def bind_db_def lift_api_run users_update_role_def
      stmt_nil run_sql_def Let_def find_update_where ok_or_db_def return_db_def)

text \<open>Changing one row changes the number of administrators by at most that row.\<close>

lemma count_update_one:
  assumes "distinct (map k xs)" "\<And>x. k (f x) = k x"
  shows "length (filter P xs) \<le> length (filter P (update_where (\<lambda>x. k x = i) f xs)) +
    (case find (\<lambda>x. k x = i) xs of None \<Rightarrow> 0 | Some x \<Rightarrow> if P x \<and> \<not> P (f x) then 1 else 0)"
  using assms(1)
proof (induction xs)
  case (Cons a xs)
  show ?case
  proof (cases "k a = i")
    case True
    then have "update_where (\<lambda>x. k x = i) f xs = xs"
      using Cons.prems by (auto simp: update_where_def intro!: map_idI) (metis image_eqI)
    with True show ?thesis by (simp add: update_where_def)
  next
    case False
    with Cons show ?thesis by (simp add: update_where_def)
  qed
qed simp

lemma admin_count_commit:
  assumes "users_ok d" "role_commit su i role d fs = (r, d', fs')"
  shows "admin_count d \<le> admin_count d' +
    (case find (\<lambda>u. u_id u = i) (users d) of
       None \<Rightarrow> 0 | Some u \<Rightarrow> if u_role u = ''admin'' \<and> role \<noteq> ''admin'' then 1 else 0)"
proof -
  from role_commit_cases [OF assms(2)] show ?thesis
  proof (elim disjE conjE)
    assume d': "d' = d\<lparr>users := update_where (\<lambda>u. u_id u = i) (\<lambda>u. u\<lparr>u_role := role\<rparr>) (users d)\<rparr>"
    have "distinct (map u_id (users d))" using assms(1) by (simp add: users_ok_def)
    from count_update_one [OF this, of "\<lambda>u. u\<lparr>u_role := role\<rparr>" "\<lambda>u. u_role u = ''admin''" i]
    show ?thesis unfolding admin_count_def d' by (auto split: option.splits if_splits)
  qed (simp split: option.splits)
qed

text \<open>
  C34. An administrator always remains: a role update that runs by itself, under any faults of the
  database, keeps the table well formed and keeps at least one administrator; nobody demotes
  himself.
\<close>

theorem last_admin_kept:
  assumes "users_ok d" "1 \<le> admin_count d"
    and run: "update_user_role su admin i role d fs = (r, d', fs')"
  shows "users_ok d' \<and> 1 \<le> admin_count d' \<and> (i = admin \<and> role \<noteq> ''admin'' \<longrightarrow> d' = d \<and> (\<exists>e. r = Inl e))"
proof -
  obtain c d1 fs1 where chk: "role_check admin i role d fs = (c, d1, fs1)"
    by (cases "role_check admin i role d fs") auto
  then have d1: "d1 = d" by (rule role_check_same)
  show ?thesis
  proof (cases c)
    case (Inl e)
    then show ?thesis
      using assms run chk d1 by (auto simp: update_user_role_def bind_db_def)
  next
    case (Inr u)
    then have com: "role_commit su i role d fs1 = (r, d', fs')"
      using run chk d1 by (simp add: update_user_role_def bind_db_def)
    have "users_ok d'"
      using role_commit_cases [OF com] assms(1)
      by (auto simp: users_ok_def map_update_where set_update_where)
    moreover have "1 \<le> admin_count d'"
    proof (cases "role \<noteq> ''admin'' \<and> (\<exists>t. find (\<lambda>u. u_id u = i) (users d) = Some t \<and> u_role t = ''admin'')")
      case True
      then have "1 < admin_count d" using role_check_demotion [of admin i role d fs u d1 fs1] chk Inr d1 by auto
      with admin_count_commit [OF assms(1) com] show ?thesis by (auto split: option.splits if_splits)
    next
      case False
      with admin_count_commit [OF assms(1) com] assms(2) show ?thesis by (auto split: option.splits if_splits)
    qed
    moreover have "\<not> (i = admin \<and> role \<noteq> ''admin'')"
      using chk Inr by (auto simp: role_check_def throw_db_def split: if_splits)
    ultimately show ?thesis by blast
  qed
qed

definition two_admins :: "uuid \<Rightarrow> uuid \<Rightarrow> db" where
  "two_admins a b = empty_db\<lparr>users := [new_user a 0 ''a@x.io'' ''h'' ''admin'', new_user b 1 ''b@x.io'' ''h'' ''admin'']\<rparr>"

text \<open>
  The check is not atomic with the update. Two administrators who demote each other at the same
  time both pass the check, and after both updates no administrator is left.
\<close>

theorem admin_race:
  assumes "a \<noteq> b"
  defines "d \<equiv> two_admins a b"
  shows "users_ok d \<and> role_check a b ''hirer'' d [] = (Inr (), d, []) \<and>
    role_check b a ''worker'' d [] = (Inr (), d, []) \<and>
    admin_count (db_after (bind_db (role_commit su b ''hirer'') (\<lambda>_. role_commit su a ''worker'')) d []) = 0"
proof (intro conjI)
  have ab: "b \<noteq> a" using assms(1) by simp
  have us: "users d = [new_user a 0 ''a@x.io'' ''h'' ''admin'', new_user b 1 ''b@x.io'' ''h'' ''admin'']"
    by (simp add: d_def two_admins_def)
  have roles: "''hirer'' \<in> set roles" "''worker'' \<in> set roles" by (simp_all add: roles_def)
  have n: "admin_count d = 2" by (simp add: admin_count_def us new_user_def)
  show "users_ok d" using assms(1) by (simp add: users_ok_def us new_user_def roles_def)
  show "role_check a b ''hirer'' d [] = (Inr (), d, [])"
    using ab by (intro role_check_passes) (simp_all add: us new_user_def n roles)
  show "role_check b a ''worker'' d [] = (Inr (), d, [])"
    using ab by (intro role_check_passes) (simp_all add: us new_user_def n roles)
  let ?d1 = "db_after (role_commit su b ''hirer'') d []"
  have d1: "users ?d1 = [new_user a 0 ''a@x.io'' ''h'' ''admin'', new_user b 1 ''b@x.io'' ''h'' ''hirer'']"
    using ab by (subst role_commit_run(1)) (simp_all add: us new_user_def roles update_where_def)
  obtain x where com: "role_commit su b ''hirer'' d [] = (Inr x, ?d1, [])"
    using role_commit_run(2) [of b d _ "''hirer''" su] ab roles by (auto simp: us new_user_def)
  have "db_after (bind_db (role_commit su b ''hirer'') (\<lambda>_. role_commit su a ''worker'')) d [] =
      db_after (role_commit su a ''worker'') ?d1 []"
    unfolding db_after_def [of "bind_db _ _"] bind_db_def com by (simp add: db_after_def)
  moreover have "users (db_after (role_commit su a ''worker'') ?d1 []) =
      [new_user a 0 ''a@x.io'' ''h'' ''worker'', new_user b 1 ''b@x.io'' ''h'' ''hirer'']"
    using ab by (subst role_commit_run(1)) (simp_all add: d1 new_user_def roles update_where_def)
  ultimately show "admin_count (db_after (bind_db (role_commit su b ''hirer'') (\<lambda>_. role_commit su a ''worker'')) d []) = 0"
    by (simp add: admin_count_def new_user_def)
qed

text \<open>
  A role lives in the token. After an administrator has been demoted in the database, a token
  minted before still opens every administrator's route until it expires.
\<close>

theorem demoted_admin_keeps_access:
  assumes "libs_ok env" "libs_ok (env\<lparr>en_now := later\<rparr>)"
    and "mint_token env b email ''admin'' = Inr (token, expires)"
    and "later < en_now env + en_expiry_secs env"
    and demote: "role_commit su b ''hirer'' d fs = (Inr x, d', fs')"
  shows "(\<forall>u\<in>set (users d'). u_id u = b \<longrightarrow> u_role u = ''hirer'') \<and>
    with_admin (env\<lparr>en_now := later\<rparr>) (Some (''Bearer '' @ token)) (Inr q) handler d' fs'' = handler b d' fs''"
proof
  let ?c = "\<lparr>cl_sub = en_uuid env b, cl_email = email, cl_role = ''admin'', cl_exp = en_now env + en_expiry_secs env\<rparr>"
  have "en_encode env ?c (en_secret env) = Inr token"
    using assms(3) by (auto simp: mint_token_def Let_def split: sum.splits)
  then have "en_decode env token (en_secret env) later = Inr ?c"
    using assms(2,4) by (simp add: libs_ok_def)
  moreover have "en_parse_uuid env (en_uuid env b) = Some b" using assms(1) by (simp add: libs_ok_def)
  ultimately show "with_admin (env\<lparr>en_now := later\<rparr>) (Some (''Bearer '' @ token)) (Inr q) handler d' fs'' = handler b d' fs''"
    by (simp add: with_admin_def jwt_middleware_def strip_prefix_def result_api_def admin_extractor_def)
  show "\<forall>u\<in>set (users d'). u_id u = b \<longrightarrow> u_role u = ''hirer''"
    unfolding role_commit_ok [OF demote] ball_update_where by simp
qed

section \<open>Properties of allocations and statistics\<close>

lemma allocate_run:
  assumes "allocate su i now u amount d fs = (r, d', fs')"
  shows "d' = d \<and> (\<exists>e. r = Inl e) \<or> 1 \<le> amount \<and> amount \<le> 1000000 \<and>
    (\<exists>q. ledger_allocate su i now u amount d fs = (q, d', fs') \<and> (is_ok r \<longleftrightarrow> is_ok q))"
proof (cases "amount < 1 \<or> 1000000 < amount")
  case True
  with assms show ?thesis by (auto simp: allocate_def throw_db_def)
next
  case False
  obtain q d1 fs1 where q: "ledger_allocate su i now u amount d fs = (q, d1, fs1)"
    by (cases "ledger_allocate su i now u amount d fs") auto
  with assms False show ?thesis
    by (auto simp: allocate_def bind_db_def lift_api_run return_db_def split: sum.splits)
qed

text \<open>
  C39. An allocation by an administrator either changes nothing or adds between 1 and 1,000,000
  units to the one balance row of the user, with one transaction of that amount; a success means
  the second. A balance that would leave the range of \<open>BIGINT\<close> is refused, in spite of the
  wrapping addition.
\<close>

theorem allocation_exact:
  assumes inv: "ledger_inv d" and run: "allocate su i now u amount d fs = (r, d', fs')"
  shows "(d' = d \<and> (\<exists>e. r = Inl e)) \<or>
    (1 \<le> amount \<and> amount \<le> 1000000 \<and>
     (\<exists>b. find_balance u d = Some b \<and> cu_balance b + amount \<le> i64_max \<and>
        d' = add_tx i now u amount ''allocation'' None
               (set_balance u (\<lambda>b. b\<lparr>cu_balance := cu_balance b + amount\<rparr>) d)))"
proof -
  have effect: "\<exists>b. find_balance u d = Some b \<and> cu_balance b + amount \<le> i64_max \<and>
      e = add_tx i now u amount ''allocation'' None (set_balance u (\<lambda>b. b\<lparr>cu_balance := cu_balance b + amount\<rparr>) d)"
    if amount: "1 \<le> amount" "amount \<le> 1000000"
      and y: "ledger_allocate su i now u amount d gs = (Inr y, e, gs')" for y e gs gs'
  proof -
    have "in_i64 amount" using amount by (simp add: in_i64_def i64_bounds)
    from allocate_exact [OF y inv this] obtain b
      where b: "find_balance u d = Some b" "y = cu_balance b + amount" "y \<le> i64_max" by blast
    have e: "e = add_tx i now u amount ''allocation'' None (set_balance u (\<lambda>b. b\<lparr>cu_balance := y\<rparr>) d)"
      using allocate_success [OF y] by blast
    have eq: "update_where (\<lambda>b. b_user b = u) (\<lambda>b. b\<lparr>cu_balance := y\<rparr>) (balances d) =
        update_where (\<lambda>b. b_user b = u) (\<lambda>b. b\<lparr>cu_balance := cu_balance b + amount\<rparr>) (balances d)"
      unfolding update_where_def
    proof (intro map_cong refl)
      fix c assume c: "c \<in> set (balances d)"
      have "c = b" if "b_user c = u"
        using find_balance_unique [of d u b c] inv b(1) c that by (simp add: ledger_inv_def)
      then show "(if b_user c = u then c\<lparr>cu_balance := y\<rparr> else c) =
          (if b_user c = u then c\<lparr>cu_balance := cu_balance c + amount\<rparr> else c)"
        using b(2) by auto
    qed
    show ?thesis
      using b(1,3) e eq unfolding b(2) set_balance_def by auto
  qed
  from allocate_run [OF run] show ?thesis
  proof (elim disjE conjE exE)
    fix q assume amount: "1 \<le> amount" "amount \<le> 1000000"
      and q: "ledger_allocate su i now u amount d fs = (q, d', fs')" and ok: "is_ok r \<longleftrightarrow> is_ok q"
    show ?thesis
    proof (cases q)
      case (Inr y)
      with effect [OF amount] q amount show ?thesis by blast
    next
      case (Inl e)
      then obtain e' where r: "r = Inl e'" using ok by (cases r) auto
      have "d' = d \<or> (\<exists>y. ledger_allocate su i now u amount d [] = (Inr y, d', []))"
        using q unfolding ledger_allocate_def Let_def by (intro transaction_step) (auto intro!: tame_intros)
      with effect [OF amount] amount r show ?thesis by blast
    qed
  qed blast
qed

lemma scalar_or_zero_total:
  obtains n fs' where "scalar_or_zero q d fs = (Inr n, d, fs')"
    "(\<And>x. \<exists>k. q x = Numeric k) \<Longrightarrow> n = 0"
proof -
  obtain r d1 fs1 where r: "stmt (select_sql q) d fs = (r, d1, fs1)"
    by (cases "stmt (select_sql q) d fs") auto
  then have "d1 = d" "\<And>x. r = Inr x \<Longrightarrow> x = q d"
    by (auto simp: stmt_def split: fault.splits prod.splits)
  with r have run: "scalar_or_zero q d fs =
      (Inr (case r of Inl _ \<Rightarrow> 0 | Inr x \<Rightarrow> unwrap_or 0 (to_option (decode_i64 (q d)))), d, fs1)"
    by (cases r) (simp_all add: scalar_or_zero_def bind_db_def attempt_def return_db_def)
  have "(case r of Inl _ \<Rightarrow> 0 | Inr x \<Rightarrow> unwrap_or 0 (to_option (decode_i64 (q d)))) = 0"
    if "\<And>x. \<exists>k. q x = Numeric k"
  proof -
    from that [of d] obtain k where "q d = Numeric k" by (elim exE)
    then show ?thesis by (cases r) simp_all
  qed
  with run show thesis by (rule that)
qed

text \<open>What holds of the continuation, whatever it is given, holds of the whole query.\<close>

lemma scalar_bind: "(\<And>n gs. Q (k n d gs)) \<Longrightarrow> Q (bind_db (scalar_or_zero q) k d fs)"
  by (rule scalar_or_zero_total [of q d fs]) (simp add: bind_db_simps(1))

lemma numeric_bind:
  "(\<And>x. \<exists>n. q x = Numeric n) \<Longrightarrow> (\<And>gs. Q (k 0 d gs)) \<Longrightarrow> Q (bind_db (scalar_or_zero q) k d fs)"
  by (rule scalar_or_zero_total [of q d fs]) (auto simp: bind_db_simps(1))

lemma rows_bind: "(\<And>rs gs. Q (k rs d gs)) \<Longrightarrow> Q (bind_db (rows_or_empty q) k d fs)"
proof -
  assume k: "\<And>rs gs. Q (k rs d gs)"
  obtain r d1 fs1 where r: "stmt (select_sql q) d fs = (r, d1, fs1)"
    by (cases "stmt (select_sql q) d fs") auto
  then have "d1 = d" by (auto simp: stmt_def split: fault.splits prod.splits)
  with r k show ?thesis by (simp add: rows_or_empty_def bind_db_def attempt_def return_db_def)
qed

text \<open>
  \<open>get_stats\<close> always answers, and the two totals of compute units it shows are always 0, whatever
  the transactions are: their sums are \<open>NUMERIC\<close>, the decoding as \<open>i64\<close> fails and the failure is
  read as 0.
\<close>

theorem stats_totals_zero:
  "\<exists>j fs'. get_stats day dt now today d fs = (Inr j, d, fs') \<and>
     json_get ''cu_allocated_total'' j = Some (JNum 0) \<and> json_get ''cu_consumed_total'' j = Some (JNum 0)"
proof -
  define Q where "Q = (\<lambda>x :: (api_error + json) \<times> db \<times> fault list. \<exists>j fs'. x = (Inr j, d, fs') \<and>
     json_get ''cu_allocated_total'' j = Some (JNum 0) \<and> json_get ''cu_consumed_total'' j = Some (JNum 0))"
  have "Q (get_stats day dt now today d fs)"
    unfolding get_stats_def
    by (intro scalar_bind [where q = "count_where _ _" and Q = Q] numeric_bind [where Q = Q] rows_bind [where Q = Q])
      (auto simp: Q_def return_db_def)
  then show ?thesis by (simp add: Q_def)
qed

section \<open>Witnesses\<close>

lemma last_admin_kept_witness:
  "1 \<le> admin_count (db_after (update_user_role bits_text (Uuid 1) (Uuid 2) ''hirer'') (two_admins (Uuid 1) (Uuid 2)) [])"
proof -
  let ?d = "two_admins (Uuid 1) (Uuid 2)"
  obtain r d' fs' where run: "update_user_role bits_text (Uuid 1) (Uuid 2) ''hirer'' ?d [] = (r, d', fs')"
    by (cases "update_user_role bits_text (Uuid 1) (Uuid 2) ''hirer'' ?d []") auto
  have "users_ok ?d" "1 \<le> admin_count ?d"
    by (simp_all add: users_ok_def admin_count_def two_admins_def new_user_def roles_def)
  from last_admin_kept [OF this run] run show ?thesis by (simp add: db_after_def)
qed

lemma admin_race_witness:
  "admin_count (db_after (bind_db (role_commit bits_text (Uuid 2) ''hirer'')
     (\<lambda>_. role_commit bits_text (Uuid 1) ''worker'')) (two_admins (Uuid 1) (Uuid 2)) []) = 0"
  using admin_race [of "Uuid 1" "Uuid 2" bits_text] by simp

definition admin_claims :: claims where
  "admin_claims = \<lparr>cl_sub = bits_text (Uuid 2), cl_email = ''b@x.io'', cl_role = ''admin'', cl_exp = 4600\<rparr>"

definition admin_env :: "u64 \<Rightarrow> auth_env" where
  "admin_env now = (demo_auth now)
     \<lparr>en_encode := (\<lambda>c s. if c = admin_claims then Inr ''adm'' else Inl ''unsupported''),
      en_decode := (\<lambda>t s n. if t = ''adm'' \<and> n < 4600 then Inr admin_claims else Inl ''bad token'')\<rparr>"

lemma admin_env_ok: "libs_ok (admin_env now)"
  by (auto simp: libs_ok_def admin_env_def demo_auth_def admin_claims_def bits_uuid_text split: if_splits)

lemma demoted_admin_keeps_access_witness:
  "\<exists>d'. u_role (users d' ! 1) = ''hirer'' \<and>
     with_admin (admin_env 2000) (Some ''Bearer adm'') (Inr None) (get_user bits_text (\<lambda>_. ''t'')) d' [] =
     get_user bits_text (\<lambda>_. ''t'') (Uuid 2) d' []"
proof -
  let ?d = "two_admins (Uuid 1) (Uuid 2)"
  let ?d' = "db_after (role_commit bits_text (Uuid 2) ''hirer'') ?d []"
  have found: "find (\<lambda>u. u_id u = Uuid 2) (users ?d) = Some (new_user (Uuid 2) 1 ''b@x.io'' ''h'' ''admin'')"
    by (simp add: two_admins_def new_user_def)
  obtain x where com: "role_commit bits_text (Uuid 2) ''hirer'' ?d [] = (Inr x, ?d', [])"
    using role_commit_run(2) [OF found, of "''hirer''" bits_text] by (auto simp: roles_def)
  have later: "(admin_env 1000)\<lparr>en_now := 2000\<rparr> = admin_env 2000" by (simp add: admin_env_def demo_auth_def)
  have "mint_token (admin_env 1000) (Uuid 2) ''b@x.io'' ''admin'' = Inr (''adm'', ''t'')"
    by (simp add: mint_token_def admin_env_def demo_auth_def admin_claims_def)
  moreover have "2000 < en_now (admin_env 1000) + en_expiry_secs (admin_env 1000)"
    by (simp add: admin_env_def demo_auth_def)
  ultimately have access: "(\<forall>u\<in>set (users ?d'). u_id u = Uuid 2 \<longrightarrow> u_role u = ''hirer'') \<and>
    with_admin (admin_env 2000) (Some (''Bearer '' @ ''adm'')) (Inr None) (get_user bits_text (\<lambda>_. ''t'')) ?d' [] =
    get_user bits_text (\<lambda>_. ''t'') (Uuid 2) ?d' []"
    using demoted_admin_keeps_access [OF admin_env_ok [of 1000] _ _ _ com, of 2000] admin_env_ok [of 2000]
    by (simp add: later)
  have us: "users ?d' = [new_user (Uuid 1) 0 ''a@x.io'' ''h'' ''admin'', new_user (Uuid 2) 1 ''b@x.io'' ''h'' ''hirer'']"
    by (subst role_commit_run(1) [OF found]) (simp_all add: roles_def two_admins_def new_user_def update_where_def)
  have role: "u_role (users ?d' ! 1) = ''hirer''" unfolding us by (simp add: new_user_def)
  show ?thesis using access role by (intro exI [of _ ?d']) simp
qed

lemma allocation_exact_witness:
  "\<exists>d' r fs'. allocate bits_text (Uuid 10) 1 (Uuid 1) 100 demo_db [] = (r, d', fs') \<and>
     (d' = demo_db \<or> (\<exists>b. find_balance (Uuid 1) demo_db = Some b \<and> cu_balance b + 100 \<le> i64_max))"
proof -
  have "ledger_inv demo_db"
    by (simp add: ledger_inv_def demo_db_def balance_ok_def i64_max_def)
  moreover obtain r d' fs' where "allocate bits_text (Uuid 10) 1 (Uuid 1) 100 demo_db [] = (r, d', fs')"
    by (cases "allocate bits_text (Uuid 10) 1 (Uuid 1) 100 demo_db []") auto
  ultimately show ?thesis using allocation_exact [of demo_db bits_text "Uuid 10" 1 "Uuid 1" 100] by blast
qed

end
