(* ===== verification/Jobs_Api.thy ===== *)
theory Jobs_Api
  imports Web Jobs_Db Matcher
begin

text \<open>
  The routes of jobs (\<open>api/jobs.rs\<close>) and of their logs (\<open>api/logs.rs\<close>); their terminal is in
  \<open>Terminal\<close>. Ids, times, the text of multipart bodies, SHA-256 and the outcome of the
  Docker build are fields of the environment; requests for the scheduler are part of the answer.
\<close>

record jobs_env =
  je_uuid :: "uuid \<Rightarrow> string"
  je_time :: "timestamp \<Rightarrow> string"
  je_text :: "bytes \<Rightarrow> string"
  je_sha :: "bytes \<Rightarrow> string"
  je_storage :: "string list"
  je_storage_text :: string
  je_scan :: log_scan

section \<open>Views\<close>

definition opt_int :: "int option \<Rightarrow> json" where
  "opt_int x = (case x of None \<Rightarrow> JNull | Some i \<Rightarrow> JNum i)"

definition opt_str :: "string option \<Rightarrow> json" where
  "opt_str x = (case x of None \<Rightarrow> JNull | Some s \<Rightarrow> JStr s)"

definition job_response :: "jobs_env \<Rightarrow> job_row \<Rightarrow> json" where
  "job_response env r =
     JObj [(''id'', JStr (je_uuid env (j_id r))), (''status'', JStr (j_status r)),
       (''gpu_backend'', JStr (j_backend r)), (''memory_limit_mb'', opt_int (j_memory_mb r)),
       (''max_duration_secs'', opt_int (j_duration_secs r)), (''cu_price'', opt_int (j_price r)),
       (''created_at'', JStr (je_time env (j_created_at r))),
       (''worker_peer_id'', opt_str (j_worker r))]"

definition list_jobs :: "jobs_env \<Rightarrow> auth_user \<Rightarrow> json api" where
  "list_jobs env user =
     bind_db (lift_api (jobs_list_by_hirer (au_id user) 100 0)) (\<lambda>rows.
     return_db (JArr (map (job_response env) rows)))"

text \<open>The prefix of the handlers of one job: it exists and belongs to the caller.\<close>

definition owned_job :: "auth_user \<Rightarrow> uuid \<Rightarrow> job_row api" where
  "owned_job user i =
     bind_db (lift_api (jobs_find_by_id i)) (\<lambda>found.
     bind_db (ok_or_db (not_found ''job not found'') found) (\<lambda>row.
     if j_hirer row \<noteq> au_id user then throw_db (forbidden ''not your job'') else return_db row))"

definition get_job :: "jobs_env \<Rightarrow> auth_user \<Rightarrow> uuid \<Rightarrow> json api" where
  "get_job env user i = bind_db (owned_job user i) (\<lambda>row. return_db (job_response env row))"

section \<open>Creating a job\<close>

record part =
  pt_name :: "string option"
  pt_body :: "string + bytes"

record job_form =
  fm_backend :: "string option"
  fm_memory :: "int option"
  fm_duration :: "int option"
  fm_code :: "bytes option"
  fm_requirements :: "bytes option"

definition empty_form :: job_form where
  "empty_form = \<lparr>fm_backend = None, fm_memory = None, fm_duration = None, fm_code = None, fm_requirements = None\<rparr>"

definition with_body :: "string \<Rightarrow> part \<Rightarrow> (bytes \<Rightarrow> job_form) \<Rightarrow> api_error + job_form" where
  "with_body what p k = (case pt_body p of Inl e \<Rightarrow> Inl (bad_request (what @ e)) | Inr b \<Rightarrow> Inr (k b))"

definition read_part :: "(bytes \<Rightarrow> string) \<Rightarrow> part \<Rightarrow> job_form \<Rightarrow> api_error + job_form" where
  "read_part text p f =
     (let name = unwrap_or [] (pt_name p) in
      if name = ''gpu_backend'' then
        with_body ''read field: '' p (\<lambda>b. f\<lparr>fm_backend := Some (text b)\<rparr>)
      else if name = ''memory_limit_mb'' then
        with_body ''read field: '' p (\<lambda>b. f\<lparr>fm_memory := parse_i64 (text b)\<rparr>)
      else if name = ''max_duration_secs'' then
        with_body ''read field: '' p (\<lambda>b. f\<lparr>fm_duration := parse_i64 (text b)\<rparr>)
      else if name = ''code'' then with_body ''read code: '' p (\<lambda>b. f\<lparr>fm_code := Some b\<rparr>)
      else if name = ''requirements'' then
        with_body ''read requirements: '' p (\<lambda>b. f\<lparr>fm_requirements := Some b\<rparr>)
      else Inr f)"

fun read_form :: "(bytes \<Rightarrow> string) \<Rightarrow> (string + part) list \<Rightarrow> job_form \<Rightarrow> api_error + job_form" where
  "read_form text [] f = Inr f"
| "read_form text (Inl e # ps) f = Inl (bad_request (''multipart error: '' @ e))"
| "read_form text (Inr p # ps) f =
     (case read_part text p f of Inl e \<Rightarrow> Inl e | Inr g \<Rightarrow> read_form text ps g)"

text \<open>The background task: a build that succeeds but whose image cannot be read ends it.\<close>

datatype build_outcome = BuildSkipped | BuildFailed string | Built "bytes option"

definition requested_backend :: "string \<Rightarrow> gpu_backend" where
  "requested_backend b = (case gpu_backend_from_str b of Inl _ \<Rightarrow> CpuOnly | Inr k \<Rightarrow> k)"

definition enqueue_after_build ::
  "build_outcome \<Rightarrow> uuid \<Rightarrow> string \<Rightarrow> int \<Rightarrow> int \<Rightarrow> (uuid \<times> match_request) list" where
  "enqueue_after_build build i backend mem dur =
     (if build = Built None then []
      else [(i, \<lparr>required_backend = requested_backend backend,
                 memory_limit_mb = i64_as_u64 mem, max_duration_secs = i64_as_u64 dur\<rparr>)])"

text \<open>The row first, then the files, then the background task.\<close>

definition store_job ::
  "jobs_env \<Rightarrow> io \<Rightarrow> uuid \<Rightarrow> timestamp \<Rightarrow> build_outcome \<Rightarrow> uuid \<Rightarrow> string \<Rightarrow> int \<Rightarrow> int \<Rightarrow> bytes \<Rightarrow>
   bytes \<Rightarrow> (uuid \<times> (uuid \<times> match_request) list) web" where
  "store_job env os new_id now build hirer backend mem dur code reqs =
     bind_web (db_web (lift_api (jobs_create new_id now hirer backend (Some mem) (Some dur) None))) (\<lambda>row.
     let dir = path_join (je_storage env) (je_uuid env (j_id row)) in
     bind_web (mkdir_web os ''mkdir: '' dir) (\<lambda>_.
     bind_web (write_web os ''write code: '' (path_join dir ''code.py'') code) (\<lambda>_.
     bind_web (write_web os ''write requirements: '' (path_join dir ''requirements.txt'') reqs) (\<lambda>_.
     return_web (j_id row, enqueue_after_build build (j_id row) backend mem dur)))))"

definition create_job ::
  "jobs_env \<Rightarrow> io \<Rightarrow> uuid \<Rightarrow> timestamp \<Rightarrow> build_outcome \<Rightarrow> auth_user \<Rightarrow> (string + part) list \<Rightarrow>
   (uuid \<times> (uuid \<times> match_request) list) web" where
  "create_job env os new_id now build user parts =
     (case read_form (je_text env) parts empty_form of
        Inl e \<Rightarrow> throw_web e
      | Inr f \<Rightarrow>
          let backend = unwrap_or ''cpu_only'' (fm_backend f) in
          if backend \<notin> {''cpu_only'', ''cuda'', ''metal'', ''rocm''} then
            throw_web (bad_request ''unknown gpu_backend'')
          else
            (case fm_code f of
               None \<Rightarrow> throw_web (bad_request ''missing 'code' field'')
             | Some code \<Rightarrow>
                 store_job env os new_id now build (au_id user) backend
                   (unwrap_or 512 (fm_memory f)) (unwrap_or 3600 (fm_duration f)) code
                   (unwrap_or [] (fm_requirements f))))"

section \<open>Files\<close>

definition text_join :: "string \<Rightarrow> string \<Rightarrow> string" where
  "text_join t p = (if take 1 p = ''/'' then p else t @ ''/'' @ p)"

definition first_part :: "(string + part) list \<Rightarrow> api_error + part" where
  "first_part ps =
     (case ps of
        [] \<Rightarrow> Inl (bad_request ''no file field'')
      | Inl e # _ \<Rightarrow> Inl (bad_request (''multipart error: '' @ e))
      | Inr p # _ \<Rightarrow> Inr p)"

definition upload_job_file ::
  "jobs_env \<Rightarrow> io \<Rightarrow> uuid \<Rightarrow> timestamp \<Rightarrow> auth_user \<Rightarrow> uuid \<Rightarrow> (string + part) list \<Rightarrow>
   (string \<times> int) web" where
  "upload_job_file env os new_id now user i parts =
     bind_web (db_web (owned_job user i)) (\<lambda>_.
     case first_part parts of
       Inl e \<Rightarrow> throw_web e
     | Inr p \<Rightarrow>
         (case pt_body p of
            Inl e \<Rightarrow> throw_web (bad_request (''read field error: '' @ e))
          | Inr data \<Rightarrow>
              let kind = unwrap_or ''code'' (pt_name p);
                  dir = path_join (je_storage env) (je_uuid env i);
                  size = int (length data) in
              bind_web (mkdir_web os ''mkdir error: '' dir) (\<lambda>_.
              bind_web (write_web os ''write error: '' (path_join dir (kind @ ''.tar'')) data) (\<lambda>_.
              bind_web (db_web (lift_api (jobs_insert_file new_id now i kind
                (text_join (text_join (je_storage_text env) (je_uuid env i)) (kind @ ''.tar''))
                size (je_sha env data)))) (\<lambda>_.
              return_web (je_sha env data, size))))))"

section \<open>Cancelling\<close>

definition cancel_job :: "jobs_env \<Rightarrow> timestamp \<Rightarrow> auth_user \<Rightarrow> uuid \<Rightarrow> unit api" where
  "cancel_job env now user i =
     bind_db (owned_job user i) (\<lambda>row.
     if j_status row \<notin> {''pending'', ''assigned''} then
       throw_db (bad_request ''cannot cancel job in current state'')
     else
       bind_db (lift_api (jobs_transition_status (je_uuid env) now i (j_status row) ''cancelled'' None None None))
         (\<lambda>_. return_db ()))"

section \<open>Results and logs\<close>

record download =
  dl_type :: string
  dl_name :: string
  dl_body :: bytes

text \<open>The directory listing gives the first entry, if the directory can be read and has one.\<close>

record read_env =
  re_fails :: "string list \<Rightarrow> string option"
  re_first :: "files \<Rightarrow> string list \<Rightarrow> string option"

definition log_line :: "int \<times> string \<times> string \<Rightarrow> string" where
  "log_line l = (case l of (ts, level, message) \<Rightarrow>
     ''['' @ show_int ts @ ''] ['' @ level @ ''] '' @ message @ [CHR 0x0A])"

definition read_file :: "read_env \<Rightarrow> string \<Rightarrow> string list \<Rightarrow> bytes web" where
  "read_file re what p d fs fl =
     (case (re_fails re p, map_of fl p) of
        (None, Some b) \<Rightarrow> (Inr b, d, fs, fl)
      | (e, _) \<Rightarrow> (Inl (internal (what @ unwrap_or [] e)), d, fs, fl))"

definition download_result :: "jobs_env \<Rightarrow> read_env \<Rightarrow> auth_user \<Rightarrow> uuid \<Rightarrow> download web" where
  "download_result env re user i =
     bind_web (db_web (bind_db (lift_api (jobs_find_by_id i)) (\<lambda>found.
                       ok_or_db (not_found ''job not found'') found))) (\<lambda>row.
     if j_hirer row \<noteq> au_id user \<and> au_role user \<noteq> ''admin'' then throw_web (forbidden ''not your job'')
     else if j_status row \<noteq> ''completed'' then throw_web (bad_request ''job is not completed yet'')
     else (\<lambda>d fs fl.
       let dir = path_join (je_storage env) (je_uuid env i);
           tar = path_join dir ''result.tar.gz'';
           out = path_join dir ''output'' in
       if map_of fl tar \<noteq> None then
         bind_web (read_file re ''read result: '' tar) (\<lambda>b.
           return_web \<lparr>dl_type = ''application/gzip'',
             dl_name = ''job-'' @ je_uuid env i @ ''-result.tar.gz'', dl_body = b\<rparr>) d fs fl
       else
         case re_first re fl out of
           Some name \<Rightarrow>
             bind_web (read_file re ''read output: '' (out @ [name])) (\<lambda>b.
               return_web \<lparr>dl_type = ''application/octet-stream'', dl_name = name, dl_body = b\<rparr>) d fs fl
         | None \<Rightarrow>
             bind_web (db_web (lift_api (jobs_get_logs_since (je_scan env) i 0 10000))) (\<lambda>logs.
               return_web \<lparr>dl_type = ''text/plain; charset=utf-8'',
                 dl_name = ''job-'' @ je_uuid env i @ ''-output.txt'',
                 dl_body = to_bytes (concat (map log_line logs))\<rparr>) d fs fl))"

definition sse_event :: "int \<times> string \<times> string \<Rightarrow> json" where
  "sse_event l = (case l of (ts, level, message) \<Rightarrow>
     JObj [(''timestamp_ms'', JNum ts), (''level'', JStr level), (''message'', JStr message)])"

definition stream_logs :: "jobs_env \<Rightarrow> auth_user \<Rightarrow> uuid \<Rightarrow> json list api" where
  "stream_logs env user i =
     bind_db (owned_job user i) (\<lambda>_.
     bind_db (lift_api (jobs_get_logs_since (je_scan env) i 0 10000)) (\<lambda>logs.
     return_db (map sse_event logs)))"

section \<open>Facts about the handlers\<close>

lemma owned_job_cases:
  assumes "owned_job user i d fs = (r, d', fs')"
  shows "d' = d" and "r = Inr row \<Longrightarrow> find_job i d = Some row \<and> j_hirer row = au_id user"
  using assms
  by (auto simp: owned_job_def bind_db_def lift_api_run jobs_find_by_id_def ok_or_db_def return_db_def throw_db_def
      stmt_def split: prod.splits sum.splits option.splits fault.splits if_splits)

lemma owned_job_other:
  assumes "find_job i d = Some row" "j_hirer row \<noteq> au_id user"
  obtains e fs' where "owned_job user i d fs = (Inl e, d, fs')"
proof -
  obtain r d' fs' where run: "owned_job user i d fs = (r, d', fs')" by (cases "owned_job user i d fs") auto
  from owned_job_cases [OF run] assms have "d' = d" "\<nexists>x. r = Inr x" by auto
  with run that show thesis by (cases r) auto
qed

text \<open>A UUID's text is one plain component of a path.\<close>

definition plain_name :: "string \<Rightarrow> bool" where
  "plain_name s \<longleftrightarrow> CHR ''/'' \<notin> set s \<and> s \<noteq> [] \<and> s \<noteq> ''.'' \<and> s \<noteq> ''..''"

lemma path_join_name: "plain_name s \<Longrightarrow> path_join dir s = dir @ [s]"
  by (simp add: plain_name_def path_join_plain)

lemma plain_files: "plain_name ''code.py''" "plain_name ''requirements.txt''"
  by (simp_all add: plain_name_def)

lemma db_web_run: "db_web m d fs fl = (case m d fs of (r, d', fs') \<Rightarrow> (r, d', fs', fl))"
  by (simp add: db_web_def)

lemma mkdir_web_cases:
  "mkdir_web os what dir d fs fl = (r, d', fs', fl') \<Longrightarrow> d' = d \<and> fs' = fs \<and> fl' = fl"
  by (auto simp: mkdir_web_def return_web_def throw_web_def split: option.splits)

lemma write_web_ok:
  "write_web os what p b d fs fl = (Inr u, d', fs', fl') \<Longrightarrow> d' = d \<and> fs' = fs \<and> fl' = hm_insert p b fl"
  by (auto simp: write_web_def split: option.splits prod.splits)

lemma bind_web_Inr:
  assumes "bind_web m k d fs fl = (Inr y, d', fs', fl')"
  obtains x d1 fs1 fl1 where "m d fs fl = (Inr x, d1, fs1, fl1)" "k x d1 fs1 fl1 = (Inr y, d', fs', fl')"
  using assms by (auto simp: bind_web_def split: prod.splits sum.splits)

lemma jobs_create_ok:
  assumes "jobs_create i now h b m s p d fs = (Inr row, d', fs')"
  shows "row = \<lparr>j_id = i, j_hirer = h, j_worker = None, j_status = ''pending'', j_backend = b, j_memory_mb = m,
      j_duration_secs = s, j_price = p, j_created_at = now, j_assigned_at = None, j_started_at = None,
      j_finished_at = None, j_error = None, j_result_path = None\<rparr>"
    and "d' = d\<lparr>jobs := jobs d @ [row]\<rparr>" and "i \<notin> j_id ` set (jobs d)"
  using assms
  by (auto simp: jobs_create_def stmt_def run_sql_def Let_def split: prod.splits fault.splits if_splits)

lemma lift_api_Inr: "lift_api m d fs = (Inr x, d', fs') \<longleftrightarrow> m d fs = (Inr x, d', fs')"
  by (auto simp: lift_api_run split: prod.splits sum.splits)

lemma store_job_ok:
  assumes plain: "plain_name (je_uuid env i)"
    and run: "store_job env os i now build h b m s code reqs d fs fl = (Inr (j, requests), d', fs', fl')"
  obtains row where "jobs_create i now h b (Some m) (Some s) None d fs = (Inr row, d', fs')"
    "j = i" "requests = enqueue_after_build build i b m s"
    "fl' = hm_insert (je_storage env @ [je_uuid env i, ''requirements.txt'']) reqs
        (hm_insert (je_storage env @ [je_uuid env i, ''code.py'']) code fl)"
proof -
  from run obtain row d1 fs1 where create: "jobs_create i now h b (Some m) (Some s) None d fs = (Inr row, d1, fs1)"
    and rest: "(let dir = path_join (je_storage env) (je_uuid env (j_id row)) in
     bind_web (mkdir_web os ''mkdir: '' dir) (\<lambda>_.
     bind_web (write_web os ''write code: '' (path_join dir ''code.py'') code) (\<lambda>_.
     bind_web (write_web os ''write requirements: '' (path_join dir ''requirements.txt'') reqs) (\<lambda>_.
     return_web (j_id row, enqueue_after_build build (j_id row) b m s))))) d1 fs1 fl = (Inr (j, requests), d', fs', fl')"
    unfolding store_job_def
    by (elim bind_web_Inr) (auto simp: db_web_run lift_api_Inr split: prod.splits)
  have i: "j_id row = i" using jobs_create_ok(1) [OF create] by simp
  from rest have "d' = d1 \<and> fs' = fs1 \<and> j = i \<and> requests = enqueue_after_build build i b m s \<and>
      fl' = hm_insert (je_storage env @ [je_uuid env i, ''requirements.txt'']) reqs
        (hm_insert (je_storage env @ [je_uuid env i, ''code.py'']) code fl)"
    unfolding Let_def i path_join_name [OF plain] path_join_name [OF plain_files(1)] path_join_name [OF plain_files(2)]
    by (elim bind_web_Inr) (auto simp: return_web_def dest!: mkdir_web_cases write_web_ok)
  with create that show thesis by blast
qed

section \<open>Properties\<close>

text \<open>
  C25. A job that is accepted is complete: it is stored as pending for the caller with the limits of
  the form (512 MB and an hour by default), its code and requirements are in its own directory and
  no other file has changed, and once the build of its image has ended, the scheduler gets exactly one
  request for it, with the same limits as unsigned numbers; but none at all when the image was built
  and cannot be read, so that the job stays pending for ever.
\<close>

theorem create_job_complete:
  assumes plain: "plain_name (je_uuid env i)"
    and run: "create_job env os i now build user parts d fs fl = (Inr (j, requests), d', fs', fl')"
  shows "\<exists>f code row. read_form (je_text env) parts empty_form = Inr f \<and> fm_code f = Some code \<and>
    j = i \<and> d' = d\<lparr>jobs := jobs d @ [row]\<rparr> \<and> j_id row = i \<and> j_hirer row = au_id user \<and>
    j_status row = ''pending'' \<and> j_backend row = unwrap_or ''cpu_only'' (fm_backend f) \<and>
    j_backend row \<in> range gpu_backend_as_str \<and>
    j_memory_mb row = Some (unwrap_or 512 (fm_memory f)) \<and>
    j_duration_secs row = Some (unwrap_or 3600 (fm_duration f)) \<and>
    (\<forall>p. map_of fl' p =
       (if p = je_storage env @ [je_uuid env i, ''requirements.txt''] then Some (unwrap_or [] (fm_requirements f))
        else if p = je_storage env @ [je_uuid env i, ''code.py''] then Some code
        else map_of fl p)) \<and>
    requests = (if build = Built None then []
      else [(i, \<lparr>required_backend = requested_backend (j_backend row),
                 memory_limit_mb = i64_as_u64 (unwrap_or 512 (fm_memory f)),
                 max_duration_secs = i64_as_u64 (unwrap_or 3600 (fm_duration f))\<rparr>)])"
proof -
  obtain f where f: "read_form (je_text env) parts empty_form = Inr f"
    using run by (auto simp: create_job_def throw_web_def split: sum.splits)
  define b where "b = unwrap_or ''cpu_only'' (fm_backend f)"
  have known: "b \<in> {''cpu_only'', ''cuda'', ''metal'', ''rocm''}"
    using run f unfolding create_job_def by (auto simp: throw_web_def b_def [symmetric] split: if_splits)
  obtain code where code: "fm_code f = Some code"
    using run f unfolding create_job_def
    by (cases "fm_code f") (auto simp: throw_web_def b_def [symmetric] split: if_splits)
  let ?m = "unwrap_or 512 (fm_memory f)" and ?s = "unwrap_or 3600 (fm_duration f)"
  have "create_job env os i now build user parts = store_job env os i now build (au_id user) b ?m ?s code (unwrap_or [] (fm_requirements f))"
    unfolding create_job_def f sum.case Let_def code option.case b_def [symmetric]
    using known by (simp only: not_True_eq_False if_False)
  with run have "store_job env os i now build (au_id user) b ?m ?s code (unwrap_or [] (fm_requirements f)) d fs fl =
      (Inr (j, requests), d', fs', fl')" by (simp only:)
  from store_job_ok [OF plain this] obtain row where row:
    "jobs_create i now (au_id user) b (Some ?m) (Some ?s) None d fs = (Inr row, d', fs')"
    "j = i" "requests = enqueue_after_build build i b ?m ?s"
    "fl' = hm_insert (je_storage env @ [je_uuid env i, ''requirements.txt'']) (unwrap_or [] (fm_requirements f))
        (hm_insert (je_storage env @ [je_uuid env i, ''code.py'']) code fl)" by blast
  have "b \<in> range gpu_backend_as_str"
    using known gpu_backend_as_str.simps by (metis empty_iff insertE rangeI)
  with f code row jobs_create_ok [OF row(1)] show ?thesis
    by (intro exI [of _ f] exI [of _ code] exI [of _ row])
      (simp add: enqueue_after_build_def hm.lookup_insert b_def)
qed

text \<open>
  Uploading escapes the storage directory. The name of the multipart field becomes part of the
  path, so a field called \<open>../../x\<close> writes \<open>x.tar\<close> two levels above the directory of the job; the
  file stays although the database then refuses the file type and the answer is an error.
\<close>

theorem upload_escapes_storage:
  assumes "find_job i d = Some row" "j_hirer row = au_id user" "plain_name (je_uuid env i)"
    and "je_storage env = base @ [dir]" "dir \<noteq> ''x.tar''" "io_mkdir os (base @ [dir, je_uuid env i]) = None"
    and "io_write os (base @ [''x.tar'']) = None"
  shows "\<exists>e. upload_job_file env os new_id now user i [Inr \<lparr>pt_name = Some ''../../x'', pt_body = Inr data\<rparr>] d [] fl =
      (Inl e, d, [], hm_insert (base @ [''x.tar'']) data fl) \<and>
    ae_status e = 500 \<and> \<not> under (je_storage env) (base @ [''x.tar''])"
proof -
  have dir: "path_join (je_storage env) (je_uuid env i) = base @ [dir, je_uuid env i]"
    using assms(3,4) by (simp add: path_join_name)
  have target: "path_join (base @ [dir, je_uuid env i]) ''../../x.tar'' = base @ [''x.tar'']"
    by (simp add: path_join_def butlast_append)
  have owned: "owned_job user i d [] = (Inr row, d, [])"
    using assms(1,2) by (simp add: owned_job_def bind_db_def lift_api_run jobs_find_by_id_def stmt_nil ok_or_db_def return_db_def)
  have refused: "jobs_insert_file new_id now i ''../../x'' path size sha d [] =
      (Inl (Database ''job_files_file_type_check''), d, [])" for path size sha
    by (simp add: jobs_insert_file_def stmt_nil run_sql_def file_types_def)
  have "upload_job_file env os new_id now user i [Inr \<lparr>pt_name = Some ''../../x'', pt_body = Inr data\<rparr>] d [] fl =
      (Inl (internal ''database error: job_files_file_type_check''), d, [], hm_insert (base @ [''x.tar'']) data fl)"
    using assms(6,7)
    by (simp add: upload_job_file_def first_part_def bind_web_def db_web_run owned dir mkdir_web_def return_web_def
        write_web_def target refused lift_api_run Let_def)
  moreover have "\<not> under (je_storage env) (base @ [''x.tar''])"
    using assms(4,5) by (simp add: under_def)
  ultimately show ?thesis by (auto simp: internal_def)
qed

section \<open>Witnesses\<close>

definition demo_jobs_env :: jobs_env where
  "demo_jobs_env = \<lparr>je_uuid = (\<lambda>_. ''id''), je_time = (\<lambda>_. ''t''), je_text = map (\<lambda>b. char_of (unat b)),
     je_sha = (\<lambda>_. ''sha''), je_storage = [''data'', ''jobs''], je_storage_text = ''/data/jobs'', je_scan = id\<rparr>"

definition demo_os :: io where
  "demo_os = \<lparr>io_mkdir = (\<lambda>_. None), io_write = (\<lambda>_. None)\<rparr>"

definition demo_hirer :: "uuid \<Rightarrow> auth_user" where
  "demo_hirer u = \<lparr>au_id = u, au_email = ''a@x.io'', au_role = ''hirer''\<rparr>"

definition owned_jobs :: db where
  "owned_jobs = empty_db\<lparr>users := [\<lparr>u_id = Uuid 9, u_email = ''a@x.io'', u_password_hash = ''h'', u_role = ''hirer'', u_created_at = 0\<rparr>],
     jobs := [(demo_job (Uuid 1) ''pending'')\<lparr>j_hirer := Uuid 9\<rparr>]\<rparr>"

lemma plain_demo: "plain_name (je_uuid demo_jobs_env u)"
  by (simp add: plain_name_def demo_jobs_env_def)

definition demo_parts :: "(string + part) list" where
  "demo_parts = [Inr \<lparr>pt_name = Some ''memory_limit_mb'', pt_body = Inr (to_bytes ''-1'')\<rparr>,
     Inr \<lparr>pt_name = Some ''code'', pt_body = Inr [1, 2]\<rparr>]"

text \<open>The witness also shows that a negative limit is accepted and becomes a huge unsigned one.\<close>

lemma create_job_complete_witness:
  "\<exists>d' fl'. create_job demo_jobs_env demo_os (Uuid 5) 0 BuildSkipped (demo_hirer (Uuid 9)) demo_parts owned_jobs [] [] =
      (Inr (Uuid 5, [(Uuid 5, \<lparr>required_backend = CpuOnly, memory_limit_mb = 18446744073709551615,
        max_duration_secs = 3600\<rparr>)]), d', [], fl') \<and>
    map_of fl' [''data'', ''jobs'', ''id'', ''code.py''] = Some [1, 2]"
proof -
  let ?run = "create_job demo_jobs_env demo_os (Uuid 5) 0 BuildSkipped (demo_hirer (Uuid 9)) demo_parts owned_jobs [] []"
  have "case ?run of (Inr _, _, fs, _) \<Rightarrow> fs = [] | _ \<Rightarrow> False" by code_simp
  then obtain j rs d' fl' where run: "?run = (Inr (j, rs), d', [], fl')"
    by (auto split: prod.splits sum.splits)
  have form: "read_form (je_text demo_jobs_env) demo_parts empty_form =
      Inr \<lparr>fm_backend = None, fm_memory = Some (- 1), fm_duration = None, fm_code = Some [1, 2], fm_requirements = None\<rparr>"
    by code_simp
  have "i64_as_u64 (- 1) = 18446744073709551615" "i64_as_u64 3600 = 3600" "requested_backend ''cpu_only'' = CpuOnly"
    by code_simp+
  with create_job_complete [OF plain_demo run] form run show ?thesis
    by (auto simp: demo_jobs_env_def)
qed

lemma upload_escapes_storage_witness:
  "\<exists>e. upload_job_file demo_jobs_env demo_os (Uuid 6) 0 (demo_hirer (Uuid 9)) (Uuid 1)
      [Inr \<lparr>pt_name = Some ''../../x'', pt_body = Inr [7]\<rparr>] owned_jobs [] [] =
      (Inl e, owned_jobs, [], [([''data'', ''x.tar''], [7])])"
proof -
  have "find_job (Uuid 1) owned_jobs = Some ((demo_job (Uuid 1) ''pending'')\<lparr>j_hirer := Uuid 9\<rparr>)"
    by (simp add: find_job_def owned_jobs_def demo_job_def)
  from upload_escapes_storage [OF this, of "demo_hirer (Uuid 9)" demo_jobs_env "[''data'']" "''jobs''" demo_os
      "Uuid 6" 0 "[7]" "[]"] plain_demo
  show ?thesis by (auto simp: demo_hirer_def demo_jobs_env_def demo_os_def hm_insert_def)
qed

end
