(* ===== verification/Terminal.thy ===== *)
theory Terminal
  imports Jobs_Api
begin

text \<open>
  The WebSocket terminal of a job (\<open>api/terminal.rs\<close>): the access check, the replay of the stored
  lines, the check for a finished job, and the loop that forwards live lines, pings and ends. The
  socket takes a number of messages and then fails; an event of the loop carries what it brings,
  a tick the database it meets.
\<close>

section \<open>Messages\<close>

definition msg_connected :: "string \<Rightarrow> json" where
  "msg_connected job = JObj [(''type'', JStr ''connected''), (''job_id'', JStr job)]"

definition msg_log :: "int \<times> string \<times> string \<Rightarrow> json" where
  "msg_log l = (case l of (ts, level, message) \<Rightarrow>
     JObj [(''type'', JStr ''log''), (''ts'', JNum ts), (''level'', JStr level),
           (''data'', JStr (message @ [CHR 0x0D, CHR 0x0A]))])"

definition msg_replay_complete :: "nat \<Rightarrow> json" where
  "msg_replay_complete n = JObj [(''type'', JStr ''replay_complete''), (''count'', JNum (int n))]"

definition msg_done :: "string \<Rightarrow> json" where
  "msg_done status = JObj [(''type'', JStr ''job_done''), (''status'', JStr status)]"

definition msg_ping :: json where
  "msg_ping = JObj [(''type'', JStr ''ping'')]"

definition terminal_statuses :: "string list" where
  "terminal_statuses = [''completed'', ''failed'', ''cancelled'']"

section \<open>The session\<close>

text \<open>What was sent, and how many more messages the socket takes.\<close>

record terminal =
  tm_out :: "json list"
  tm_left :: nat

definition term_send :: "json \<Rightarrow> terminal \<Rightarrow> terminal option" where
  "term_send m t =
     (if tm_left t = 0 then None else Some (t\<lparr>tm_out := tm_out t @ [m], tm_left := tm_left t - 1\<rparr>))"

fun term_send_all :: "json list \<Rightarrow> terminal \<Rightarrow> terminal \<times> bool" where
  "term_send_all [] t = (t, True)"
| "term_send_all (m # ms) t =
     (case term_send m t of None \<Rightarrow> (t, False) | Some t' \<Rightarrow> term_send_all ms t')"

datatype term_event =
    ClientMessage
  | ClientGone
  | BusMessage json
  | BusLagged
  | BusClosed
  | PingTick db "fault list"

definition seen_status :: "uuid \<Rightarrow> db \<Rightarrow> fault list \<Rightarrow> string option" where
  "seen_status i d fs =
     (case jobs_find_by_id i d fs of (Inr (Some j), _, _) \<Rightarrow> Some (j_status j) | _ \<Rightarrow> None)"

fun term_loop :: "uuid \<Rightarrow> term_event list \<Rightarrow> terminal \<Rightarrow> terminal" where
  "term_loop i [] t = t"
| "term_loop i (ClientMessage # es) t = term_loop i es t"
| "term_loop i (ClientGone # es) t = t"
| "term_loop i (BusMessage m # es) t =
     (case term_send m t of None \<Rightarrow> t | Some t' \<Rightarrow> term_loop i es t')"
| "term_loop i (BusLagged # es) t = term_loop i es t"
| "term_loop i (BusClosed # es) t = t"
| "term_loop i (PingTick d fs # es) t =
     (case seen_status i d fs of
        None \<Rightarrow> term_loop i es t
      | Some st \<Rightarrow>
          if st \<in> set terminal_statuses then
            (case term_send (msg_done st) t of None \<Rightarrow> t | Some t' \<Rightarrow> t')
          else
            (case term_send msg_ping t of None \<Rightarrow> t | Some t' \<Rightarrow> term_loop i es t'))"

text \<open>\<open>logs\<close> and \<open>status\<close> are what the two queries at the start saw.\<close>

definition stored_logs :: "log_scan \<Rightarrow> uuid \<Rightarrow> db \<Rightarrow> fault list \<Rightarrow> (int \<times> string \<times> string) list" where
  "stored_logs scan i d fs =
     (case jobs_get_logs_since scan i 0 10000 d fs of (Inr logs, _, _) \<Rightarrow> logs | (Inl _, _, _) \<Rightarrow> [])"

definition handle_terminal_socket ::
  "(uuid \<Rightarrow> string) \<Rightarrow> log_scan \<Rightarrow> uuid \<Rightarrow> db \<times> fault list \<Rightarrow> db \<times> fault list \<Rightarrow> term_event list \<Rightarrow> nat \<Rightarrow> terminal" where
  "handle_terminal_socket su scan i at_replay at_check events room =
     (let logs = stored_logs scan i (fst at_replay) (snd at_replay);
          (t, open) = term_send_all
            (msg_connected (su i) # map msg_log logs @ [msg_replay_complete (length logs)])
            \<lparr>tm_out = [], tm_left = room\<rparr> in
      if \<not> open then t
      else
        let status = unwrap_or ''unknown'' (seen_status i (fst at_check) (snd at_check)) in
        if status \<in> set terminal_statuses then fst (term_send_all [msg_done status] t)
        else term_loop i events t)"

definition ws_terminal :: "auth_user \<Rightarrow> uuid \<Rightarrow> unit api" where
  "ws_terminal user i = bind_db (owned_job user i) (\<lambda>_. return_db ())"

section \<open>Facts\<close>

lemma term_send_all_room:
  "length ms \<le> tm_left t \<Longrightarrow>
   term_send_all ms t = (t\<lparr>tm_out := tm_out t @ ms, tm_left := tm_left t - length ms\<rparr>, True)"
  by (induction ms arbitrary: t) (auto simp: term_send_def)

lemma term_loop_extends: "\<exists>ms. tm_out (term_loop i es t) = tm_out t @ ms"
proof (induction i es t rule: term_loop.induct)
  case (4 i m es t)
  then show ?case by (fastforce simp: term_send_def split: if_splits option.splits)
next
  case (7 i d fs es t)
  then show ?case by (fastforce simp: term_send_def split: if_splits option.splits)
qed auto

text \<open>Before a tick that finds the job finished, no event that ends the loop.\<close>

definition passes :: "uuid \<Rightarrow> term_event \<Rightarrow> bool" where
  "passes i e \<longleftrightarrow>
     (case e of
        ClientGone \<Rightarrow> False
      | BusClosed \<Rightarrow> False
      | PingTick d fs \<Rightarrow>
          (case seen_status i d fs of None \<Rightarrow> True | Some st \<Rightarrow> st \<notin> set terminal_statuses)
      | _ \<Rightarrow> True)"

lemma term_loop_done:
  assumes "list_all (passes i) es" "length es < tm_left t"
    and "seen_status i d fs = Some st" "st \<in> set terminal_statuses"
  shows "last (tm_out (term_loop i (es @ PingTick d fs # later) t)) = msg_done st"
  using assms(1,2)
proof (induction es arbitrary: t)
  case Nil
  then show ?case using assms(3,4) by (simp add: term_send_def)
next
  case (Cons e es)
  have step: "last (tm_out (term_loop i (es @ PingTick d fs # later) u)) = msg_done st"
    if "tm_left t - 1 \<le> tm_left u" for u
    using Cons that by (intro Cons.IH) auto
  show ?case
    using Cons.prems step
    by (cases e) (auto simp: passes_def term_send_def split: option.splits)
qed

section \<open>Properties\<close>

lemma download_reads_only: "download_result env re user i d fs fl = (r, d', fs', fl') \<Longrightarrow> d' = d \<and> fl' = fl"
  by (auto simp: download_result_def bind_web_def db_web_def bind_db_def lift_api_run jobs_find_by_id_def
      jobs_get_logs_since_def ok_or_db_def return_db_def throw_db_def return_web_def throw_web_def read_file_def
      stmt_def run_sql_def select_sql_def page_sql_def Let_def
      split: prod.splits sum.splits option.splits fault.splits if_splits)

text \<open>
  C29. Jobs are private to their hirer. Whatever the faults, each of the six handlers of one job refuses
  a request of another user and changes neither the database nor the files: reading the job, its
  logs, cancelling it, uploading a file for it, opening its terminal, and downloading its result, the
  last one unless the user is an administrator, who gets it without changing anything.
\<close>

theorem job_privacy:
  assumes "find_job i d = Some row" "j_hirer row \<noteq> au_id user"
  shows "(\<exists>e fs'. get_job env user i d fs = (Inl e, d, fs')) \<and>
    (\<exists>e fs'. stream_logs env user i d fs = (Inl e, d, fs')) \<and>
    (\<exists>e fs'. cancel_job env now user i d fs = (Inl e, d, fs')) \<and>
    (\<exists>e fs'. upload_job_file env os new_id now user i parts d fs fl = (Inl e, d, fs', fl)) \<and>
    (\<exists>e fs'. ws_terminal user i d fs = (Inl e, d, fs')) \<and>
    (\<exists>r fs'. download_result env re user i d fs fl = (r, d, fs', fl) \<and> (au_role user \<noteq> ''admin'' \<longrightarrow> \<not> is_ok r))"
proof -
  obtain e fs' where owned: "owned_job user i d fs = (Inl e, d, fs')"
    using owned_job_other [OF assms] by blast
  obtain r d' fs2 fl' where run: "download_result env re user i d fs fl = (r, d', fs2, fl')"
    by (cases "download_result env re user i d fs fl")
  have "\<not> is_ok r" if "au_role user \<noteq> ''admin''"
    using run that assms
    by (auto simp: download_result_def bind_web_def db_web_def bind_db_def lift_api_run jobs_find_by_id_def
        ok_or_db_def return_db_def throw_db_def throw_web_def stmt_def run_sql_def select_sql_def
        split: prod.splits sum.splits option.splits fault.splits)
  with owned run download_reads_only [OF run] show ?thesis
    by (simp add: get_job_def stream_logs_def cancel_job_def upload_job_file_def ws_terminal_def bind_db_def bind_web_def
        db_web_def)
qed

lemma take_page: "sql_page 10000 0 xs = Inr (take 10000 xs)"
  by (simp add: sql_page_def)

lemma stored_logs_nil:
  "stored_logs scan i d [] = map log_view (take 10000 (order_asc l_timestamp_ms
     (scan (filter (\<lambda>l. l_job l = i \<and> 0 < l_timestamp_ms l) (job_logs d)))))"
  by (simp add: stored_logs_def jobs_get_logs_since_def bind_stmt_nil page_sql_def take_page return_throw_simps)

text \<open>
  C40. The terminal of a finished job shows its first ten thousand lines. When the client reads and the
  database answers, it gets the greeting, the stored lines with positive times in the order of their
  times, as the server orders lines of the same time, the number of lines sent, and the final status;
  whatever happens on the bus. Of more than 10,000 stored lines the rest is not sent and not
  mentioned: the message that the replay is complete counts the lines sent.
\<close>

theorem terminal_replays_finished_job:
  fixes d i
  defines "rows \<equiv> filter (\<lambda>l. l_job l = i \<and> 0 < l_timestamp_ms l) (job_logs d)"
  assumes "mset (scan rows) = mset rows" "job_status_of d i = Some st" "st \<in> set terminal_statuses"
    and "min (length rows) 10000 + 3 \<le> room"
  shows "\<exists>ls. mset ls = mset rows \<and> sorted (map l_timestamp_ms ls) \<and>
    tm_out (handle_terminal_socket su scan i (d, []) (d, []) events room) =
      msg_connected (su i) # map (\<lambda>l. msg_log (log_view l)) (take 10000 ls) @
      [msg_replay_complete (min (length rows) 10000), msg_done st]"
proof -
  let ?ls = "order_asc l_timestamp_ms (scan rows)"
  have ls: "mset ?ls = mset rows" using assms(2) by (simp add: order_asc_def)
  then have len: "length ?ls = length rows" by (metis size_mset)
  have logs: "stored_logs scan i d [] = map log_view (take 10000 ?ls)" by (simp only: stored_logs_nil rows_def)
  have seen: "seen_status i d [] = Some st"
    using assms(3) by (auto simp: seen_status_def jobs_find_by_id_def stmt_nil job_status_of_def)
  have "tm_out (handle_terminal_socket su scan i (d, []) (d, []) events room) =
      msg_connected (su i) # map (\<lambda>l. msg_log (log_view l)) (take 10000 ?ls) @
      [msg_replay_complete (min (length rows) 10000), msg_done st]"
    using assms(4,5) len
    by (simp add: handle_terminal_socket_def logs seen term_send_all_room term_send_def comp_def
        del: length_order_desc)
  moreover have "sorted (map l_timestamp_ms ?ls)"
    using sorted_order_asc [of l_timestamp_ms] by (simp add: sorted_map)
  ultimately show ?thesis using ls by blast
qed

text \<open>
  A terminal that follows a running job always learns its end: as soon as a tick finds the job
  completed, failed or cancelled, the last message is the final status and the loop is over, even
  when the bus brought nothing; every message sent before stays.
\<close>

theorem terminal_learns_the_end:
  assumes "list_all (passes i) es" "length es < tm_left t"
    and "seen_status i d fs = Some st" "st \<in> set terminal_statuses"
  shows "last (tm_out (term_loop i (es @ PingTick d fs # later) t)) = msg_done st \<and>
    (\<exists>ms. tm_out (term_loop i (es @ PingTick d fs # later) t) = tm_out t @ ms)"
  using term_loop_done [OF assms] term_loop_extends by blast

section \<open>Witnesses\<close>

definition finished_job :: db where
  "finished_job = empty_db\<lparr>jobs := [demo_job (Uuid 1) ''completed''],
     job_logs := [\<lparr>l_id = 1, l_job = Uuid 1, l_timestamp_ms = 5, l_level = ''INFO'', l_message = ''hi''\<rparr>]\<rparr>"

lemma job_privacy_witness:
  "(\<exists>e fs'. cancel_job demo_jobs_env 0 (demo_hirer (Uuid 8)) (Uuid 1) owned_jobs [] = (Inl e, owned_jobs, fs')) \<and>
   (\<exists>e fs'. ws_terminal (demo_hirer (Uuid 8)) (Uuid 1) owned_jobs [] = (Inl e, owned_jobs, fs'))"
proof -
  have "find_job (Uuid 1) owned_jobs = Some ((demo_job (Uuid 1) ''pending'')\<lparr>j_hirer := Uuid 9\<rparr>)"
    by (simp add: find_job_def owned_jobs_def demo_job_def)
  from job_privacy [OF this, of "demo_hirer (Uuid 8)"] show ?thesis by (simp add: demo_hirer_def)
qed

lemma terminal_replays_finished_job_witness:
  "length (tm_out (handle_terminal_socket (\<lambda>_. ''id'') rev (Uuid 1) (finished_job, []) (finished_job, []) [] 10)) = 4"
proof -
  have "job_status_of finished_job (Uuid 1) = Some ''completed''" by code_simp
  moreover have "filter (\<lambda>l. l_job l = Uuid 1 \<and> 0 < l_timestamp_ms l) (job_logs finished_job) = job_logs finished_job"
    "length (job_logs finished_job) = 1"
    by (simp_all add: finished_job_def)
  ultimately obtain ls where "mset ls = mset (job_logs finished_job)"
    "tm_out (handle_terminal_socket (\<lambda>_. ''id'') rev (Uuid 1) (finished_job, []) (finished_job, []) [] 10) =
      msg_connected ''id'' # map (\<lambda>l. msg_log (log_view l)) (take 10000 ls) @ [msg_replay_complete 1, msg_done ''completed'']"
    using terminal_replays_finished_job [where d = finished_job and i = "Uuid 1" and st = "''completed''" and room = 10
        and scan = rev and su = "\<lambda>_. ''id''" and events = "[]"]
    by (auto simp: terminal_statuses_def)
  moreover from this(1) have "length ls = 1"
    using \<open>length (job_logs finished_job) = 1\<close> by (metis size_mset)
  ultimately show ?thesis by simp
qed

lemma terminal_learns_the_end_witness:
  "last (tm_out (term_loop (Uuid 1) [ClientMessage, BusLagged, PingTick finished_job []] \<lparr>tm_out = [], tm_left = 5\<rparr>)) =
     msg_done ''completed''"
proof -
  have "seen_status (Uuid 1) finished_job [] = Some ''completed''" by code_simp
  from terminal_learns_the_end [OF _ _ this, of "[ClientMessage, BusLagged]" "\<lparr>tm_out = [], tm_left = 5\<rparr>" "[]"]
  show ?thesis by (simp add: passes_def terminal_statuses_def)
qed

end
