(* ===== verification/Master_P2p.thy ===== *)
theory Master_P2p
  imports Jobs_Api Workers_Db
begin

text \<open>
  The P2P event loop of the master (\<open>p2p/handler.rs\<close>) as a function from its state and one event to
  the new state and the effects it asks of libp2p, of the other tasks and of its channels; and the
  two tasks it spawns, the registration of a worker and the completion of a job. The network
  library, the JSON web tokens and the protobuf codec are fields of the environment.
\<close>

section \<open>State, events and effects\<close>

datatype worker_event =
    EvOnline peer_id proto_caps
  | EvOffline peer_id
  | EvHeartbeat peer_id f64 bool u64

datatype dial_target = DialBootstrap | DialPeer peer_id

datatype effect =
    SendRequest peer_id job_assignment
  | RespondJobAck peer_id job_ack
  | RespondRegister peer_id register_ack
  | SpawnRegister peer_id register_worker
  | SpawnCompleted job_completed
  | Notify worker_event
  | Dial dial_target
  | RegisterRendezvous peer_id
  | DiscoverWorkers peer_id
  | AddAutonatServer peer_id string
  | AddKademliaAddress peer_id string
  | KademliaBootstrap
  | AddExternalAddress string

record master_state =
  ms_bootstrap :: "peer_id option"
  ms_attempts :: nat
  ms_reconnecting :: bool
  ms_reregister_at :: int
  ms_reconnect_at :: int

text \<open>
  The clock in seconds, the address of the bootstrap node, whether the library accepts a dial,
  whether the channel to the scheduler is full, and the decoding of envelopes.
\<close>

record p2p_env =
  pe_now :: int
  pe_bootstrap_addr :: string
  pe_dial_ok :: "dial_target \<Rightarrow> bool"
  pe_full :: bool
  pe_decode :: "bytes \<Rightarrow> envelope option"

definition RENDEZVOUS_TTL :: int where "RENDEZVOUS_TTL = 7200"
definition RECONNECT_DELAY :: int where "RECONNECT_DELAY = 10"
definition FAR_FUTURE_SECS :: int where "FAR_FUTURE_SECS = 86400 * 365 * 10"

definition initial_master :: "int \<Rightarrow> master_state" where
  "initial_master now =
     \<lparr>ms_bootstrap = None, ms_attempts = 0, ms_reconnecting = False,
      ms_reregister_at = now + FAR_FUTURE_SECS, ms_reconnect_at = now + FAR_FUTURE_SECS\<rparr>"

definition backoff_secs :: "nat \<Rightarrow> int" where
  "backoff_secs attempts = min 30 (2 ^ min attempts 4)"

text \<open>\<open>try_send\<close> drops the event when the channel is full.\<close>

definition try_notify :: "p2p_env \<Rightarrow> worker_event \<Rightarrow> effect list" where
  "try_notify env ev = (if pe_full env then [] else [Notify ev])"

section \<open>Bootstrap helpers and commands\<close>

definition on_bootstrap_identified :: "peer_id \<Rightarrow> string \<Rightarrow> master_state \<Rightarrow> master_state \<times> effect list" where
  "on_bootstrap_identified peer addr s =
     (s\<lparr>ms_bootstrap := Some peer\<rparr>,
      [AddAutonatServer peer addr, AddKademliaAddress peer addr, RegisterRendezvous peer,
       DiscoverWorkers peer, KademliaBootstrap])"

definition do_reregister :: "master_state \<Rightarrow> effect list" where
  "do_reregister s = (case ms_bootstrap s of None \<Rightarrow> [] | Some b \<Rightarrow> [RegisterRendezvous b])"

datatype job_cmd = JobAssign peer_id job_assignment | JobCancel peer_id string

fun handle_job_command :: "job_cmd \<Rightarrow> effect list" where
  "handle_job_command (JobAssign peer job) = [SendRequest peer job]"
| "handle_job_command (JobCancel peer job) = []"

section \<open>Messages of peers\<close>

text \<open>\<open>source\<close> forwarded the message, \<open>author\<close> signed it.\<close>

definition handle_gossip_message ::
  "p2p_env \<Rightarrow> peer_id \<Rightarrow> peer_id option \<Rightarrow> bytes \<Rightarrow> effect list" where
  "handle_gossip_message env source author data =
     (case pe_decode env data of
        Some (Some (PHeartBeat hb)) \<Rightarrow>
          try_notify env (EvHeartbeat (unwrap_or source author) (hb_uptime hb) (hb_busy hb) (hb_jobs hb))
      | _ \<Rightarrow> [])"

definition handle_job_request :: "p2p_env \<Rightarrow> peer_id \<Rightarrow> bytes \<Rightarrow> effect list" where
  "handle_job_request env peer data =
     (case pe_decode env data of
        None \<Rightarrow> [RespondJobAck peer \<lparr>jk_job_id = [], jk_accepted = False,
                   jk_reason = ''master does not accept requests''\<rparr>]
      | Some (Some (PRegisterWorker req)) \<Rightarrow> [SpawnRegister peer req]
      | Some (Some (PJobCompleted c)) \<Rightarrow>
          [SpawnCompleted c,
           RespondJobAck peer \<lparr>jk_job_id = jc_job_id c, jk_accepted = True, jk_reason = []\<rparr>]
      | Some _ \<Rightarrow> [RespondJobAck peer \<lparr>jk_job_id = [], jk_accepted = False,
                     jk_reason = ''unexpected request type''\<rparr>])"

section \<open>Events of the swarm\<close>

datatype p2p_event =
    ConnectionEstablished peer_id bool
  | ConnectionClosed peer_id nat
  | OutgoingConnectionError "peer_id option"
  | ExternalAddrConfirmed string
  | Registered u64
  | RegisterFailed
  | Discovered "peer_id list"
  | GossipMessage peer_id "peer_id option" bytes
  | GossipUnsubscribed peer_id
  | JobResponse peer_id bytes
  | JobRequest peer_id bytes
  | IdentifyReceived peer_id string "string list"
  | JobCommandReceived job_cmd
  | RegistrationDone peer_id register_ack "proto_caps option"
  | ReregisterTimer
  | ReconnectTimer
  | OtherEvent

definition schedule_reconnect :: "p2p_env \<Rightarrow> master_state \<Rightarrow> master_state" where
  "schedule_reconnect env s =
     s\<lparr>ms_reconnecting := False, ms_reconnect_at := pe_now env + backoff_secs (ms_attempts s)\<rparr>"

definition reconnect_step :: "p2p_env \<Rightarrow> master_state \<Rightarrow> master_state \<times> effect list" where
  "reconnect_step env s =
     (if ms_reconnecting s then (s\<lparr>ms_reconnect_at := pe_now env + RECONNECT_DELAY\<rparr>, [])
      else if pe_dial_ok env DialBootstrap then
        (s\<lparr>ms_reconnecting := True, ms_attempts := ms_attempts s + 1,
           ms_reconnect_at := pe_now env + FAR_FUTURE_SECS\<rparr>, [Dial DialBootstrap])
      else (schedule_reconnect env s, []))"

text \<open>
  Each dispatcher handles its own events and passes the others on, as the nested enumerations of
  libp2p do: the loop to the swarm, the swarm to the behaviour.
\<close>

fun handle_behaviour :: "p2p_env \<Rightarrow> master_state \<Rightarrow> p2p_event \<Rightarrow> master_state \<times> effect list" where
  "handle_behaviour env s (Registered ttl) = (s\<lparr>ms_reregister_at := pe_now env + uint (ttl * 9 div 10)\<rparr>, [])"
| "handle_behaviour env s RegisterFailed = (s\<lparr>ms_reregister_at := pe_now env + 30\<rparr>, [])"
| "handle_behaviour env s (Discovered peers) = (s, map (\<lambda>p. Dial (DialPeer p)) peers)"
| "handle_behaviour env s (GossipMessage source author data) =
     (s, handle_gossip_message env source author data)"
| "handle_behaviour env s (GossipUnsubscribed peer) = (s, try_notify env (EvOffline peer))"
| "handle_behaviour env s (JobResponse peer data) = (s, [])"
| "handle_behaviour env s (JobRequest peer data) = (s, handle_job_request env peer data)"
| "handle_behaviour env s (IdentifyReceived peer observed listen) =
     (let first = (case listen of [] \<Rightarrow> pe_bootstrap_addr env | a # _ \<Rightarrow> a);
          (s', boot) = (if ms_bootstrap s = None then on_bootstrap_identified peer first s else (s, [])) in
      (s', AddExternalAddress observed # boot @ map (AddKademliaAddress peer) listen))"
| "handle_behaviour env s _ = (s, [])"

fun handle_swarm_event :: "p2p_env \<Rightarrow> master_state \<Rightarrow> p2p_event \<Rightarrow> master_state \<times> effect list" where
  "handle_swarm_event env s (ConnectionEstablished peer dialer) =
     (if ms_bootstrap s = None \<and> dialer
      then (s\<lparr>ms_attempts := 0, ms_reconnecting := False\<rparr>, []) else (s, []))"
| "handle_swarm_event env s (ConnectionClosed peer remaining) =
     (if ms_bootstrap s = Some peer then
        (if remaining = 0 then schedule_reconnect env s else s, [])
      else (s, try_notify env (EvOffline peer)))"
| "handle_swarm_event env s (OutgoingConnectionError peer) =
     (if peer = None \<or> peer = ms_bootstrap s then (schedule_reconnect env s, []) else (s, []))"
| "handle_swarm_event env s (ExternalAddrConfirmed addr) = (s, do_reregister s)"
| "handle_swarm_event env s ev = handle_behaviour env s ev"

fun master_step :: "p2p_env \<Rightarrow> master_state \<Rightarrow> p2p_event \<Rightarrow> master_state \<times> effect list" where
  "master_step env s (JobCommandReceived cmd) = (s, handle_job_command cmd)"
| "master_step env s (RegistrationDone peer ack caps) =
     (s, RespondRegister peer ack #
         (if ra_success ack then [Notify (EvOnline peer (unwrap_or default_proto_caps caps))] else []))"
| "master_step env s ReregisterTimer =
     (s\<lparr>ms_reregister_at := pe_now env + RENDEZVOUS_TTL * 9 div 10\<rparr>, do_reregister s)"
| "master_step env s ReconnectTimer = reconnect_step env s"
| "master_step env s ev = handle_swarm_event env s ev"

section \<open>The task that registers a worker\<close>

record reg_env =
  rg_secret :: "string option"
  rg_sub :: "string \<Rightarrow> string \<Rightarrow> string + string option"
  rg_parse_uuid :: "string \<Rightarrow> uuid option"
  rg_uuid :: "uuid \<Rightarrow> string"
  rg_now :: timestamp
  rg_peer_text :: "peer_id \<Rightarrow> string"

text \<open>\<open>rg_sub\<close> verifies a token with the secret and gives its claim \<open>sub\<close>, if it is a text.\<close>

definition verify_and_register_worker ::
  "reg_env \<Rightarrow> bool \<Rightarrow> string \<Rightarrow> peer_id \<Rightarrow> proto_caps option \<Rightarrow> (string, uuid \<times> proto_caps) act" where
  "verify_and_register_worker env has_db token peer caps =
     (case rg_secret env of
        None \<Rightarrow> throw_db ''jwt_secret not configured''
      | Some secret \<Rightarrow>
          if \<not> has_db then throw_db ''database not configured''
          else
            (case rg_sub env secret token of
               Inl e \<Rightarrow> throw_db ''invalid JWT token''
             | Inr None \<Rightarrow> throw_db ''missing 'sub' claim in JWT''
             | Inr (Some sub) \<Rightarrow>
                 (case rg_parse_uuid env sub of
                    None \<Rightarrow> throw_db ''invalid user_id in JWT sub claim''
                  | Some user \<Rightarrow>
                      let c = unwrap_or default_proto_caps caps in
                      bind_db (map_err_db (\<lambda>e. ''db upsert error: '' @ decent_display e)
                        (workers_upsert (rg_now env) (rg_peer_text env peer) user
                          (serialize_capabilities (Some c)))) (\<lambda>_.
                      return_db (user, c)))))"

definition register_task ::
  "reg_env \<Rightarrow> bool \<Rightarrow> peer_id \<Rightarrow> register_worker \<Rightarrow> db \<Rightarrow> fault list \<Rightarrow> p2p_event \<times> db \<times> fault list" where
  "register_task env has_db peer req d fs =
     (case verify_and_register_worker env has_db (rw_jwt req) peer (rw_caps req) d fs of
        (Inr (user, caps), d', fs') \<Rightarrow>
          (RegistrationDone peer \<lparr>ra_success = True, ra_error = [], ra_user = rg_uuid env user\<rparr> (Some caps), d', fs')
      | (Inl e, d', fs') \<Rightarrow>
          (RegistrationDone peer \<lparr>ra_success = False, ra_error = e, ra_user = []\<rparr> None, d', fs'))"

section \<open>The task that completes a job\<close>

record done_env =
  de_uuid :: "uuid \<Rightarrow> string"
  de_parse_uuid :: "string \<Rightarrow> uuid option"
  de_now :: timestamp
  de_now_ms :: int

text \<open>The lines that are not empty, each at its own offset in milliseconds.\<close>

definition output_entries :: "int \<Rightarrow> string \<Rightarrow> (int \<times> string) list" where
  "output_entries now_ms output =
     map (\<lambda>(i, l). (now_ms + int i, l)) (filter (\<lambda>(i, l). l \<noteq> []) (enumerate 0 (str_lines output)))"

definition completion_level :: "job_completed \<Rightarrow> string" where
  "completion_level c = (if jc_success c then ''INFO'' else ''ERROR'')"

definition completion_status :: "job_completed \<Rightarrow> string" where
  "completion_status c = (if jc_success c then ''completed'' else ''failed'')"

definition store_output :: "int \<Rightarrow> job_completed \<Rightarrow> uuid \<Rightarrow> (unit, unit) act" where
  "store_output now_ms c i =
     for_each_db (\<lambda>(ts, l). bind_db (attempt (jobs_append_log i ts (completion_level c) l)) (\<lambda>_. return_db ()))
       (output_entries now_ms (jc_output c))"

definition complete_job :: "done_env \<Rightarrow> job_completed \<Rightarrow> uuid \<Rightarrow> (unit, unit) act" where
  "complete_job env c i =
     bind_db (store_output (de_now_ms env) c i) (\<lambda>_.
     bind_db (attempt (jobs_transition_status (de_uuid env) (de_now env) i ''assigned'' (completion_status c)
                None (if jc_success c then None else Some (jc_error c)) None)) (\<lambda>_.
     return_db ()))"

text \<open>
  The messages to the live terminals number the lines that are not empty. The entry of the job in
  the bus is removed afterwards.
\<close>

definition broadcast_messages :: "int \<Rightarrow> job_completed \<Rightarrow> json list" where
  "broadcast_messages now_ms c =
     map (\<lambda>(i, l). JObj [(''type'', JStr ''log''), (''ts'', JNum (now_ms + int i)),
            (''level'', JStr (completion_level c)), (''data'', JStr (l @ [CHR 0x0D, CHR 0x0A]))])
       (enumerate 0 (filter (\<lambda>l. l \<noteq> []) (str_lines (jc_output c)))) @
     [JObj [(''type'', JStr ''job_done''), (''status'', JStr (completion_status c))]]"

definition completion_task ::
  "done_env \<Rightarrow> bool \<Rightarrow> uuid list \<Rightarrow> job_completed \<Rightarrow> db \<Rightarrow> fault list \<Rightarrow>
   json list \<times> uuid list \<times> db \<times> fault list" where
  "completion_task env has_db bus c d fs =
     (case (has_db, de_parse_uuid env (jc_job_id c)) of
        (True, Some i) \<Rightarrow>
          (case complete_job env c i d fs of
             (_, d', fs') \<Rightarrow>
               (if i \<in> set bus then broadcast_messages (de_now_ms env) c else [], removeAll i bus, d', fs'))
      | _ \<Rightarrow> ([], bus, d, fs))"

section \<open>The status of workers in the database\<close>

text \<open>The updater of \<open>main.rs\<close>: every worker event, copied to it beside the scheduler.\<close>

fun db_updater :: "timestamp \<Rightarrow> (peer_id \<Rightarrow> string) \<Rightarrow> worker_event \<Rightarrow> (unit, unit) act" where
  "db_updater now text (EvHeartbeat peer u b n) =
     bind_db (attempt (workers_set_online now (text peer) True)) (\<lambda>_. return_db ())"
| "db_updater now text (EvOnline peer caps) =
     bind_db (attempt (workers_set_online now (text peer) True)) (\<lambda>_. return_db ())"
| "db_updater now text (EvOffline peer) =
     bind_db (attempt (workers_set_online now (text peer) False)) (\<lambda>_. return_db ())"

end
