(* ===== verification/Lifecycle.thy ===== *)
theory Lifecycle
  imports Scheduler Terminal Master_P2p
begin

text \<open>
  The life of a job as a relation between the statuses of all jobs before and after: what a client of
  the API, the scheduler and the completion of a job may each do to it, and the abstract lifecycle
  \<open>advances\<close> that contains all three. The locale \<open>status_moves\<close> holds what they share.
\<close>

section \<open>Moves of the statuses\<close>

definition no_nil_user :: "db \<Rightarrow> bool" where
  "no_nil_user d \<longleftrightarrow> (\<forall>u\<in>set (users d). u_id u \<noteq> uuid_nil)"

text \<open>No job disappears, a job that was there moves along \<open>R\<close>, a new one has moved from pending.\<close>

definition job_moves :: "(string \<Rightarrow> string \<Rightarrow> bool) \<Rightarrow> db \<Rightarrow> db \<Rightarrow> bool" where
  "job_moves R d0 d \<longleftrightarrow>
     jobs_ok d \<and> no_nil_hirer d \<and> no_nil_user d \<and>
     (\<forall>i. case job_status_of d0 i of
            Some a \<Rightarrow> \<exists>b. job_status_of d i = Some b \<and> R a b
          | None \<Rightarrow> \<forall>b. job_status_of d i = Some b \<longrightarrow> R ''pending'' b)"

lemma job_movesD:
  assumes "job_moves R d0 d"
  shows "jobs_ok d" "no_nil_hirer d" "no_nil_user d"
    and "job_status_of d0 i = Some a \<Longrightarrow> \<exists>b. job_status_of d i = Some b \<and> R a b"
    and "job_status_of d0 i = None \<Longrightarrow> job_status_of d i = Some b \<Longrightarrow> R ''pending'' b"
proof -
  have moved: "case job_status_of d0 i of Some a \<Rightarrow> \<exists>b. job_status_of d i = Some b \<and> R a b
      | None \<Rightarrow> \<forall>b. job_status_of d i = Some b \<longrightarrow> R ''pending'' b"
    using assms by (simp add: job_moves_def)
  show "jobs_ok d" "no_nil_hirer d" "no_nil_user d" using assms by (simp_all add: job_moves_def)
  show "\<exists>b. job_status_of d i = Some b \<and> R a b" if "job_status_of d0 i = Some a" using moved that by simp
  show "R ''pending'' b" if "job_status_of d0 i = None" "job_status_of d i = Some b" using moved that by simp
qed

lemma job_moves_mono:
  assumes "job_moves R d0 d" "\<And>a b. R a b \<Longrightarrow> S a b" shows "job_moves S d0 d"
proof -
  have "case job_status_of d0 i of Some a \<Rightarrow> \<exists>b. job_status_of d i = Some b \<and> S a b
      | None \<Rightarrow> \<forall>b. job_status_of d i = Some b \<longrightarrow> S ''pending'' b" for i
    using job_movesD(4,5) [OF assms(1), of i] assms(2) by (cases "job_status_of d0 i") auto
  then show ?thesis using job_movesD(1-3) [OF assms(1)] by (simp add: job_moves_def)
qed

locale status_moves =
  fixes R :: "string \<Rightarrow> string \<Rightarrow> bool"
  assumes stays: "R a a"
    and chain: "R a b \<Longrightarrow> R b c \<Longrightarrow> R a c"
begin

lemma moves_refl: "jobs_ok d \<Longrightarrow> no_nil_hirer d \<Longrightarrow> no_nil_user d \<Longrightarrow> job_moves R d d"
  by (simp add: job_moves_def stays split: option.split)

lemma moves_after:
  assumes "job_moves R d0 d" "jobs_ok d'" "no_nil_hirer d'" "no_nil_user d'"
    and "\<And>i a. job_status_of d i = Some a \<Longrightarrow> \<exists>b. job_status_of d' i = Some b \<and> R a b"
    and "\<And>i b. job_status_of d i = None \<Longrightarrow> job_status_of d' i = Some b \<Longrightarrow> R ''pending'' b"
  shows "job_moves R d0 d'"
proof -
  have "case job_status_of d0 i of Some a \<Rightarrow> \<exists>b. job_status_of d' i = Some b \<and> R a b
      | None \<Rightarrow> \<forall>b. job_status_of d' i = Some b \<longrightarrow> R ''pending'' b" for i
  proof (cases "job_status_of d0 i")
    case None
    have "R ''pending'' c" if "job_status_of d' i = Some c" for c
      using job_movesD(5) [OF assms(1) None] assms(5) [of i] assms(6) [of i c] that chain
      by (cases "job_status_of d i") auto
    with None show ?thesis by simp
  next
    case (Some a)
    then show ?thesis using job_movesD(4) [OF assms(1) Some] assms(5) [of i] chain by fastforce
  qed
  with assms(2-4) show ?thesis by (simp add: job_moves_def)
qed

lemma moves_trans: "job_moves R d0 d \<Longrightarrow> job_moves R d e \<Longrightarrow> job_moves R d0 e"
  by (rule moves_after) (auto dest: job_movesD)

lemma moves_same:
  assumes "job_moves R d0 d" "jobs d' = jobs d" "no_nil_user d'"
  shows "job_moves R d0 d'"
proof -
  have st: "job_status_of d' = job_status_of d" using assms(2) by (auto simp: job_status_of_def find_job_def)
  show ?thesis using assms unfolding job_moves_def st by (simp add: jobs_ok_def no_nil_hirer_def)
qed

lemma moves_transition:
  assumes moves: "job_moves R d0 d" and "R f t"
    and run: "jobs_transition_status su now i f t w e r d fs = (res, d', fs')"
  shows "job_moves R d0 d'"
  using run
proof (cases rule: transition_cases)
  case 1
  with moves show ?thesis by simp
next
  case (2 row)
  note st = transition_job_status [OF job_movesD(1) [OF moves] 2]
  have "no_nil_hirer d'" by (rule no_nil_transition [OF job_movesD(2) [OF moves] 2])
  moreover have "no_nil_user d'"
    using job_movesD(3) [OF moves] by (simp add: no_nil_user_def transition_success(1) [OF 2])
  ultimately show ?thesis
    by (rule moves_after [OF moves st(3)]) (use st(1,2) assms(2) stays in \<open>auto split: if_splits\<close>)
qed

lemma moves_new:
  assumes moves: "job_moves R d0 d" and new: "j_id row \<notin> j_id ` set (jobs d)"
    "j_status row = ''pending''" "j_hirer row \<noteq> uuid_nil"
  shows "job_moves R d0 (d\<lparr>jobs := jobs d @ [row]\<rparr>)" (is "job_moves R d0 ?d")
proof (rule moves_after [OF moves])
  note old = job_movesD(1-3) [OF moves]
  show "jobs_ok ?d" "no_nil_hirer ?d" "no_nil_user ?d"
    using old new by (auto simp: jobs_ok_def job_statuses_def no_nil_hirer_def no_nil_user_def)
  show "\<exists>b. job_status_of ?d i = Some b \<and> R a b" if "job_status_of d i = Some a" for i a
    using that stays by (auto simp: job_status_of_def find_job_def find_append)
  show "R ''pending'' b" if "job_status_of d i = None" "job_status_of ?d i = Some b" for i b
    using that new(2) stays by (auto simp: job_status_of_def find_job_def find_append split: if_splits)
qed

end

text \<open>
  The abstract lifecycle: pending, then assigned, then one of three final statuses; a job may be
  cancelled before it is assigned. A client of the API only cancels, the scheduler only assigns.
\<close>

definition final_statuses :: "string set" where
  "final_statuses = {''completed'', ''failed'', ''cancelled''}"

definition advances :: "string \<Rightarrow> string \<Rightarrow> bool" where
  "advances a b \<longleftrightarrow>
     a = b \<or> a = ''pending'' \<and> b \<in> insert ''assigned'' final_statuses \<or>
     a = ''assigned'' \<and> b \<in> final_statuses"

definition api_move :: "string \<Rightarrow> string \<Rightarrow> bool" where
  "api_move a b \<longleftrightarrow> a = b \<or> a \<in> {''pending'', ''assigned''} \<and> b = ''cancelled''"

definition sched_move :: "string \<Rightarrow> string \<Rightarrow> bool" where
  "sched_move a b \<longleftrightarrow> a = b \<or> a = ''pending'' \<and> b = ''assigned''"

lemma advances_trans: "advances a b \<Longrightarrow> advances b c \<Longrightarrow> advances a c"
  unfolding advances_def final_statuses_def by (elim disjE conjE; simp)

lemma advances_final: "advances a b \<Longrightarrow> a \<in> final_statuses \<Longrightarrow> b = a"
  by (auto simp: advances_def final_statuses_def)

lemma advances_pending: "advances a ''pending'' \<Longrightarrow> a = ''pending''"
  by (auto simp: advances_def final_statuses_def)

lemma api_advances: "api_move a b \<Longrightarrow> advances a b"
  unfolding api_move_def advances_def final_statuses_def by (elim disjE conjE; simp)

lemma sched_advances: "sched_move a b \<Longrightarrow> advances a b"
  unfolding sched_move_def advances_def final_statuses_def by (elim disjE conjE; simp)

interpretation life: status_moves advances
  by unfold_locales (simp add: advances_def, rule advances_trans)

interpretation api: status_moves api_move
  by unfold_locales (auto simp: api_move_def)

interpretation sched: status_moves sched_move
  by unfold_locales (auto simp: sched_move_def)

section \<open>What the components do\<close>

text \<open>\<open>quiet\<close>: the jobs move and no line is logged.\<close>

definition quiet :: "(string \<Rightarrow> string \<Rightarrow> bool) \<Rightarrow> db \<Rightarrow> db \<Rightarrow> bool" where
  "quiet R d0 d \<longleftrightarrow> job_moves R d0 d \<and> job_logs d = job_logs d0"

lemma transition_logs: "jobs_transition_status su now i f t w e r d fs = (res, d', fs') \<Longrightarrow> job_logs d' = job_logs d"
  by (cases rule: transition_cases) (auto dest: transition_success(1))

subsection \<open>The API\<close>

lemma quiet_create: "keeps (quiet api_move d0) (jobs_create i now h b m s p)"
proof (rule keepsI)
  fix d fs r d' fs' assume quiet: "quiet api_move d0 d" and run: "jobs_create i now h b m s p d fs = (r, d', fs')"
  show "quiet api_move d0 d'"
  proof (cases "d' = d")
    case False
    then obtain row where new: "d' = d\<lparr>jobs := jobs d @ [row]\<rparr>" "j_id row \<notin> j_id ` set (jobs d)" "j_hirer row = h"
      "j_status row = ''pending''" "user_exists h d"
      using stmt_cases(1) [OF run [unfolded jobs_create_def]] by (auto simp: Let_def split: if_splits)
    have "h \<noteq> uuid_nil"
      using quiet new(5) by (auto simp: quiet_def job_moves_def no_nil_user_def user_exists_def)
    with quiet new show ?thesis by (simp add: quiet_def api.moves_new)
  qed (simp add: quiet)
qed

lemma quiet_cancel: "keeps (quiet api_move d0) (cancel_job env now user i)"
proof (rule keepsI)
  fix d fs r d' fs' assume quiet: "quiet api_move d0 d" and run: "cancel_job env now user i d fs = (r, d', fs')"
  obtain q d1 fs1 where q: "owned_job user i d fs = (q, d1, fs1)" by (cases "owned_job user i d fs")
  have d1: "d1 = d" by (rule owned_job_cases(1) [OF q])
  show "quiet api_move d0 d'"
  proof (cases "\<exists>row. q = Inr row \<and> j_status row \<in> {''pending'', ''assigned''}")
    case False
    then have "d' = d"
      using run q d1 by (cases q) (auto simp: cancel_job_def bind_db_def throw_db_def)
    with quiet show ?thesis by simp
  next
    case True
    then obtain row where row: "q = Inr row" "j_status row \<in> {''pending'', ''assigned''}" by blast
    obtain x d2 fs2 where x: "jobs_transition_status (je_uuid env) now i (j_status row) ''cancelled'' None None None d fs1 = (x, d2, fs2)"
      by (cases "jobs_transition_status (je_uuid env) now i (j_status row) ''cancelled'' None None None d fs1")
    have "d' = d2"
      using run q d1 row x by (cases x) (auto simp: cancel_job_def bind_db_def lift_api_run return_db_def)
    moreover have "api_move (j_status row) ''cancelled''"
      using row(2) by (auto simp: api_move_def)
    ultimately show ?thesis
      using quiet api.moves_transition [OF _ _ x] transition_logs [OF x] by (simp add: quiet_def)
  qed
qed

subsection \<open>The scheduler\<close>

lemma quiet_assign:
  assumes "quiet sched_move d0 (sc_db s)"
  shows "quiet sched_move d0 (sc_db (try_assign_one env i req s))"
proof -
  have ok: "jobs_ok (sc_db s)" using assms by (simp add: quiet_def job_moves_def)
  have moved: "quiet sched_move d0 e"
    if "jobs_transition_status (se_uuid env) (se_now env) i ''pending'' ''assigned'' (Some p) None None
         (sc_db s) [] = (Inr row, e, [])" for p row e
    using assms sched.moves_transition [OF _ _ that] transition_logs [OF that] by (simp add: quiet_def sched_move_def)
  show ?thesis
    by (rule try_assign_one_cases [OF ok, of env i req]) (use assms moved in auto)
qed

lemma quiet_hirers: "quiet R d0 d \<Longrightarrow> no_nil_hirer d"
  by (simp add: quiet_def job_moves_def)

interpretation assigning: assign_invariant env "\<lambda>s. quiet sched_move d0 (sc_db s)" for env d0
  by unfold_locales (simp_all add: quiet_assign quiet_hirers)

subsection \<open>The completion of a job\<close>

text \<open>The lines that a completion stores are of its job and its message, whatever fails.\<close>

definition logs_from :: "uuid \<Rightarrow> job_completed \<Rightarrow> db \<Rightarrow> db \<Rightarrow> bool" where
  "logs_from i c d0 d \<longleftrightarrow> jobs d = jobs d0 \<and> users d = users d0 \<and>
     (\<exists>rows. job_logs d = job_logs d0 @ rows \<and>
        (\<forall>row\<in>set rows. l_job row = i \<and> l_message row \<in> set (str_lines (jc_output c))))"

lemma logs_from_refl: "logs_from i c d d"
  by (simp add: logs_from_def)

lemma logs_from_append:
  assumes "m \<in> set (str_lines (jc_output c))"
  shows "keeps (logs_from i c d0) (jobs_append_log i ts l m)"
proof (rule keepsI)
  fix d fs r d' fs' assume from0: "logs_from i c d0 d" and run: "jobs_append_log i ts l m d fs = (r, d', fs')"
  show "logs_from i c d0 d'"
  proof (cases "d' = d")
    case False
    then obtain row where "d' = d\<lparr>job_logs := job_logs d @ [row], log_seq := log_seq d + 1\<rparr>" "l_job row = i" "l_message row = m"
      using stmt_cases(1) [OF run [unfolded jobs_append_log_def]] by (auto split: if_splits)
    with from0 assms show ?thesis by (auto simp: logs_from_def)
  qed (simp add: from0)
qed

lemma keeps_for_each_in: "(\<And>x. x \<in> set xs \<Longrightarrow> keeps I (f x)) \<Longrightarrow> keeps I (for_each_db f xs)"
  by (induction xs) (auto intro: keeps_intros)

lemma store_output_logs: "keeps (logs_from i c d0) (store_output ms c i)"
  unfolding store_output_def
proof (intro keeps_for_each_in)
  fix x assume "x \<in> set (output_entries ms (jc_output c))"
  then have "snd x \<in> set (str_lines (jc_output c))"
    by (auto simp: output_entries_def in_set_enumerate_eq)
  then show "keeps (logs_from i c d0) (case x of (ts, l) \<Rightarrow>
      bind_db (attempt (jobs_append_log i ts (completion_level c) l)) (\<lambda>_. return_db ()))"
    by (auto simp: split_beta intro!: keeps_intros logs_from_append)
qed

lemma complete_job_effect:
  assumes ok: "jobs_ok d" "no_nil_hirer d" "no_nil_user d" and run: "complete_job env c i d fs = (r, d', fs')"
  shows "job_moves advances d d'"
    and "job_status_of d' = job_status_of d \<or>
      job_status_of d i = Some ''assigned'' \<and> job_status_of d' = (job_status_of d)(i \<mapsto> completion_status c)"
    and "\<exists>rows. job_logs d' = job_logs d @ rows \<and>
      (\<forall>row\<in>set rows. l_job row = i \<and> l_message row \<in> set (str_lines (jc_output c)))"
proof -
  obtain q d1 fs1 where q: "store_output (de_now_ms env) c i d fs = (q, d1, fs1)"
    by (cases "store_output (de_now_ms env) c i d fs")
  have d1: "logs_from i c d d1" by (rule keepsD [OF store_output_logs logs_from_refl q])
  then have same: "jobs d1 = jobs d" "no_nil_user d1" using ok(3) by (auto simp: logs_from_def no_nil_user_def)
  have st1: "job_status_of d1 = job_status_of d" using same(1) by (auto simp: job_status_of_def find_job_def)
  have moves1: "job_moves advances d d1" by (rule life.moves_same [OF life.moves_refl [OF ok] same])
  have "job_moves advances d d' \<and> (job_status_of d' = job_status_of d \<or>
      job_status_of d i = Some ''assigned'' \<and> job_status_of d' = (job_status_of d)(i \<mapsto> completion_status c)) \<and>
      job_logs d' = job_logs d1"
  proof (cases q)
    case (Inl e)
    with run q moves1 st1 show ?thesis by (simp add: complete_job_def bind_db_def)
  next
    case (Inr u)
    obtain x d2 fs2 where x: "jobs_transition_status (de_uuid env) (de_now env) i ''assigned'' (completion_status c)
        None (if jc_success c then None else Some (jc_error c)) None d1 fs1 = (x, d2, fs2)"
      by (cases "jobs_transition_status (de_uuid env) (de_now env) i ''assigned'' (completion_status c)
        None (if jc_success c then None else Some (jc_error c)) None d1 fs1")
    have d': "d' = d2" using run q x Inr by (simp add: complete_job_def bind_db_def attempt_def return_db_def)
    have "advances ''assigned'' (completion_status c)"
      by (simp add: advances_def final_statuses_def completion_status_def)
    then have "job_moves advances d d2" by (rule life.moves_transition [OF moves1 _ x])
    moreover have "job_status_of d2 = job_status_of d \<or>
        job_status_of d i = Some ''assigned'' \<and> job_status_of d2 = (job_status_of d)(i \<mapsto> completion_status c)"
      using x
    proof (cases rule: transition_cases)
      case 1
      with st1 show ?thesis by simp
    next
      case (2 row)
      show ?thesis
        using transition_job_status(1,2) [OF job_movesD(1) [OF moves1] 2] by (auto simp: st1)
    qed
    ultimately show ?thesis using transition_logs [OF x] by (simp add: d')
  qed
  with d1 show "job_moves advances d d'"
    and "job_status_of d' = job_status_of d \<or>
      job_status_of d i = Some ''assigned'' \<and> job_status_of d' = (job_status_of d)(i \<mapsto> completion_status c)"
    and "\<exists>rows. job_logs d' = job_logs d @ rows \<and>
      (\<forall>row\<in>set rows. l_job row = i \<and> l_message row \<in> set (str_lines (jc_output c)))"
    by (auto simp: logs_from_def)
qed

section \<open>Examples\<close>

definition demo_done_env :: done_env where
  "demo_done_env = \<lparr>de_uuid = bits_text, de_parse_uuid = bits_uuid, de_now = 50, de_now_ms = 1000\<rparr>"

definition demo_completed :: "uuid \<Rightarrow> string \<Rightarrow> job_completed" where
  "demo_completed i output = \<lparr>jc_job_id = bits_text i, jc_success = True, jc_error = [], jc_duration = 3,
     jc_result_size = 0, jc_output = output\<rparr>"

end
