(* ===== verification/Completion.thy ===== *)
theory Completion
  imports Lifecycle
begin

text \<open>
  The end of a job, from the message of a worker to the terminal of the hirer, and what the messages
  of peers can do to the master: completion, heartbeats, registration and the connection to the
  bootstrap node.
\<close>

section \<open>Storing the output\<close>

definition log_rows :: "int \<Rightarrow> uuid \<Rightarrow> string \<Rightarrow> (int \<times> string) list \<Rightarrow> job_log_row list" where
  "log_rows seq i level es =
     map (\<lambda>(n, ts, m). \<lparr>l_id = seq + int n, l_job = i, l_timestamp_ms = ts, l_level = level, l_message = m\<rparr>)
       (enumerate 0 es)"

definition with_logs :: "uuid \<Rightarrow> string \<Rightarrow> (int \<times> string) list \<Rightarrow> db \<Rightarrow> db" where
  "with_logs i level es d =
     d\<lparr>job_logs := job_logs d @ log_rows (log_seq d) i level es, log_seq := log_seq d + int (length es)\<rparr>"

lemma enumerate_Suc: "enumerate (Suc n) xs = map (\<lambda>(k, x). (Suc k, x)) (enumerate n xs)"
  by (induction xs arbitrary: n) auto

lemma log_rows_Cons:
  "log_rows seq i level (e # es) =
   \<lparr>l_id = seq, l_job = i, l_timestamp_ms = fst e, l_level = level, l_message = snd e\<rparr> # log_rows (seq + 1) i level es"
  by (cases e) (auto simp: log_rows_def enumerate_Suc)

lemma append_logs_run:
  assumes "i \<in> j_id ` set (jobs d)"
  shows "for_each_db (\<lambda>(ts, l). bind_db (attempt (jobs_append_log i ts level l)) (\<lambda>_. return_db ())) es d [] =
    (Inr (), with_logs i level es d, [])"
  using assms
proof (induction es arbitrary: d)
  case Nil
  then show ?case by (simp add: return_db_def with_logs_def log_rows_def)
next
  case (Cons e es)
  let ?d = "with_logs i level [e] d"
  have one: "jobs_append_log i (fst e) level (snd e) d [] = (Inr (), ?d, [])"
    using Cons.prems
    by (simp add: jobs_append_log_def stmt_nil run_sql_def with_logs_def log_rows_def split: prod.splits)
  have "with_logs i level es ?d = with_logs i level (e # es) d"
    by (simp add: with_logs_def log_rows_Cons log_rows_def [of _ _ _ "[]"])
  with one Cons show ?case
    by (cases e) (simp add: bind_db_def attempt_def return_db_def with_logs_def)
qed

lemma jobs_with_logs [simp]: "jobs (with_logs i level es d) = jobs d" "workers (with_logs i level es d) = workers d"
  by (simp_all add: with_logs_def)

lemma output_entries_lines: "map snd (output_entries ms out) = filter (\<lambda>l. l \<noteq> []) (str_lines out)"
proof -
  have "map snd (filter (\<lambda>(i, l). P l) (enumerate n xs)) = filter P xs" for P n and xs :: "string list"
    by (induction xs arbitrary: n) auto
  then show ?thesis by (simp add: output_entries_def comp_def case_prod_unfold)
qed

lemma output_entries_increasing: "sorted_wrt (<) (map fst (output_entries ms out))"
proof -
  have "sorted_wrt (<) (map (\<lambda>p. ms + int (fst p)) (filter P (enumerate n xs)))"
    for P n and xs :: "string list"
  proof (induction xs arbitrary: n)
    case (Cons x xs)
    have "Suc n \<le> k" if "(k, y) \<in> set (enumerate (Suc n) xs)" for k y
      using that by (auto simp: in_set_enumerate_eq)
    with Cons [of "Suc n"] show ?case by fastforce
  qed simp
  then show ?thesis by (simp add: output_entries_def comp_def case_prod_unfold)
qed

text \<open>What the completion of an assigned job makes of the database: the row of the job and its lines.\<close>

definition finish_row :: "done_env \<Rightarrow> job_completed \<Rightarrow> job_row \<Rightarrow> job_row" where
  "finish_row env c j =
     j\<lparr>j_status := completion_status c, j_error := (if jc_success c then j_error j else Some (jc_error c)),
       j_finished_at := Some (de_now env)\<rparr>"

definition recorded :: "done_env \<Rightarrow> job_completed \<Rightarrow> uuid \<Rightarrow> db \<Rightarrow> db" where
  "recorded env c i d =
     (let es = output_entries (de_now_ms env) (jc_output c) in
      d\<lparr>jobs := map (\<lambda>j. if j_id j = i then finish_row env c j else j) (jobs d),
        job_logs := job_logs d @ log_rows (log_seq d) i (completion_level c) es,
        log_seq := log_seq d + int (length es)\<rparr>)"

lemma transition_finish:
  "apply_transition (de_now env) (completion_status c) None (if jc_success c then None else Some (jc_error c)) None j =
   finish_row env c j"
  by (simp add: apply_transition_def finish_row_def completion_status_def coalesce_def)

lemma update_where_status:
  assumes "distinct (map j_id js)" "find (\<lambda>j. j_id j = i) js = Some j" "j_status j = f"
  shows "update_where (\<lambda>j. j_id j = i \<and> j_status j = f) g js = map (\<lambda>j. if j_id j = i then g j else j) js"
proof -
  have "j_status x = f" if x: "x \<in> set js" "j_id x = i" for x
  proof -
    have "x = j" using assms(1,2) x by (auto simp: distinct_map dest!: find_Some_set dest: inj_onD)
    then show ?thesis using assms(3) by simp
  qed
  then show ?thesis by (auto simp: update_where_def)
qed

lemma complete_job_recorded:
  assumes ok: "jobs_ok d" and st: "job_status_of d i = Some ''assigned''"
  shows "complete_job env c i d [] = (Inr (), recorded env c i d, [])"
    and "job_status_of (recorded env c i d) = (job_status_of d)(i \<mapsto> completion_status c)"
proof -
  let ?es = "output_entries (de_now_ms env) (jc_output c)"
  let ?d1 = "with_logs i (completion_level c) ?es d"
  let ?err = "if jc_success c then None else Some (jc_error c)"
  obtain j where j: "find_job i d = Some j" "j_status j = ''assigned''"
    using st by (auto simp: job_status_of_def)
  then have ids: "i \<in> j_id ` set (jobs d)" by (auto simp: find_job_def dest!: find_Some_set)
  have store: "store_output (de_now_ms env) c i d [] = (Inr (), ?d1, [])"
    unfolding store_output_def by (rule append_logs_run [OF ids])
  have ok1: "jobs_ok ?d1" and st1: "job_status_of ?d1 = job_status_of d"
    using ok by (auto simp: jobs_ok_def job_status_of_def find_job_def)
  obtain row d' where run: "jobs_transition_status (de_uuid env) (de_now env) i ''assigned'' (completion_status c)
      None ?err None ?d1 [] = (Inr row, d', [])"
    by (rule transition_from_status [OF ok1, of i "''assigned''" "completion_status c" None])
      (use st1 st in \<open>auto simp: completion_status_def job_statuses_def worker_fk_def\<close>)
  have "d' = recorded env c i d"
    using transition_success(1) [OF run] update_where_status [of "jobs d" i j "''assigned''"] ok j
    by (simp add: transition_finish jobs_ok_def find_job_def recorded_def with_logs_def Let_def)
  with store run show "complete_job env c i d [] = (Inr (), recorded env c i d, [])"
    by (simp add: complete_job_def bind_db_def attempt_def return_db_def)
  from transition_job_status(2) [OF ok1 run] \<open>d' = recorded env c i d\<close>
  show "job_status_of (recorded env c i d) = (job_status_of d)(i \<mapsto> completion_status c)"
    using st1 by auto
qed

lemma complete_job_assigned:
  assumes "jobs_ok d" "job_status_of d i = Some ''assigned''"
  shows "\<exists>d'. complete_job env c i d [] = (Inr (), d', []) \<and>
    job_logs d' = job_logs d @ log_rows (log_seq d) i (completion_level c) (output_entries (de_now_ms env) (jc_output c)) \<and>
    job_status_of d' = (job_status_of d)(i \<mapsto> completion_status c)"
  using complete_job_recorded [OF assms, of env c] by (simp add: recorded_def Let_def)

text \<open>
  C24. A completed job is recorded once and completely, and nothing else happens. Without faults the
  message of completion of an assigned job changes the database in two places. The row of the job
  becomes completed or failed and gets the time of the end and, if it failed, the error; and the
  non-empty lines of the output are appended to the logs, in their order, with increasing times, the
  level of the outcome and the next numbers. All other rows and tables are as before. So, contrary to
  the README, nobody is debited and nobody is paid when a job completes.
\<close>

theorem completion_exact:
  fixes env :: done_env and c :: job_completed
  assumes "jobs_ok d" "job_status_of d i = Some ''assigned''"
  defines "entries \<equiv> output_entries (de_now_ms env) (jc_output c)"
  shows "complete_job env c i d [] =
      (Inr (),
       d\<lparr>jobs := map (\<lambda>j. if j_id j = i
             then j\<lparr>j_status := completion_status c, j_error := (if jc_success c then j_error j else Some (jc_error c)),
                    j_finished_at := Some (de_now env)\<rparr>
             else j) (jobs d),
         job_logs := job_logs d @ log_rows (log_seq d) i (completion_level c) entries,
         log_seq := log_seq d + int (length entries)\<rparr>, []) \<and>
    map snd entries = filter (\<lambda>l. l \<noteq> []) (str_lines (jc_output c)) \<and> sorted_wrt (<) (map fst entries)"
  using complete_job_recorded(1) [OF assms(1,2), of env c] output_entries_lines output_entries_increasing
  unfolding entries_def recorded_def finish_row_def Let_def by blast

section \<open>What peers can do\<close>

text \<open>
  The master does not ask who completes a job. A completion message of any peer at all, the
  assigned worker or not, is accepted and acknowledged, and moves the assigned job to the status of
  the sender's choice.
\<close>

theorem any_peer_completes:
  assumes "jobs_ok d" "find_job i d = Some j" "j_status j = ''assigned''" "j_worker j = Some w" "p \<noteq> w"
    and "pe_decode env data = Some (Some (PJobCompleted c))" "de_parse_uuid denv (jc_job_id c) = Some i"
  shows "handle_job_request env p data =
      [SpawnCompleted c, RespondJobAck p \<lparr>jk_job_id = jc_job_id c, jk_accepted = True, jk_reason = []\<rparr>] \<and>
    (\<exists>msgs bus' d'. completion_task denv True bus c d [] = (msgs, bus', d', []) \<and>
      job_status_of d' i = Some (completion_status c))"
proof
  show "handle_job_request env p data =
      [SpawnCompleted c, RespondJobAck p \<lparr>jk_job_id = jc_job_id c, jk_accepted = True, jk_reason = []\<rparr>]"
    using assms(6) by (simp add: handle_job_request_def)
  have "job_status_of d i = Some ''assigned''" using assms(2,3) by (simp add: job_status_of_def)
  from complete_job_assigned [OF assms(1) this, of denv c] obtain d' where
    "complete_job denv c i d [] = (Inr (), d', [])" "job_status_of d' = (job_status_of d)(i \<mapsto> completion_status c)"
    by blast
  then show "\<exists>msgs bus' d'. completion_task denv True bus c d [] = (msgs, bus', d', []) \<and>
      job_status_of d' i = Some (completion_status c)"
    using assms(7) by (simp add: completion_task_def)
qed

text \<open>
  A heartbeat speaks only for the peer that signed it: whatever the bytes of a gossip message
  say, the only thing it can cause is a heartbeat event of the author of the message (of the peer
  that forwarded it, when it is anonymous).
\<close>

theorem heartbeat_of_author:
  "\<exists>u b n. set (snd (master_step env s (GossipMessage source author data))) \<subseteq>
     {Notify (EvHeartbeat (unwrap_or source author) u b n)} \<and>
   fst (master_step env s (GossipMessage source author data)) = s"
proof (cases "\<exists>hb. pe_decode env data = Some (Some (PHeartBeat hb))")
  case True
  then obtain hb where "pe_decode env data = Some (Some (PHeartBeat hb))" by blast
  then show ?thesis
    by (intro exI [of _ "hb_uptime hb"] exI [of _ "hb_busy hb"] exI [of _ "hb_jobs hb"])
      (simp add: handle_gossip_message_def try_notify_def)
next
  case False
  then have "handle_gossip_message env source author data = []"
    by (auto simp: handle_gossip_message_def split: option.splits payload.splits)
  then show ?thesis by simp
qed

lemma workers_upsert_online:
  "workers_upsert now peer u c d fs = (Inr x, d', fs') \<Longrightarrow> \<exists>w\<in>set (workers d'). w_peer w = peer \<and> w_online w"
  by (auto simp: workers_upsert_def stmt_def run_sql_def bex_update_where split: prod.splits fault.splits if_splits)

lemma verify_worker_cases:
  assumes "verify_and_register_worker env True tok peer caps d fs = (r, d', fs')"
  obtains (refused) e where "r = Inl e" "d' = d"
    "\<And>secret sub user. rg_secret env = Some secret \<Longrightarrow> rg_sub env secret tok = Inr (Some sub) \<Longrightarrow> rg_parse_uuid env sub \<noteq> Some user"
  | (tried) secret sub user where "rg_secret env = Some secret" "rg_sub env secret tok = Inr (Some sub)"
    "rg_parse_uuid env sub = Some user"
    "\<And>u c. r = Inr (u, c) \<Longrightarrow> u = user \<and> (\<exists>w\<in>set (workers d'). w_peer w = rg_peer_text env peer \<and> w_online w)"
proof (cases "\<exists>secret sub user. rg_secret env = Some secret \<and> rg_sub env secret tok = Inr (Some sub) \<and>
    rg_parse_uuid env sub = Some user")
  case False
  then have "(\<exists>e. r = Inl e) \<and> d' = d"
    using assms by (auto simp: verify_and_register_worker_def throw_db_def split: option.splits sum.splits)
  with False refused show thesis by blast
next
  case True
  then obtain secret sub user where user: "rg_secret env = Some secret" "rg_sub env secret tok = Inr (Some sub)"
    "rg_parse_uuid env sub = Some user" by blast
  let ?m = "workers_upsert (rg_now env) (rg_peer_text env peer) user
    (serialize_capabilities (Some (unwrap_or default_proto_caps caps)))"
  obtain q d1 fs1 where q: "?m d fs = (q, d1, fs1)" by (cases "?m d fs")
  have run: "(r, d', fs') = (case q of Inl e \<Rightarrow> (Inl (''db upsert error: '' @ decent_display e), d1, fs1)
      | Inr _ \<Rightarrow> (Inr (user, unwrap_or default_proto_caps caps), d1, fs1))"
    unfolding assms [symmetric]
    by (simp add: verify_and_register_worker_def user Let_def bind_db_def map_err_db_def return_db_def q split: sum.split)
  have "u = user \<and> (\<exists>w\<in>set (workers d'). w_peer w = rg_peer_text env peer \<and> w_online w)" if "r = Inr (u, c)" for u c
  proof (cases q)
    case (Inl e)
    with run that show ?thesis by simp
  next
    case (Inr x)
    with run that workers_upsert_online [OF q [unfolded Inr]] show ?thesis by simp
  qed
  with user tried show thesis by blast
qed

text \<open>
  C33. Only a valid token registers a worker. The acknowledgement is positive, and the scheduler hears
  of the worker, exactly when the token verifies with the secret, names a user by UUID, and the
  database took the row; then the worker is stored as online. A refused token leaves the database
  untouched.
\<close>

theorem registration_needs_token:
  assumes run: "register_task env True peer req d fs = (RegistrationDone p ack caps, d', fs')"
  shows "p = peer \<and>
    (ra_success ack \<longrightarrow>
       (\<exists>secret sub user. rg_secret env = Some secret \<and> rg_sub env secret (rw_jwt req) = Inr (Some sub) \<and>
          rg_parse_uuid env sub = Some user \<and> ra_user ack = rg_uuid env user \<and>
          (\<exists>w\<in>set (workers d'). w_peer w = rg_peer_text env peer \<and> w_online w))) \<and>
    (ra_success ack = (\<exists>x. Notify (EvOnline peer x) \<in> set (snd (master_step penv s (RegistrationDone p ack caps))))) \<and>
    ((\<forall>secret sub user. rg_secret env = Some secret \<longrightarrow> rg_sub env secret (rw_jwt req) = Inr (Some sub) \<longrightarrow>
        rg_parse_uuid env sub \<noteq> Some user) \<longrightarrow> d' = d \<and> \<not> ra_success ack)"
proof -
  obtain r d1 fs1 where v: "verify_and_register_worker env True (rw_jwt req) peer (rw_caps req) d fs = (r, d1, fs1)"
    by (cases "verify_and_register_worker env True (rw_jwt req) peer (rw_caps req) d fs")
  have eq: "(RegistrationDone p ack caps, d', fs') =
      (case r of
         Inr (user, caps) \<Rightarrow>
           (RegistrationDone peer \<lparr>ra_success = True, ra_error = [], ra_user = rg_uuid env user\<rparr> (Some caps), d1, fs1)
       | Inl e \<Rightarrow> (RegistrationDone peer \<lparr>ra_success = False, ra_error = e, ra_user = []\<rparr> None, d1, fs1))"
    unfolding run [symmetric] register_task_def v by (simp split: sum.split)
  have facts: "d1 = d' \<and> p = peer \<and> ra_success ack = is_ok r \<and> (\<forall>u c. r = Inr (u, c) \<longrightarrow> ra_user ack = rg_uuid env u)"
  proof (cases r)
    case (Inl e)
    with eq show ?thesis by simp
  next
    case (Inr x)
    with eq show ?thesis by (cases x) simp
  qed
  then have d1: "d1 = d'" and p: "p = peer" and ack: "ra_success ack = is_ok r"
    and id: "\<And>u c. r = Inr (u, c) \<Longrightarrow> ra_user ack = rg_uuid env u" by blast+
  have notify: "ra_success ack = (\<exists>x. Notify (EvOnline peer x) \<in> set (snd (master_step penv s (RegistrationDone p ack caps))))"
    using p by auto
  show ?thesis
  proof (cases rule: verify_worker_cases [OF v])
    case (1 e)
    have "\<not> ra_success ack" using ack 1(1) by simp
    moreover have "d' = d" using d1 1(2) by simp
    ultimately show ?thesis using p notify by blast
  next
    case (2 secret sub user)
    have "ra_user ack = rg_uuid env user \<and> (\<exists>w\<in>set (workers d'). w_peer w = rg_peer_text env peer \<and> w_online w)"
      if good: "ra_success ack"
    proof -
      obtain u c where "r = Inr (u, c)" using ack good by (cases r) auto
      with 2(4) id d1 show ?thesis by auto
    qed
    with 2(1-3) p notify show ?thesis by blast
  qed
qed

section \<open>The connection to the bootstrap node\<close>

definition p2p_op :: "master_state \<Rightarrow> p2p_env \<times> p2p_event \<Rightarrow> master_state" where
  "p2p_op s e = fst (master_step (fst e) s (snd e))"

lemma backoff_mono: "m \<le> n \<Longrightarrow> backoff_secs m \<le> backoff_secs n"
  unfolding backoff_secs_def by (intro min.mono power_increasing order_refl) auto

lemma backoff_le: "backoff_secs n \<le> 16"
proof -
  have "(2::int) ^ min n 4 \<le> 2 ^ 4" by (rule power_increasing) auto
  then show ?thesis by (simp add: backoff_secs_def)
qed

lemma master_step_identified:
  assumes "ms_bootstrap s = Some b \<and> n \<le> ms_attempts s"
  shows "ms_bootstrap (p2p_op s e) = Some b \<and> n \<le> ms_attempts (p2p_op s e)"
proof -
  obtain env ev where e: "e = (env, ev)" by (cases e)
  show ?thesis
    using assms unfolding e p2p_op_def
    by (cases ev) (simp_all add: schedule_reconnect_def reconnect_step_def Let_def)
qed

interpretation p2p: stepwise p2p_op "\<lambda>_. True" "\<lambda>s. ms_bootstrap s = Some b \<and> n \<le> ms_attempts s" for b n
  by standard (rule master_step_identified)

text \<open>
  The back-off to the bootstrap node never recovers. Once a bootstrap node was identified, no
  sequence of events forgets it or resets the count of attempts, so the delays only grow, up to 16
  seconds; the limit of 30 that the code writes is never reached.
\<close>

theorem backoff_never_resets:
  assumes "ms_bootstrap s = Some b"
  shows "ms_bootstrap (run_ops p2p_op s es) = Some b \<and>
    ms_attempts s \<le> ms_attempts (run_ops p2p_op s es) \<and>
    backoff_secs (ms_attempts s) \<le> backoff_secs (ms_attempts (run_ops p2p_op s es)) \<and>
    backoff_secs (ms_attempts (run_ops p2p_op s es)) \<le> 16"
proof -
  have "list_all (\<lambda>_. True) es" by (simp add: list_all_iff)
  then show ?thesis using p2p.inv_run [of s b "ms_attempts s" es] assms backoff_mono backoff_le by blast
qed

section \<open>A terminal beside the completion\<close>

lemma seen_status_nil: "job_status_of d i = Some st \<Longrightarrow> seen_status i d [] = Some st"
  by (auto simp: seen_status_def jobs_find_by_id_def stmt_nil job_status_of_def)

text \<open>
  A terminal can miss the whole output. When the job completes after the replay and the check of
  the status but before the subscription to the bus, the lines are stored too late for the replay
  and broadcast too early for the subscription: the client gets the greeting, an empty replay and
  the final status at the next tick, whatever the job printed.
\<close>

theorem terminal_misses_output:
  assumes "jobs_ok d" "job_status_of d i = Some ''assigned''" "stored_logs scan i d [] = []" "3 \<le> room"
  shows "\<exists>d'. complete_job env c i d [] = (Inr (), d', []) \<and>
    tm_out (handle_terminal_socket su scan i (d, []) (d, []) [PingTick d' []] room) =
      [msg_connected (su i), msg_replay_complete 0, msg_done (completion_status c)]"
proof -
  obtain d' where d': "complete_job env c i d [] = (Inr (), d', [])"
    "job_status_of d' = (job_status_of d)(i \<mapsto> completion_status c)"
    using complete_job_assigned [OF assms(1,2), of env c] by blast
  have seen: "seen_status i d' [] = Some (completion_status c)" "seen_status i d [] = Some ''assigned''"
    using d'(2) assms(2) by (simp_all add: seen_status_nil)
  have final: "completion_status c \<in> set terminal_statuses" "''assigned'' \<notin> set terminal_statuses"
    by (simp_all add: completion_status_def terminal_statuses_def)
  have "tm_out (handle_terminal_socket su scan i (d, []) (d, []) [PingTick d' []] room) =
      [msg_connected (su i), msg_replay_complete 0, msg_done (completion_status c)]"
    using assms(3,4) seen final
    by (simp add: handle_terminal_socket_def term_send_all_room term_send_def del: term_send_all.simps)
  with d'(1) show ?thesis by blast
qed

section \<open>Witnesses\<close>

lemma demo_assigned: "job_status_of demo_jobs_db (Uuid 2) = Some ''assigned''"
  by code_simp

lemma completion_exact_witness:
  "\<exists>d'. complete_job demo_done_env (demo_completed (Uuid 2) ''hello'') (Uuid 2) demo_jobs_db [] = (Inr (), d', []) \<and>
     map l_message (job_logs d') = [''hello''] \<and> map j_status (jobs d') = [''pending'', ''completed'']"
proof -
  have "map snd (enumerate 0 (output_entries 1000 ''hello'')) = [(1000, ''hello'')]"
    by code_simp
  then have "map l_message (log_rows n (Uuid 2) l (output_entries 1000 ''hello'')) = [''hello'']" for n l
    by (auto simp: log_rows_def comp_def case_prod_unfold)
  moreover have "job_logs demo_jobs_db = []" by (simp add: demo_jobs_db_def empty_db_def)
  ultimately show ?thesis
    using completion_exact [OF demo_jobs_ok demo_assigned, of demo_done_env "demo_completed (Uuid 2) ''hello''"]
    by (simp add: demo_done_env_def demo_completed_def completion_status_def)
      (simp add: demo_jobs_db_def demo_job_def completion_status_def demo_completed_def)
qed

definition demo_p2p_env :: p2p_env where
  "demo_p2p_env = \<lparr>pe_now = 0, pe_bootstrap_addr = ''b'', pe_dial_ok = (\<lambda>_. True), pe_full = False,
     pe_decode = (\<lambda>_. Some (Some (PJobCompleted (demo_completed (Uuid 3) ''x''))))\<rparr>"

definition demo_owned_db :: db where
  "demo_owned_db = empty_db\<lparr>jobs := [(demo_job (Uuid 3) ''assigned'')\<lparr>j_worker := Some ''w1''\<rparr>]\<rparr>"

lemma any_peer_completes_witness:
  "\<exists>msgs bus' d'. completion_task demo_done_env True [] (demo_completed (Uuid 3) ''x'') demo_owned_db [] = (msgs, bus', d', []) \<and>
     job_status_of d' (Uuid 3) = Some ''completed''"
proof -
  have "jobs_ok demo_owned_db" by code_simp
  moreover have "find_job (Uuid 3) demo_owned_db = Some ((demo_job (Uuid 3) ''assigned'')\<lparr>j_worker := Some ''w1''\<rparr>)"
    by (simp add: find_job_def demo_owned_db_def demo_job_def)
  moreover have "pe_decode demo_p2p_env [] = Some (Some (PJobCompleted (demo_completed (Uuid 3) ''x'')))"
    by (simp add: demo_p2p_env_def)
  moreover have "de_parse_uuid demo_done_env (jc_job_id (demo_completed (Uuid 3) ''x'')) = Some (Uuid 3)"
    by (simp add: demo_done_env_def demo_completed_def bits_uuid_text)
  ultimately show ?thesis
    using any_peer_completes [of demo_owned_db "Uuid 3" _ "''w1''" "''w2''" demo_p2p_env "[]"
        "demo_completed (Uuid 3) ''x''" demo_done_env "[]"]
    by (simp add: demo_job_def completion_status_def demo_completed_def)
qed

definition demo_reg_env :: reg_env where
  "demo_reg_env = \<lparr>rg_secret = Some ''k'', rg_sub = (\<lambda>s t. if t = ''tok'' then Inr (Some ''u'') else Inl ''bad''),
     rg_parse_uuid = (\<lambda>s. if s = ''u'' then Some (Uuid 1) else None), rg_uuid = bits_text, rg_now = 0,
     rg_peer_text = (\<lambda>p. p)\<rparr>"

lemma registration_needs_token_witness:
  "\<exists>ack caps d' fs'. register_task demo_reg_env True ''w9'' \<lparr>rw_peer = [], rw_jwt = ''no'', rw_caps = None\<rparr> demo_jobs_db [] =
      (RegistrationDone ''w9'' ack caps, d', fs') \<and> \<not> ra_success ack \<and> d' = demo_jobs_db"
proof -
  obtain ack caps d' fs' where run: "register_task demo_reg_env True ''w9'' \<lparr>rw_peer = [], rw_jwt = ''no'', rw_caps = None\<rparr> demo_jobs_db [] =
      (RegistrationDone ''w9'' ack caps, d', fs')"
    by (auto simp: register_task_def verify_and_register_worker_def demo_reg_env_def throw_db_def)
  from registration_needs_token [OF run, of demo_p2p_env "initial_master 0"] run show ?thesis
    by (auto simp: demo_reg_env_def)
qed

definition demo_master :: master_state where
  "demo_master = \<lparr>ms_bootstrap = Some ''b'', ms_attempts = 1, ms_reconnecting = True,
     ms_reregister_at = 0, ms_reconnect_at = 0\<rparr>"

definition demo_p2p_events :: "(p2p_env \<times> p2p_event) list" where
  "demo_p2p_events = [(demo_p2p_env, ConnectionEstablished ''b'' True), (demo_p2p_env, ConnectionClosed ''b'' 0),
     (demo_p2p_env, ReconnectTimer)]"

lemma backoff_never_resets_witness:
  "1 \<le> ms_attempts (run_ops p2p_op demo_master demo_p2p_events) \<and>
   ms_bootstrap (run_ops p2p_op demo_master demo_p2p_events) = Some ''b''"
proof -
  have "ms_bootstrap demo_master = Some ''b''" "ms_attempts demo_master = 1" by (simp_all add: demo_master_def)
  with backoff_never_resets [OF this(1), of demo_p2p_events] show ?thesis by simp
qed

lemma terminal_misses_output_witness:
  "\<exists>d'. tm_out (handle_terminal_socket bits_text id (Uuid 2) (demo_jobs_db, []) (demo_jobs_db, []) [PingTick d' []] 5) =
     [msg_connected (bits_text (Uuid 2)), msg_replay_complete 0, msg_done ''completed'']"
proof -
  have "stored_logs id (Uuid 2) demo_jobs_db [] = []" by code_simp
  from terminal_misses_output [OF demo_jobs_ok demo_assigned this, of 5 demo_done_env "demo_completed (Uuid 2) ''hello''" bits_text]
  show ?thesis by (auto simp: completion_status_def demo_completed_def)
qed

end
