(* ===== verification/Rust_Text.thy ===== *)
theory Rust_Text
  imports Web
begin

text \<open>
  The string operations of the Rust standard library that the worker and the download pages use, on
  UTF-8 texts: slicing at a byte index, \<open>trim\<close> with the white space of Unicode, \<open>split_once\<close> and
  \<open>join\<close>, unsigned numbers, the search for a substring, and the components of a multiaddress.
\<close>

section \<open>Slices\<close>

text \<open>A byte that continues a character: \<open>s[..n]\<close> panics (\<open>None\<close>) inside a character or past the end.\<close>

definition continues_char :: "char \<Rightarrow> bool" where
  "continues_char c = (let n = of_char c :: nat in 128 \<le> n \<and> n < 192)"

definition slice_to :: "nat \<Rightarrow> string \<Rightarrow> string option" where
  "slice_to n s =
     (if n \<le> length s \<and> (n = length s \<or> \<not> continues_char (s ! n)) then Some (take n s) else None)"

lemma slice_to_take: "slice_to n s = Some t \<Longrightarrow> t = take n s \<and> length t = n"
  by (auto simp: slice_to_def split: if_splits)

section \<open>White space\<close>

text \<open>The UTF-8 texts of the characters with the property \<open>White_Space\<close>.\<close>

definition white_space :: "string list" where
  "white_space =
     [[CHR 0x09], [CHR 0x0A], [CHR 0x0B], [CHR 0x0C], [CHR 0x0D], [CHR 0x20],
      [CHR 0xC2, CHR 0x85], [CHR 0xC2, CHR 0xA0], [CHR 0xE1, CHR 0x9A, CHR 0x80]] @
     map (\<lambda>n. [CHR 0xE2, CHR 0x80, char_of (128 + n :: nat)]) [0..<11] @
     [[CHR 0xE2, CHR 0x80, CHR 0xA8], [CHR 0xE2, CHR 0x80, CHR 0xA9], [CHR 0xE2, CHR 0x80, CHR 0xAF],
      [CHR 0xE2, CHR 0x81, CHR 0x9F], [CHR 0xE3, CHR 0x80, CHR 0x80]]"

definition starts_with :: "string \<Rightarrow> string \<Rightarrow> bool" where
  "starts_with p s \<longleftrightarrow> take (length p) s = p"

text \<open>Drops any of the given texts from the front, as long as one is there.\<close>

function strip_front :: "string list \<Rightarrow> string \<Rightarrow> string" where
  "strip_front ws s =
     (case find (\<lambda>w. w \<noteq> [] \<and> starts_with w s) ws of
        None \<Rightarrow> s
      | Some w \<Rightarrow> strip_front ws (drop (length w) s))"
  by pat_completeness auto
termination
proof (relation "measure (\<lambda>(ws, s). length s)")
  fix ws :: "string list" and s w :: string
  assume "find (\<lambda>w. w \<noteq> [] \<and> starts_with w s) ws = Some w"
  then have w: "w \<noteq> []" "take (length w) s = w" by (auto simp: find_Some_iff starts_with_def)
  then have "0 < length w" "length w \<le> length s"
    using length_take [of "length w" s] by auto
  then have "length (drop (length w) s) < length s" by (simp only: length_drop)
  then show "((ws, drop (length w) s), ws, s) \<in> measure (\<lambda>(ws, s). length s)" by simp
qed simp

declare strip_front.simps [simp del]

definition strip_back :: "string list \<Rightarrow> string \<Rightarrow> string" where
  "strip_back ws s = rev (strip_front (map rev ws) (rev s))"

definition str_trim :: "string \<Rightarrow> string" where
  "str_trim s = strip_back white_space (strip_front white_space s)"

definition trim_end_matches :: "string \<Rightarrow> string \<Rightarrow> string" where
  "trim_end_matches p s = strip_back [p] s"

definition strip_suffix :: "string \<Rightarrow> string \<Rightarrow> string option" where
  "strip_suffix p s = map_option rev (strip_prefix (rev p) (rev s))"

text \<open>No white space in front and none behind; such texts are not trimmed.\<close>

definition trimmed :: "string \<Rightarrow> bool" where
  "trimmed s \<longleftrightarrow> list_all (\<lambda>w. \<not> starts_with w s \<and> \<not> starts_with (rev w) (rev s)) white_space"

lemma trim_trimmed:
  assumes "trimmed s" shows "str_trim s = s"
proof -
  from assms have "find (\<lambda>w. w \<noteq> [] \<and> starts_with w s) white_space = None"
    "find (\<lambda>w. w \<noteq> [] \<and> starts_with w (rev s)) (map rev white_space) = None"
    by (auto simp: find_None_iff trimmed_def list_all_iff)
  then show ?thesis
    by (simp add: str_trim_def strip_back_def strip_front.simps [of _ s] strip_front.simps [of _ "rev s"])
qed

text \<open>A text without a byte of a white-space character is trimmed already.\<close>

definition white_bytes :: "char set" where
  "white_bytes = set (concat white_space)"

lemma white_space_nonempty: "w \<in> set white_space \<Longrightarrow> w \<noteq> []"
  by (auto simp: white_space_def)

lemma no_white_start:
  assumes "set w \<subseteq> white_bytes" "w \<noteq> []" "\<forall>c\<in>set s. c \<notin> white_bytes"
  shows "\<not> starts_with w s"
proof
  assume "starts_with w s"
  then have "set w \<subseteq> set s" unfolding starts_with_def by (metis set_take_subset)
  with assms show False by (cases w) auto
qed

lemma trimmedI:
  assumes "\<forall>c\<in>set s. c \<notin> white_bytes" shows "trimmed s"
  unfolding trimmed_def list_all_iff
proof
  fix w assume w: "w \<in> set white_space"
  then have "set w \<subseteq> white_bytes" "w \<noteq> []" by (auto simp: white_bytes_def white_space_nonempty)
  then show "\<not> starts_with w s \<and> \<not> starts_with (rev w) (rev s)"
    using no_white_start [of w s] no_white_start [of "rev w" "rev s"] assms by simp
qed

lemma digit_not_white: "n < 10 \<Longrightarrow> char_of (48 + n :: nat) \<notin> white_bytes"
proof -
  have "\<forall>n\<in>{0..<10}. (char_of (48 + n :: nat) :: char) \<notin> white_bytes"
    unfolding white_bytes_def by code_simp
  then show "n < 10 \<Longrightarrow> char_of (48 + n :: nat) \<notin> white_bytes" by simp
qed

lemma show_nat_not_white: "\<forall>c\<in>set (show_nat n). c \<notin> white_bytes"
proof (induction n rule: show_nat.induct)
  case (1 n)
  have "char_of (48 + n mod 10) \<notin> white_bytes" by (rule digit_not_white) simp
  with 1 digit_not_white [of n] show ?case by (auto simp: show_nat.simps [of n])
qed

lemma trim_show_nat [simp]: "str_trim (show_nat n) = show_nat n"
  by (rule trim_trimmed [OF trimmedI [OF show_nat_not_white]])

section \<open>Parts and joins\<close>

fun split_once :: "string \<Rightarrow> string \<Rightarrow> (string \<times> string) option" where
  "split_once p [] = None"
| "split_once p (c # cs) =
     (if p \<noteq> [] \<and> starts_with p (c # cs) then Some ([], drop (length p) (c # cs))
      else map_option (\<lambda>(a, b). (c # a, b)) (split_once p cs))"

fun contains :: "string \<Rightarrow> string \<Rightarrow> bool" where
  "contains p [] \<longleftrightarrow> p = []"
| "contains p (c # cs) \<longleftrightarrow> starts_with p (c # cs) \<or> contains p cs"

fun str_join :: "string \<Rightarrow> string list \<Rightarrow> string" where
  "str_join sep [] = []"
| "str_join sep [l] = l"
| "str_join sep (l # ls) = l @ sep @ str_join sep ls"

section \<open>Unsigned numbers\<close>

text \<open>\<open>parse\<close> for an unsigned type of the given maximum: an optional plus, then digits.\<close>

definition parse_unsigned :: "int \<Rightarrow> string \<Rightarrow> int option" where
  "parse_unsigned m s =
     (case parse_nat_text (case s of c # cs \<Rightarrow> if c = CHR ''+'' then cs else s | [] \<Rightarrow> []) of
        Some i \<Rightarrow> if i \<le> m then Some i else None
      | None \<Rightarrow> None)"

abbreviation parse_u64 :: "string \<Rightarrow> u64 option" where
  "parse_u64 s \<equiv> map_option word_of_int (parse_unsigned (2 ^ 64 - 1) s)"

abbreviation parse_u16 :: "string \<Rightarrow> u16 option" where
  "parse_u16 s \<equiv> map_option word_of_int (parse_unsigned (2 ^ 16 - 1) s)"

lemma parse_unsigned_show:
  assumes "int n \<le> m" shows "parse_unsigned m (show_nat n) = Some (int n)"
  using assms show_nat_shape [of n] parse_show_nat [of n]
  by (cases "show_nat n") (auto simp: parse_unsigned_def parse_nat_text_def)

section \<open>Lower case\<close>

text \<open>
  \<open>to_lowercase\<close> on the ASCII letters. The callers look for ASCII words in the result; no other
  character has a lower case with a letter of these words that is not followed by a combining mark.
\<close>

definition lower_char :: "char \<Rightarrow> char" where
  "lower_char c = (let n = of_char c :: nat in if 65 \<le> n \<and> n \<le> 90 then char_of (n + 32) else c)"

definition to_lowercase :: "string \<Rightarrow> string" where
  "to_lowercase s = map lower_char s"

section \<open>Lines of a joined text\<close>

text \<open>
  Joining lines with line feeds and cutting the result again gives the lines back, when none holds a
  line feed, none ends with a carriage return, and the last one is not empty.
\<close>

definition plain_line :: "string \<Rightarrow> bool" where
  "plain_line l \<longleftrightarrow> CHR 0x0A \<notin> set l \<and> (l = [] \<or> last l \<noteq> CHR 0x0D)"

lemma strip_cr_plain [simp]: "plain_line l \<Longrightarrow> strip_cr l = l"
  by (auto simp: plain_line_def strip_cr_def)

lemma str_lines_single:
  assumes "plain_line l" "l \<noteq> []" shows "str_lines l = [l]"
proof -
  obtain c cs where l: "l = c # cs" using assms(2) by (cases l) auto
  have "takeWhile (\<lambda>x. x \<noteq> CHR 0x0A) l = l" "dropWhile (\<lambda>x. x \<noteq> CHR 0x0A) l = []"
    using assms(1) by (auto simp: plain_line_def takeWhile_eq_all_conv dropWhile_eq_Nil_conv)
  then show ?thesis by (simp add: l Let_def)
qed

lemma str_lines_Cons:
  assumes "plain_line l" shows "str_lines (l @ CHR 0x0A # r) = l # str_lines r"
proof -
  let ?s = "l @ CHR 0x0A # r"
  have no: "\<forall>x\<in>set l. x \<noteq> CHR 0x0A" using assms by (auto simp: plain_line_def)
  then have tw: "takeWhile (\<lambda>x. x \<noteq> CHR 0x0A) ?s = l" "dropWhile (\<lambda>x. x \<noteq> CHR 0x0A) ?s = CHR 0x0A # r"
    by (simp_all add: takeWhile_append2 dropWhile_append2)
  obtain c cs where s: "?s = c # cs" by (cases ?s) auto
  have "str_lines (c # cs) = strip_cr l # str_lines r"
    by (simp only: str_lines.simps(2) Let_def tw [unfolded s]) simp
  with assms show ?thesis by (simp only: s strip_cr_plain)
qed

text \<open>The output of a program: every line ends with a line feed.\<close>

definition printed :: "string list \<Rightarrow> string" where
  "printed ls = concat (map (\<lambda>l. l @ [CHR 0x0A]) ls)"

lemma str_lines_printed: "list_all plain_line ls \<Longrightarrow> str_lines (printed ls) = ls"
proof (induction ls)
  case (Cons l ls)
  then show ?case using str_lines_Cons [of l "printed ls"] by (simp add: printed_def)
qed (simp add: printed_def)

lemma str_lines_join:
  assumes "list_all plain_line ls" "ls \<noteq> []" "last ls \<noteq> []"
  shows "str_lines (str_join [CHR 0x0A] ls) = ls"
  using assms
proof (induction "[CHR 0x0A]" ls rule: str_join.induct)
  case (2 l)
  then show ?case by (simp add: str_lines_single)
next
  case (3 l k ks)
  then show ?case using str_lines_Cons [of l "str_join [CHR 0x0A] (k # ks)"] by simp
qed simp

text \<open>\<open>Option::or_else\<close>\<close>

definition or_else :: "'a option \<Rightarrow> 'a option \<Rightarrow> 'a option" where
  "or_else a b = (case a of None \<Rightarrow> b | Some _ \<Rightarrow> a)"

end
