(* ===== verification/Executor.thy ===== *)
theory Executor
  imports Rust_Text
begin

text \<open>
  The executor of a worker (\<open>worker/main.rs\<close>, with the Dockerfile of \<open>docker/builder.rs\<close>): it takes
  assignments from a queue one at a time, runs the code in a container or, without Docker, as a
  process, and reports a result. The state is the temporary files, the commands given to the Docker
  daemon, the results reported, and whether the task still runs: it panics when it slices a job id
  that is too short, and it is stuck when it awaits something that never happens: the code puts a
  time limit on the run of a job, and on nothing else. What Docker, the operating system and the
  process answer is the environment.
\<close>

section \<open>The daemon and the process\<close>

record container_config =
  cc_image :: string
  cc_working_dir :: string
  cc_memory :: int
  cc_memory_swap :: int
  cc_network :: string
  cc_readonly_rootfs :: bool
  cc_cap_drop :: "string list"
  cc_security_opt :: "string list"
  cc_binds :: "string list"

text \<open>
  A stream of the daemon: the items it delivers and whether it ends after them. The requests of the
  client end, with an answer or with an error; a stream may not.
\<close>

datatype 'a feed = Feed (feed_items: "'a list") (feed_ends: bool)

record log_options =
  lo_stdout :: bool
  lo_stderr :: bool
  lo_tail :: string

text \<open>
  The files of a build context are archived by the tar library, which may fail; \<open>dk_output\<close> are the
  files a container leaves below its output directory. The code awaits the answers to its requests
  to kill and remove and ignores them, so they are not part of the environment.
\<close>

datatype build_item = BuildInfo "string option" | BuildStreamError string

datatype wait_outcome = Exited int | WaitError string | WaitEnded | WaitTimeout

record docker_env =
  dk_tar :: "(string \<times> bytes) list \<Rightarrow> string + bytes"
  dk_connect :: "string option"
  dk_build :: "string \<Rightarrow> bytes \<Rightarrow> build_item feed"
  dk_create :: "string \<Rightarrow> container_config \<Rightarrow> string + string"
  dk_start :: "string \<Rightarrow> string option"
  dk_wait :: "string \<Rightarrow> u64 \<Rightarrow> wait_outcome"
  dk_logs :: "string \<Rightarrow> log_options \<Rightarrow> (string + string) feed"
  dk_output :: "string \<Rightarrow> (string list \<times> bytes) list"

text \<open>
  A process: whether the installation of its requirements ends, the error of starting it, the lines it
  writes until its output ends or the time is up, the lines of its error output, whether the pipe of
  its error output is ever closed by all that hold it, its exit (\<open>None\<close>: it never exits), the order
  in which the collector receives the lines of the two readers, and what the installation and the
  process make of the files, which nothing keeps from them.
\<close>

datatype exit_outcome = WaitFailed string | ExitStatus bool string

record python_env =
  py_pip_ends :: bool
  py_spawn :: "string option"
  py_stdout :: "string list"
  py_timed_out :: bool
  py_stderr :: "string list"
  py_stderr_closes :: bool
  py_wait :: "exit_outcome option"
  py_order :: "bool list"
  py_files :: "files \<Rightarrow> files"

datatype docker_command =
    BuildImage string bytes
  | CreateContainer string container_config
  | StartContainer string
  | KillContainer string
  | RemoveContainer string
  | RemoveImage string

section \<open>Building the image\<close>

definition generate_python_dockerfile :: "bool \<Rightarrow> string" where
  "generate_python_dockerfile requirements =
     ''FROM python:3.11-slim'' @ [CHR 0x0A] @ ''WORKDIR /workspace'' @ [CHR 0x0A] @
     ''COPY . /workspace/'' @ [CHR 0x0A] @
     (if requirements
      then ''RUN pip install --no-cache-dir -r /workspace/requirements.txt'' @ [CHR 0x0A] else []) @
     ''CMD ['' @ [CHR 0x22] @ ''python'' @ [CHR 0x22] @ '', '' @ [CHR 0x22] @
     ''/workspace/code.py'' @ [CHR 0x22] @ '']'' @ [CHR 0x0A]"

text \<open>The regular files directly in a directory, by name.\<close>

definition dir_files :: "string list \<Rightarrow> files \<Rightarrow> (string \<times> bytes) list" where
  "dir_files dir fl =
     List.map_filter (\<lambda>(p, b). if length p = length dir + 1 \<and> under dir p then Some (last p, b) else None) fl"

fun build_result :: "build_item list \<Rightarrow> string option" where
  "build_result [] = None"
| "build_result (BuildStreamError e # items) = Some (''build stream error: '' @ e)"
| "build_result (BuildInfo (Some e) # items) = Some (''docker build error: '' @ e)"
| "build_result (BuildInfo None # items) = build_result items"

text \<open>
  \<open>tag\<close> or the message of the error, the commands and the files. The build stream is read up to its first
  error; \<open>None\<close> is a build that neither fails nor ends.
\<close>

definition job_tag :: "string \<Rightarrow> string" where
  "job_tag short = ''decentgpu-job-'' @ short @ '':latest''"

definition build_job_image ::
  "io \<Rightarrow> docker_env \<Rightarrow> string \<Rightarrow> string list \<Rightarrow> bool \<Rightarrow> files \<Rightarrow>
   (string + string) option \<times> docker_command list \<times> files" where
  "build_job_image os dk short dir has_req fl =
     (case put_file os (dir @ [''Dockerfile'']) (to_bytes (generate_python_dockerfile has_req)) fl of
        (Some e, fl') \<Rightarrow> (Some (Inl (''Dockerfile write error: '' @ e)), [], fl')
      | (None, fl') \<Rightarrow>
          (case dk_tar dk (dir_files dir fl') of
             Inl e \<Rightarrow> (Some (Inl (''tar error: '' @ e)), [], fl')
           | Inr context \<Rightarrow>
               (case dk_connect dk of
                  Some e \<Rightarrow> (Some (Inl (''docker connect: '' @ e)), [], fl')
                | None \<Rightarrow>
                    let tag = job_tag short; stream = dk_build dk tag context in
                    (case build_result (feed_items stream) of
                       Some e \<Rightarrow> (Some (Inl e), [BuildImage tag context], fl')
                     | None \<Rightarrow>
                         (if feed_ends stream then Some (Inr tag) else None, [BuildImage tag context], fl')))))"

section \<open>Running the container\<close>

text \<open>\<open>(memory_mb * 1024 * 1024) as i64\<close>, in the release profile.\<close>

definition container_memory :: "u64 \<Rightarrow> int" where
  "container_memory memory_mb = u64_as_i64 (memory_mb * 1024 * 1024)"

definition job_container :: "string \<Rightarrow> string list \<Rightarrow> u64 \<Rightarrow> container_config" where
  "job_container tag output_dir memory_mb =
     \<lparr>cc_image = tag, cc_working_dir = ''/workspace'',
      cc_memory = container_memory memory_mb, cc_memory_swap = container_memory memory_mb,
      cc_network = ''none'', cc_readonly_rootfs = False, cc_cap_drop = [''ALL''],
      cc_security_opt = [''no-new-privileges:true''],
      cc_binds = [path_text output_dir @ '':/workspace/output:rw'']\<rparr>"

definition exit_result :: "u64 \<Rightarrow> wait_outcome \<Rightarrow> bool \<times> string" where
  "exit_result max_dur w =
     (case w of
        Exited code \<Rightarrow> (code = 0, if code = 0 then [] else ''container exited with code '' @ show_int code)
      | WaitError e \<Rightarrow> (False, e)
      | WaitEnded \<Rightarrow> (False, ''wait stream ended unexpectedly'')
      | WaitTimeout \<Rightarrow> (False, ''job timed out after '' @ show_nat (unat max_dur) @ ''s''))"

text \<open>The log stream is read up to its first error; blank lines are dropped.\<close>

fun log_lines :: "(string + string) list \<Rightarrow> string list" where
  "log_lines (Inr l # rest) =
     (let t = str_trim l in if t \<noteq> [] then t # log_lines rest else log_lines rest)"
| "log_lines _ = []"

definition job_log_options :: log_options where
  "job_log_options = \<lparr>lo_stdout = True, lo_stderr = True, lo_tail = ''500''\<rparr>"

definition logs_end :: "(string + string) feed \<Rightarrow> bool" where
  "logs_end stream \<longleftrightarrow> feed_ends stream \<or> list_ex (\<lambda>x. \<not> is_ok x) (feed_items stream)"

definition add_files :: "string list \<Rightarrow> (string list \<times> bytes) list \<Rightarrow> files \<Rightarrow> files" where
  "add_files dir written fl = fold (\<lambda>(p, b). hm_insert (dir @ p) b) written fl"

text \<open>\<open>None\<close> in the first component: the call never returns.\<close>

definition run_in_docker ::
  "io \<Rightarrow> docker_env \<Rightarrow> string \<Rightarrow> string list \<Rightarrow> bool \<Rightarrow> u64 \<Rightarrow> u64 \<Rightarrow> files \<Rightarrow>
   (bool \<times> string) option \<times> string list \<times> docker_command list \<times> files" where
  "run_in_docker os dk short dir has_req max_dur memory_mb fl =
     (case build_job_image os dk short dir has_req fl of
        (None, cmds, fl') \<Rightarrow> (None, [], cmds, fl')
      | (Some (Inl e), cmds, fl') \<Rightarrow> (Some (False, e), [], cmds, fl')
      | (Some (Inr tag), cmds, fl') \<Rightarrow>
          let name = ''dg-'' @ short; output_dir = dir @ [''output''];
              _ = io_mkdir os output_dir;
              config = job_container tag output_dir memory_mb;
              created = cmds @ [CreateContainer name config] in
          (case dk_create dk name config of
             Inl e \<Rightarrow> (Some (False, ''create container: '' @ e), [], created @ [RemoveImage tag], fl')
           | Inr cid \<Rightarrow>
               (case dk_start dk cid of
                  Some e \<Rightarrow>
                    (Some (False, ''start container: '' @ e), [],
                     created @ [StartContainer cid, RemoveContainer cid, RemoveImage tag], fl')
                | None \<Rightarrow>
                    let w = dk_wait dk cid max_dur;
                        waited = created @ [StartContainer cid] @ (if w = WaitTimeout then [KillContainer cid] else []);
                        log_stream = dk_logs dk cid job_log_options;
                        lines = log_lines (feed_items log_stream);
                        fl'' = add_files output_dir (dk_output dk cid) fl' in
                    (if logs_end log_stream
                     then (Some (exit_result max_dur w), lines, waited @ [RemoveContainer cid, RemoveImage tag], fl'')
                     else (None, lines, waited, fl'')))))"

section \<open>Running the process\<close>

text \<open>
  The two readers share a channel: \<open>merge\<close> takes the next line from the first when the flag is set,
  from the second otherwise.
\<close>

fun merge :: "bool list \<Rightarrow> 'a list \<Rightarrow> 'a list \<Rightarrow> 'a list" where
  "merge (True # bs) (x # xs) ys = x # merge bs xs ys"
| "merge (False # bs) xs (y # ys) = y # merge bs xs ys"
| "merge _ xs ys = xs @ ys"

definition timeout_line :: string where
  "timeout_line = [CHR 0xE2, CHR 0x9A, CHR 0xA0, CHR 0xEF, CHR 0xB8, CHR 0x8F] @ '' Zaman a'' @
     [CHR 0xC5, CHR 0x9F, CHR 0xC4, CHR 0xB1] @ ''m'' @ [CHR 0xC4, CHR 0xB1]"

definition run_python3_direct :: "bool \<Rightarrow> python_env \<Rightarrow> (bool \<times> string) option \<times> string list" where
  "run_python3_direct has_req py =
     (if has_req \<and> \<not> py_pip_ends py then (None, [])
      else
        (case py_spawn py of
           Some e \<Rightarrow> (Some (False, ''spawn error: '' @ e), [])
         | None \<Rightarrow>
             let out = py_stdout py @ (if py_timed_out py then [timeout_line] else []);
                 lines = merge (py_order py) out (map (\<lambda>l. ''[stderr] '' @ l) (py_stderr py)) in
             (if \<not> py_stderr_closes py then (None, lines)
              else if py_timed_out py then (Some (False, ''timeout''), lines)
              else
                (case py_wait py of
                   None \<Rightarrow> (None, lines)
                 | Some (WaitFailed e) \<Rightarrow> (Some (False, ''wait error: '' @ e), lines)
                 | Some (ExitStatus ok status) \<Rightarrow>
                     (Some (ok, if ok then [] else ''python3 exited with status: '' @ status), lines)))))"

section \<open>The loop\<close>

record job_result =
  jr_job_id :: string
  jr_success :: bool
  jr_output :: string

datatype task_state = Alive | Panicked | Stuck

record executor =
  ex_task :: task_state
  ex_files :: files
  ex_commands :: "docker_command list"
  ex_results :: "job_result list"

text \<open>\<open>ho_kept\<close>: the files that the removal of a directory leaves in place.\<close>

record host =
  ho_temp :: "string list"
  ho_os :: io
  ho_docker :: "docker_env option"
  ho_python :: "string \<Rightarrow> python_env"
  ho_kept :: "string list \<Rightarrow> bool"

definition report :: "string \<Rightarrow> bool \<Rightarrow> string \<Rightarrow> executor \<Rightarrow> executor" where
  "report job ok out s =
     s\<lparr>ex_results := ex_results s @ [\<lparr>jr_job_id = job, jr_success = ok, jr_output = out\<rparr>]\<rparr>"

definition job_output :: "bool \<Rightarrow> string \<Rightarrow> string list \<Rightarrow> string" where
  "job_output ok err lines =
     (let base = str_join [CHR 0x0A] lines in
      if ok \<or> err = [] then base else if base = [] then err else base @ [CHR 0x0A] @ err)"

definition job_dir :: "host \<Rightarrow> string \<Rightarrow> string list" where
  "job_dir h short = path_join (ho_temp h) (''decentgpu-'' @ short)"

definition remove_dir :: "host \<Rightarrow> string list \<Rightarrow> files \<Rightarrow> files" where
  "remove_dir h dir fl = filter (\<lambda>f. under dir (fst f) \<longrightarrow> ho_kept h (fst f)) fl"

text \<open>Runs the code that was written to \<open>dir\<close>; \<open>None\<close> for a task that never ends.\<close>

definition run_code ::
  "host \<Rightarrow> string \<Rightarrow> string list \<Rightarrow> bool \<Rightarrow> u64 \<Rightarrow> u64 \<Rightarrow> files \<Rightarrow>
   (bool \<times> string) option \<times> string list \<times> docker_command list \<times> files" where
  "run_code h job dir has_req max_dur memory_mb fl =
     (case ho_docker h of
        Some dk \<Rightarrow> run_in_docker (ho_os h) dk (take 8 job) dir has_req max_dur memory_mb fl
      | None \<Rightarrow>
          (case run_python3_direct has_req (ho_python h job) of
             (r, lines) \<Rightarrow> (r, lines, [], py_files (ho_python h job) fl)))"

definition finish_job :: "host \<Rightarrow> string \<Rightarrow> string list \<Rightarrow> bool \<Rightarrow> u64 \<Rightarrow> u64 \<Rightarrow> executor \<Rightarrow> executor" where
  "finish_job h job dir has_req max_dur memory_mb s =
     (case run_code h job dir has_req max_dur memory_mb (ex_files s) of
        (None, lines, cmds, fl) \<Rightarrow> s\<lparr>ex_task := Stuck, ex_commands := ex_commands s @ cmds, ex_files := fl\<rparr>
      | (Some (ok, err), lines, cmds, fl) \<Rightarrow>
          report job ok (job_output ok err lines)
            (s\<lparr>ex_commands := ex_commands s @ cmds, ex_files := remove_dir h dir fl\<rparr>))"

definition execute_spec :: "host \<Rightarrow> job_spec \<Rightarrow> executor \<Rightarrow> executor" where
  "execute_spec h spec s =
     (let job = js_job_id spec; max_dur = max (js_duration spec) 10; memory_mb = max (js_memory spec) 128 in
      if js_code spec = [] then report job False ''no code bytes in assignment'' s
      else
        (case slice_to 8 job of
           None \<Rightarrow> s\<lparr>ex_task := Panicked\<rparr>
         | Some short \<Rightarrow>
             let dir = job_dir h short in
             (case io_mkdir (ho_os h) dir of
                Some e \<Rightarrow> report job False (''temp dir error: '' @ e) s
              | None \<Rightarrow>
                  (case put_file (ho_os h) (dir @ [''code.py'']) (js_code spec) (ex_files s) of
                     (Some e, fl) \<Rightarrow> report job False (''write code error: '' @ e) (s\<lparr>ex_files := fl\<rparr>)
                   | (None, fl) \<Rightarrow>
                       let has_req = js_requirements spec \<noteq> [];
                           fl' = (if has_req
                                  then snd (put_file (ho_os h) (dir @ [''requirements.txt'']) (js_requirements spec) fl)
                                  else fl) in
                       finish_job h job dir has_req max_dur memory_mb (s\<lparr>ex_files := fl'\<rparr>)))))"

definition execute_job :: "host \<Rightarrow> executor \<Rightarrow> job_assignment \<Rightarrow> executor" where
  "execute_job h s a =
     (if ex_task s \<noteq> Alive then s
      else (case ja_spec a of None \<Rightarrow> s | Some spec \<Rightarrow> execute_spec h spec s))"

definition initial_executor :: executor where
  "initial_executor = \<lparr>ex_task = Alive, ex_files = [], ex_commands = [], ex_results = []\<rparr>"

end
