(* ===== verification/Execution.thy ===== *)
theory Execution
  imports Executor
begin

text \<open>
  What the executor of a worker guarantees, and under which conditions: assignments are answered in
  their order as long as everything it awaits ends, every image it built and every container it created
  is asked to be removed, and the files outside the directory of a job are left as they were; and what
  it does not: a build or an installation that never ends stops it for good, as does a short job id,
  an image can stay behind when its build breaks off, a job id with dots deletes other files, and
  memory limits wrap.
\<close>

section \<open>What has to end\<close>

definition image_built :: "build_item feed \<Rightarrow> bool" where
  "image_built stream \<longleftrightarrow> feed_ends stream \<and> build_result (feed_items stream) = None"

definition build_ends :: "build_item feed \<Rightarrow> bool" where
  "build_ends stream \<longleftrightarrow> feed_ends stream \<or> build_result (feed_items stream) \<noteq> None"

definition docker_ends :: "docker_env \<Rightarrow> bool" where
  "docker_ends dk \<longleftrightarrow>
     (\<forall>tag context. build_ends (dk_build dk tag context)) \<and> (\<forall>cid. logs_end (dk_logs dk cid job_log_options))"

definition python_ends :: "bool \<Rightarrow> python_env \<Rightarrow> bool" where
  "python_ends has_req py \<longleftrightarrow>
     (has_req \<longrightarrow> py_pip_ends py) \<and>
     (py_spawn py = None \<longrightarrow> py_stderr_closes py \<and> (py_timed_out py \<or> py_wait py \<noteq> None))"

definition host_ends :: "host \<Rightarrow> job_spec \<Rightarrow> bool" where
  "host_ends h spec \<longleftrightarrow>
     (case ho_docker h of
        Some dk \<Rightarrow> docker_ends dk
      | None \<Rightarrow> python_ends (js_requirements spec \<noteq> []) (ho_python h (js_job_id spec)))"

text \<open>A job that is refused at once, or whose id has eight bytes and whose run ends.\<close>

definition answerable :: "host \<Rightarrow> job_spec \<Rightarrow> bool" where
  "answerable h spec \<longleftrightarrow> js_code spec = [] \<or> slice_to 8 (js_job_id spec) \<noteq> None \<and> host_ends h spec"

text \<open>The jobs of an executor, each with the answers it meets.\<close>

definition execute_on :: "executor \<Rightarrow> host \<times> job_assignment \<Rightarrow> executor" where
  "execute_on s j = execute_job (fst j) s (snd j)"

lemma run_in_docker_ends:
  assumes "docker_ends dk" shows "fst (run_in_docker os dk short dir r m n fl) \<noteq> None"
proof (cases "build_job_image os dk short dir r fl")
  case (fields b cmds fl1)
  have "b \<noteq> None"
    using fields assms
    by (auto simp: build_job_image_def docker_ends_def build_ends_def Let_def
        split: prod.splits sum.splits option.splits if_splits) (metis option.distinct(1))
  with fields assms show ?thesis
    by (auto simp: run_in_docker_def docker_ends_def Let_def split: sum.splits option.splits)
qed

lemma run_python_ends: "python_ends r py \<Longrightarrow> fst (run_python3_direct r py) \<noteq> None"
  by (auto simp: run_python3_direct_def python_ends_def Let_def split: option.splits exit_outcome.splits)

lemma run_code_ends:
  assumes "host_ends h spec"
  shows "fst (run_code h (js_job_id spec) dir (js_requirements spec \<noteq> []) m n fl) \<noteq> None"
  using assms run_in_docker_ends run_python_ends
  by (auto simp: host_ends_def run_code_def split: option.splits prod.splits) (metis fst_conv option.distinct(1))+

section \<open>One assignment\<close>

text \<open>An assignment is answered with its own id, or the task ends without an answer.\<close>

lemma report_sel [simp]:
  "ex_task (report j ok out s) = ex_task s" "ex_files (report j ok out s) = ex_files s"
  "ex_commands (report j ok out s) = ex_commands s"
  "map jr_job_id (ex_results (report j ok out s)) = map jr_job_id (ex_results s) @ [j]"
  by (simp_all add: report_def)

lemma finish_job_cases:
  obtains (answered) "ex_task (finish_job h job dir r m n s) = ex_task s"
      "map jr_job_id (ex_results (finish_job h job dir r m n s)) = map jr_job_id (ex_results s) @ [job]"
  | (stuck) "ex_task (finish_job h job dir r m n s) = Stuck" "fst (run_code h job dir r m n (ex_files s)) = None"
      "ex_results (finish_job h job dir r m n s) = ex_results s"
proof (cases "run_code h job dir r m n (ex_files s)")
  case (fields res lines cmds fl)
  show thesis
    using fields answered stuck by (cases res) (auto simp: finish_job_def split: prod.splits)
qed

lemma execute_spec_shape:
  obtains (refused) "ex_task (execute_spec h spec s) = ex_task s"
      "ex_commands (execute_spec h spec s) = ex_commands s"
      "map jr_job_id (ex_results (execute_spec h spec s)) = map jr_job_id (ex_results s) @ [js_job_id spec]"
  | (panicked) "execute_spec h spec s = s\<lparr>ex_task := Panicked\<rparr>"
      "js_code spec \<noteq> []" "slice_to 8 (js_job_id spec) = None"
  | (run) dir m n fl where
      "execute_spec h spec s = finish_job h (js_job_id spec) dir (js_requirements spec \<noteq> []) m n (s\<lparr>ex_files := fl\<rparr>)"
      "js_code spec \<noteq> []"
proof (cases "js_code spec = []")
  case True
  then show thesis using refused by (simp add: execute_spec_def)
next
  case code: False
  show thesis
  proof (cases "slice_to 8 (js_job_id spec)")
    case None
    then show thesis using code panicked by (simp add: execute_spec_def)
  next
    case (Some short)
    obtain we fl where w: "put_file (ho_os h) (job_dir h short @ [''code.py'']) (js_code spec) (ex_files s) = (we, fl)"
      by (cases "put_file (ho_os h) (job_dir h short @ [''code.py'']) (js_code spec) (ex_files s)")
    show thesis
      using code Some w refused run
      by (cases "io_mkdir (ho_os h) (job_dir h short)"; cases we) (simp_all add: execute_spec_def Let_def)
  qed
qed

lemma execute_spec_cases:
  obtains (answered) "ex_task (execute_spec h spec s) = ex_task s"
      "map jr_job_id (ex_results (execute_spec h spec s)) = map jr_job_id (ex_results s) @ [js_job_id spec]"
  | (died) "ex_task (execute_spec h spec s) \<noteq> Alive" "ex_results (execute_spec h spec s) = ex_results s"
      "\<not> answerable h spec"
proof (cases rule: execute_spec_shape [of h spec s])
  case refused
  then show thesis using answered by simp
next
  case panicked
  then show thesis using died by (simp add: answerable_def)
next
  case (run dir m n fl)
  show thesis
  proof (cases rule: finish_job_cases [of h "js_job_id spec" dir "js_requirements spec \<noteq> []" m n "s\<lparr>ex_files := fl\<rparr>"])
    case answered
    with run that(1) show thesis by simp
  next
    case stuck
    then have "\<not> host_ends h spec" using run_code_ends by blast
    with stuck run died show thesis by (simp add: answerable_def)
  qed
qed

text \<open>The job ids of the assignments that carry a job; a task that has ended does nothing more.\<close>

definition job_ids :: "job_assignment list \<Rightarrow> string list" where
  "job_ids as = map js_job_id (List.map_filter ja_spec as)"

lemma job_ids_simps [simp]:
  "job_ids [] = []"
  "job_ids (a # as) = (case ja_spec a of None \<Rightarrow> job_ids as | Some spec \<Rightarrow> js_job_id spec # job_ids as)"
  by (simp_all add: job_ids_def List.map_filter_def split: option.split)

lemma execute_on_alive [simp]:
  "ex_task s = Alive \<Longrightarrow>
   execute_on s (h, a) = (case ja_spec a of None \<Rightarrow> s | Some spec \<Rightarrow> execute_spec h spec s)"
  by (simp add: execute_on_def execute_job_def)

lemma dead_stays: "ex_task s \<noteq> Alive \<Longrightarrow> run_ops execute_on s js = s"
  by (induction js arbitrary: s) (simp_all add: execute_on_def execute_job_def)

lemma answered_ids:
  assumes "ex_task s = Alive"
  shows "let s' = run_ops execute_on s js; ids = job_ids (map snd js) in
    if ex_task s' = Alive then map jr_job_id (ex_results s') = map jr_job_id (ex_results s) @ ids
    else \<exists>n<length ids. map jr_job_id (ex_results s') = map jr_job_id (ex_results s) @ take n ids"
  using assms
proof (induction js arbitrary: s)
  case (Cons j js)
  obtain h a where j: "j = (h, a)" by (cases j)
  show ?case
  proof (cases "ja_spec a")
    case None
    with Cons j show ?thesis by simp
  next
    case (Some spec)
    then have e: "execute_on s j = execute_spec h spec s" using Cons.prems by (simp add: j)
    show ?thesis
    proof (cases rule: execute_spec_cases [of h spec s])
      case answered
      then have "ex_task (execute_spec h spec s) = Alive" using Cons.prems by simp
      from Cons.IH [OF this] answered(2) show ?thesis
        by (auto simp: j Some e [unfolded j] Let_def split: if_splits)
    next
      case died
      with e j Some dead_stays [OF died(1), of js] show ?thesis by (auto simp: Let_def intro: exI [of _ 0])
    qed
  qed
qed simp

lemma answerable_alive:
  assumes "ex_task s = Alive" "\<forall>(h, a)\<in>set js. \<forall>spec. ja_spec a = Some spec \<longrightarrow> answerable h spec"
  shows "ex_task (run_ops execute_on s js) = Alive"
  using assms
proof (induction js arbitrary: s)
  case (Cons j js)
  obtain h a where j: "j = (h, a)" by (cases j)
  have "ex_task (execute_on s j) = Alive"
  proof (cases "ja_spec a")
    case (Some spec)
    with Cons.prems have "answerable h spec" by (auto simp: j)
    with Cons.prems(1) Some show ?thesis by (cases rule: execute_spec_cases [of h spec s]) (simp_all add: j)
  qed (simp add: j Cons.prems)
  with Cons show ?case by simp
qed simp

text \<open>
  C17. The executor answers its jobs once and in order, and goes on answering as long as what it awaits
  ends. Whatever each job meets, the results reported are those of the jobs it was given, from the
  first on: of all of them if the task still runs, of fewer if it has ended. It still runs if every
  job is answerable: it has no code, or its id has eight bytes and its image build and its logs end
  or fail (with Docker), or its requirements are installed at some time, its error output is closed
  and the process exits or runs out of time (without).
\<close>

theorem executor_answers_every_job:
  assumes "ex_task s = Alive" "ex_results s = []"
  shows "let s' = run_ops execute_on s js; ids = job_ids (map snd js) in
    (if ex_task s' = Alive then map jr_job_id (ex_results s') = ids
     else \<exists>n<length ids. map jr_job_id (ex_results s') = take n ids) \<and>
    ((\<forall>(h, a)\<in>set js. \<forall>spec. ja_spec a = Some spec \<longrightarrow> answerable h spec) \<longrightarrow> ex_task s' = Alive)"
  using answered_ids [OF assms(1), of js] answerable_alive [OF assms(1), of js] assms(2)
  by (simp add: Let_def split: if_splits)

section \<open>The Docker daemon\<close>

text \<open>
  The executor cleans up after a job: every image whose build succeeded and every container that was
  created is asked to be removed later on.
\<close>

fun cleaned :: "docker_env \<Rightarrow> docker_command list \<Rightarrow> bool" where
  "cleaned dk [] = True"
| "cleaned dk (BuildImage tag context # cs) =
     ((image_built (dk_build dk tag context) \<longrightarrow> RemoveImage tag \<in> set cs) \<and> cleaned dk cs)"
| "cleaned dk (CreateContainer name config # cs) =
     ((case dk_create dk name config of Inr cid \<Rightarrow> RemoveContainer cid \<in> set cs | Inl _ \<Rightarrow> True) \<and> cleaned dk cs)"
| "cleaned dk (c # cs) = cleaned dk cs"

definition job_cleaned :: "host \<Rightarrow> docker_command list \<Rightarrow> bool" where
  "job_cleaned h cs = (case ho_docker h of None \<Rightarrow> cs = [] | Some dk \<Rightarrow> cleaned dk cs)"

fun sandboxed :: "docker_command \<Rightarrow> bool" where
  "sandboxed (CreateContainer name c) \<longleftrightarrow>
     cc_network c = ''none'' \<and> cc_cap_drop c = [''ALL''] \<and> cc_security_opt c = [''no-new-privileges:true''] \<and>
     length (cc_binds c) = 1 \<and> cc_memory_swap c = cc_memory c"
| "sandboxed _ \<longleftrightarrow> True"

lemma build_commands:
  assumes "build_job_image os dk short dir r fl = (res, cmds, fl')"
  obtains (refused) e where "res = Some (Inl e)" "cmds = []"
  | (sent) tag archive where "cmds = [BuildImage tag archive]" "res = Some (Inr tag)" "image_built (dk_build dk tag archive)"
  | (failed) tag archive where "cmds = [BuildImage tag archive]" "res = None \<or> (\<exists>e. res = Some (Inl e))"
      "\<not> image_built (dk_build dk tag archive)"
proof (cases "put_file os (dir @ [''Dockerfile'']) (to_bytes (generate_python_dockerfile r)) fl")
  case (Pair e fl1)
  show thesis
  proof (cases "dk_tar dk (dir_files dir fl1)")
    case (Inr archive)
    let ?stream = "dk_build dk (job_tag short) archive"
    show thesis
      using assms Pair Inr that
      by (cases e; cases "dk_connect dk"; cases "build_result (feed_items ?stream)"; cases "feed_ends ?stream")
        (auto simp: build_job_image_def image_built_def Let_def)
  qed (use assms Pair refused in \<open>cases e; auto simp: build_job_image_def\<close>)
qed

lemma docker_commands:
  assumes "run_in_docker os dk short dir r m n fl = (res, lines, cmds, fl')"
  shows "list_all sandboxed cmds \<and> (res \<noteq> None \<longrightarrow> cleaned dk cmds)"
proof (cases "build_job_image os dk short dir r fl")
  case (fields b bcmds fl1)
  from fields show ?thesis
    by (cases rule: build_commands)
      (use fields assms in \<open>auto simp: run_in_docker_def Let_def job_container_def split: option.splits sum.splits if_splits\<close>)
qed

lemma job_commands:
  obtains cs where "ex_commands (execute_on s (h, a)) = ex_commands s @ cs" "list_all sandboxed cs"
    "ex_task (execute_on s (h, a)) \<noteq> Stuck \<longrightarrow> job_cleaned h cs"
proof (cases "ex_task s = Alive \<and> ja_spec a \<noteq> None")
  case False
  then have "execute_on s (h, a) = s" by (auto simp: execute_on_def execute_job_def)
  then show thesis using that [of "[]"] by (simp add: job_cleaned_def split: option.split)
next
  case True
  then obtain spec where e: "execute_on s (h, a) = execute_spec h spec s" by auto
  show thesis
  proof (cases rule: execute_spec_shape [of h spec s])
    case (run dir m n fl)
    let ?r = "js_requirements spec \<noteq> []"
    obtain res lines cmds fl' where c: "run_code h (js_job_id spec) dir ?r m n fl = (res, lines, cmds, fl')"
      by (cases "run_code h (js_job_id spec) dir ?r m n fl")
    have "list_all sandboxed cmds \<and> (res \<noteq> None \<longrightarrow> job_cleaned h cmds)"
      using c docker_commands by (auto simp: run_code_def job_cleaned_def split: option.splits prod.splits)
    with c e run(1) that show thesis by (cases res) (auto simp: finish_job_def split: prod.splits)
  qed (use e that [of "[]"] in \<open>simp_all add: job_cleaned_def split: option.splits\<close>)
qed

text \<open>
  C18. After any sequence of jobs, whatever fails on the way, the commands given to the Docker daemon
  split into those of each job. Unless the task hangs in the middle of a job, every image whose build
  succeeded and every container that was created is asked to be removed before the next job starts; and
  in any case every container is created without a network, without capabilities, with one directory
  bound and with the swap counted in its memory limit. The answers to the removals are ignored, so
  whether the daemon obeys is not known.
\<close>

theorem docker_left_clean:
  "\<exists>css. ex_commands (run_ops execute_on s js) = ex_commands s @ concat css \<and> length css = length js \<and>
     list_all sandboxed (concat css) \<and>
     (ex_task (run_ops execute_on s js) \<noteq> Stuck \<longrightarrow> list_all2 (\<lambda>j cs. job_cleaned (fst j) cs) js css)"
proof (induction js arbitrary: s)
  case (Cons j js)
  obtain h a where j: "j = (h, a)" by (cases j)
  obtain cs where cs: "ex_commands (execute_on s j) = ex_commands s @ cs" "list_all sandboxed cs"
    "ex_task (execute_on s j) \<noteq> Stuck \<longrightarrow> job_cleaned h cs"
    unfolding j by (rule job_commands)
  obtain css where css: "ex_commands (run_ops execute_on (execute_on s j) js) = ex_commands (execute_on s j) @ concat css"
    "length css = length js" "list_all sandboxed (concat css)"
    "ex_task (run_ops execute_on (execute_on s j) js) \<noteq> Stuck \<longrightarrow> list_all2 (\<lambda>j cs. job_cleaned (fst j) cs) js css"
    using Cons.IH by blast
  have "ex_task (execute_on s j) = Stuck \<Longrightarrow> ex_task (run_ops execute_on (execute_on s j) js) = Stuck"
    using dead_stays [of "execute_on s j" js] by simp
  with cs css show ?case by (intro exI [of _ "cs # css"]) (auto simp: j)
qed simp

text \<open>
  Nothing is removed after a build that did not succeed. That is right when the daemon reports the
  failure; but when only the stream breaks off, the daemon may finish the image, and it stays.
\<close>

lemma failed_build_not_removed:
  assumes "\<forall>tag context. \<not> image_built (dk_build dk tag context)"
  shows "RemoveImage t \<notin> set (fst (snd (snd (run_in_docker os dk short dir r m n fl))))"
proof (cases "build_job_image os dk short dir r fl")
  case (fields b bcmds fl1)
  from fields show ?thesis
    by (cases rule: build_commands) (use fields assms in \<open>auto simp: run_in_docker_def\<close>)
qed

section \<open>Files\<close>

lemma hm_insert_fresh: "k \<notin> fst ` set m \<Longrightarrow> hm_insert k v m = m @ [(k, v)]"
  unfolding hm_insert_def by (induction m) auto

text \<open>The files that are not in a directory, with their contents.\<close>

definition files_outside :: "string list \<Rightarrow> files \<Rightarrow> files" where
  "files_outside dir fl = filter (\<lambda>f. \<not> under dir (fst f)) fl"

lemma under_child [simp]: "under dir (dir @ ps)"
  by (simp add: under_def)

lemma outside_insert: "under dir p \<Longrightarrow> files_outside dir (hm_insert p b fl) = files_outside dir fl"
  unfolding hm_insert_def files_outside_def by (induction fl) auto

lemma outside_put:
  assumes "under dir p" shows "files_outside dir (snd (put_file os p b fl)) = files_outside dir fl"
  using assms by (auto simp: put_file_def outside_insert split: option.splits)

lemma outside_add: "files_outside dir (add_files (dir @ ps) written fl) = files_outside dir fl"
  unfolding add_files_def
proof (induction written arbitrary: fl)
  case (Cons w written)
  then show ?case by (cases w) (simp add: outside_insert)
qed simp

lemma outside_build: "files_outside dir (snd (snd (build_job_image os dk short dir r fl))) = files_outside dir fl"
proof (cases "put_file os (dir @ [''Dockerfile'']) (to_bytes (generate_python_dockerfile r)) fl")
  case (Pair e fl1)
  have "snd (snd (build_job_image os dk short dir r fl)) = fl1"
    using Pair by (simp add: build_job_image_def Let_def split: option.split sum.split)
  with outside_put [OF under_child, of dir os "[''Dockerfile'']"] Pair show ?thesis by (metis snd_conv)
qed

lemma outside_docker: "files_outside dir (snd (snd (snd (run_in_docker os dk short dir r m n fl)))) = files_outside dir fl"
proof (cases "build_job_image os dk short dir r fl")
  case (fields b cmds fl1)
  with outside_build [of dir os dk short r fl] have "files_outside dir fl1 = files_outside dir fl" by simp
  with fields show ?thesis
    by (simp add: run_in_docker_def Let_def outside_add split: option.split sum.split)
qed

lemma outside_remove: "files_outside dir (remove_dir h dir fl) = files_outside dir fl"
  unfolding files_outside_def remove_dir_def by (induction fl) auto

lemma remove_all: "\<forall>p. under dir p \<longrightarrow> \<not> ho_kept h p \<Longrightarrow> remove_dir h dir fl = files_outside dir fl"
  unfolding files_outside_def remove_dir_def by (induction fl) auto

lemma finish_outside:
  assumes "ho_docker h \<noteq> None"
  shows "files_outside dir (ex_files (finish_job h job dir r m n s)) = files_outside dir (ex_files s)"
proof -
  obtain res lines cmds fl where c: "run_code h job dir r m n (ex_files s) = (res, lines, cmds, fl)"
    by (cases "run_code h job dir r m n (ex_files s)")
  obtain dk where dk: "ho_docker h = Some dk" using assms by blast
  from c have "fl = snd (snd (snd (run_in_docker (ho_os h) dk (take 8 job) dir r m n (ex_files s))))"
    by (simp add: run_code_def dk)
  then have "files_outside dir fl = files_outside dir (ex_files s)" by (simp add: outside_docker)
  with c show ?thesis by (cases res) (auto simp: finish_job_def outside_remove split: prod.splits)
qed

text \<open>Whatever fails, a job that runs in a container leaves every file outside its directory as it was.\<close>

lemma executed_outside:
  assumes "ja_spec a = Some spec" "slice_to 8 (js_job_id spec) = Some short" "ho_docker h \<noteq> None"
  shows "files_outside (job_dir h short) (ex_files (execute_job h s a)) = files_outside (job_dir h short) (ex_files s)"
proof (cases "ex_task s \<noteq> Alive \<or> js_code spec = []")
  case True
  with assms(1) show ?thesis by (auto simp: execute_job_def execute_spec_def)
next
  case False
  let ?dir = "job_dir h short"
  obtain e fl where w: "put_file (ho_os h) (?dir @ [''code.py'']) (js_code spec) (ex_files s) = (e, fl)"
    by (cases "put_file (ho_os h) (?dir @ [''code.py'']) (js_code spec) (ex_files s)")
  have fl: "files_outside ?dir fl = files_outside ?dir (ex_files s)"
    using w outside_put [OF under_child, of ?dir "ho_os h" "[''code.py'']" "js_code spec" "ex_files s"] by simp
  have "files_outside ?dir (snd (put_file (ho_os h) (?dir @ [''requirements.txt'']) (js_requirements spec) fl)) =
      files_outside ?dir (ex_files s)"
    using fl by (simp add: outside_put)
  with False assms w fl show ?thesis
    by (cases "io_mkdir (ho_os h) ?dir"; cases e)
      (simp_all add: execute_job_def execute_spec_def finish_outside Let_def)
qed

text \<open>A job that is run leaves the files outside its directory, and those only.\<close>

lemma executed_files:
  assumes "ex_task s = Alive" "ja_spec a = Some spec" "js_code spec \<noteq> []" "slice_to 8 (js_job_id spec) = Some short"
    and "ho_docker h \<noteq> None" "io_mkdir (ho_os h) (job_dir h short) = None"
    and "io_write (ho_os h) (job_dir h short @ [''code.py'']) = None"
    and "\<forall>p. under (job_dir h short) p \<longrightarrow> \<not> ho_kept h p" "ex_task (execute_job h s a) = Alive"
  shows "ex_files (execute_job h s a) = files_outside (job_dir h short) (ex_files s)"
proof -
  let ?dir = "job_dir h short"
  obtain m n fl where e: "execute_job h s a =
      finish_job h (js_job_id spec) ?dir (js_requirements spec \<noteq> []) m n (s\<lparr>ex_files := fl\<rparr>)"
    using assms(1-7) by (simp add: execute_job_def execute_spec_def put_file_def Let_def)
  obtain res lines cmds fl' where c:
    "run_code h (js_job_id spec) ?dir (js_requirements spec \<noteq> []) m n fl = (res, lines, cmds, fl')"
    by (cases "run_code h (js_job_id spec) ?dir (js_requirements spec \<noteq> []) m n fl")
  have "ex_files (execute_job h s a) = files_outside ?dir fl'"
    using e c assms(9) by (cases res) (auto simp: finish_job_def remove_all [OF assms(8)] split: prod.splits)
  then have "ex_files (execute_job h s a) = files_outside ?dir (ex_files (execute_job h s a))"
    by (simp add: files_outside_def)
  also have "\<dots> = files_outside ?dir (ex_files s)" by (rule executed_outside [OF assms(2,4,5)])
  finally show ?thesis .
qed

text \<open>The files of the job, in the order in which they are written.\<close>

definition job_context :: "job_spec \<Rightarrow> (string \<times> bytes) list" where
  "job_context spec =
     [(''code.py'', js_code spec)] @
     (if js_requirements spec = [] then [] else [(''requirements.txt'', js_requirements spec)]) @
     [(''Dockerfile'', to_bytes (generate_python_dockerfile (js_requirements spec \<noteq> [])))]"

lemma docker_prefix:
  assumes "build_job_image os dk short dir r fl = (b, cmds, fl1)"
  shows "\<exists>rest. fst (snd (snd (run_in_docker os dk short dir r m n fl))) = cmds @ rest"
  using assms by (simp add: run_in_docker_def Let_def split: sum.split option.split)

lemma finish_commands:
  assumes "ho_docker h = Some dk"
  shows "ex_commands (finish_job h job dir r m n s) =
    ex_commands s @ fst (snd (snd (run_in_docker (ho_os h) dk (take 8 job) dir r m n (ex_files s))))"
  by (simp add: finish_job_def run_code_def assms split: prod.split option.split)

lemma outside_all: "files_outside dir fl = fl \<longleftrightarrow> (\<forall>f\<in>set fl. \<not> under dir (fst f))"
  by (simp add: files_outside_def filter_id_conv)

lemma dir_files_clean: "files_outside dir fl = fl \<Longrightarrow> dir_files dir fl = []"
  unfolding dir_files_def outside_all by (induction fl) (auto simp: List.map_filter_def)

lemma dir_files_append: "dir_files dir (xs @ ys) = dir_files dir xs @ dir_files dir ys"
  by (simp add: dir_files_def List.map_filter_def)

lemma dir_files_child [simp]:
  "dir_files dir [] = []" "dir_files dir ((dir @ [n], b) # fl) = (n, b) # dir_files dir fl"
  by (simp_all add: dir_files_def List.map_filter_def)

lemma executed_build:
  assumes "ex_task s = Alive" "ja_spec a = Some spec" "js_code spec \<noteq> []" "slice_to 8 (js_job_id spec) = Some short"
    and "ho_docker h = Some dk" "files_outside (job_dir h short) (ex_files s) = ex_files s"
    and "io_mkdir (ho_os h) (job_dir h short) = None" "\<forall>n. io_write (ho_os h) (job_dir h short @ [n]) = None"
    and "dk_tar dk (job_context spec) = Inr archive" "dk_connect dk = None"
  shows "\<exists>cmds. ex_commands (execute_job h s a) = ex_commands s @ BuildImage (job_tag short) archive # cmds"
proof -
  define d where "d = job_dir h short"
  have fresh: "d @ ps \<notin> fst ` set (ex_files s)" for ps
    using assms(6) by (auto simp: outside_all d_def) (metis fst_conv under_child)
  define fl where "fl = (let written = ex_files s @ [(d @ [''code.py''], js_code spec)] in
      if js_requirements spec = [] then written else written @ [(d @ [''requirements.txt''], js_requirements spec)])"
  let ?m = "max (js_duration spec) 10" and ?n = "max (js_memory spec) 128"
  have run: "execute_job h s a =
      finish_job h (js_job_id spec) d (js_requirements spec \<noteq> []) ?m ?n (s\<lparr>ex_files := fl\<rparr>)"
    using assms fresh
    by (cases "js_requirements spec = []")
      (simp_all add: execute_job_def execute_spec_def put_file_def Let_def hm_insert_fresh image_Un fl_def flip: d_def)
  let ?df = "(d @ [''Dockerfile''], to_bytes (generate_python_dockerfile (js_requirements spec \<noteq> [])))"
  have "fst ?df \<notin> fst ` set fl" using fresh by (auto simp: fl_def Let_def)
  then have put: "put_file (ho_os h) (fst ?df) (snd ?df) fl = (None, fl @ [?df])"
    using assms(8) by (simp add: put_file_def hm_insert_fresh flip: d_def)
  have "dir_files d (fl @ [?df]) = job_context spec"
    using assms(6) by (simp add: fl_def Let_def dir_files_append dir_files_clean job_context_def flip: d_def)
  then obtain res where "build_job_image (ho_os h) dk short d (js_requirements spec \<noteq> []) fl =
      (res, [BuildImage (job_tag short) archive], fl @ [?df])"
    using put assms(9,10)
    by (cases "build_result (feed_items (dk_build dk (job_tag short) archive))") (simp_all add: build_job_image_def Let_def)
  from docker_prefix [OF this] obtain rest where "fst (snd (snd (run_in_docker (ho_os h) dk short d
      (js_requirements spec \<noteq> []) ?m ?n fl))) = [BuildImage (job_tag short) archive] @ rest" by blast
  then show ?thesis
    using slice_to_take [OF assms(4)] by (simp add: run finish_commands [OF assms(5)])
qed

text \<open>
  C19. A job in a container does not touch the files of others. Whatever fails, running a job whose id
  has no slash in its first eight bytes changes no file outside its own directory. If moreover that
  directory was empty, its files can be written and the context archived, then its image is built from
  its code, its requirements and the Dockerfile and from nothing else; and if its directory can be
  removed and the task did not get stuck, the files of the worker are then exactly those it had before.
\<close>

theorem job_is_isolated:
  assumes "ja_spec a = Some spec" "slice_to 8 (js_job_id spec) = Some short" "CHR ''/'' \<notin> set short" "ho_docker h = Some dk"
  shows "job_dir h short = ho_temp h @ [''decentgpu-'' @ short] \<and>
    files_outside (job_dir h short) (ex_files (execute_job h s a)) = files_outside (job_dir h short) (ex_files s) \<and>
    (ex_task s = Alive \<and> js_code spec \<noteq> [] \<and> files_outside (job_dir h short) (ex_files s) = ex_files s \<and>
     io_mkdir (ho_os h) (job_dir h short) = None \<and> (\<forall>n. io_write (ho_os h) (job_dir h short @ [n]) = None) \<and>
     dk_tar dk (job_context spec) = Inr archive \<and> dk_connect dk = None \<longrightarrow>
     (\<exists>cmds. ex_commands (execute_job h s a) = ex_commands s @ BuildImage (job_tag short) archive # cmds) \<and>
     ((\<forall>p. under (job_dir h short) p \<longrightarrow> \<not> ho_kept h p) \<and> ex_task (execute_job h s a) = Alive \<longrightarrow>
      ex_files (execute_job h s a) = ex_files s))"
proof (intro conjI impI; (elim conjE)?)
  show "job_dir h short = ho_temp h @ [''decentgpu-'' @ short]"
    using assms(3) by (simp add: job_dir_def path_join_plain)
  show "files_outside (job_dir h short) (ex_files (execute_job h s a)) = files_outside (job_dir h short) (ex_files s)"
    using executed_outside [OF assms(1,2)] assms(4) by simp
  assume *: "ex_task s = Alive" "js_code spec \<noteq> []" "files_outside (job_dir h short) (ex_files s) = ex_files s"
    "io_mkdir (ho_os h) (job_dir h short) = None" "\<forall>n. io_write (ho_os h) (job_dir h short @ [n]) = None"
    "dk_tar dk (job_context spec) = Inr archive" "dk_connect dk = None"
  then show "\<exists>cmds. ex_commands (execute_job h s a) = ex_commands s @ BuildImage (job_tag short) archive # cmds"
    using executed_build assms by blast
  assume "\<forall>p. under (job_dir h short) p \<longrightarrow> \<not> ho_kept h p" "ex_task (execute_job h s a) = Alive"
  with * executed_files [OF _ assms(1) _ assms(2), of s h] assms(4) show "ex_files (execute_job h s a) = ex_files s"
    by simp
qed

section \<open>A run without failures\<close>

text \<open>
  The disk takes every file; the daemon builds the image and starts the container \<open>cid\<close>, which prints
  the lines \<open>ls\<close> and exits with the given code. With a number \<open>n\<close> as its \<open>tail\<close>, the daemon returns the
  last \<open>n\<close> lines of the log, with their line ends.
\<close>

definition disk_ok :: "io \<Rightarrow> bool" where
  "disk_ok os \<longleftrightarrow> (\<forall>p. io_mkdir os p = None) \<and> (\<forall>p. io_write os p = None)"

definition last_lines :: "nat \<Rightarrow> 'a list \<Rightarrow> 'a list" where
  "last_lines n ls = drop (length ls - n) ls"

definition keeps_log :: "docker_env \<Rightarrow> string \<Rightarrow> string list \<Rightarrow> bool" where
  "keeps_log dk cid ls \<longleftrightarrow>
     (\<forall>n. dk_logs dk cid \<lparr>lo_stdout = True, lo_stderr = True, lo_tail = show_nat n\<rparr> =
       Feed (map (\<lambda>l. Inr (l @ [CHR 0x0A])) (last_lines n ls)) True)"

definition docker_runs :: "docker_env \<Rightarrow> string \<Rightarrow> int \<Rightarrow> string list \<Rightarrow> bool" where
  "docker_runs dk cid code ls \<longleftrightarrow>
     dk_connect dk = None \<and> (\<forall>fs. is_ok (dk_tar dk fs)) \<and> (\<forall>t b. image_built (dk_build dk t b)) \<and>
     (\<forall>n c. dk_create dk n c = Inr cid) \<and> dk_start dk cid = None \<and> (\<forall>t. dk_wait dk cid t = Exited code) \<and>
     keeps_log dk cid ls"

text \<open>A line that a container prints: not blank, without line breaks, without blanks around it.\<close>

definition printed_line :: "string \<Rightarrow> bool" where
  "printed_line l \<longleftrightarrow> l \<noteq> [] \<and> plain_line l \<and> trimmed l"

definition exit_lines :: "int \<Rightarrow> string list" where
  "exit_lines code = (if code = 0 then [] else [''container exited with code '' @ show_int code])"

lemma last_lines_set: "set (last_lines n ls) \<subseteq> set ls"
  by (simp add: last_lines_def set_drop_subset)

lemma last_lines_all: "list_all P ls \<Longrightarrow> list_all P (last_lines n ls)"
  using last_lines_set [of n ls] by (auto simp: list_all_iff)

lemma newline_in_white: "w \<in> set white_space \<Longrightarrow> CHR 0x0A \<in> set w \<Longrightarrow> w = [CHR 0x0A]"
proof -
  have "list_all (\<lambda>w. CHR 0x0A \<in> set w \<longrightarrow> w = [CHR 0x0A]) white_space" by code_simp
  then show "w \<in> set white_space \<Longrightarrow> CHR 0x0A \<in> set w \<Longrightarrow> w = [CHR 0x0A]" by (simp add: list_all_iff)
qed

text \<open>A line break after a line is trimmed away, and nothing else.\<close>

lemma no_white_front:
  assumes "trimmed l" "l \<noteq> []" "w \<in> set white_space"
  shows "\<not> starts_with w (l @ [CHR 0x0A])"
proof
  assume "starts_with w (l @ [CHR 0x0A])"
  then have w: "take (length w) (l @ [CHR 0x0A]) = w" by (simp add: starts_with_def)
  show False
  proof (cases "length w \<le> length l")
    case True
    with w assms show False by (auto simp: trimmed_def starts_with_def list_all_iff)
  next
    case False
    with w have "w = l @ [CHR 0x0A]" by simp
    with newline_in_white [OF assms(3)] assms(2) show False by simp
  qed
qed

lemma trim_line:
  assumes "trimmed l" "l \<noteq> []" shows "str_trim (l @ [CHR 0x0A]) = l"
proof -
  have "find (\<lambda>w. w \<noteq> [] \<and> starts_with w (l @ [CHR 0x0A])) white_space = None"
    using no_white_front [OF assms] by (auto simp: find_None_iff)
  then have front: "strip_front white_space (l @ [CHR 0x0A]) = l @ [CHR 0x0A]"
    by (simp add: strip_front.simps [of _ "l @ [CHR 0x0A]"])
  have "find (\<lambda>w. w \<noteq> [] \<and> starts_with w (CHR 0x0A # rev l)) (map rev white_space) = Some [CHR 0x0A]"
    by (simp add: white_space_def starts_with_def)
  moreover have "find (\<lambda>w. w \<noteq> [] \<and> starts_with w (rev l)) (map rev white_space) = None"
    using assms(1) by (auto simp: find_None_iff trimmed_def list_all_iff)
  ultimately have "strip_front (map rev white_space) (CHR 0x0A # rev l) = rev l"
    by (simp add: strip_front.simps [of _ "CHR 0x0A # rev l"] strip_front.simps [of _ "rev l"])
  with front show ?thesis by (simp add: str_trim_def strip_back_def)
qed

lemma log_lines_printed: "list_all printed_line ls \<Longrightarrow> log_lines (map (\<lambda>l. Inr (l @ [CHR 0x0A])) ls) = ls"
  by (induction ls) (simp_all add: printed_line_def trim_line Let_def)

lemma log_of_container:
  assumes "keeps_log dk cid ls" "list_all printed_line ls"
  shows "logs_end (dk_logs dk cid job_log_options)"
    and "log_lines (feed_items (dk_logs dk cid job_log_options)) = last_lines 500 ls"
proof -
  have "show_nat 500 = ''500''" by code_simp
  then have "dk_logs dk cid job_log_options = Feed (map (\<lambda>l. Inr (l @ [CHR 0x0A])) (last_lines 500 ls)) True"
    using assms(1) unfolding keeps_log_def job_log_options_def by metis
  then show "logs_end (dk_logs dk cid job_log_options)"
    "log_lines (feed_items (dk_logs dk cid job_log_options)) = last_lines 500 ls"
    using last_lines_all [OF assms(2)] by (simp_all add: logs_end_def log_lines_printed)
qed

lemma str_join_snoc: "ls \<noteq> [] \<Longrightarrow> str_join sep (ls @ [l]) = str_join sep ls @ sep @ l"
  by (induction sep ls rule: str_join.induct) simp_all

lemma str_join_Nil: "list_all (\<lambda>l. l \<noteq> []) ls \<Longrightarrow> str_join sep ls = [] \<longleftrightarrow> ls = []"
  by (induction sep ls rule: str_join.induct) simp_all

lemma job_output_exit:
  assumes "list_all printed_line ls"
  shows "job_output (code = 0) (concat (exit_lines code)) ls = str_join [CHR 0x0A] (ls @ exit_lines code)"
proof -
  have "str_join [CHR 0x0A] ls = [] \<longleftrightarrow> ls = []"
    using assms by (intro str_join_Nil) (auto simp: list_all_iff printed_line_def)
  then show ?thesis by (simp add: job_output_def exit_lines_def str_join_snoc Let_def)
qed

lemma docker_run_result:
  assumes "docker_runs dk cid code ls" "list_all printed_line ls" "disk_ok os"
  shows "\<exists>cmds fl'. run_in_docker os dk short dir r m n fl =
    (Some (code = 0, concat (exit_lines code)), last_lines 500 ls, cmds, fl')"
proof -
  obtain b where "dk_tar dk (dir_files dir (hm_insert (dir @ [''Dockerfile''])
      (to_bytes (generate_python_dockerfile r)) fl)) = Inr b"
    using assms(1) unfolding docker_runs_def by (metis is_ok.elims(2))
  moreover have "keeps_log dk cid ls" using assms(1) by (simp add: docker_runs_def)
  ultimately show ?thesis
    using assms log_of_container [of dk cid ls]
    by (simp add: run_in_docker_def build_job_image_def put_file_def docker_runs_def image_built_def disk_ok_def Let_def
        exit_result_def exit_lines_def)
qed

text \<open>The result that is reported, for the container and for the job: the last 500 lines.\<close>

lemma executed_result:
  assumes "ex_task e = Alive" "ja_spec a = Some spec" "js_code spec \<noteq> []" "slice_to 8 (js_job_id spec) \<noteq> None"
    and "ho_docker h = Some dk" "disk_ok (ho_os h)" "docker_runs dk cid code ls" "list_all printed_line ls"
  shows "ex_results (execute_job h e a) = ex_results e @ [\<lparr>jr_job_id = js_job_id spec, jr_success = (code = 0),
    jr_output = str_join [CHR 0x0A] (last_lines 500 ls @ exit_lines code)\<rparr>]"
proof -
  obtain short where short: "slice_to 8 (js_job_id spec) = Some short" using assms(4) by blast
  have result: "ex_results (finish_job h (js_job_id spec) dir r m n s) = ex_results s @ [\<lparr>jr_job_id = js_job_id spec,
      jr_success = (code = 0), jr_output = str_join [CHR 0x0A] (last_lines 500 ls @ exit_lines code)\<rparr>]" for dir r m n s
    using docker_run_result [OF assms(7,8,6), of "take 8 (js_job_id spec)" dir r m n "ex_files s"] assms(5)
    by (auto simp: finish_job_def run_code_def report_def job_output_exit [OF last_lines_all [OF assms(8)]])
  show ?thesis
    using assms(1-3,6) short by (simp add: execute_job_def execute_spec_def put_file_def disk_ok_def Let_def result)
qed

section \<open>Where the executor fails\<close>

text \<open>A job id of fewer than eight bytes ends the task for good: no later assignment is answered.\<close>

lemma short_id_ends_executor:
  assumes "ja_spec a = Some spec" "js_code spec \<noteq> []" "length (js_job_id spec) < 8"
  shows "ex_task (execute_on s (h, a)) \<noteq> Alive \<and> ex_results (run_ops execute_on s ((h, a) # js)) = ex_results s"
proof -
  have "slice_to 8 (js_job_id spec) = None" using assms(3) by (simp add: slice_to_def)
  with assms(1,2) have dead: "ex_task (execute_on s (h, a)) \<noteq> Alive" "ex_results (execute_on s (h, a)) = ex_results s"
    by (simp_all add: execute_on_def execute_job_def execute_spec_def)
  with dead_stays [OF dead(1), of js] show ?thesis by simp
qed

text \<open>
  So does a build that neither ends nor fails, and without Docker an installation of requirements that
  does not end: the time limit of the job does not cover them, and both run what the hirer's list of
  requirements names.
\<close>

lemma stuck_run_ends_executor:
  assumes "ex_task s = Alive" "ja_spec a = Some spec" "js_code spec \<noteq> []" "slice_to 8 (js_job_id spec) \<noteq> None"
    and "disk_ok (ho_os h)" "\<And>dir m n fl. fst (run_code h (js_job_id spec) dir (js_requirements spec \<noteq> []) m n fl) = None"
  shows "ex_task (execute_on s (h, a)) = Stuck \<and> ex_results (run_ops execute_on s ((h, a) # js)) = ex_results s"
proof -
  obtain short where short: "slice_to 8 (js_job_id spec) = Some short" using assms(4) by blast
  obtain dir m n fl where e: "execute_on s (h, a) =
      finish_job h (js_job_id spec) dir (js_requirements spec \<noteq> []) m n (s\<lparr>ex_files := fl\<rparr>)"
    using assms(1-3,5) short by (simp add: execute_spec_def put_file_def disk_ok_def Let_def)
  have "ex_task (execute_on s (h, a)) = Stuck \<and> ex_results (execute_on s (h, a)) = ex_results s"
    using assms(6) [of dir m n fl] unfolding e by (auto simp: finish_job_def split: prod.split option.split)
  with dead_stays [of "execute_on s (h, a)" js] show ?thesis by simp
qed

lemma endless_build_ends_executor:
  assumes "ex_task s = Alive" "ja_spec a = Some spec" "js_code spec \<noteq> []" "slice_to 8 (js_job_id spec) \<noteq> None"
    and "disk_ok (ho_os h)" "ho_docker h = Some dk" "dk_connect dk = None" "\<forall>fs. is_ok (dk_tar dk fs)"
    and "\<forall>tag context. \<not> build_ends (dk_build dk tag context)"
  shows "ex_task (execute_on s (h, a)) = Stuck \<and> ex_results (run_ops execute_on s ((h, a) # js)) = ex_results s"
proof (rule stuck_run_ends_executor [OF assms(1-5)])
  fix dir m n fl
  let ?r = "js_requirements spec \<noteq> []"
  obtain b where "dk_tar dk (dir_files dir (hm_insert (dir @ [''Dockerfile''])
      (to_bytes (generate_python_dockerfile ?r)) fl)) = Inr b"
    using assms(8) by (metis is_ok.elims(2))
  then show "fst (run_code h (js_job_id spec) dir ?r m n fl) = None"
    using assms(5-7,9)
    by (simp add: run_code_def run_in_docker_def build_job_image_def put_file_def disk_ok_def build_ends_def Let_def)
qed

lemma endless_pip_ends_executor:
  assumes "ex_task s = Alive" "ja_spec a = Some spec" "js_code spec \<noteq> []" "slice_to 8 (js_job_id spec) \<noteq> None"
    and "disk_ok (ho_os h)" "ho_docker h = None" "js_requirements spec \<noteq> []" "\<not> py_pip_ends (ho_python h (js_job_id spec))"
  shows "ex_task (execute_on s (h, a)) = Stuck \<and> ex_results (run_ops execute_on s ((h, a) # js)) = ex_results s"
  by (rule stuck_run_ends_executor [OF assms(1-5)]) (simp add: run_code_def run_python3_direct_def assms(6-8))

text \<open>
  When the code of a job cannot be written, the job is reported as failed and its directory stays, with
  what the failed write left there.
\<close>

lemma unwritten_code_stays:
  assumes "ex_task s = Alive" "ja_spec a = Some spec" "js_code spec \<noteq> []" "slice_to 8 (js_job_id spec) = Some short"
    and "io_mkdir (ho_os h) (job_dir h short) = None"
    and "io_write (ho_os h) (job_dir h short @ [''code.py'']) = Some (e, Some b)"
  shows "ex_files (execute_job h s a) = hm_insert (job_dir h short @ [''code.py'']) b (ex_files s)"
  using assms by (simp add: execute_job_def execute_spec_def put_file_def)

text \<open>
  A job id is pasted into a path: the id \<open>x/../../\<close> makes the parent of the temporary directory
  the directory of the job, and everything in it is deleted when the job has run.
\<close>

theorem job_id_deletes_files:
  assumes "ex_task s = Alive" "ja_spec a = Some spec" "js_code spec \<noteq> []" "js_job_id spec = ''x/../../''"
    and "ho_docker h \<noteq> None" "io_mkdir (ho_os h) (butlast (ho_temp h)) = None"
    and "io_write (ho_os h) (butlast (ho_temp h) @ [''code.py'']) = None"
    and "\<forall>p. \<not> ho_kept h p" "ex_task (execute_job h s a) = Alive"
  shows "ex_files (execute_job h s a) = files_outside (butlast (ho_temp h)) (ex_files s)"
proof -
  have "slice_to 8 (js_job_id spec) = Some ''x/../../''" by (simp add: assms(4) slice_to_def)
  moreover have "job_dir h ''x/../../'' = butlast (ho_temp h)"
    by (simp add: job_dir_def path_join_def)
  ultimately show ?thesis using executed_files [OF assms(1-3), of "''x/../../''" h] assms(5-9) by simp
qed

lemma sint_of_small: "- (2 ^ 63) \<le> k \<Longrightarrow> k < 2 ^ 63 \<Longrightarrow> sint (word_of_int k :: u64) = k"
  by (simp add: int_word_sint)

lemma container_memory_small: "uint m < 2 ^ 43 \<Longrightarrow> container_memory m = uint m * 2 ^ 20"
proof -
  assume m: "uint m < 2 ^ 43"
  have "m * 1024 * 1024 = word_of_int (uint m * 2 ^ 20)" by (simp add: mult.assoc)
  then have "container_memory m = sint (word_of_int (uint m * 2 ^ 20) :: u64)"
    by (simp only: container_memory_def u64_as_i64_def)
  also have "\<dots> = uint m * 2 ^ 20"
  proof (rule sint_of_small)
    show "- (2 ^ 63) \<le> uint m * 2 ^ 20" by (rule order_trans [of _ 0]) simp_all
    show "uint m * 2 ^ 20 < 2 ^ 63" using m by simp
  qed
  finally show ?thesis .
qed

text \<open>
  The memory limit of the container is the limit of the job in bytes, at least 128 MB, as long as it
  is below 2^43 MB. From there on the product wraps: a job with a limit of 2^44 MB, which the API
  accepts, gets the limit 0, which means no limit to Docker.
\<close>

theorem memory_limit_bounds:
  assumes "0 \<le> mb" "mb < 2 ^ 43"
  shows "cc_memory (job_container tag dir (max (i64_as_u64 mb) 128)) = max mb 128 * 2 ^ 20 \<and>
    cc_memory (job_container tag dir (max (i64_as_u64 (2 ^ 44)) 128)) = 0"
proof -
  have u: "uint (i64_as_u64 mb) = mb" using assms by (simp add: i64_as_u64_def uint_word_of_int)
  have "uint (max (i64_as_u64 mb) 128) = max mb 128"
    using u by (auto simp: max_def word_le_def)
  then have "container_memory (max (i64_as_u64 mb) 128) = max mb 128 * 2 ^ 20"
    using container_memory_small [of "max (i64_as_u64 mb) 128"] assms by simp
  moreover have "container_memory (max (i64_as_u64 (2 ^ 44)) 128) = 0" by code_simp
  ultimately show ?thesis by (simp add: job_container_def)
qed

section \<open>Witnesses\<close>

definition demo_io :: io where
  "demo_io = \<lparr>io_mkdir = \<lambda>_. None, io_write = \<lambda>_. None\<rparr>"

text \<open>
  A daemon that archives the contents of the files and whose containers print two lines and leave a
  file; it has answers to requests for the last lines of a log and for all of them.
\<close>

definition demo_log :: "log_options \<Rightarrow> string list" where
  "demo_log opts =
     (case parse_digits 0 (lo_tail opts) of
        Some n \<Rightarrow> last_lines (nat n) [''hello'', ''world'']
      | None \<Rightarrow> [''hello'', ''world''])"

definition demo_docker :: docker_env where
  "demo_docker = \<lparr>dk_tar = (\<lambda>fs. Inr (concat (map snd fs))), dk_connect = None,
     dk_build = (\<lambda>_ _. Feed [BuildInfo None] True), dk_create = (\<lambda>n _. Inr n), dk_start = (\<lambda>_. None),
     dk_wait = (\<lambda>_ _. Exited 0), dk_logs = (\<lambda>_ opts. Feed (map (\<lambda>l. Inr (l @ [CHR 0x0A])) (demo_log opts)) True),
     dk_output = (\<lambda>_. [([''model.bin''], [9])])\<rparr>"

definition demo_python :: python_env where
  "demo_python = \<lparr>py_pip_ends = True, py_spawn = None, py_stdout = [''hi''], py_timed_out = False, py_stderr = [],
     py_stderr_closes = True, py_wait = Some (ExitStatus True []), py_order = [], py_files = (\<lambda>fl. fl)\<rparr>"

definition demo_host :: host where
  "demo_host = \<lparr>ho_temp = [''tmp''], ho_os = demo_io, ho_docker = Some demo_docker, ho_python = (\<lambda>_. demo_python),
     ho_kept = (\<lambda>_. False)\<rparr>"

lemma demo_docker_ends: "docker_ends demo_docker"
  by (simp add: docker_ends_def demo_docker_def build_ends_def logs_end_def)

definition demo_spec :: "string \<Rightarrow> job_spec" where
  "demo_spec i = \<lparr>js_job_id = i, js_hirer_id = [], js_duration = 60, js_memory = 512, js_cpu_percent = 50,
     js_backend = 0, js_image_hash = [], js_image_size = 0, js_code = [1], js_requirements = []\<rparr>"

definition demo_assignment :: "string \<Rightarrow> job_assignment" where
  "demo_assignment i = \<lparr>ja_spec = Some (demo_spec i), ja_master = []\<rparr>"

definition demo_executor :: executor where
  "demo_executor = initial_executor\<lparr>ex_files := [([''home'', ''u'', ''key''], [7])]\<rparr>"

lemma demo_answerable: "length i = 8 \<or> 8 < length i \<and> \<not> continues_char (i ! 8) \<Longrightarrow> answerable demo_host (demo_spec i)"
  by (auto simp: answerable_def host_ends_def demo_host_def demo_docker_ends demo_spec_def slice_to_def)

lemma executor_answers_every_job_witness:
  "map jr_job_id (ex_results (run_ops execute_on initial_executor
     [(demo_host, demo_assignment ''12345678-a''), (demo_host, \<lparr>ja_spec = None, ja_master = []\<rparr>),
      (demo_host, demo_assignment ''abcdefgh'')])) = [''12345678-a'', ''abcdefgh'']"
proof -
  let ?js = "[(demo_host, demo_assignment ''12345678-a''), (demo_host, \<lparr>ja_spec = None, ja_master = []\<rparr>),
      (demo_host, demo_assignment ''abcdefgh'')]"
  have "\<forall>(h, a)\<in>set ?js. \<forall>spec. ja_spec a = Some spec \<longrightarrow> answerable h spec"
    by (simp add: demo_assignment_def demo_answerable continues_char_def)
  then have "map jr_job_id (ex_results (run_ops execute_on initial_executor ?js)) = job_ids (map snd ?js)"
    using executor_answers_every_job [of initial_executor ?js] by (simp add: initial_executor_def Let_def)
  then show ?thesis by (simp add: demo_assignment_def demo_spec_def)
qed

lemma docker_left_clean_witness:
  "ex_commands (run_ops execute_on initial_executor [(demo_host, demo_assignment ''12345678'')]) =
   [BuildImage (job_tag ''12345678'') (1 # to_bytes (generate_python_dockerfile False)),
    CreateContainer ''dg-12345678'' (job_container (job_tag ''12345678'') [''tmp'', ''decentgpu-12345678'', ''output''] 512),
    StartContainer ''dg-12345678'', RemoveContainer ''dg-12345678'', RemoveImage (job_tag ''12345678'')] \<and>
   job_cleaned demo_host (ex_commands (run_ops execute_on initial_executor [(demo_host, demo_assignment ''12345678'')]))"
proof -
  have run: "ex_commands (run_ops execute_on initial_executor [(demo_host, demo_assignment ''12345678'')]) =
   [BuildImage (job_tag ''12345678'') (1 # to_bytes (generate_python_dockerfile False)),
    CreateContainer ''dg-12345678'' (job_container (job_tag ''12345678'') [''tmp'', ''decentgpu-12345678'', ''output''] 512),
    StartContainer ''dg-12345678'', RemoveContainer ''dg-12345678'', RemoveImage (job_tag ''12345678'')] \<and>
    ex_task (run_ops execute_on initial_executor [(demo_host, demo_assignment ''12345678'')]) = Alive"
    by (simp add: initial_executor_def demo_assignment_def execute_spec_def demo_spec_def slice_to_def demo_host_def
        job_dir_def path_join_plain demo_io_def put_file_def finish_job_def run_code_def run_in_docker_def
        build_job_image_def demo_docker_def hm_insert_def dir_files_def under_def logs_end_def report_def Let_def max_def
        List.map_filter_def split: prod.split)
  obtain css where css: "ex_commands (run_ops execute_on initial_executor [(demo_host, demo_assignment ''12345678'')]) = concat css"
    "list_all2 (\<lambda>j cs. job_cleaned (fst j) cs) [(demo_host, demo_assignment ''12345678'')] css"
    using docker_left_clean [of initial_executor "[(demo_host, demo_assignment ''12345678'')]"] run
    by (auto simp: initial_executor_def)
  then obtain cs where "css = [cs]" "job_cleaned demo_host cs" by (auto simp: list_all2_Cons1)
  with css(1) run show ?thesis by simp
qed

lemma job_is_isolated_witness:
  "ex_files (execute_job demo_host demo_executor (demo_assignment ''12345678'')) = [([''home'', ''u'', ''key''], [7])]"
proof -
  let ?s = "execute_job demo_host demo_executor (demo_assignment ''12345678'')"
  have short: "slice_to 8 (js_job_id (demo_spec ''12345678'')) = Some ''12345678''"
    by (simp add: demo_spec_def slice_to_def)
  have docker: "ho_docker demo_host = Some demo_docker" by (simp add: demo_host_def)
  have spec: "ja_spec (demo_assignment ''12345678'') = Some (demo_spec ''12345678'')" by (simp add: demo_assignment_def)
  have alive: "ex_task demo_executor = Alive" by (simp add: demo_executor_def initial_executor_def)
  have run: "ex_task ?s = Alive"
    using answerable_alive [OF alive, of "[(demo_host, demo_assignment ''12345678'')]"] spec
    by (simp add: demo_answerable execute_on_def)
  have dir: "job_dir demo_host ''12345678'' = [''tmp'', ''decentgpu-12345678'']"
    by (simp add: job_dir_def path_join_plain demo_host_def)
  obtain archive where "dk_tar demo_docker (job_context (demo_spec ''12345678'')) = Inr archive" "dk_connect demo_docker = None"
    by (simp add: demo_docker_def)
  then have "ex_files ?s = ex_files demo_executor"
    using job_is_isolated [OF spec short _ docker, of demo_executor archive] alive run
    by (simp add: demo_spec_def demo_executor_def initial_executor_def files_outside_def under_def demo_host_def demo_io_def dir)
  then show ?thesis by (simp add: demo_executor_def)
qed

lemma job_id_deletes_files_witness:
  "ex_files (execute_job demo_host demo_executor (demo_assignment ''x/../../'')) = []"
proof -
  have alive: "ex_task demo_executor = Alive" by (simp add: demo_executor_def initial_executor_def)
  have run: "ex_task (execute_job demo_host demo_executor (demo_assignment ''x/../../'')) = Alive"
    using answerable_alive [OF alive, of "[(demo_host, demo_assignment ''x/../../'')]"]
    by (simp add: demo_answerable execute_on_def demo_assignment_def)
  have "ex_files (execute_job demo_host demo_executor (demo_assignment ''x/../../'')) =
      files_outside (butlast (ho_temp demo_host)) (ex_files demo_executor)"
    by (rule job_id_deletes_files [where spec = "demo_spec ''x/../../''", OF alive _ _ _ _ _ _ _ run])
      (simp_all add: demo_assignment_def demo_spec_def demo_host_def demo_io_def)
  then show ?thesis by (simp add: demo_host_def under_def files_outside_def)
qed

lemma memory_limit_bounds_witness:
  "cc_memory (job_container ''t'' [] (max (i64_as_u64 512) 128)) = 536870912 \<and>
   cc_memory (job_container ''t'' [] (max (i64_as_u64 (2 ^ 44)) 128)) = 0"
  using memory_limit_bounds [of 512 "''t''" "[]"] by simp

end
