(* ===== verification/Hardware.thy ===== *)
theory Hardware
  imports Rust_Text Matcher
begin

text \<open>
  What a worker reports about its machine (\<open>gpu/detector.rs\<close>, \<open>gpu/linux.rs\<close>, \<open>gpu/macos.rs\<close>,
  \<open>gpu/windows.rs\<close>) and how the report travels: \<open>capabilities_to_proto\<close> on the worker,
  \<open>proto_caps_to_common\<close> on the master. What the operating system and its tools answer (files,
  the output of programs, the JSON they print) is the environment.
\<close>

section \<open>NVIDIA and AMD on Linux\<close>

text \<open>A line of \<open>nvidia-smi\<close>: the name, a comma and a blank, the memory in MB.\<close>

definition nvidia_gpu :: "string \<Rightarrow> gpu_info option" where
  "nvidia_gpu line =
     (case split_once '', '' line of
        None \<Rightarrow> None
      | Some (name, vram) \<Rightarrow>
          Some \<lparr>gpu_name = str_trim name, vram_mb = unwrap_or 0 (parse_u64 (str_trim vram)), gpu_kind = Cuda\<rparr>)"

text \<open>The tool cannot be started, ends with a failure, or succeeds with an output.\<close>

datatype tool_result = NotStarted string | Failed string | Printed string

definition detect_nvidia_gpus :: "tool_result \<Rightarrow> string + gpu_info list" where
  "detect_nvidia_gpus smi =
     (case smi of
        NotStarted e \<Rightarrow> Inl e
      | Failed status \<Rightarrow> Inl (''nvidia-smi exited with status '' @ status)
      | Printed out \<Rightarrow> Inr (List.map_filter nvidia_gpu (str_lines out)))"

definition cpu_only_gpu :: gpu_info where
  "cpu_only_gpu = \<lparr>gpu_name = ''CPU'', vram_mb = 0, gpu_kind = CpuOnly\<rparr>"

definition or_cpu_only :: "gpu_info list \<Rightarrow> gpu_info list" where
  "or_cpu_only gs = (if gs = [] then [cpu_only_gpu] else gs)"

definition detect_gpus_linux :: "bool \<Rightarrow> tool_result \<Rightarrow> bool \<Rightarrow> gpu_info list" where
  "detect_gpus_linux nvidia smi kfd =
     or_cpu_only
       ((if nvidia then (case detect_nvidia_gpus smi of Inr gs \<Rightarrow> gs | Inl _ \<Rightarrow> []) else []) @
        (if kfd then [\<lparr>gpu_name = ''AMD GPU (ROCm)'', vram_mb = 0, gpu_kind = Rocm\<rparr>] else []))"

section \<open>macOS\<close>

text \<open>\<open>gb * 1024\<close> wraps in the release profile.\<close>

definition apple_vram :: "string \<Rightarrow> u64 option" where
  "apple_vram text =
     (let s = to_lowercase text in
      case strip_suffix '' gb'' s of
        Some n \<Rightarrow> map_option (\<lambda>gb. gb * 1024) (parse_u64 (str_trim n))
      | None \<Rightarrow> (case strip_suffix '' mb'' s of Some n \<Rightarrow> parse_u64 (str_trim n) | None \<Rightarrow> None))"

definition apple_gpu :: "json \<Rightarrow> gpu_info" where
  "apple_gpu entry =
     \<lparr>gpu_name = unwrap_or ''Apple GPU'' (Option.bind (json_get ''sppci_model'' entry) json_str),
      vram_mb = unwrap_or 0 (Option.bind (Option.bind (json_get ''spdisplays_vram'' entry) json_str) apple_vram),
      gpu_kind = Metal\<rparr>"

text \<open>The outer \<open>None\<close> is a failing tool or an output that is not JSON.\<close>

definition detect_via_system_profiler :: "json option \<Rightarrow> gpu_info list option" where
  "detect_via_system_profiler out =
     map_option (\<lambda>j. map apple_gpu
       (case json_get ''SPDisplaysDataType'' j of None \<Rightarrow> [] | Some v \<Rightarrow> json_items v)) out"

definition detect_gpus_macos :: "json option \<Rightarrow> gpu_info list" where
  "detect_gpus_macos out =
     or_cpu_only (case detect_via_system_profiler out of
        Some gs \<Rightarrow> gs
      | None \<Rightarrow> [\<lparr>gpu_name = ''Apple GPU'', vram_mb = 0, gpu_kind = Metal\<rparr>])"

section \<open>Windows\<close>

definition classify_backend :: "string \<Rightarrow> gpu_backend" where
  "classify_backend name =
     (let lower = to_lowercase name in
      if contains ''nvidia'' lower then Cuda
      else if contains ''amd'' lower \<or> contains ''radeon'' lower then Rocm else CpuOnly)"

text \<open>
  COM and WMI: the error of one of the calls that set up the query, in their order, and the answers of the
  enumerator: an error, or an object with its properties \<open>Caption\<close> and \<open>AdapterRAM\<close>; the answers end
  where it returns nothing, an empty slot is skipped. The first error ends the detection.
\<close>

record wmi =
  wm_initialize :: "string option"
  wm_security :: "string option"
  wm_locator :: "string option"
  wm_connect :: "string option"
  wm_query :: "string option"
  wm_next :: "(string + (string option \<times> u64 option) option) list"

definition windows_gpu :: "string option \<times> u64 option \<Rightarrow> gpu_info" where
  "windows_gpu obj =
     (case obj of (caption, ram) \<Rightarrow>
        let name = unwrap_or [] caption in
        \<lparr>gpu_name = name, vram_mb = unwrap_or 0 ram div 1048576, gpu_kind = classify_backend name\<rparr>)"

fun windows_gpus :: "(string + (string option \<times> u64 option) option) list \<Rightarrow> string + gpu_info list" where
  "windows_gpus [] = Inr []"
| "windows_gpus (Inl e # answers) = Inl e"
| "windows_gpus (Inr None # answers) = windows_gpus answers"
| "windows_gpus (Inr (Some obj) # answers) =
     (case windows_gpus answers of Inl e \<Rightarrow> Inl e | Inr gs \<Rightarrow> Inr (windows_gpu obj # gs))"

definition detect_gpus_windows :: "wmi \<Rightarrow> string + gpu_info list" where
  "detect_gpus_windows w =
     (case List.map_filter id [wm_initialize w, wm_security w, wm_locator w, wm_connect w, wm_query w] of
        e # _ \<Rightarrow> Inl e
      | [] \<Rightarrow> (case windows_gpus (wm_next w) of Inl e \<Rightarrow> Inl e | Inr gs \<Rightarrow> Inr (or_cpu_only gs)))"

lemma windows_error_ends:
  "windows_gpus (map (\<lambda>obj. Inr (Some obj)) objs @ Inl e # answers) = Inl e"
  "windows_gpus (map (\<lambda>obj. Inr (Some obj)) objs) = Inr (map windows_gpu objs)"
  by (induction objs) simp_all

section \<open>Processor and memory\<close>

definition detect_cpu :: "string \<Rightarrow> u32 option \<Rightarrow> cpu_info" where
  "detect_cpu model parallelism =
     (let threads = unwrap_or 1 parallelism in
      \<lparr>cpu_model = model, cores = max (threads div 2) 1, threads = threads, freq_mhz = 0\<rparr>)"

definition detect_cpu_model :: "string option \<Rightarrow> string" where
  "detect_cpu_model cpuinfo =
     (case Option.bind cpuinfo (\<lambda>c. find (\<lambda>l. strip_prefix (''model name'' @ [CHR 0x09] @ '': '') l \<noteq> None) (str_lines c)) of
        Some l \<Rightarrow> str_trim (unwrap_or [] (strip_prefix (''model name'' @ [CHR 0x09] @ '': '') l))
      | None \<Rightarrow> ''Unknown CPU'')"

text \<open>\<open>Inl\<close>: the file cannot be read or the number cannot be parsed, and the worker does not start.\<close>

definition detect_ram_mb :: "string + string \<Rightarrow> string + u64" where
  "detect_ram_mb meminfo =
     (case meminfo of
        Inl e \<Rightarrow> Inl e
      | Inr content \<Rightarrow>
          (case List.map_filter (strip_prefix ''MemTotal:'') (str_lines content) of
             [] \<Rightarrow> Inr 0
           | rest # _ \<Rightarrow>
               (case parse_u64 (str_trim (trim_end_matches '' kB'' (str_trim rest))) of
                  None \<Rightarrow> Inl ''invalid digit found in string''
                | Some kb \<Rightarrow> Inr (kb div 1024))))"

section \<open>The whole report\<close>

record machine =
  ma_nvidia :: bool
  ma_smi :: tool_result
  ma_kfd :: bool
  ma_parallelism :: "u32 option"
  ma_cpuinfo :: "string option"
  ma_meminfo :: "string + string"
  ma_version :: string

definition detect_capabilities :: "machine \<Rightarrow> string + worker_capabilities" where
  "detect_capabilities m =
     (case detect_ram_mb (ma_meminfo m) of
        Inl e \<Rightarrow> Inl e
      | Inr ram \<Rightarrow>
          Inr \<lparr>gpus = detect_gpus_linux (ma_nvidia m) (ma_smi m) (ma_kfd m),
               cpu = detect_cpu (detect_cpu_model (ma_cpuinfo m)) (ma_parallelism m),
               ram_mb = ram, disk_mb = 0, os_name = ''linux'', worker_version = ma_version m\<rparr>)"

definition capabilities_to_proto :: "worker_capabilities \<Rightarrow> proto_caps" where
  "capabilities_to_proto c =
     \<lparr>pcap_peer = [],
      pcap_gpus = map (\<lambda>g. ProtoGpu (gpu_name g) (vram_mb g) (i32_of_backend (gpu_kind g))) (gpus c),
      pcap_cpu = Some (ProtoCpu (cpu_model (cpu c)) (cores (cpu c)) (threads (cpu c)) (freq_mhz (cpu c))),
      pcap_ram = ram_mb c, pcap_disk = disk_mb c, pcap_os = os_name c, pcap_version = worker_version c\<rparr>"

section \<open>Facts\<close>

lemma gpu_eta [simp]: "\<lparr>gpu_name = gpu_name g, vram_mb = vram_mb g, gpu_kind = gpu_kind g\<rparr> = g"
  by (cases g) simp

lemma cpu_eta [simp]:
  "\<lparr>cpu_model = cpu_model p, cores = cores p, threads = threads p, freq_mhz = freq_mhz p\<rparr> = p"
  by (cases p) simp

lemma capabilities_roundtrip: "proto_caps_to_common (capabilities_to_proto c) = c"
  by (cases c) (simp add: proto_caps_to_common_def capabilities_to_proto_def comp_def)

lemma or_cpu_only_nonempty [simp]: "or_cpu_only gs \<noteq> []"
  by (simp add: or_cpu_only_def)

section \<open>From the tool to the master\<close>

text \<open>A card as \<open>nvidia-smi\<close> prints it, and as it is reported.\<close>

definition smi_line :: "string \<times> u64 \<Rightarrow> string" where
  "smi_line c = fst c @ '', '' @ show_nat (unat (snd c))"

definition card_gpu :: "string \<times> u64 \<Rightarrow> gpu_info" where
  "card_gpu c = \<lparr>gpu_name = fst c, vram_mb = snd c, gpu_kind = Cuda\<rparr>"

definition card_ok :: "string \<times> u64 \<Rightarrow> bool" where
  "card_ok c \<longleftrightarrow> trimmed (fst c) \<and> CHR '','' \<notin> set (fst c) \<and> CHR 0x0A \<notin> set (fst c)"

lemma split_once_comma:
  assumes "CHR '','' \<notin> set a" shows "split_once '', '' (a @ '', '' @ b) = Some (a, b)"
  using assms by (induction a) (auto simp: starts_with_def)

lemma show_nat_plain: "CHR 0x0A \<notin> set (show_nat n)" "CHR 0x0D \<notin> set (show_nat n)"
proof -
  have "CHR 0x0A \<in> white_bytes" "CHR 0x0D \<in> white_bytes" by (simp_all add: white_bytes_def white_space_def)
  then show "CHR 0x0A \<notin> set (show_nat n)" "CHR 0x0D \<notin> set (show_nat n)"
    using show_nat_not_white [of n] by blast+
qed

lemma plain_smi_line: "card_ok c \<Longrightarrow> plain_line (smi_line c)"
  using show_nat_plain [of "unat (snd c)"] show_nat_shape [of "unat (snd c)"]
  by (auto simp: plain_line_def smi_line_def card_ok_def) (metis last_in_set)

lemma nvidia_gpu_line:
  assumes "card_ok c" shows "nvidia_gpu (smi_line c) = Some (card_gpu c)"
proof -
  have "uint (snd c) \<le> 2 ^ 64 - 1" using uint_lt2p [of "snd c"] by simp
  then have "parse_unsigned (2 ^ 64 - 1) (show_nat (unat (snd c))) = Some (uint (snd c))"
    using parse_unsigned_show [of "unat (snd c)" "2 ^ 64 - 1"] by simp
  with assms show ?thesis
    by (simp add: nvidia_gpu_def smi_line_def split_once_comma [simplified] card_ok_def trim_trimmed card_gpu_def)
qed

lemma nvidia_gpus_printed:
  assumes "list_all card_ok cards"
  shows "detect_nvidia_gpus (Printed (printed (map smi_line cards))) = Inr (map card_gpu cards)"
proof -
  have "list_all plain_line (map smi_line cards)"
    using assms plain_smi_line by (auto simp: list_all_iff)
  moreover have "List.map_filter nvidia_gpu (map smi_line cards) = map card_gpu cards"
    using assms by (induction cards) (simp_all add: List.map_filter_def nvidia_gpu_line)
  ultimately show ?thesis by (simp add: detect_nvidia_gpus_def str_lines_printed)
qed

text \<open>
  C28. The hardware of a worker reaches the scheduler unchanged: the report travels through the protobuf
  messages without loss, every card that \<open>nvidia-smi\<close> lists arrives in order with its name and its
  memory, there is always at least one device, and at least one core.
\<close>

theorem detected_cards_arrive:
  assumes "ma_nvidia m" "ma_smi m = Printed (printed (map smi_line cards))" "list_all card_ok cards"
    and "detect_capabilities m = Inr c"
  shows "proto_caps_to_common (capabilities_to_proto c) = c \<and>
    filter (\<lambda>g. gpu_kind g = Cuda) (gpus c) = map card_gpu cards \<and> gpus c \<noteq> [] \<and> 1 \<le> cores (cpu c)"
proof -
  have g: "gpus c = detect_gpus_linux (ma_nvidia m) (ma_smi m) (ma_kfd m)"
    and p: "cpu c = detect_cpu (detect_cpu_model (ma_cpuinfo m)) (ma_parallelism m)"
    using assms(4) by (auto simp: detect_capabilities_def split: sum.splits)
  have "filter (\<lambda>g. gpu_kind g = Cuda) (map card_gpu cards) = map card_gpu cards"
    by (simp add: card_gpu_def filter_map comp_def)
  with assms(1-3) show ?thesis
    by (auto simp: capabilities_roundtrip g p detect_gpus_linux_def nvidia_gpus_printed or_cpu_only_def
        cpu_only_gpu_def detect_cpu_def Let_def)
qed

text \<open>
  A machine with an AMD card only never serves a GPU job: ROCm cards are reported with no memory, so
  the memory filter of the scheduler rejects the worker for every job on a GPU with a positive memory
  limit, and 512 MB is the default.
\<close>

theorem amd_worker_never_eligible:
  assumes "\<not> ma_nvidia m" "detect_capabilities m = Inr c"
    and "eligible req \<lparr>c_peer = p, c_caps = proto_caps_to_common (capabilities_to_proto c), c_uptime = u,
           c_jobs = n, c_busy = b\<rparr>"
  shows "required_backend req = CpuOnly \<or> memory_limit_mb req = 0"
proof -
  have "gpus c = detect_gpus_linux (ma_nvidia m) (ma_smi m) (ma_kfd m)"
    using assms(2) by (auto simp: detect_capabilities_def split: sum.splits)
  then have "\<forall>g\<in>set (gpus c). vram_mb g = 0"
    using assms(1) by (auto simp: detect_gpus_linux_def or_cpu_only_def cpu_only_gpu_def)
  with assms(3) show ?thesis
    by (auto simp: eligible_def has_enough_vram_def list_ex_iff capabilities_roundtrip)
qed

section \<open>Witnesses\<close>

definition demo_cards :: "(string \<times> u64) list" where
  "demo_cards = [(''RTX 4090'', 24564), (''T4'', 15360)]"

definition demo_machine :: "bool \<Rightarrow> bool \<Rightarrow> machine" where
  "demo_machine nvidia kfd =
     \<lparr>ma_nvidia = nvidia, ma_smi = Printed (printed (map smi_line demo_cards)), ma_kfd = kfd,
      ma_parallelism = Some 8, ma_cpuinfo = None,
      ma_meminfo = Inr [], ma_version = ''0.1.0''\<rparr>"

lemma demo_machine_caps: "is_ok (detect_capabilities (demo_machine n k))"
  by (simp add: detect_capabilities_def demo_machine_def detect_ram_mb_def List.map_filter_def)

lemma detected_cards_arrive_witness:
  "\<exists>c. detect_capabilities (demo_machine True False) = Inr c \<and> proto_caps_to_common (capabilities_to_proto c) = c \<and>
     map vram_mb (filter (\<lambda>g. gpu_kind g = Cuda) (gpus c)) = [24564, 15360]"
proof -
  obtain c where c: "detect_capabilities (demo_machine True False) = Inr c"
    using demo_machine_caps [of True False] by (cases "detect_capabilities (demo_machine True False)") auto
  have "list_all card_ok demo_cards" by code_simp
  moreover have "ma_smi (demo_machine True False) = Printed (printed (map smi_line demo_cards))"
    by (simp add: demo_machine_def)
  ultimately show ?thesis
    using detected_cards_arrive [OF _ _ _ c, of demo_cards] c by (simp add: demo_machine_def card_gpu_def demo_cards_def)
qed

lemma amd_worker_never_eligible_witness:
  "\<exists>c. detect_capabilities (demo_machine False True) = Inr c \<and>
     eligible \<lparr>required_backend = CpuOnly, memory_limit_mb = 512, max_duration_secs = 60\<rparr>
       \<lparr>c_peer = ''w'', c_caps = proto_caps_to_common (capabilities_to_proto c), c_uptime = Fin 100, c_jobs = 0, c_busy = False\<rparr> \<and>
     \<not> eligible \<lparr>required_backend = Rocm, memory_limit_mb = 512, max_duration_secs = 60\<rparr>
       \<lparr>c_peer = ''w'', c_caps = proto_caps_to_common (capabilities_to_proto c), c_uptime = Fin 100, c_jobs = 0, c_busy = False\<rparr>"
proof -
  obtain c where c: "detect_capabilities (demo_machine False True) = Inr c"
    using demo_machine_caps [of False True] by (cases "detect_capabilities (demo_machine False True)") auto
  have "\<not> ma_nvidia (demo_machine False True)" by (simp add: demo_machine_def)
  from amd_worker_never_eligible [OF this c, of
      "\<lparr>required_backend = Rocm, memory_limit_mb = 512, max_duration_secs = 60\<rparr>"] c
  show ?thesis by (auto simp: eligible_def backend_matches_def)
qed

end
