(* ===== verification/Worker_P2p.thy ===== *)
theory Worker_P2p
  imports Execution Hardware
begin

text \<open>
  The P2P event loop of a worker (\<open>worker/p2p/handler.rs\<close>) as a function from its state and one event
  to the new state and the effects it asks of libp2p, and the choice of ports at start-up
  (\<open>worker/p2p/mod.rs\<close>). The queue to the executor is part of the state: it holds 32 assignments and is
  closed when the executor has ended. The network library and the decoder of assignments are fields
  of the environment; the effects hold the messages that the protobuf library then encodes.
\<close>

section \<open>State, events and effects\<close>

definition WORKER_RENDEZVOUS_TTL :: int where "WORKER_RENDEZVOUS_TTL = 7200"
definition WORKER_RECONNECT_DELAY :: int where "WORKER_RECONNECT_DELAY = 10"
definition WORKER_FAR_FUTURE_SECS :: int where "WORKER_FAR_FUTURE_SECS = 86400 * 365 * 10"
definition job_queue_size :: nat where "job_queue_size = 32"

record worker_state =
  wk_bootstrap :: "peer_id option"
  wk_registered :: bool
  wk_master :: "peer_id option"
  wk_queue :: "job_assignment list"
  wk_queue_open :: bool
  wk_reregister_at :: int
  wk_reconnect_at :: int

record worker_env =
  we_now :: int
  we_started :: int
  we_local_peer :: peer_id
  we_bootstrap_addr :: string
  we_master_addr :: "string option"
  we_token :: "string option"
  we_caps :: worker_capabilities
  we_connected :: "peer_id \<Rightarrow> bool"
  we_parse_addr :: "string \<Rightarrow> string option"
  we_decode_assignment :: "bytes \<Rightarrow> string + job_assignment"

datatype worker_effect =
    WSendRequest peer_id envelope
  | WRespondAck peer_id job_ack
  | WPublishHeartbeat envelope
  | WDialBootstrap string
  | WDialMaster string
  | WRegisterRendezvous peer_id
  | WAddAutonatServer peer_id string
  | WAddKademliaAddress peer_id string
  | WKademliaBootstrap
  | WAddExternalAddress string

text \<open>\<open>WExecutorTook\<close> and \<open>WExecutorGone\<close> are the other end of the queue.\<close>

datatype worker_p2p_event =
    WConnectionClosed peer_id
  | WExternalAddrConfirmed string
  | WRegistered u64
  | WExpired peer_id
  | WJobRequest peer_id bytes
  | WJobResponse peer_id bytes
  | WIdentifyReceived peer_id string string "string list"
  | WHeartbeatTick
  | WJobResult job_result
  | WReregisterTimer
  | WReconnectTimer
  | WExecutorTook
  | WExecutorGone
  | WOther

definition initial_worker :: "int \<Rightarrow> worker_state" where
  "initial_worker now =
     \<lparr>wk_bootstrap = None, wk_registered = False, wk_master = None, wk_queue = [], wk_queue_open = True,
      wk_reregister_at = now + WORKER_FAR_FUTURE_SECS, wk_reconnect_at = now + WORKER_FAR_FUTURE_SECS\<rparr>"

section \<open>Heartbeats\<close>

text \<open>Rounding to the 24 bits of an \<open>f32\<close>; no value here overflows.\<close>

definition quantum32 :: "rat \<Rightarrow> int" where
  "quantum32 x = max (ilog2 \<bar>x\<bar> - 23) (- 149)"

definition rnd32 :: "rat \<Rightarrow> rat" where
  "rnd32 x = (if x = 0 then 0 else of_int (round_half_even (x / 2 powi quantum32 x)) * 2 powi quantum32 x)"

definition uptime_percent :: "int \<Rightarrow> rat" where
  "uptime_percent secs = min (rnd32 (rnd32 (rnd32 (of_int secs) / 86400) * 100)) 100"

definition heartbeat :: "worker_env \<Rightarrow> heart_beat" where
  "heartbeat env =
     \<lparr>hb_peer = we_local_peer env, hb_uptime = Fin (uptime_percent (we_now env - we_started env)),
      hb_busy = False, hb_jobs = 0\<rparr>"

definition publish_heartbeat :: "worker_env \<Rightarrow> worker_effect list" where
  "publish_heartbeat env = [WPublishHeartbeat (Some (PHeartBeat (heartbeat env)))]"

section \<open>Registration\<close>

definition do_register :: "worker_state \<Rightarrow> worker_effect list" where
  "do_register s = (case wk_bootstrap s of None \<Rightarrow> [] | Some b \<Rightarrow> [WRegisterRendezvous b])"

definition worker_bootstrap_identified ::
  "peer_id \<Rightarrow> string \<Rightarrow> worker_state \<Rightarrow> worker_state \<times> worker_effect list" where
  "worker_bootstrap_identified peer addr s =
     (let s' = s\<lparr>wk_bootstrap := Some peer\<rparr> in
      (s', [WAddAutonatServer peer addr, WAddKademliaAddress peer addr] @ do_register s' @ [WKademliaBootstrap]))"

definition registration :: "worker_env \<Rightarrow> string \<Rightarrow> register_worker" where
  "registration env token =
     \<lparr>rw_peer = we_local_peer env, rw_jwt = token, rw_caps = Some (capabilities_to_proto (we_caps env))\<rparr>"

definition try_register_with_master ::
  "worker_env \<Rightarrow> peer_id \<Rightarrow> worker_state \<Rightarrow> worker_state \<times> worker_effect list" where
  "try_register_with_master env master s =
     (if wk_registered s then (s, [])
      else
        (case we_token env of
           None \<Rightarrow> (s, [])
         | Some token \<Rightarrow>
             (s\<lparr>wk_registered := True\<rparr>,
              [WSendRequest master (Some (PRegisterWorker (registration env token)))])))"

section \<open>Messages\<close>

definition completed_message :: "job_result \<Rightarrow> job_completed" where
  "completed_message r =
     \<lparr>jc_job_id = jr_job_id r, jc_success = jr_success r,
      jc_error = (if jr_success r then [] else jr_output r), jc_duration = 0,
      jc_result_size = word_of_nat (length (jr_output r)), jc_output = jr_output r\<rparr>"

definition send_result :: "worker_env \<Rightarrow> worker_state \<Rightarrow> job_result \<Rightarrow> worker_effect list" where
  "send_result env s r =
     (case wk_master s of
        None \<Rightarrow> []
      | Some master \<Rightarrow> [WSendRequest master (Some (PJobCompleted (completed_message r)))])"

definition handle_assignment ::
  "worker_env \<Rightarrow> peer_id \<Rightarrow> bytes \<Rightarrow> worker_state \<Rightarrow> worker_state \<times> worker_effect list" where
  "handle_assignment env peer data s =
     (case we_decode_assignment env data of
        Inl e \<Rightarrow> (s, [WRespondAck peer \<lparr>jk_job_id = [], jk_accepted = False, jk_reason = ''decode error: '' @ e\<rparr>])
      | Inr a \<Rightarrow>
          let job = (case ja_spec a of None \<Rightarrow> [] | Some spec \<Rightarrow> js_job_id spec);
              accepted = wk_queue_open s \<and> length (wk_queue s) < job_queue_size in
          (if accepted then s\<lparr>wk_queue := wk_queue s @ [a]\<rparr> else s,
           [WRespondAck peer \<lparr>jk_job_id = job, jk_accepted = accepted,
              jk_reason = (if accepted then [] else ''executor queue full'')\<rparr>]))"

definition dial_master :: "worker_env \<Rightarrow> worker_state \<Rightarrow> worker_effect list" where
  "dial_master env s =
     (let already_connected = (case wk_master s of None \<Rightarrow> False | Some p \<Rightarrow> we_connected env p) in
      case (if already_connected then None else we_master_addr env) of
        None \<Rightarrow> []
      | Some text \<Rightarrow>
          (case we_parse_addr env text of
             None \<Rightarrow> []
           | Some addr \<Rightarrow> if contains ''/ip4/0.0.0.0'' addr then [] else [WDialMaster addr]))"

section \<open>The loop\<close>

fun worker_behaviour :: "worker_env \<Rightarrow> worker_state \<Rightarrow> worker_p2p_event \<Rightarrow> worker_state \<times> worker_effect list" where
  "worker_behaviour env s (WRegistered ttl) =
     (s\<lparr>wk_reregister_at := we_now env + uint (ttl * 9 div 10)\<rparr>, dial_master env s)"
| "worker_behaviour env s (WExpired peer) = (s, do_register s)"
| "worker_behaviour env s (WJobRequest peer data) = handle_assignment env peer data s"
| "worker_behaviour env s (WJobResponse peer data) = (s, [])"
| "worker_behaviour env s (WIdentifyReceived peer agent observed listen) =
     (let addr = (case listen of [] \<Rightarrow> we_bootstrap_addr env | a # _ \<Rightarrow> a);
          (s1, boot) = (if wk_bootstrap s = None then worker_bootstrap_identified peer addr s else (s, []));
          (s2, reg) = (if starts_with ''master/'' agent
                       then try_register_with_master env peer (s1\<lparr>wk_master := Some peer\<rparr>) else (s1, [])) in
      (s2, WAddExternalAddress observed # boot @ map (WAddKademliaAddress peer) listen @ reg))"
| "worker_behaviour env s _ = (s, [])"

fun worker_swarm_event :: "worker_env \<Rightarrow> worker_state \<Rightarrow> worker_p2p_event \<Rightarrow> worker_state \<times> worker_effect list" where
  "worker_swarm_event env s (WConnectionClosed peer) =
     (if wk_bootstrap s = Some peer
      then (s\<lparr>wk_bootstrap := None, wk_registered := False,
              wk_reconnect_at := we_now env + WORKER_RECONNECT_DELAY\<rparr>, [])
      else (s, []))"
| "worker_swarm_event env s (WExternalAddrConfirmed addr) = (s, do_register s)"
| "worker_swarm_event env s ev = worker_behaviour env s ev"

fun worker_step :: "worker_env \<Rightarrow> worker_state \<Rightarrow> worker_p2p_event \<Rightarrow> worker_state \<times> worker_effect list" where
  "worker_step env s WHeartbeatTick = (s, publish_heartbeat env)"
| "worker_step env s (WJobResult r) = (s, send_result env s r)"
| "worker_step env s WReregisterTimer =
     (s\<lparr>wk_reregister_at := we_now env + WORKER_RENDEZVOUS_TTL * 9 div 10\<rparr>, do_register s)"
| "worker_step env s WReconnectTimer =
     (s\<lparr>wk_reconnect_at := we_now env + WORKER_RECONNECT_DELAY\<rparr>, [WDialBootstrap (we_bootstrap_addr env)])"
| "worker_step env s WExecutorTook = (s\<lparr>wk_queue := tl (wk_queue s)\<rparr>, [])"
| "worker_step env s WExecutorGone = (s\<lparr>wk_queue := [], wk_queue_open := False\<rparr>, [])"
| "worker_step env s ev = worker_swarm_event env s ev"

text \<open>A run: the last state and all effects.\<close>

fun worker_run :: "worker_state \<Rightarrow> (worker_env \<times> worker_p2p_event) list \<Rightarrow> worker_state \<times> worker_effect list" where
  "worker_run s [] = (s, [])"
| "worker_run s ((env, ev) # evs) =
     (case worker_step env s ev of
        (s', effs) \<Rightarrow> (case worker_run s' evs of (s'', effs') \<Rightarrow> (s'', effs @ effs')))"

section \<open>Ports\<close>

fun port_after_transport :: "string list \<Rightarrow> u16 option" where
  "port_after_transport (p # q # rest) =
     (if p = ''tcp'' \<or> p = ''udp'' then
        (case parse_u16 q of Some n \<Rightarrow> Some n | None \<Rightarrow> port_after_transport (q # rest))
      else port_after_transport (q # rest))"
| "port_after_transport _ = None"

definition extract_port_from_multiaddr :: "string \<Rightarrow> u16 option" where
  "extract_port_from_multiaddr addr = port_after_transport (split_slash addr)"

text \<open>\<open>start.saturating_add(20)\<close>; the first port of the range that can be bound, or the end of it.\<close>

definition port_limit :: "nat \<Rightarrow> nat" where
  "port_limit start = min (start + 20) 65535"

definition find_free_port :: "(nat \<Rightarrow> bool) \<Rightarrow> nat \<Rightarrow> nat" where
  "find_free_port can_bind start =
     (case find can_bind [start..<port_limit start] of Some p \<Rightarrow> p | None \<Rightarrow> port_limit start)"

end
