(* ===== verification/Worker_Loop.thy ===== *)
theory Worker_Loop
  imports Worker_P2p Scheduler
begin

text \<open>
  What the event loop of a worker guarantees and what it does not: that it renews its registration in
  time, how often it registers with the master, whom it trusts, what its heartbeats say, and that it
  never stops to dial the bootstrap node once it has lost it.
\<close>

section \<open>Runs\<close>

locale worker_invariant =
  fixes inv :: "worker_state \<Rightarrow> bool"
    and good :: "worker_env \<times> worker_p2p_event \<Rightarrow> bool"
  assumes keeps_inv: "inv s \<Longrightarrow> good (env, ev) \<Longrightarrow> inv (fst (worker_step env s ev))"
begin

lemma run_keeps_inv: "inv s \<Longrightarrow> list_all good evs \<Longrightarrow> inv (fst (worker_run s evs))"
proof (induction evs arbitrary: s)
  case (Cons e evs)
  obtain env ev where e: "e = (env, ev)" by (cases e)
  obtain s' effs where s: "worker_step env s ev = (s', effs)" by (cases "worker_step env s ev")
  then have "inv s'" using keeps_inv [of s env ev] Cons.prems e by simp
  with Cons e s show ?case by (cases "worker_run s' evs") (auto dest: Cons.IH)
qed simp

end

section \<open>Reconnecting\<close>

text \<open>
  The steps after which the reconnection timer is due later than ten seconds from now: none, once
  it has been armed.
\<close>

lemma reconnect_due:
  assumes "wk_reconnect_at s \<le> t + WORKER_RECONNECT_DELAY" "we_now env \<le> t"
  shows "wk_reconnect_at (fst (worker_step env s ev)) \<le> t + WORKER_RECONNECT_DELAY"
  using assms
  by (cases ev) (auto simp: worker_bootstrap_identified_def try_register_with_master_def handle_assignment_def Let_def
      split: option.split sum.split)

interpretation reconnecting: worker_invariant
  "\<lambda>s. wk_reconnect_at s \<le> t + WORKER_RECONNECT_DELAY" "\<lambda>(env, ev). we_now env \<le> t" for t
  by standard (simp add: reconnect_due)

text \<open>
  Once a worker has lost its bootstrap node it never stops to dial it. Whatever happens later, a new
  connection and a new registration included, the reconnection timer is due within ten seconds, and
  whenever it fires the worker dials and arms it again.
\<close>

theorem reconnects_for_ever:
  assumes "wk_bootstrap s = Some b" "we_now env \<le> t" "list_all (\<lambda>(env, ev). we_now env \<le> t) evs"
  defines "s' \<equiv> fst (worker_run (fst (worker_step env s (WConnectionClosed b))) evs)"
  shows "wk_reconnect_at s' \<le> t + 10 \<and>
    (\<forall>env'. worker_step env' s' WReconnectTimer =
       (s'\<lparr>wk_reconnect_at := we_now env' + 10\<rparr>, [WDialBootstrap (we_bootstrap_addr env')]))"
proof -
  have "wk_reconnect_at (fst (worker_step env s (WConnectionClosed b))) \<le> t + WORKER_RECONNECT_DELAY"
    using assms(1,2) by simp
  from reconnecting.run_keeps_inv [OF this assms(3)] show ?thesis
    by (simp add: s'_def WORKER_RECONNECT_DELAY_def)
qed

section \<open>Renewing the registration\<close>

text \<open>
  Times at which a loop that does not lag handles its events: none comes more than \<open>lag\<close> seconds after
  the registration timer was due, and the timer does not fire early.
\<close>

fun timely :: "int \<Rightarrow> worker_state \<Rightarrow> (worker_env \<times> worker_p2p_event) list \<Rightarrow> bool" where
  "timely lag s [] = True"
| "timely lag s ((env, ev) # evs) =
     (we_now env \<le> wk_reregister_at s + lag \<and> (ev = WReregisterTimer \<longrightarrow> wk_reregister_at s \<le> we_now env) \<and>
      timely lag (fst (worker_step env s ev)) evs)"

fun confirms :: "worker_env \<times> worker_p2p_event \<Rightarrow> bool" where
  "confirms (env, WRegistered ttl) = True"
| "confirms _ = False"

text \<open>Only a confirmation and the timer itself move the timer; only a closed connection forgets the node.\<close>

lemma reregister_at_kept:
  assumes "\<not> confirms (env, ev)" "ev \<noteq> WReregisterTimer"
  shows "wk_reregister_at (fst (worker_step env s ev)) = wk_reregister_at s"
  using assms
  by (cases ev) (auto simp: worker_bootstrap_identified_def try_register_with_master_def handle_assignment_def Let_def
      split: option.split sum.split)

lemma bootstrap_kept:
  assumes "wk_bootstrap s = Some b" "ev \<noteq> WConnectionClosed b"
  shows "wk_bootstrap (fst (worker_step env s ev)) = Some b"
  using assms
  by (cases ev) (auto simp: worker_bootstrap_identified_def try_register_with_master_def handle_assignment_def Let_def
      split: option.split sum.split)

lemma timer_fires:
  assumes "wk_bootstrap s = Some b" "timely lag s evs" "\<forall>e\<in>set evs. \<not> confirms e \<and> snd e \<noteq> WConnectionClosed b"
    and "\<exists>e\<in>set evs. wk_reregister_at s + lag < we_now (fst e)"
  shows "\<exists>xs env ys. evs = xs @ (env, WReregisterTimer) # ys \<and> wk_reregister_at s \<le> we_now env \<and>
    we_now env \<le> wk_reregister_at s + lag \<and>
    snd (worker_step env (fst (worker_run s xs)) WReregisterTimer) = [WRegisterRendezvous b]"
  using assms
proof (induction evs arbitrary: s)
  case (Cons e evs)
  obtain env ev where e: "e = (env, ev)" by (cases e)
  obtain s' effs where s': "worker_step env s ev = (s', effs)" by (cases "worker_step env s ev")
  show ?case
  proof (cases "ev = WReregisterTimer")
    case True
    with Cons.prems e show ?thesis
      by (intro exI [of _ "[]"] exI [of _ env] exI [of _ evs]) (simp add: do_register_def)
  next
    case False
    have same: "wk_reregister_at s' = wk_reregister_at s" "wk_bootstrap s' = Some b"
      using reregister_at_kept [OF _ False, of env s] bootstrap_kept [OF Cons.prems(1), of ev env] Cons.prems(3) e s'
      by simp_all
    have "\<exists>e\<in>set evs. wk_reregister_at s' + lag < we_now (fst e)" "timely lag s' evs"
      using Cons.prems(2,4) e s' same(1) by auto
    with Cons.IH [OF same(2)] Cons.prems(3) obtain xs env' ys where
      "evs = xs @ (env', WReregisterTimer) # ys" "wk_reregister_at s \<le> we_now env'" "we_now env' \<le> wk_reregister_at s + lag"
      "snd (worker_step env' (fst (worker_run s' xs)) WReregisterTimer) = [WRegisterRendezvous b]"
      by (auto simp: same(1))
    with e s' show ?thesis
      by (intro exI [of _ "e # xs"] exI [of _ env'] exI [of _ ys]) (simp add: split_beta)
  qed
qed simp

lemma ninety_percent:
  assumes "uint (ttl :: u64) < 2 ^ 60" shows "uint (ttl * 9 div 10) = uint ttl * 9 div 10"
proof -
  have "uint (ttl * 9) = uint ttl * 9" using assms by (simp add: uint_word_ariths)
  then show ?thesis by (simp add: uint_div)
qed

text \<open>
  C26. A registration is renewed before it expires. Once the bootstrap node has confirmed a registration
  for \<open>ttl\<close> seconds, a worker that keeps its connection and whose loop lags by less than a tenth of that
  time asks for a new one before the time is over, at ninety percent of it or a little later: whatever
  it does otherwise, and until it is confirmed again. The product \<open>ttl * 9\<close> must fit 64 bits.
\<close>

theorem registration_renewed:
  fixes env :: worker_env
  assumes "wk_bootstrap s = Some b" "uint ttl < 2 ^ 60" "10 * lag < uint ttl"
  defines "s1 \<equiv> fst (worker_step env s (WRegistered ttl))"
  assumes "timely lag s1 evs" "\<forall>e\<in>set evs. \<not> confirms e \<and> snd e \<noteq> WConnectionClosed b"
    and "\<exists>e\<in>set evs. we_now env + uint ttl \<le> we_now (fst e)"
  shows "\<exists>xs env' ys. evs = xs @ (env', WReregisterTimer) # ys \<and>
    we_now env + uint ttl * 9 div 10 \<le> we_now env' \<and> we_now env' < we_now env + uint ttl \<and>
    snd (worker_step env' (fst (worker_run s1 xs)) WReregisterTimer) = [WRegisterRendezvous b]"
proof -
  have s1: "wk_bootstrap s1 = Some b" "wk_reregister_at s1 = we_now env + uint ttl * 9 div 10"
    using assms(1) ninety_percent [OF assms(2)] by (simp_all add: s1_def)
  have early: "uint ttl * 9 div 10 + lag < uint ttl" using assms(3) by linarith
  have "\<exists>e\<in>set evs. wk_reregister_at s1 + lag < we_now (fst e)" using assms(7) early s1(2) by force
  from timer_fires [OF s1(1) assms(5,6) this] early s1(2) show ?thesis by fastforce
qed

section \<open>Registering\<close>

fun registers :: "worker_effect \<Rightarrow> bool" where
  "registers (WSendRequest p (Some (PRegisterWorker r))) = True"
| "registers _ = False"

fun closes :: "worker_env \<times> worker_p2p_event \<Rightarrow> bool" where
  "closes (env, WConnectionClosed p) = True"
| "closes _ = False"

lemma registers_kademlia [simp]: "filter registers (map (WAddKademliaAddress p) as) = []"
  by (induction as) auto

text \<open>A step sends at most one registration; then the flag was off before and is on afterwards.\<close>

lemma registers_step:
  "length (filter registers (snd (worker_step env s ev))) + (if wk_registered s then 1 else 0) \<le>
   (if wk_registered (fst (worker_step env s ev)) then 1 else 0) + (if closes (env, ev) then 1 else 0)"
proof (cases "\<exists>p agent observed listen. ev = WIdentifyReceived p agent observed listen")
  case True
  then obtain p agent observed listen where ev: "ev = WIdentifyReceived p agent observed listen" by blast
  show ?thesis
    by (cases "wk_bootstrap s"; cases "we_token env"; cases "wk_registered s"; cases "starts_with ''master/'' agent")
      (simp_all add: ev worker_bootstrap_identified_def do_register_def try_register_with_master_def Let_def)
next
  case False
  then show ?thesis
    by (cases ev) (auto simp: publish_heartbeat_def send_result_def do_register_def handle_assignment_def dial_master_def
        Let_def split: option.split sum.split)
qed

text \<open>
  A worker registers at most once per connection to its bootstrap node: over any run there are at
  most as many registrations as connections that were closed, plus one. There is no other retry, so a
  registration that is refused or lost is only repeated after the connection has been closed.
\<close>

theorem registers_once_per_connection:
  "length (filter registers (snd (worker_run s evs))) \<le> 1 + length (filter closes evs)"
proof -
  have "length (filter registers (snd (worker_run s evs))) + (if wk_registered s then 1 else 0) \<le>
      1 + length (filter closes evs)"
  proof (induction evs arbitrary: s)
    case (Cons e evs)
    obtain env ev where e: "e = (env, ev)" by (cases e)
    obtain s' effs where s: "worker_step env s ev = (s', effs)" by (cases "worker_step env s ev")
    obtain s'' effs' where r: "worker_run s' evs = (s'', effs')" by (cases "worker_run s' evs")
    from registers_step [of env s ev] Cons.IH [of s'] show ?case
      by (simp add: e s r split: if_splits)
  qed simp
  then show ?thesis by simp
qed

section \<open>Trust\<close>

text \<open>
  A worker trusts any peer. A peer that calls its agent \<open>master/...\<close> is sent the token of the owner and
  becomes the master, who gets the results; and an assignment is accepted and queued for execution
  whoever sends it, master or not, as long as the queue has room.
\<close>

theorem worker_trusts_any_peer:
  assumes "starts_with ''master/'' agent" "we_token env = Some token" "\<not> wk_registered s"
    and "we_decode_assignment env data = Inr a" "wk_queue_open s" "length (wk_queue s) < 32"
  shows "WSendRequest p (Some (PRegisterWorker (registration env token))) \<in>
        set (snd (worker_step env s (WIdentifyReceived p agent observed listen))) \<and>
    rw_jwt (registration env token) = token \<and>
    (\<forall>env' r. snd (worker_step env' (fst (worker_step env s (WIdentifyReceived p agent observed listen))) (WJobResult r)) =
       [WSendRequest p (Some (PJobCompleted (completed_message r)))]) \<and>
    wk_queue (fst (worker_step env s (WJobRequest q data))) = wk_queue s @ [a] \<and>
    (\<exists>j. snd (worker_step env s (WJobRequest q data)) = [WRespondAck q \<lparr>jk_job_id = j, jk_accepted = True, jk_reason = []\<rparr>])"
proof -
  have 1: "WSendRequest p (Some (PRegisterWorker (registration env token))) \<in>
      set (snd (worker_step env s (WIdentifyReceived p agent observed listen))) \<and>
      wk_master (fst (worker_step env s (WIdentifyReceived p agent observed listen))) = Some p"
    using assms(1-3)
    by (cases "wk_bootstrap s")
      (simp_all add: worker_bootstrap_identified_def do_register_def try_register_with_master_def Let_def)
  have 2: "worker_step env s (WJobRequest q data) =
      (s\<lparr>wk_queue := wk_queue s @ [a]\<rparr>, [WRespondAck q \<lparr>jk_job_id = (case ja_spec a of None \<Rightarrow> [] | Some spec \<Rightarrow> js_job_id spec),
         jk_accepted = True, jk_reason = []\<rparr>])"
    using assms(4-6) by (simp add: handle_assignment_def job_queue_size_def)
  from 1 2 show ?thesis by (simp add: send_result_def registration_def)
qed

section \<open>Heartbeats and the scheduler\<close>

lemma rnd32_nonneg: "0 \<le> x \<Longrightarrow> 0 \<le> rnd32 x"
  using round_half_even_mono [of 0 "x / 2 powi quantum32 x"] round_half_even_int [of 0]
  by (auto simp: rnd32_def)

lemma uptime_percent_bounds: "0 \<le> secs \<Longrightarrow> 0 \<le> uptime_percent secs \<and> uptime_percent secs \<le> 100"
  by (simp add: uptime_percent_def rnd32_nonneg)

lemma fold_online: "(\<And>x s. sc_online (f x s) = sc_online s) \<Longrightarrow> sc_online (fold f xs s) = sc_online s"
  by (induction xs arbitrary: s) simp_all

lemma assign_online [simp]:
  "sc_online (assign_to env i p s) = sc_online s" "sc_online (try_assign_one env i req s) = sc_online s"
proof -
  show a: "sc_online (assign_to env i p s) = sc_online s" for p
    by (auto simp: assign_to_def split: prod.split sum.split)
  show "sc_online (try_assign_one env i req s) = sc_online s"
    by (simp add: try_assign_one_def a split: list.split)
qed

lemma loops_online [simp]:
  "sc_online (try_assign_pending env s) = sc_online s" "sc_online (retry_stale_pending env s) = sc_online s"
  "sc_online (handle_worker_offline env p s) = sc_online s"
proof -
  show "sc_online (try_assign_pending env s) = sc_online s"
    unfolding try_assign_pending_def
    by (rule fold_online) (auto simp: assign_pending_job_def drop_pending_def split: prod.split sum.split option.split)
  show "sc_online (retry_stale_pending env s) = sc_online s"
    unfolding retry_stale_pending_def
    by (rule fold_online) (auto simp: retry_job_def drop_pending_def split: prod.split sum.split option.split)
  have "sc_online (fold (fail_and_requeue env p) rows s) = sc_online s" for rows s
    by (rule fold_online) (auto simp: fail_and_requeue_def Let_def split: prod.split)
  then show "sc_online (handle_worker_offline env p s) = sc_online s"
    by (auto simp: handle_worker_offline_def split: prod.split sum.split)
qed

text \<open>The values of a heartbeat come from a worker.\<close>

fun from_workers :: "sched_event \<Rightarrow> bool" where
  "from_workers (WorkerHeartbeat p u b n) \<longleftrightarrow>
     (\<exists>env. u = hb_uptime (heartbeat env) \<and> b = hb_busy (heartbeat env) \<and> n = hb_jobs (heartbeat env))"
| "from_workers _ \<longleftrightarrow> True"

definition all_idle :: "sched \<Rightarrow> bool" where
  "all_idle s \<longleftrightarrow> (\<forall>w\<in>snd ` set (sc_online s). \<not> c_busy w \<and> c_jobs w = 0)"

lemma all_idle_insert:
  assumes "all_idle s" "\<not> c_busy w" "c_jobs w = 0"
  shows "all_idle (s\<lparr>sc_online := hm_insert p w (sc_online s)\<rparr>)"
proof -
  have "snd ` set (hm_insert p w m) \<subseteq> insert w (snd ` set m)" for m
    unfolding hm_insert_def by (induction m) auto
  moreover have "\<forall>x\<in>insert w (snd ` set (sc_online s)). \<not> c_busy x \<and> c_jobs x = 0"
    using assms unfolding all_idle_def by blast
  ultimately have "\<forall>x\<in>snd ` set (hm_insert p w (sc_online s)). \<not> c_busy x \<and> c_jobs x = 0" by blast
  then show ?thesis by (simp add: all_idle_def)
qed

lemma all_idle_cong: "sc_online t = sc_online s \<Longrightarrow> all_idle t = all_idle s"
  by (simp add: all_idle_def)

interpretation workers_idle: stepwise "sched_step env" from_workers all_idle for env
proof
  fix s e assume s: "all_idle s" and e: "from_workers e"
  show "all_idle (sched_step env s e)"
  proof (cases e)
    case (WorkerOnline p caps)
    with all_idle_insert [OF s] show ?thesis by (simp add: all_idle_cong [OF loops_online(1)])
  next
    case (WorkerHeartbeat p u b n)
    then have "\<not> b" "n = 0" using e by (auto simp: heartbeat_def)
    with all_idle_insert [OF s] WorkerHeartbeat show ?thesis
      by (auto simp: Let_def all_idle_cong [OF loops_online(1)] split: option.split)
  next
    case (WorkerOffline p)
    with s show ?thesis by (auto simp: all_idle_def hm_remove_def)
  qed (use s in \<open>simp_all add: all_idle_def\<close>)
qed

text \<open>
  No worker is ever busy. The heartbeats of a worker say that it is idle and has completed no job,
  whatever it does; so in every run of the scheduler all candidates
  are idle with no completed jobs, its filter for busy workers never rejects one, and the share of
  completed jobs is 0 in every score.
\<close>

theorem busy_filter_is_vacuous:
  assumes "sc_online s = []" "list_all from_workers es" "(p, w) \<in> set (sc_online (run_ops (sched_step env) s es))"
  shows "\<not> c_busy w \<and> c_jobs w = 0"
proof -
  have "all_idle s" using assms(1) by (simp add: all_idle_def)
  from workers_idle.inv_run [OF this assms(2)] assms(3) show ?thesis by (force simp: all_idle_def)
qed

section \<open>Witnesses\<close>

definition demo_worker_env :: worker_env where
  "demo_worker_env = \<lparr>we_now = 100, we_started = 0, we_local_peer = ''w1'', we_bootstrap_addr = ''/ip4/10.0.0.1/tcp/9000'',
     we_master_addr = None, we_token = Some ''tok'', we_caps = default_caps, we_connected = (\<lambda>_. False),
     we_parse_addr = Some, we_decode_assignment = (\<lambda>_. Inr (demo_assignment ''12345678''))\<rparr>"

lemma reconnects_for_ever_witness:
  "wk_reconnect_at (fst (worker_run (fst (worker_step demo_worker_env ((initial_worker 0)\<lparr>wk_bootstrap := Some ''b''\<rparr>)
     (WConnectionClosed ''b''))) [(demo_worker_env, WIdentifyReceived ''b'' ''boot'' ''a'' []),
       (demo_worker_env, WRegistered 7200)])) \<le> 100 + 10"
proof -
  have 1: "wk_bootstrap ((initial_worker 0)\<lparr>wk_bootstrap := Some ''b''\<rparr>) = Some ''b''" by simp
  have 2: "we_now demo_worker_env \<le> 100" by (simp add: demo_worker_env_def)
  then have 3: "list_all (\<lambda>(env, ev). we_now env \<le> 100)
      [(demo_worker_env, WIdentifyReceived ''b'' ''boot'' ''a'' []), (demo_worker_env, WRegistered 7200)]" by simp
  show ?thesis by (rule conjunct1 [OF reconnects_for_ever [OF 1 2 3]])
qed

lemma worker_trusts_any_peer_witness:
  "WSendRequest ''evil'' (Some (PRegisterWorker (registration demo_worker_env ''tok''))) \<in>
     set (snd (worker_step demo_worker_env (initial_worker 0) (WIdentifyReceived ''evil'' ''master/0'' ''a'' []))) \<and>
   wk_queue (fst (worker_step demo_worker_env (initial_worker 0) (WJobRequest ''evil2'' []))) =
     wk_queue (initial_worker 0) @ [demo_assignment ''12345678'']"
proof -
  have 1: "starts_with ''master/'' ''master/0''" by (simp add: starts_with_def)
  have 2: "we_token demo_worker_env = Some ''tok''" by (simp add: demo_worker_env_def)
  have 3: "we_decode_assignment demo_worker_env [] = Inr (demo_assignment ''12345678'')" by (simp add: demo_worker_env_def)
  have 4: "\<not> wk_registered (initial_worker 0)" "wk_queue_open (initial_worker 0)" "length (wk_queue (initial_worker 0)) < 32"
    by (simp_all add: initial_worker_def)
  show ?thesis
    using worker_trusts_any_peer [OF 1 2 4(1) 3 4(2,3), of "''evil''" "''a''" "[]" "''evil2''"] by blast
qed

lemma registration_renewed_witness:
  "\<exists>xs env' ys. [(demo_worker_env\<lparr>we_now := 6581\<rparr>, WReregisterTimer), (demo_worker_env\<lparr>we_now := 7300\<rparr>, WHeartbeatTick)] =
     xs @ (env', WReregisterTimer) # ys \<and> 6580 \<le> we_now env' \<and> we_now env' < 7300"
proof -
  let ?s = "(initial_worker 0)\<lparr>wk_bootstrap := Some ''b''\<rparr>"
  let ?evs = "[(demo_worker_env\<lparr>we_now := 6581\<rparr>, WReregisterTimer), (demo_worker_env\<lparr>we_now := 7300\<rparr>, WHeartbeatTick)]"
  have ttl: "uint (7200 * 9 div 10 :: u64) = 6480" by simp
  have "timely 10 (fst (worker_step demo_worker_env ?s (WRegistered 7200))) ?evs"
    by (simp add: ttl demo_worker_env_def WORKER_RENDEZVOUS_TTL_def)
  moreover have "\<exists>e\<in>set ?evs. we_now demo_worker_env + uint (7200 :: u64) \<le> we_now (fst e)"
    by (simp add: demo_worker_env_def)
  ultimately show ?thesis
    using registration_renewed [of ?s "''b''" 7200 10 demo_worker_env ?evs] by (simp add: demo_worker_env_def) blast
qed

definition demo_heartbeat :: sched_event where
  "demo_heartbeat = WorkerHeartbeat ''w1'' (hb_uptime (heartbeat demo_worker_env)) (hb_busy (heartbeat demo_worker_env))
     (hb_jobs (heartbeat demo_worker_env))"

lemma busy_filter_is_vacuous_witness:
  "\<forall>(p, w)\<in>set (sc_online (run_ops (sched_step demo_env) (demo_sched\<lparr>sc_online := []\<rparr>) [demo_heartbeat])). \<not> c_busy w"
proof -
  have "from_workers demo_heartbeat" unfolding demo_heartbeat_def from_workers.simps by blast
  then have "list_all from_workers [demo_heartbeat]" by simp
  moreover have "sc_online (demo_sched\<lparr>sc_online := []\<rparr>) = []" by simp
  ultimately show ?thesis using busy_filter_is_vacuous [of "demo_sched\<lparr>sc_online := []\<rparr>" "[demo_heartbeat]"] by blast
qed

end
