(* ===== verification/Settings.thy ===== *)
theory Settings
  imports Jobs_Api
begin

text \<open>
  The settings of the three nodes (\<open>common/config.rs\<close>) and their identity
  (\<open>common/keypair.rs\<close>). The config crate turns the environment into a source of typed fields and the
  multihash and key encodings belong to libp2p: both are arguments. A field of the source is absent,
  present, or of the wrong type.
\<close>

section \<open>Fields\<close>

type_synonym 'a field = "string + 'a option"

text \<open>
  \<open>load_config prefix\<close>: the error of building the source, and the fields by their names; the names are
  those of the structs, the variable of a field is \<open>PREFIX__NAME\<close>.
\<close>

record config_source =
  cs_build :: "string option"
  cs_text :: "string \<Rightarrow> string field"
  cs_u16 :: "string \<Rightarrow> u16 field"
  cs_u64 :: "string \<Rightarrow> u64 field"

definition with_field :: "'a field \<Rightarrow> ('a option \<Rightarrow> string + 'b) \<Rightarrow> string + 'b" where
  "with_field f k = (case f of Inl e \<Rightarrow> Inl e | Inr v \<Rightarrow> k v)"

definition with_default :: "'a \<Rightarrow> 'a field \<Rightarrow> ('a \<Rightarrow> string + 'b) \<Rightarrow> string + 'b" where
  "with_default d f k = with_field f (\<lambda>v. k (unwrap_or d v))"

definition load_config :: "config_source \<Rightarrow> (config_source \<Rightarrow> string + 'a) \<Rightarrow> string + 'a" where
  "load_config cs deserialize = (case cs_build cs of Some e \<Rightarrow> Inl e | None \<Rightarrow> deserialize cs)"

lemma with_field_simps [simp]:
  "with_field (Inl e) k = Inl e" "with_field (Inr v) k = k v"
  "with_default d (Inl e) k = Inl e" "with_default d (Inr None) k = k d" "with_default d (Inr (Some x)) k = k x"
  by (simp_all add: with_field_def with_default_def)

section \<open>The bootstrap node\<close>

record bootstrap_config =
  bc_tcp_addr :: string
  bc_quic_addr :: string
  bc_health_port :: u16
  bc_keypair_path :: "string option"

definition default_bootstrap_config :: bootstrap_config where
  "default_bootstrap_config =
     \<lparr>bc_tcp_addr = ''/ip4/0.0.0.0/tcp/9000'', bc_quic_addr = ''/ip4/0.0.0.0/udp/9000/quic-v1'',
      bc_health_port = 9001, bc_keypair_path = None\<rparr>"

definition bootstrap_config_of :: "config_source \<Rightarrow> string + bootstrap_config" where
  "bootstrap_config_of cs =
     with_default (bc_tcp_addr default_bootstrap_config) (cs_text cs ''tcp_addr'') (\<lambda>tcp.
     with_default (bc_quic_addr default_bootstrap_config) (cs_text cs ''quic_addr'') (\<lambda>quic.
     with_default (bc_health_port default_bootstrap_config) (cs_u16 cs ''health_port'') (\<lambda>port.
     with_field (cs_text cs ''keypair_path'') (\<lambda>path.
       Inr \<lparr>bc_tcp_addr = tcp, bc_quic_addr = quic, bc_health_port = port, bc_keypair_path = path\<rparr>))))"

text \<open>\<open>load_config("BOOTSTRAP").unwrap_or_default()\<close>, the settings the bootstrap node runs with.\<close>

definition bootstrap_settings :: "config_source \<Rightarrow> bootstrap_config" where
  "bootstrap_settings cs =
     (case load_config cs bootstrap_config_of of Inr c \<Rightarrow> c | Inl _ \<Rightarrow> default_bootstrap_config)"

section \<open>The master\<close>

record master_config =
  mc_bootstrap_addr :: string
  mc_p2p_tcp_addr :: string
  mc_p2p_quic_addr :: string
  mc_api_addr :: string
  mc_database_url :: string
  mc_jwt_secret :: string
  mc_jwt_expiry_secs :: u64
  mc_keypair_path :: "string option"
  mc_storage_path :: string
  mc_binaries_dir :: "string option"
  mc_public_ip :: string

definition default_jwt_secret :: string where
  "default_jwt_secret = ''CHANGE_ME_BEFORE_PRODUCTION_USE_32_BYTES''"

definition master_config_of :: "config_source \<Rightarrow> string + master_config" where
  "master_config_of cs =
     with_default ''/ip4/127.0.0.1/tcp/9000'' (cs_text cs ''bootstrap_addr'') (\<lambda>boot.
     with_default ''/ip4/0.0.0.0/tcp/9010'' (cs_text cs ''p2p_tcp_addr'') (\<lambda>tcp.
     with_default ''/ip4/0.0.0.0/udp/9010/quic-v1'' (cs_text cs ''p2p_quic_addr'') (\<lambda>quic.
     with_default ''0.0.0.0:8888'' (cs_text cs ''api_addr'') (\<lambda>api.
     with_default [] (cs_text cs ''database_url'') (\<lambda>url.
     with_default default_jwt_secret (cs_text cs ''jwt_secret'') (\<lambda>secret.
     with_default 86400 (cs_u64 cs ''jwt_expiry_secs'') (\<lambda>expiry.
     with_field (cs_text cs ''keypair_path'') (\<lambda>path.
     with_default ''/var/decentgpu/storage'' (cs_text cs ''storage_path'') (\<lambda>storage.
     with_field (cs_text cs ''binaries_dir'') (\<lambda>binaries.
     with_default ''127.0.0.1'' (cs_text cs ''public_ip'') (\<lambda>ip.
       Inr \<lparr>mc_bootstrap_addr = boot, mc_p2p_tcp_addr = tcp, mc_p2p_quic_addr = quic, mc_api_addr = api,
            mc_database_url = url, mc_jwt_secret = secret, mc_jwt_expiry_secs = expiry, mc_keypair_path = path,
            mc_storage_path = storage, mc_binaries_dir = binaries, mc_public_ip = ip\<rparr>)))))))))))"

section \<open>A worker\<close>

record worker_config =
  wc_bootstrap_addr :: string
  wc_p2p_tcp_addr :: string
  wc_p2p_quic_addr :: string
  wc_keypair_path :: "string option"
  wc_docker_socket :: string
  wc_tmp_dir :: string
  wc_user_id :: "string option"
  wc_heartbeat_interval_secs :: u64
  wc_master_addr :: "string option"

text \<open>The default of the socket is that of Linux and macOS.\<close>

definition worker_config_of :: "config_source \<Rightarrow> string + worker_config" where
  "worker_config_of cs =
     with_default ''/ip4/127.0.0.1/tcp/9000'' (cs_text cs ''bootstrap_addr'') (\<lambda>boot.
     with_default ''/ip4/0.0.0.0/tcp/9020'' (cs_text cs ''p2p_tcp_addr'') (\<lambda>tcp.
     with_default ''/ip4/0.0.0.0/udp/9020/quic-v1'' (cs_text cs ''p2p_quic_addr'') (\<lambda>quic.
     with_field (cs_text cs ''keypair_path'') (\<lambda>path.
     with_default ''/var/run/docker.sock'' (cs_text cs ''docker_socket'') (\<lambda>socket.
     with_default ''/tmp/decentgpu'' (cs_text cs ''tmp_dir'') (\<lambda>tmp.
     with_field (cs_text cs ''user_id'') (\<lambda>user.
     with_default 30 (cs_u64 cs ''heartbeat_interval_secs'') (\<lambda>beat.
     with_field (cs_text cs ''master_addr'') (\<lambda>master.
       Inr \<lparr>wc_bootstrap_addr = boot, wc_p2p_tcp_addr = tcp, wc_p2p_quic_addr = quic, wc_keypair_path = path,
            wc_docker_socket = socket, wc_tmp_dir = tmp, wc_user_id = user, wc_heartbeat_interval_secs = beat,
            wc_master_addr = master\<rparr>)))))))))"

section \<open>Identities\<close>

text \<open>
  \<open>'k\<close> is the type of key pairs. The environment: the errors of reading a file, the codec, the working
  directory, and the operating system. The files are keyed by resolved paths.
\<close>

record 'k key_env =
  ke_io :: io
  ke_read_fails :: "string list \<Rightarrow> string option"
  ke_decode :: "bytes \<Rightarrow> string + 'k"
  ke_encode :: "'k \<Rightarrow> string + bytes"
  ke_cwd :: "string list"
  ke_var :: "string \<Rightarrow> string option"

definition keypair_path_from_env :: "'k key_env \<Rightarrow> string \<Rightarrow> string \<Rightarrow> string" where
  "keypair_path_from_env env var dflt =
     (case ke_var env var of Some v \<Rightarrow> if v \<noteq> [] then v else dflt | None \<Rightarrow> dflt)"

text \<open>
  \<open>Path::components\<close> without the root: empty segments and dots are dropped, but not a leading dot.
  \<open>path_parent\<close> is the resolved parent, \<open>None\<close> where the source has no parent or an empty one.
\<close>

definition path_components :: "string \<Rightarrow> string list" where
  "path_components p =
     (case split_slash p of
        [] \<Rightarrow> []
      | s # ss \<Rightarrow> (if s = [] then [] else [s]) @ filter (\<lambda>s. s \<noteq> [] \<and> s \<noteq> ''.'') ss)"

definition path_parent :: "string list \<Rightarrow> string \<Rightarrow> string list option" where
  "path_parent cwd p =
     (let cs = path_components p; rooted = (take 1 p = ''/'') in
      if cs = [] \<or> \<not> rooted \<and> length cs = 1 then None
      else Some (resolve_from (if rooted then [] else cwd) (butlast cs)))"

definition path_exists :: "files \<Rightarrow> string list \<Rightarrow> bool" where
  "path_exists fl p = list_ex (\<lambda>f. under p (fst f)) fl"

text \<open>\<open>fresh\<close> is the key pair that would be generated.\<close>

definition load_keypair :: "'k key_env \<Rightarrow> string \<Rightarrow> files \<Rightarrow> string + 'k" where
  "load_keypair env p fl =
     (let f = path_join (ke_cwd env) p in
      case (ke_read_fails env f, map_of fl f) of
        (None, Some b) \<Rightarrow>
          (case ke_decode env b of
             Inl e \<Rightarrow> Inl (''decode keypair '' @ p @ '': '' @ e)
           | Inr kp \<Rightarrow> Inr kp)
      | (e, _) \<Rightarrow> Inl (''read keypair '' @ p @ '': '' @ unwrap_or [] e))"

definition store_keypair :: "'k key_env \<Rightarrow> string \<Rightarrow> 'k \<Rightarrow> files \<Rightarrow> (string + 'k) \<times> files" where
  "store_keypair env p kp fl =
     (case ke_encode env kp of
        Inl e \<Rightarrow> (Inl (''encode keypair: '' @ e), fl)
      | Inr b \<Rightarrow>
          (let f = path_join (ke_cwd env) p in
           case io_write (ke_io env) f of
             None \<Rightarrow> (Inr kp, hm_insert f b fl)
           | Some (e, left) \<Rightarrow>
               (Inl (''write keypair '' @ p @ '': '' @ e), case left of None \<Rightarrow> fl | Some c \<Rightarrow> hm_insert f c fl)))"

definition load_or_generate :: "'k key_env \<Rightarrow> string \<Rightarrow> 'k \<Rightarrow> files \<Rightarrow> (string + 'k) \<times> files" where
  "load_or_generate env p fresh fl =
     (if path_exists fl (path_join (ke_cwd env) p) then (load_keypair env p fl, fl)
      else
        (case Option.bind (path_parent (ke_cwd env) p) (io_mkdir (ke_io env)) of
           Some e \<Rightarrow> (Inl (''create keypair dir '' @ e), fl)
         | None \<Rightarrow> store_keypair env p fresh fl))"

section \<open>Facts\<close>

lemma path_exists_insert [simp]: "path_exists (hm_insert p b fl) p"
  by (induction fl) (auto simp: path_exists_def hm_insert_def under_def)

lemma path_exists_file: "map_of fl p = Some b \<Longrightarrow> path_exists fl p"
  by (auto simp: path_exists_def under_def list_ex_iff dest!: map_of_SomeD intro!: bexI [of _ "(p, b)"])

text \<open>
  C32. An identity is permanent. The first start of a node at a path generates a key pair and keeps it;
  every later start, whatever key it could generate and whatever else happened to the files in
  between, loads the same key pair and changes nothing, as long as that file is left alone.
\<close>

theorem identity_is_stable:
  assumes "\<not> path_exists fl (path_join (ke_cwd env) p)"
    and "\<forall>q. io_mkdir (ke_io env) q = None" "io_write (ke_io env) (path_join (ke_cwd env) p) = None"
    and "ke_read_fails env (path_join (ke_cwd env) p) = None"
    and "ke_encode env k = Inr b" "ke_decode env b = Inr k"
  shows "\<exists>fl'. load_or_generate env p k fl = (Inr k, fl') \<and>
    map_of fl' = (map_of fl)(path_join (ke_cwd env) p \<mapsto> b) \<and>
    (\<forall>k2 fl2. map_of fl2 (path_join (ke_cwd env) p) = map_of fl' (path_join (ke_cwd env) p) \<longrightarrow>
       load_or_generate env p k2 fl2 = (Inr k, fl2))"
proof (intro exI conjI allI impI)
  let ?f = "path_join (ke_cwd env) p" and ?fl = "hm_insert (path_join (ke_cwd env) p) b fl"
  have "Option.bind (path_parent (ke_cwd env) p) (io_mkdir (ke_io env)) = None"
    using assms(2) by (cases "path_parent (ke_cwd env) p") simp_all
  with assms show "load_or_generate env p k fl = (Inr k, ?fl)"
    by (simp add: load_or_generate_def store_keypair_def)
  show f: "map_of ?fl = (map_of fl)(?f \<mapsto> b)" by (simp add: hm_insert_def update_conv')
  fix k2 fl2 assume "map_of fl2 ?f = map_of ?fl ?f"
  then have "map_of fl2 ?f = Some b" by (simp add: f)
  with assms(4,6) show "load_or_generate env p k2 fl2 = (Inr k, fl2)"
    by (simp add: load_or_generate_def load_keypair_def path_exists_file)
qed

text \<open>
  A start that fails while it writes the file may leave a torn one; then no later start succeeds until
  somebody deletes it.
\<close>

theorem torn_keypair_sticks:
  assumes "\<not> path_exists fl (path_join (ke_cwd env) p)" "\<forall>q. io_mkdir (ke_io env) q = None" "ke_encode env k = Inr b"
    and "io_write (ke_io env) (path_join (ke_cwd env) p) = Some (e, Some torn)" "ke_decode env torn = Inl e'"
  shows "\<exists>fl'. (\<exists>m. load_or_generate env p k fl = (Inl m, fl')) \<and>
    (\<forall>k2. \<exists>m. load_or_generate env p k2 fl' = (Inl m, fl'))"
proof (intro exI conjI)
  let ?f = "path_join (ke_cwd env) p"
  have "Option.bind (path_parent (ke_cwd env) p) (io_mkdir (ke_io env)) = None"
    using assms(2) by (cases "path_parent (ke_cwd env) p") simp_all
  with assms show "load_or_generate env p k fl = (Inl (''write keypair '' @ p @ '': '' @ e), hm_insert ?f torn fl)"
    by (simp add: load_or_generate_def store_keypair_def)
  have "map_of (hm_insert ?f torn fl) ?f = Some torn" by (simp add: hm_insert_def update_conv')
  with assms(5) show "\<forall>k2. \<exists>m. load_or_generate env p k2 (hm_insert ?f torn fl) = (Inl m, hm_insert ?f torn fl)"
    by (auto simp: load_or_generate_def load_keypair_def Let_def split: option.split)
qed

text \<open>
  A health port that is not a port makes the bootstrap node forget all of its settings, the listen
  addresses included: it falls back to the defaults as a whole.
\<close>

theorem bad_port_drops_settings:
  assumes "cs_u16 cs ''health_port'' = Inl e"
  shows "bootstrap_settings cs = default_bootstrap_config"
proof -
  have "\<exists>m. bootstrap_config_of cs = Inl m"
    using assms by (auto simp: bootstrap_config_of_def with_default_def with_field_def split: sum.split)
  then show ?thesis by (auto simp: bootstrap_settings_def load_config_def split: option.split sum.split)
qed

section \<open>Witnesses\<close>

definition demo_keys :: "nat key_env" where
  "demo_keys = \<lparr>ke_io = \<lparr>io_mkdir = \<lambda>_. None, io_write = \<lambda>_. None\<rparr>, ke_read_fails = \<lambda>_. None,
     ke_decode = (\<lambda>b. if b = [] then Inl ''empty'' else Inr (length b)), ke_encode = (\<lambda>k. Inr (replicate k 0)),
     ke_cwd = [''srv''], ke_var = (\<lambda>_. None)\<rparr>"

lemma identity_is_stable_witness:
  "\<exists>fl'. load_or_generate demo_keys ''./master.keypair'' 3 [] = (Inr 3, fl') \<and>
     load_or_generate demo_keys ''./master.keypair'' 4 fl' = (Inr 3, fl')"
proof -
  have "\<not> path_exists [] (path_join (ke_cwd demo_keys) ''./master.keypair'')" by (simp add: path_exists_def)
  moreover have "\<forall>q. io_mkdir (ke_io demo_keys) q = None"
    "io_write (ke_io demo_keys) (path_join (ke_cwd demo_keys) ''./master.keypair'') = None"
    "ke_read_fails demo_keys (path_join (ke_cwd demo_keys) ''./master.keypair'') = None"
    "ke_encode demo_keys 3 = Inr [0, 0, 0]" "ke_decode demo_keys [0, 0, 0] = Inr 3"
    by (simp_all add: demo_keys_def numeral_3_eq_3)
  ultimately show ?thesis using identity_is_stable [of "[]" demo_keys "''./master.keypair''" 3 "[0, 0, 0]"] by blast
qed

end
