(* ===== verification/Startup.thy ===== *)
theory Startup
  imports Worker_P2p Completion Accounts Settings
begin

text \<open>
  How master and worker start: \<open>start\<close> of \<open>worker/p2p/mod.rs\<close>, \<open>start_with_auth\<close> of
  \<open>master/p2p/mod.rs\<close>, and the \<open>main\<close> function of the master. A start either fails with a
  message or gives the settings the event loops run with and the effects it had on libp2p. The
  library (addresses, listeners, dialling) and the operating system are the environment.
\<close>

section \<open>The environment\<close>

record 'k node_env =
  no_keys :: "'k key_env"
  no_fresh :: 'k
  no_remove_ok :: bool
  no_swarm :: "string option"
  no_parse :: "string \<Rightarrow> string option"
  no_tcp_port :: "string \<Rightarrow> u16 option"
  no_listen :: "string \<Rightarrow> string option"
  no_dial :: "string \<Rightarrow> string option"
  no_can_bind :: "nat \<Rightarrow> bool"

datatype node_effect = ListenOn string | AddExternal string | DialOut string

definition no_var :: "'k node_env \<Rightarrow> string \<Rightarrow> string option" where
  "no_var env = ke_var (no_keys env)"

text \<open>\<open>text.parse().context(what)\<close>, and a listener or a dial whose failure ends the start.\<close>

definition parse_addr :: "'k node_env \<Rightarrow> string \<Rightarrow> string \<Rightarrow> string + string" where
  "parse_addr env what text = ok_or what (no_parse env text)"

definition must :: "string \<Rightarrow> string option \<Rightarrow> string + unit" where
  "must what failed = (case failed of None \<Rightarrow> Inr () | Some e \<Rightarrow> Inl (what @ '': '' @ e))"

definition bind_start :: "string + 'a \<Rightarrow> ('a \<Rightarrow> string + 'b) \<Rightarrow> string + 'b" where
  "bind_start r k = (case r of Inl e \<Rightarrow> Inl e | Inr x \<Rightarrow> k x)"

text \<open>A listener that may fail.\<close>

definition try_listen :: "'k node_env \<Rightarrow> string \<Rightarrow> node_effect list" where
  "try_listen env addr = (if no_listen env addr = None then [ListenOn addr] else [])"

definition port_or :: "u16 \<Rightarrow> string option \<Rightarrow> nat" where
  "port_or d text = unat (unwrap_or d (Option.bind text parse_u16))"

section \<open>A worker\<close>

record 'k worker_node =
  wn_identity :: 'k
  wn_token :: "string option"
  wn_tcp_port :: nat
  wn_quic_port :: nat
  wn_bootstrap_addr :: string
  wn_master_addr :: "string option"
  wn_effects :: "node_effect list"
  wn_state :: worker_state

definition worker_keypair_path :: "'k node_env \<Rightarrow> string" where
  "worker_keypair_path env = keypair_path_from_env (no_keys env) ''WORKER_KEYPAIR_PATH'' ''./worker.keypair''"

text \<open>\<open>WORKER_RESET_IDENTITY=true\<close> deletes the file of the key pair first.\<close>

definition reset_identity :: "'k node_env \<Rightarrow> files \<Rightarrow> files" where
  "reset_identity env fl =
     (if no_var env ''WORKER_RESET_IDENTITY'' = Some ''true'' \<and> no_remove_ok env
      then hm_remove (path_join (ke_cwd (no_keys env)) (worker_keypair_path env)) fl else fl)"

text \<open>\<open>tcp_port + 1\<close> is a 16 bit addition: it wraps in the release profile.\<close>

definition worker_ports :: "'k node_env \<Rightarrow> worker_config \<Rightarrow> nat \<times> nat" where
  "worker_ports env cfg =
     (let preferred_tcp = unat (unwrap_or 9020 (extract_port_from_multiaddr (wc_p2p_tcp_addr cfg)));
          preferred_quic = unat (unwrap_or 9020 (extract_port_from_multiaddr (wc_p2p_quic_addr cfg)));
          tcp = find_free_port (no_can_bind env) preferred_tcp in
      (tcp, find_free_port (no_can_bind env) (max preferred_quic ((tcp + 1) mod 2 ^ 16))))"

definition worker_start_addr :: "'k node_env \<Rightarrow> worker_config \<Rightarrow> string" where
  "worker_start_addr env cfg =
     unwrap_or (wc_bootstrap_addr cfg) (or_else (no_var env ''WORKER_BOOTSTRAP_ADDR'') (no_var env ''WORKER__BOOTSTRAP_ADDR''))"

definition worker_network :: "'k node_env \<Rightarrow> worker_config \<Rightarrow> int \<Rightarrow> 'k \<Rightarrow> string + 'k worker_node" where
  "worker_network env cfg now kp =
     bind_start (must ''swarm'' (no_swarm env)) (\<lambda>_.
     let (tcp, quic) = worker_ports env cfg in
     bind_start (parse_addr env ''p2p_tcp_addr'' (''/ip4/0.0.0.0/tcp/'' @ show_nat tcp)) (\<lambda>tcp_addr.
     bind_start (parse_addr env ''p2p_quic_addr'' (''/ip4/0.0.0.0/udp/'' @ show_nat quic @ ''/quic-v1'')) (\<lambda>quic_addr.
     bind_start (must ''listen TCP'' (no_listen env tcp_addr)) (\<lambda>_.
     bind_start (parse_addr env ''external_addr'' (''/ip4/127.0.0.1/tcp/'' @ show_nat tcp)) (\<lambda>external.
     bind_start (parse_addr env ''bootstrap_addr'' (worker_start_addr env cfg)) (\<lambda>boot.
     bind_start (must ''dial bootstrap'' (no_dial env boot)) (\<lambda>_.
       Inr \<lparr>wn_identity = kp, wn_token = no_var env ''WORKER_AUTH_TOKEN'', wn_tcp_port = tcp, wn_quic_port = quic,
            wn_bootstrap_addr = boot, wn_master_addr = or_else (no_var env ''WORKER_MASTER_ADDR'') (wc_master_addr cfg),
            wn_effects = [ListenOn tcp_addr] @ try_listen env quic_addr @ [AddExternal external, DialOut boot],
            wn_state = initial_worker now\<rparr>)))))))"

definition worker_start ::
  "'k node_env \<Rightarrow> worker_config \<Rightarrow> int \<Rightarrow> files \<Rightarrow> (string + 'k worker_node) \<times> files" where
  "worker_start env cfg now fl =
     (case load_or_generate (no_keys env) (worker_keypair_path env) (no_fresh env) (reset_identity env fl) of
        (r, fl') \<Rightarrow> (bind_start r (worker_network env cfg now), fl'))"

section \<open>The P2P layer of the master\<close>

record 'k master_node =
  mn_identity :: 'k
  mn_bootstrap_addr :: string
  mn_effects :: "node_effect list"
  mn_state :: master_state

definition master_network :: "'k node_env \<Rightarrow> master_config \<Rightarrow> int \<Rightarrow> 'k \<Rightarrow> string + 'k master_node" where
  "master_network env cfg now kp =
     bind_start (must ''swarm'' (no_swarm env)) (\<lambda>_.
     bind_start (parse_addr env ''p2p_tcp_addr'' (mc_p2p_tcp_addr cfg)) (\<lambda>tcp_addr.
     bind_start (parse_addr env ''p2p_quic_addr'' (mc_p2p_quic_addr cfg)) (\<lambda>quic_addr.
     let tcp_port = unat (unwrap_or 9010 (no_tcp_port env tcp_addr));
         ws_port = port_or 9012 (no_var env ''MASTER_WS_PORT'') in
     bind_start (must ''listen TCP'' (no_listen env tcp_addr)) (\<lambda>_.
     bind_start (parse_addr env ''invalid master ws_addr'' (''/ip4/0.0.0.0/tcp/'' @ show_nat ws_port @ ''/ws'')) (\<lambda>ws_addr.
     bind_start (parse_addr env ''master external_addr'' (''/ip4/127.0.0.1/tcp/'' @ show_nat tcp_port)) (\<lambda>external.
     bind_start (parse_addr env ''bootstrap_addr'' (unwrap_or (mc_bootstrap_addr cfg) (no_var env ''MASTER_BOOTSTRAP_ADDR''))) (\<lambda>boot.
     bind_start (must ''dial bootstrap'' (no_dial env boot)) (\<lambda>_.
       Inr \<lparr>mn_identity = kp, mn_bootstrap_addr = boot,
            mn_effects = [ListenOn tcp_addr] @ try_listen env quic_addr @ try_listen env ws_addr @
              [AddExternal external, DialOut boot],
            mn_state = initial_master now\<rparr>))))))))"

definition start_with_auth ::
  "'k node_env \<Rightarrow> master_config \<Rightarrow> int \<Rightarrow> files \<Rightarrow> (string + 'k master_node) \<times> files" where
  "start_with_auth env cfg now fl =
     (case load_or_generate (no_keys env) (keypair_path_from_env (no_keys env) ''MASTER_KEYPAIR_PATH'' ''./master.keypair'')
             (no_fresh env) fl of
        (r, fl') \<Rightarrow> (bind_start r (master_network env cfg now), fl'))"

section \<open>The master\<close>

definition database_url :: "'k node_env \<Rightarrow> master_config \<Rightarrow> string" where
  "database_url env cfg =
     (if mc_database_url cfg = []
      then unwrap_or [] (or_else (no_var env ''DATABASE_URL'') (no_var env ''MASTER_DATABASE_URL''))
      else mc_database_url cfg)"

text \<open>
  Connecting and the migrations belong to sqlx; the tables of the model are those of the migrations.
\<close>

record db_env =
  dn_connect :: "string \<Rightarrow> string option"
  dn_migrate :: "string option"
  dn_auth :: auth_env
  dn_new_id :: uuid
  dn_now :: timestamp

definition prepare_database :: "'k node_env \<Rightarrow> db_env \<Rightarrow> string \<Rightarrow> (string, unit) act" where
  "prepare_database env dn url =
     (case (dn_connect dn url, dn_migrate dn) of
        (Some e, _) \<Rightarrow> throw_db (''failed to connect to PostgreSQL: '' @ e)
      | (None, Some e) \<Rightarrow> throw_db (''failed to run database migrations: '' @ e)
      | (None, None) \<Rightarrow>
          bind_db (map_err_db (\<lambda>e. ''mark_all_offline: '' @ decent_display e) workers_mark_all_offline) (\<lambda>_.
          case (no_var env ''ADMIN_EMAIL'', no_var env ''ADMIN_PASSWORD'') of
            (Some email, Some password) \<Rightarrow>
              bind_db (attempt (bootstrap_admin (dn_auth dn) (dn_new_id dn) (dn_now dn) email password)) (\<lambda>_. return_db ())
          | _ \<Rightarrow> return_db ()))"

text \<open>What the master serves: the API with its state, or status 503 for every request.\<close>

record api_settings =
  as_jwt_secret :: string
  as_jwt_expiry_secs :: u64
  as_storage_path :: string
  as_binaries_dir :: string
  as_public_ip :: string
  as_bootstrap_addr :: string
  as_p2p_tcp_addr :: string
  as_api_addr :: string

definition app_state :: "master_config \<Rightarrow> api_settings" where
  "app_state cfg =
     \<lparr>as_jwt_secret = mc_jwt_secret cfg, as_jwt_expiry_secs = mc_jwt_expiry_secs cfg, as_storage_path = mc_storage_path cfg,
      as_binaries_dir = unwrap_or (mc_storage_path cfg @ ''/binaries'') (mc_binaries_dir cfg),
      as_public_ip = mc_public_ip cfg, as_bootstrap_addr = mc_bootstrap_addr cfg, as_p2p_tcp_addr = mc_p2p_tcp_addr cfg,
      as_api_addr = mc_api_addr cfg\<rparr>"

datatype api_mode = FullApi api_settings | StubApi string

text \<open>The master up to the point where it serves requests; the files hold its key pair.\<close>

definition master_main ::
  "'k node_env \<Rightarrow> db_env \<Rightarrow> config_source \<Rightarrow> int \<Rightarrow> db \<Rightarrow> fault list \<Rightarrow> files \<Rightarrow>
   (string + 'k master_node \<times> api_mode) \<times> db \<times> fault list \<times> files" where
  "master_main env dn cs now d fs fl =
     (case load_config cs master_config_of of
        Inl e \<Rightarrow> (Inl e, d, fs, fl)
      | Inr cfg \<Rightarrow>
          (let url = database_url env cfg;
               (r, d', fs') = (if url = [] then return_db () else prepare_database env dn url) d fs in
           case r of
             Inl e \<Rightarrow> (Inl e, d', fs', fl)
           | Inr _ \<Rightarrow>
               (case start_with_auth env cfg now fl of
                  (node, fl') \<Rightarrow>
                    (bind_start node (\<lambda>n. Inr (n, if url = [] then StubApi (mc_api_addr cfg) else FullApi (app_state cfg))),
                     d', fs', fl'))))"

section \<open>Worker events\<close>

text \<open>Every event of the P2P layer goes to the scheduler and, as a copy, to the updater.\<close>

fun clone_worker_event :: "worker_event \<Rightarrow> worker_event" where
  "clone_worker_event (EvOnline p c) = EvOnline p c"
| "clone_worker_event (EvOffline p) = EvOffline p"
| "clone_worker_event (EvHeartbeat p u b n) = EvHeartbeat p u b n"

fun fan_out :: "worker_event list \<Rightarrow> worker_event list \<times> worker_event list" where
  "fan_out [] = ([], [])"
| "fan_out (ev # evs) = (case fan_out evs of (sched, updates) \<Rightarrow> (ev # sched, clone_worker_event ev # updates))"

lemma clone_worker_event_id [simp]: "clone_worker_event ev = ev"
  by (cases ev) simp_all

lemma fan_out_both: "fan_out evs = (evs, evs)"
  by (induction evs) simp_all

section \<open>The database at start-up\<close>

lemma bootstrap_admin_exists:
  assumes "email \<in> u_email ` set (users d)"
  shows "bootstrap_admin env i now email pw d [] = (Inr (), d, [])"
proof -
  obtain u where "find (\<lambda>u. u_email u = email) (users d) = Some u"
    using assms by (cases "find (\<lambda>u. u_email u = email) (users d)") (auto simp: find_None_iff)
  then show ?thesis
    by (simp add: bootstrap_admin_def bind_db_def attempt_def users_find_by_email_def stmt_nil select_sql_def run_sql_def
        return_db_def)
qed

text \<open>A balance of zero for the user, unless there already is one.\<close>

definition with_balance :: "uuid \<Rightarrow> balance_row list \<Rightarrow> balance_row list" where
  "with_balance i bs = (if i \<in> b_user ` set bs then bs else bs @ [zero_balance i])"

lemma bootstrap_admin_new:
  assumes "email \<notin> u_email ` set (users d)" "i \<notin> u_id ` set (users d)" "en_hash env pw = Inr h"
  shows "bootstrap_admin env i now email pw d [] =
    (Inr (), d\<lparr>users := users d @ [new_user i now email h ''admin''], balances := with_balance i (balances d)\<rparr>, [])"
proof -
  let ?u = "new_user i now email h ''admin''" let ?d = "d\<lparr>users := users d @ [?u]\<rparr>"
  have none: "find (\<lambda>u. u_email u = email) (users d) = None"
    using assms(1) by (auto simp: find_None_iff)
  have create: "users_create i now email h ''admin'' d [] = (Inr ?u, ?d, [])"
    using assms by (simp add: users_create_fresh roles_def)
  have init: "ledger_initialize i ?d [] = (Inr (), ?d\<lparr>balances := with_balance i (balances d)\<rparr>, [])"
  proof (cases "i \<in> b_user ` set (balances d)")
    case True
    then show ?thesis by (simp add: ledger_initialize_def stmt_nil run_sql_def with_balance_def)
  next
    case False
    then show ?thesis by (simp add: ledger_initialize_new new_user_def with_balance_def)
  qed
  have "u_id ?u = i" by (simp add: new_user_def)
  with none create init show ?thesis
    by (auto simp: bootstrap_admin_def bind_db_def attempt_def users_find_by_email_def stmt_nil select_sql_def run_sql_def
        return_db_def assms(3))
qed

lemma prepare_database_run:
  assumes "dn_connect dn url = None" "dn_migrate dn = None" "no_var env ''ADMIN_EMAIL'' = Some email"
    "no_var env ''ADMIN_PASSWORD'' = Some pw"
    and "bootstrap_admin (dn_auth dn) (dn_new_id dn) (dn_now dn) email pw
           (d\<lparr>workers := map (\<lambda>w. w\<lparr>w_online := False\<rparr>) (workers d)\<rparr>) [] = (Inr (), d', [])"
  shows "prepare_database env dn url d [] = (Inr (), d', [])"
  using assms
  by (simp add: prepare_database_def workers_mark_all_offline_def bind_db_def map_err_db_def stmt_nil run_sql_def
      attempt_def return_db_def)

text \<open>
  C27. The start of the master readies the database and can be repeated. Without faults it changes
  exactly this: every worker is offline, and if nobody has the e-mail of the environment, a user with
  it and the role admin is added, with a balance of zero unless one with his id is there. If somebody
  has the e-mail, whatever his role, no user and no balance changes: then there may be no
  administrator at all. A second start changes nothing.
\<close>

theorem master_start_ready:
  assumes "dn_connect dn url = None" "dn_migrate dn = None" "no_var env ''ADMIN_EMAIL'' = Some email"
    "no_var env ''ADMIN_PASSWORD'' = Some pw" "en_hash (dn_auth dn) pw = Inr h" "dn_new_id dn \<notin> u_id ` set (users d)"
  defines "offline \<equiv> d\<lparr>workers := map (\<lambda>w. w\<lparr>w_online := False\<rparr>) (workers d)\<rparr>"
  defines "d' \<equiv> if email \<in> u_email ` set (users d) then offline
    else offline\<lparr>users := users d @ [new_user (dn_new_id dn) (dn_now dn) email h ''admin''],
      balances := (if dn_new_id dn \<in> b_user ` set (balances d) then balances d
        else balances d @ [\<lparr>b_user = dn_new_id dn, cu_balance = 0, cu_reserved = 0\<rparr>])\<rparr>"
  shows "prepare_database env dn url d [] = (Inr (), d', []) \<and>
    (\<forall>dn2. dn_connect dn2 url = None \<and> dn_migrate dn2 = None \<longrightarrow>
       prepare_database env dn2 url d' [] = (Inr (), d', []))"
proof -
  have balances: "(if dn_new_id dn \<in> b_user ` set (balances d) then balances d
      else balances d @ [\<lparr>b_user = dn_new_id dn, cu_balance = 0, cu_reserved = 0\<rparr>]) = with_balance (dn_new_id dn) (balances d)"
    by (simp add: with_balance_def zero_balance_def)
  have first: "prepare_database env dn url d [] = (Inr (), d', [])"
  proof (rule prepare_database_run [OF assms(1-4)])
    show "bootstrap_admin (dn_auth dn) (dn_new_id dn) (dn_now dn) email pw
        (d\<lparr>workers := map (\<lambda>w. w\<lparr>w_online := False\<rparr>) (workers d)\<rparr>) [] = (Inr (), d', [])"
      using bootstrap_admin_exists [of email offline] bootstrap_admin_new [of email offline "dn_new_id dn"] assms(5,6)
      unfolding d'_def balances by (simp add: offline_def)
  qed
  have "email \<in> u_email ` set (users d')" "d'\<lparr>workers := map (\<lambda>w. w\<lparr>w_online := False\<rparr>) (workers d')\<rparr> = d'"
    by (auto simp: d'_def offline_def new_user_def comp_def)
  then have "prepare_database env dn2 url d' [] = (Inr (), d', [])" if "dn_connect dn2 url = None" "dn_migrate dn2 = None" for dn2
    using prepare_database_run [OF that assms(3,4), of d'] bootstrap_admin_exists [of email d'] by simp
  with first show ?thesis by blast
qed

section \<open>Ports\<close>

lemma find_free_port_bounds:
  assumes "start \<le> 65535" shows "start \<le> find_free_port bind start \<and> find_free_port bind start \<le> port_limit start"
    and "find_free_port bind start \<noteq> port_limit start \<Longrightarrow> bind (find_free_port bind start)"
proof -
  have "start \<le> port_limit start" using assms by (simp add: port_limit_def)
  then show "start \<le> find_free_port bind start \<and> find_free_port bind start \<le> port_limit start"
    "find_free_port bind start \<noteq> port_limit start \<Longrightarrow> bind (find_free_port bind start)"
    by (auto simp: find_free_port_def split: option.splits dest!: find_Some_set)
qed

lemma find_free_port_first:
  assumes "start \<le> q" "q < find_free_port bind start" shows "\<not> bind q"
proof (cases "find bind [start..<port_limit start]")
  case None
  with assms show ?thesis by (auto simp: find_free_port_def find_None_iff)
next
  case (Some x)
  then obtain i where "find_free_port bind start = start + i" "\<forall>j<i. \<not> bind (start + j)"
    by (auto simp: find_free_port_def find_Some_iff)
  with assms show ?thesis by (metis add_less_cancel_left le_add_diff_inverse)
qed

text \<open>
  The first port of the range of at most twenty from \<open>start\<close> on that can be bound; the end of the range,
  which nobody has tried to bind, if there is none.
\<close>

definition first_free :: "(nat \<Rightarrow> bool) \<Rightarrow> nat \<Rightarrow> nat \<Rightarrow> bool" where
  "first_free can_bind start p \<longleftrightarrow> start \<le> p \<and> p \<le> min (start + 20) 65535 \<and>
     (\<forall>x. start \<le> x \<and> x < p \<longrightarrow> \<not> can_bind x) \<and> (p < min (start + 20) 65535 \<longrightarrow> can_bind p)"

lemma find_free_port_is_first:
  assumes "start \<le> 65535" shows "first_free can_bind start (find_free_port can_bind start)"
  using find_free_port_bounds [OF assms, of can_bind] find_free_port_first [of start _ can_bind]
  by (auto simp: first_free_def port_limit_def)

text \<open>
  C35. The ports of a worker. The TCP port is the first free one of the twenty from its configured port
  on, or the end of that range, untried; the QUIC port likewise from its own configured port or the one
  above the TCP port, whichever is greater. So both are below 65536 and the QUIC port is above the TCP
  port, except that a TCP port of 65535 wraps the addition to 0: then the QUIC port starts at its
  configured port and can be the same.
\<close>

theorem worker_ports_bounds:
  assumes "worker_start env cfg now fl = (Inr n, fl')"
  defines "p \<equiv> unat (unwrap_or 9020 (extract_port_from_multiaddr (wc_p2p_tcp_addr cfg)))"
    and "q \<equiv> unat (unwrap_or 9020 (extract_port_from_multiaddr (wc_p2p_quic_addr cfg)))"
  shows "first_free (no_can_bind env) p (wn_tcp_port n) \<and>
    (if wn_tcp_port n = 65535 then first_free (no_can_bind env) q (wn_quic_port n)
     else first_free (no_can_bind env) (max q (wn_tcp_port n + 1)) (wn_quic_port n) \<and> wn_tcp_port n < wn_quic_port n) \<and>
    wn_tcp_port n \<le> 65535 \<and> wn_quic_port n \<le> 65535"
proof -
  have small: "unat x \<le> 65535" for x :: u16
    using unsigned_less [of x, where 'a = nat] by simp
  have le: "p \<le> 65535" "q \<le> 65535" unfolding p_def q_def by (rule small)+
  obtain kp where "worker_network env cfg now kp = Inr n"
    using assms(1) by (auto simp: worker_start_def bind_start_def split: prod.splits sum.splits)
  then have ports: "wn_tcp_port n = fst (worker_ports env cfg)" "wn_quic_port n = snd (worker_ports env cfg)"
    by (auto simp: worker_network_def bind_start_def split: prod.splits sum.splits)
  define t where "t = wn_tcp_port n"
  have tcp: "t = find_free_port (no_can_bind env) p"
    and quic: "wn_quic_port n = find_free_port (no_can_bind env) (max q ((t + 1) mod 2 ^ 16))"
    by (simp_all add: ports worker_ports_def Let_def p_def q_def t_def)
  have free: "first_free (no_can_bind env) p t" unfolding tcp by (rule find_free_port_is_first [OF le(1)])
  then have t: "t \<le> 65535" by (simp add: first_free_def)
  have start: "max q ((t + 1) mod 2 ^ 16) = (if t = 65535 then q else max q (t + 1))" using t by simp
  have "max q ((t + 1) mod 2 ^ 16) \<le> 65535" using le(2) by simp
  then have "first_free (no_can_bind env) (if t = 65535 then q else max q (t + 1)) (wn_quic_port n)"
    unfolding quic start [symmetric] by (rule find_free_port_is_first)
  with free t show ?thesis by (auto simp: first_free_def simp flip: t_def split: if_splits)
qed

section \<open>The secret of the tokens\<close>

text \<open>Without the variable of the secret, tokens are signed with the text of the source.\<close>

theorem default_secret_is_public:
  assumes "load_config cs master_config_of = Inr cfg" "cs_text cs ''jwt_secret'' = Inr None"
  shows "as_jwt_secret (app_state cfg) = ''CHANGE_ME_BEFORE_PRODUCTION_USE_32_BYTES''"
  using assms
  by (auto simp: load_config_def master_config_of_def with_default_def with_field_def app_state_def default_jwt_secret_def
      split: option.splits sum.splits)

section \<open>Witnesses\<close>

definition demo_node :: "nat node_env" where
  "demo_node = \<lparr>no_keys = demo_keys\<lparr>ke_var := \<lambda>v. if v = ''ADMIN_EMAIL'' then Some ''root@x.io''
       else if v = ''ADMIN_PASSWORD'' then Some ''Passw0rd'' else None\<rparr>,
     no_fresh = 3, no_remove_ok = True, no_swarm = None, no_parse = Some, no_tcp_port = (\<lambda>_. None),
     no_listen = (\<lambda>_. None), no_dial = (\<lambda>_. None), no_can_bind = (\<lambda>p. p \<noteq> 9020)\<rparr>"

definition demo_worker_config :: worker_config where
  "demo_worker_config = \<lparr>wc_bootstrap_addr = ''/ip4/127.0.0.1/tcp/9000'', wc_p2p_tcp_addr = ''/ip4/0.0.0.0/tcp/9020'',
     wc_p2p_quic_addr = ''/ip4/0.0.0.0/udp/9020/quic-v1'', wc_keypair_path = None, wc_docker_socket = [], wc_tmp_dir = [],
     wc_user_id = None, wc_heartbeat_interval_secs = 30, wc_master_addr = None\<rparr>"

lemma worker_ports_bounds_witness:
  "\<exists>n fl'. worker_start demo_node demo_worker_config 0 [] = (Inr n, fl') \<and> 9020 < wn_tcp_port n \<and>
     wn_tcp_port n < wn_quic_port n"
proof -
  obtain kp fl' where k: "load_or_generate (no_keys demo_node) (worker_keypair_path demo_node) (no_fresh demo_node)
      (reset_identity demo_node []) = (Inr kp, fl')"
    by (simp add: load_or_generate_def store_keypair_def reset_identity_def path_exists_def demo_node_def demo_keys_def
        hm_remove_def split: option.split)
  have "\<exists>n. worker_network demo_node demo_worker_config 0 kp = Inr n"
    by (simp add: worker_network_def bind_start_def must_def parse_addr_def demo_node_def split: prod.split)
  then obtain n where n: "worker_start demo_node demo_worker_config 0 [] = (Inr n, fl')"
    using k by (auto simp: worker_start_def bind_start_def)
  have p: "unat (unwrap_or 9020 (extract_port_from_multiaddr (wc_p2p_tcp_addr demo_worker_config))) = 9020" by code_simp
  from worker_ports_bounds [OF n] have b: "first_free (no_can_bind demo_node) 9020 (wn_tcp_port n)"
    "wn_tcp_port n \<noteq> 65535 \<longrightarrow> wn_tcp_port n < wn_quic_port n"
    unfolding p by (auto split: if_splits)
  from b(1) have "wn_tcp_port n \<le> 9040" "wn_tcp_port n \<noteq> 9020" by (auto simp: first_free_def demo_node_def)
  with b n show ?thesis by (auto simp: first_free_def)
qed

definition demo_db_env :: db_env where
  "demo_db_env = \<lparr>dn_connect = (\<lambda>_. None), dn_migrate = None, dn_auth = demo_auth 0, dn_new_id = Uuid 9, dn_now = 5\<rparr>"

lemma master_start_ready_witness:
  "\<exists>d' h. prepare_database demo_node demo_db_env ''db'' empty_db [] = (Inr (), d', []) \<and>
     users d' = [new_user (Uuid 9) 5 ''root@x.io'' h ''admin''] \<and>
     prepare_database demo_node demo_db_env ''db'' d' [] = (Inr (), d', [])"
proof -
  obtain h where h: "en_hash (dn_auth demo_db_env) ''Passw0rd'' = Inr h" by (simp add: demo_db_env_def demo_auth_def)
  have vars: "no_var demo_node ''ADMIN_EMAIL'' = Some ''root@x.io''" "no_var demo_node ''ADMIN_PASSWORD'' = Some ''Passw0rd''"
    by (simp_all add: no_var_def demo_node_def)
  have env: "dn_connect demo_db_env ''db'' = None" "dn_migrate demo_db_env = None" "dn_new_id demo_db_env = Uuid 9"
    "dn_now demo_db_env = 5" by (simp_all add: demo_db_env_def)
  have fresh: "dn_new_id demo_db_env \<notin> u_id ` set (users empty_db)" by (simp add: empty_db_def)
  from master_start_ready [OF env(1,2) vars h fresh] env show ?thesis
    by (intro exI [of _ "empty_db\<lparr>users := [new_user (Uuid 9) 5 ''root@x.io'' h ''admin''],
        balances := [\<lparr>b_user = Uuid 9, cu_balance = 0, cu_reserved = 0\<rparr>]\<rparr>"] exI [of _ h]) (auto simp: empty_db_def)
qed

end
