(* ===== verification/Bootstrap_Node.thy ===== *)
theory Bootstrap_Node
  imports Startup
begin

text \<open>
  The bootstrap node (\<open>bootstrap/main.rs\<close>): rendezvous and relay are services of libp2p that the node
  only configures and logs; what it computes itself is one structured log record per event, the
  counter of open connections, and the health page that shows the counter. Events carry the texts
  that the library displays for them.
\<close>

section \<open>Log records\<close>

datatype log_level = LevelTrace | LevelDebug | LevelInfo | LevelWarn | LevelError

record log_record =
  lr_level :: log_level
  lr_message :: string
  lr_fields :: "(string \<times> string) list"

definition logs :: "log_level \<Rightarrow> (string \<times> string) list \<Rightarrow> string \<Rightarrow> log_record" where
  "logs lv kvs msg = \<lparr>lr_level = lv, lr_message = msg, lr_fields = kvs\<rparr>"

definition bool_text :: "bool \<Rightarrow> string" where
  "bool_text b = (if b then ''true'' else ''false'')"

section \<open>Events\<close>

datatype rendezvous_event =
    PeerRegistered string string
  | PeerNotRegistered string string string
  | PeerUnregistered string string
  | DiscoverServed string nat
  | DiscoverNotServed string string
  | RegistrationExpired string string

datatype relay_event =
    ReservationReqAccepted string bool
  | ReservationReqDenied string
  | ReservationTimedOut string
  | CircuitReqAccepted string string
  | CircuitReqDenied string string
  | CircuitClosed string string string
  | ReservationReqAcceptFailed string string
  | ReservationReqDenyFailed string string
  | CircuitReqDenyFailed string string string
  | CircuitReqOutboundConnectFailed string string string
  | CircuitReqAcceptFailed string string string

datatype identify_event =
    IdReceived string string string
  | IdSent string
  | IdPushed string
  | IdError string string

datatype boot_behaviour_event =
    BRendezvous rendezvous_event
  | BRelay relay_event
  | BIdentify identify_event
  | BPing string "string + nat"

datatype boot_event =
    NewListenAddr string
  | ListenerClosed string string
  | ListenerError string
  | ConnectionEstablished string string nat
  | ConnectionClosed string string nat
  | IncomingConnection string string
  | IncomingConnectionError string string string
  | OutgoingConnectionError string string
  | NewExternalAddrCandidate string
  | ExternalAddrConfirmed string
  | ExternalAddrExpired string
  | NewExternalAddrOfPeer string string
  | ExpiredListenAddr string
  | BBehaviour boot_behaviour_event
  | Unknown string

section \<open>Handlers\<close>

fun log_rendezvous :: "rendezvous_event \<Rightarrow> log_record" where
  "log_rendezvous (PeerRegistered peer ns) =
     logs LevelInfo [(''peer_id'', peer), (''namespace'', ns)] ''rendezvous: peer registered''"
| "log_rendezvous (PeerNotRegistered peer ns e) =
     logs LevelWarn [(''peer_id'', peer), (''namespace'', ns), (''error'', e)] ''rendezvous: peer registration rejected''"
| "log_rendezvous (PeerUnregistered peer ns) =
     logs LevelInfo [(''peer_id'', peer), (''namespace'', ns)] ''rendezvous: peer unregistered''"
| "log_rendezvous (DiscoverServed enquirer n) =
     logs LevelDebug [(''enquirer'', enquirer), (''count'', show_nat n)] ''rendezvous: discover request served''"
| "log_rendezvous (DiscoverNotServed enquirer e) =
     logs LevelWarn [(''enquirer'', enquirer), (''error'', e)] ''rendezvous: discover request not served''"
| "log_rendezvous (RegistrationExpired peer ns) =
     logs LevelDebug [(''peer_id'', peer), (''namespace'', ns)] ''rendezvous: registration expired''"

fun log_relay :: "relay_event \<Rightarrow> log_record" where
  "log_relay (ReservationReqAccepted src renewed) =
     logs LevelInfo [(''src_peer_id'', src), (''renewed'', bool_text renewed)] ''relay: reservation accepted''"
| "log_relay (ReservationReqDenied src) = logs LevelWarn [(''src_peer_id'', src)] ''relay: reservation denied''"
| "log_relay (ReservationTimedOut src) = logs LevelDebug [(''src_peer_id'', src)] ''relay: reservation timed out''"
| "log_relay (CircuitReqAccepted src dst) =
     logs LevelInfo [(''src_peer_id'', src), (''dst_peer_id'', dst)] ''relay: circuit accepted''"
| "log_relay (CircuitReqDenied src dst) =
     logs LevelWarn [(''src_peer_id'', src), (''dst_peer_id'', dst)] ''relay: circuit denied''"
| "log_relay (CircuitClosed src dst e) =
     logs LevelDebug [(''src_peer_id'', src), (''dst_peer_id'', dst), (''error'', e)] ''relay: circuit closed''"
| "log_relay (ReservationReqAcceptFailed src e) =
     logs LevelWarn [(''src_peer_id'', src), (''error'', e)] ''relay: reservation accept failed''"
| "log_relay (ReservationReqDenyFailed src e) =
     logs LevelWarn [(''src_peer_id'', src), (''error'', e)] ''relay: reservation deny failed''"
| "log_relay (CircuitReqDenyFailed src dst e) =
     logs LevelWarn [(''src_peer_id'', src), (''dst_peer_id'', dst), (''error'', e)] ''relay: circuit deny failed''"
| "log_relay (CircuitReqOutboundConnectFailed src dst e) =
     logs LevelWarn [(''src_peer_id'', src), (''dst_peer_id'', dst), (''error'', e)]
       ''relay: circuit outbound connect failed''"
| "log_relay (CircuitReqAcceptFailed src dst e) =
     logs LevelWarn [(''src_peer_id'', src), (''dst_peer_id'', dst), (''error'', e)] ''relay: circuit accept failed''"

fun log_identify :: "identify_event \<Rightarrow> log_record" where
  "log_identify (IdReceived peer agent protocol) =
     logs LevelDebug [(''peer_id'', peer), (''agent_version'', agent), (''protocol_version'', protocol)]
       ''identify: info received''"
| "log_identify (IdSent peer) = logs LevelDebug [(''peer_id'', peer)] ''identify: info sent to peer''"
| "log_identify (IdPushed peer) = logs LevelDebug [(''peer_id'', peer)] ''identify: info pushed to peer''"
| "log_identify (IdError peer e) = logs LevelWarn [(''peer_id'', peer), (''error'', e)] ''identify: error''"

fun boot_behaviour :: "boot_behaviour_event \<Rightarrow> log_record" where
  "boot_behaviour (BRendezvous ev) = log_rendezvous ev"
| "boot_behaviour (BRelay ev) = log_relay ev"
| "boot_behaviour (BIdentify ev) = log_identify ev"
| "boot_behaviour (BPing peer (Inr rtt)) =
     logs LevelTrace [(''peer_id'', peer), (''rtt_ms'', show_nat rtt)] ''ping: ok''"
| "boot_behaviour (BPing peer (Inl e)) = logs LevelDebug [(''peer_id'', peer), (''error'', e)] ''ping: failure''"

text \<open>
  The counter is a \<open>usize\<close>: \<open>fetch_add\<close> wraps, \<open>saturating_sub\<close> stops at 0.
\<close>

definition saturating_dec :: "u64 \<Rightarrow> u64" where
  "saturating_dec c = (if c = 0 then 0 else c - 1)"

fun boot_step :: "u64 \<Rightarrow> boot_event \<Rightarrow> u64 \<times> log_record" where
  "boot_step c (NewListenAddr a) = (c, logs LevelInfo [(''address'', a)] ''listening on new address'')"
| "boot_step c (ListenerClosed as r) = (c, logs LevelWarn [(''addresses'', as), (''reason'', r)] ''listener closed'')"
| "boot_step c (ListenerError e) = (c, logs LevelError [(''error'', e)] ''listener error'')"
| "boot_step c (ConnectionEstablished peer endpoint n) =
     (c + 1, logs LevelInfo [(''peer_id'', peer), (''endpoint'', endpoint), (''total'', show_nat n)] ''connection established'')"
| "boot_step c (ConnectionClosed peer cause n) =
     (saturating_dec c,
      logs LevelInfo [(''peer_id'', peer), (''cause'', cause), (''remaining'', show_nat n)] ''connection closed'')"
| "boot_step c (IncomingConnection l r) =
     (c, logs LevelDebug [(''local_addr'', l), (''send_back_addr'', r)] ''incoming connection attempt'')"
| "boot_step c (IncomingConnectionError l r e) =
     (c, logs LevelWarn [(''local_addr'', l), (''send_back_addr'', r), (''error'', e)] ''incoming connection error'')"
| "boot_step c (OutgoingConnectionError peer e) =
     (c, logs LevelWarn [(''peer_id'', peer), (''error'', e)] ''outgoing connection error'')"
| "boot_step c (NewExternalAddrCandidate a) = (c, logs LevelDebug [(''address'', a)] ''new external address candidate'')"
| "boot_step c (ExternalAddrConfirmed a) = (c, logs LevelInfo [(''address'', a)] ''external address confirmed'')"
| "boot_step c (ExternalAddrExpired a) = (c, logs LevelDebug [(''address'', a)] ''external address expired'')"
| "boot_step c (NewExternalAddrOfPeer peer a) =
     (c, logs LevelDebug [(''peer_id'', peer), (''address'', a)] ''new external address of peer'')"
| "boot_step c (ExpiredListenAddr a) = (c, logs LevelDebug [(''address'', a)] ''listen address expired'')"
| "boot_step c (BBehaviour ev) = (c, boot_behaviour ev)"
| "boot_step c (Unknown ev) = (c, logs LevelDebug [(''event'', ev)] ''unhandled swarm event (future libp2p variant)'')"

text \<open>The event loop until the shutdown signal.\<close>

fun boot_run :: "u64 \<Rightarrow> boot_event list \<Rightarrow> u64 \<times> log_record list" where
  "boot_run c [] = (c, [])"
| "boot_run c (ev # evs) =
     (case boot_step c ev of (c', l) \<Rightarrow> (case boot_run c' evs of (c'', ls) \<Rightarrow> (c'', l # ls)))"

definition health_page :: "string \<Rightarrow> u64 \<Rightarrow> json" where
  "health_page peer_id connections =
     JObj [(''status'', JStr ''ok''), (''service'', JStr ''bootstrap''), (''peer_id'', JStr peer_id),
           (''connections'', JNum (uint connections))]"

section \<open>Start\<close>

record 'k boot_node =
  bn_identity :: 'k
  bn_effects :: "node_effect list"
  bn_health_port :: u16
  bn_connections :: u64

definition boot_network :: "'k node_env \<Rightarrow> bootstrap_config \<Rightarrow> 'k \<Rightarrow> string + 'k boot_node" where
  "boot_network env cfg kp =
     bind_start (must ''swarm'' (no_swarm env)) (\<lambda>_.
     bind_start (parse_addr env ''invalid tcp_addr'' (bc_tcp_addr cfg)) (\<lambda>tcp_addr.
     bind_start (parse_addr env ''invalid quic_addr'' (bc_quic_addr cfg)) (\<lambda>quic_addr.
     bind_start (must ''listen TCP failed'' (no_listen env tcp_addr)) (\<lambda>_.
     bind_start (parse_addr env ''invalid ws_addr''
         (''/ip4/0.0.0.0/tcp/'' @ show_nat (port_or 9002 (no_var env ''BOOTSTRAP_WS_PORT'')) @ ''/ws'')) (\<lambda>ws_addr.
       Inr \<lparr>bn_identity = kp, bn_effects = [ListenOn tcp_addr] @ try_listen env quic_addr @ try_listen env ws_addr,
            bn_health_port = bc_health_port cfg, bn_connections = 0\<rparr>)))))"

text \<open>A key pair that cannot be loaded ends the node with a panic; here it is the message of it.\<close>

definition boot_main :: "'k node_env \<Rightarrow> config_source \<Rightarrow> files \<Rightarrow> (string + 'k boot_node) \<times> files" where
  "boot_main env cs fl =
     (case load_or_generate (no_keys env)
             (keypair_path_from_env (no_keys env) ''BOOTSTRAP_KEYPAIR_PATH'' ''./bootstrap.keypair'') (no_fresh env) fl of
        (Inl e, fl') \<Rightarrow> (Inl (''failed to load or generate bootstrap keypair: '' @ e), fl')
      | (Inr kp, fl') \<Rightarrow> (boot_network env (bootstrap_settings cs) kp, fl'))"

section \<open>The counter\<close>

text \<open>
  \<open>open_count\<close> is the number of opened less the number of closed connections; \<open>deficit\<close> is the largest lead
  that closed ones ever had over opened ones.
\<close>

fun open_delta :: "boot_event \<Rightarrow> int" where
  "open_delta (ConnectionEstablished p e n) = 1"
| "open_delta (ConnectionClosed p c n) = - 1"
| "open_delta _ = 0"

definition open_count :: "boot_event list \<Rightarrow> int" where
  "open_count evs = sum_list (map open_delta evs)"

fun deficit :: "boot_event list \<Rightarrow> int" where
  "deficit [] = 0"
| "deficit (ev # evs) = max 0 (deficit evs - open_delta ev)"

lemma open_count_simps [simp]: "open_count [] = 0" "open_count (ev # evs) = open_delta ev + open_count evs"
  by (simp_all add: open_count_def)

lemma deficit_nonneg [simp]: "0 \<le> deficit evs"
  by (cases evs) auto

text \<open>The lead is at most \<open>b\<close> exactly when a balance of \<open>b\<close> is never overdrawn.\<close>

lemma deficit_le: "0 \<le> b \<Longrightarrow> deficit evs \<le> b \<longleftrightarrow> (\<forall>n\<le>length evs. 0 \<le> b + open_count (take n evs))"
proof (induction evs arbitrary: b)
  case (Cons ev evs)
  have split: "(\<forall>n\<le>length (ev # evs). 0 \<le> b + open_count (take n (ev # evs))) \<longleftrightarrow>
      (\<forall>n\<le>length evs. 0 \<le> b + open_delta ev + open_count (take n evs))" (is "?all \<longleftrightarrow> ?tail")
  proof
    assume ?tail
    then have "0 \<le> b + open_count (take n (ev # evs))" if "n \<le> length (ev # evs)" for n
      using that Cons.prems by (cases n) (auto simp: add.assoc)
    then show ?all by blast
  next
    assume all: ?all
    show ?tail
    proof (intro allI impI)
      fix n assume "n \<le> length evs"
      with all [rule_format, of "Suc n"] show "0 \<le> b + open_delta ev + open_count (take n evs)" by simp
    qed
  qed
  show ?case
  proof (cases "0 \<le> b + open_delta ev")
    case True
    from Cons.IH [OF this] Cons.prems show ?thesis by (auto simp only: split deficit.simps)
  next
    case False
    then have "\<not> deficit evs \<le> b + open_delta ev" using deficit_nonneg [of evs] by linarith
    moreover have "\<not> 0 \<le> b + open_delta ev + open_count (take 0 evs)" using False by simp
    ultimately show ?thesis unfolding split by auto
  qed
qed simp

lemma boot_run_Cons: "fst (boot_run b (ev # evs)) = fst (boot_run (fst (boot_step b ev)) evs)"
  by (cases "boot_step b ev", cases "boot_run (fst (boot_step b ev)) evs") simp

lemma boot_step_count:
  assumes "uint c + 1 < 2 ^ 64"
  shows "uint (fst (boot_step c ev)) = max 0 (uint c + open_delta ev)"
proof -
  have inc: "uint (c + 1) = uint c + 1" using assms by (simp add: uint_word_ariths)
  have dec: "uint (c - 1) = max 0 (uint c - 1)" if "c \<noteq> 0"
  proof -
    have "uint c \<noteq> 0" using that by (simp add: uint_0_iff)
    then have "1 \<le> uint c" using uint_ge_0 [of c] by linarith
    moreover have "uint c < 2 ^ 64" using assms by simp
    ultimately show ?thesis by (simp add: uint_word_ariths)
  qed
  show ?thesis
    by (cases ev) (use inc dec in \<open>auto simp: saturating_dec_def uint_0_iff not_le intro: order_antisym\<close>)
qed

text \<open>
  C36. The health page counts the open connections. After any events the counter is the number of opened
  less the number of closed connections, plus the largest lead that closed ones ever had: it is exact
  while no connection is reported closed before it is reported opened, and otherwise it stays too high
  for ever, by that lead. It never underflows.
\<close>

theorem connections_counted:
  assumes "length evs < 2 ^ 64"
  defines "c \<equiv> fst (boot_run 0 evs)"
  shows "uint c = open_count evs + deficit evs \<and>
    (deficit evs = 0 \<longleftrightarrow> (\<forall>n\<le>length evs. 0 \<le> open_count (take n evs))) \<and>
    json_get ''connections'' (health_page peer c) = Some (JNum (open_count evs + deficit evs))"
proof -
  have run: "uint (fst (boot_run b evs)) = uint b + open_count evs + max 0 (deficit evs - uint b)"
    if "uint b + int (length evs) < 2 ^ 64" for b
    using that
  proof (induction evs arbitrary: b)
    case (Cons ev evs)
    let ?b = "fst (boot_step b ev)"
    have b: "uint ?b = max 0 (uint b + open_delta ev)"
      using Cons.prems by (intro boot_step_count) simp
    moreover have "open_delta ev \<le> 1" by (cases ev) simp_all
    moreover have "0 \<le> uint b" by simp
    ultimately have "uint ?b \<le> uint b + 1" by linarith
    then have "uint ?b + int (length evs) < 2 ^ 64" using Cons.prems by simp
    from Cons.IH [OF this] have "uint (fst (boot_run b (ev # evs))) =
        max 0 (uint b + open_delta ev) + open_count evs + max 0 (deficit evs - max 0 (uint b + open_delta ev))"
      by (simp only: b boot_run_Cons)
    moreover have "0 \<le> deficit evs" "0 \<le> uint b" by simp_all
    ultimately show ?case unfolding open_count_simps deficit.simps by linarith
  qed simp
  have count: "uint c = open_count evs + deficit evs"
    using run [of 0] assms(1) deficit_nonneg [of evs] unfolding c_def by (simp add: max_def)
  moreover have "deficit evs = 0 \<longleftrightarrow> (\<forall>n\<le>length evs. 0 \<le> open_count (take n evs))"
    using deficit_le [of 0 evs] deficit_nonneg [of evs] by auto
  moreover have "json_get ''connections'' (health_page peer c) = Some (JNum (uint c))"
    by (simp add: health_page_def)
  ultimately show ?thesis by simp
qed

section \<open>Witness\<close>

lemma connections_counted_witness:
  "uint (fst (boot_run 0 [ConnectionEstablished ''p'' ''e'' 1, ConnectionClosed ''p'' ''c'' 0,
     ConnectionEstablished ''q'' ''e'' 1])) = 1"
proof -
  let ?evs = "[ConnectionEstablished ''p'' ''e'' 1, ConnectionClosed ''p'' ''c'' 0, ConnectionEstablished ''q'' ''e'' 1]"
  have "length ?evs < 2 ^ 64" by simp
  from conjunct1 [OF connections_counted [OF this]] show ?thesis by simp
qed

end
