(* ===== verification/Job_Runner.thy ===== *)
theory Job_Runner
  imports Executor File_Transfer Settings
begin

text \<open>
  The second execution engine of the worker, which its \<open>main\<close> does not call: the Docker wrapper
  (\<open>docker/manager.rs\<close>), the clean-up (\<open>docker/cleanup.rs\<close>), the runner of a shipped image
  (\<open>executor/runner.rs\<close>), network namespaces (\<open>executor/netns.rs\<close>) and the frames of log lines
  (\<open>executor/streams.rs\<close>). What the daemon answers is the environment; an operation gives its result
  and the commands it sent.
\<close>

section \<open>The Docker wrapper\<close>

record device_request =
  dv_driver :: string
  dv_count :: int
  dv_capabilities :: "string list list"

record runner_config =
  rc_image :: string
  rc_working_dir :: string
  rc_memory :: int
  rc_nano_cpus :: int
  rc_readonly_rootfs :: bool
  rc_tmpfs :: "(string \<times> string) list"
  rc_cap_drop :: "string list"
  rc_security_opt :: "string list"
  rc_binds :: "string list"
  rc_network_mode :: string
  rc_device_requests :: "device_request list option"

datatype manager_command =
    ImportImage bytes
  | NewContainer string runner_config
  | RunContainer string
  | StopContainer string
  | DeleteContainer string
  | DeleteImage string

text \<open>
  The streams of the daemon are lists: an import that does not end never returns, and a wait stream
  that does not end in time is \<open>me_timeout\<close>.
\<close>

record manager_env =
  me_import :: "bytes \<Rightarrow> (string + string option) list"
  me_create :: "string \<Rightarrow> runner_config \<Rightarrow> string + string"
  me_start :: "string \<Rightarrow> string option"
  me_wait :: "string \<Rightarrow> (string + int) list"
  me_timeout :: "u64 \<Rightarrow> bool"
  me_remove :: "string \<Rightarrow> string option"
  me_remove_image :: "string \<Rightarrow> string option"
  me_io :: io
  me_remove_dir :: "string list \<Rightarrow> bool"

fun last_image :: "string \<Rightarrow> (string + string option) list \<Rightarrow> string + string" where
  "last_image i [] = Inr i"
| "last_image i (Inl e # items) = Inl (''image import stream error: '' @ e)"
| "last_image i (Inr None # items) = last_image i items"
| "last_image i (Inr (Some j) # items) = last_image j items"

definition load_image :: "manager_env \<Rightarrow> bytes \<Rightarrow> (string + string) \<times> manager_command list" where
  "load_image env tar = (last_image [] (me_import env tar), [ImportImage tar])"

text \<open>Both limits are computed in 64 bits: the products wrap in the release profile.\<close>

definition runner_container :: "string \<Rightarrow> u64 \<Rightarrow> u64 \<Rightarrow> string \<Rightarrow> bool \<Rightarrow> runner_config" where
  "runner_container img memory_mb cpu_percent output_dir use_gpu =
     \<lparr>rc_image = img, rc_working_dir = ''/workspace'',
      rc_memory = u64_as_i64 (memory_mb * 1024 * 1024),
      rc_nano_cpus = wrap_i64 (u64_as_i64 cpu_percent * 10000000),
      rc_readonly_rootfs = True, rc_tmpfs = [(''/tmp'', ''rw,noexec,nosuid,size=512m'')],
      rc_cap_drop = [''ALL''], rc_security_opt = [''no-new-privileges:true''],
      rc_binds = [output_dir @ '':/workspace/output:rw''], rc_network_mode = ''none'',
      rc_device_requests =
        (if use_gpu then Some [\<lparr>dv_driver = ''nvidia'', dv_count = - 1, dv_capabilities = [[''gpu'']]\<rparr>] else None)\<rparr>"

definition create_container ::
  "manager_env \<Rightarrow> string \<Rightarrow> string \<Rightarrow> u64 \<Rightarrow> u64 \<Rightarrow> string \<Rightarrow> bool \<Rightarrow> (string + string) \<times> manager_command list" where
  "create_container env job img memory cpu_percent output_dir use_gpu =
     (let name = ''decentgpu-job-'' @ job; config = runner_container img memory cpu_percent output_dir use_gpu in
      (case me_create env name config of Inl e \<Rightarrow> Inl (''create container: '' @ e) | Inr c \<Rightarrow> Inr c,
       [NewContainer name config]))"

definition start_container :: "manager_env \<Rightarrow> string \<Rightarrow> (string + unit) \<times> manager_command list" where
  "start_container env cid =
     (case me_start env cid of None \<Rightarrow> Inr () | Some e \<Rightarrow> Inl (''start container: '' @ e), [RunContainer cid])"

fun last_status :: "int \<Rightarrow> (string + int) list \<Rightarrow> string + int" where
  "last_status c [] = Inr c"
| "last_status c (Inl e # items) = Inl (''wait container: '' @ e)"
| "last_status c (Inr s # items) = last_status s items"

definition wait_container :: "manager_env \<Rightarrow> string \<Rightarrow> string + int" where
  "wait_container env cid = last_status 0 (me_wait env cid)"

definition remove_container :: "manager_env \<Rightarrow> string \<Rightarrow> string option \<times> manager_command list" where
  "remove_container env cid = (me_remove env cid, [StopContainer cid, DeleteContainer cid])"

definition remove_image :: "manager_env \<Rightarrow> string \<Rightarrow> string option \<times> manager_command list" where
  "remove_image env img = (me_remove_image env img, [DeleteImage img])"

subsection \<open>Log streams\<close>

text \<open>
  \<open>String::from_utf8_lossy\<close>: a well-formed character is kept, a longest piece of an ill-formed one becomes
  U+FFFD. \<open>utf8_lead\<close> gives the range of the second byte and the number of continuation bytes.
\<close>

definition utf8_lead :: "u8 \<Rightarrow> (u8 \<times> u8 \<times> nat) option" where
  "utf8_lead b =
     (if 0xC2 \<le> b \<and> b \<le> 0xDF then Some (0x80, 0xBF, 1)
      else if b = 0xE0 then Some (0xA0, 0xBF, 2)
      else if b = 0xED then Some (0x80, 0x9F, 2)
      else if 0xE1 \<le> b \<and> b \<le> 0xEF then Some (0x80, 0xBF, 2)
      else if b = 0xF0 then Some (0x90, 0xBF, 3)
      else if 0xF1 \<le> b \<and> b \<le> 0xF3 then Some (0x80, 0xBF, 3)
      else if b = 0xF4 then Some (0x80, 0x8F, 3)
      else None)"

text \<open>How many bytes after the first belong to the character, and whether it is complete.\<close>

definition utf8_tail :: "u8 \<Rightarrow> bytes \<Rightarrow> nat \<times> bool" where
  "utf8_tail b rest =
     (if b < 0x80 then (0, True)
      else
        (case utf8_lead b of
           None \<Rightarrow> (0, False)
         | Some (lo, hi, n) \<Rightarrow>
             (case rest of
                c # cs \<Rightarrow>
                  if lo \<le> c \<and> c \<le> hi then
                    let k = 1 + length (takeWhile (\<lambda>x. 0x80 \<le> x \<and> x \<le> 0xBF) (take (n - 1) cs)) in (k, k = n)
                  else (0, False)
              | [] \<Rightarrow> (0, False))))"

definition char_of_u8 :: "u8 \<Rightarrow> char" where
  "char_of_u8 b = char_of (unat b)"

definition replacement :: string where
  "replacement = [CHR 0xEF, CHR 0xBF, CHR 0xBD]"

function from_utf8_lossy :: "bytes \<Rightarrow> string" where
  "from_utf8_lossy [] = []"
| "from_utf8_lossy (b # rest) =
     (case utf8_tail b rest of
        (k, ok) \<Rightarrow> (if ok then map char_of_u8 (b # take k rest) else replacement) @ from_utf8_lossy (drop k rest))"
  by pat_completeness auto
termination by (relation "measure length") auto

lemma lossy_ascii: "list_all (\<lambda>b. b < 0x80) bs \<Longrightarrow> from_utf8_lossy bs = map char_of_u8 bs"
  by (induction bs) (auto simp: utf8_tail_def)

text \<open>A message of the daemon: output, or what a terminal would echo.\<close>

datatype log_output = LogStdOut bytes | LogStdErr bytes | LogStdIn bytes | LogConsole bytes

text \<open>The calls of the callback, in order; the stream is read up to its first error.\<close>

fun manager_stream_logs :: "(string + log_output) list \<Rightarrow> (string \<times> bool) list" where
  "manager_stream_logs [] = []"
| "manager_stream_logs (Inr (LogStdOut m) # items) = (from_utf8_lossy m, False) # manager_stream_logs items"
| "manager_stream_logs (Inr (LogStdErr m) # items) = (from_utf8_lossy m, True) # manager_stream_logs items"
| "manager_stream_logs (Inr _ # items) = manager_stream_logs items"
| "manager_stream_logs (Inl e # items) = []"

lemma stream_logs_order:
  "manager_stream_logs (map Inr outs @ Inl e # rest) = manager_stream_logs (map Inr outs)"
proof (induction outs)
  case (Cons o' outs)
  then show ?case by (cases o') simp_all
qed simp

section \<open>Clean-up\<close>

definition tmp_of_job :: "string list \<Rightarrow> string \<Rightarrow> string list" where
  "tmp_of_job tmp_dir job = path_join tmp_dir (''job-'' @ job)"

text \<open>Failures are logged and otherwise ignored.\<close>

definition cleanup_job ::
  "manager_env \<Rightarrow> string \<Rightarrow> string option \<Rightarrow> string option \<Rightarrow> string list \<Rightarrow> files \<Rightarrow> manager_command list \<times> files" where
  "cleanup_job env job container img tmp_dir fl =
     (let dir = tmp_of_job tmp_dir job in
      ((case container of None \<Rightarrow> [] | Some c \<Rightarrow> snd (remove_container env c)) @
       (case img of None \<Rightarrow> [] | Some i \<Rightarrow> snd (remove_image env i)),
       if path_exists fl dir \<and> me_remove_dir env dir then filter (\<lambda>f. \<not> under dir (fst f)) fl else fl))"

section \<open>Running a job\<close>

text \<open>
  \<open>written\<close> are the files the container writes below its output directory. The future that would
  stream the logs is created and never awaited, so the callback for log lines is never called.
\<close>

definition job_exit :: "manager_env \<Rightarrow> string \<Rightarrow> u64 \<Rightarrow> int" where
  "job_exit env cid max_dur =
     (if me_timeout env (max max_dur 1) then - 1
      else (case wait_container env cid of Inr c \<Rightarrow> c | Inl _ \<Rightarrow> - 1))"

definition run_job ::
  "manager_env \<Rightarrow> string list \<Rightarrow> string \<Rightarrow> bytes \<Rightarrow> u64 \<Rightarrow> u64 \<Rightarrow> u64 \<Rightarrow> bool \<Rightarrow> (string \<times> bytes) list \<Rightarrow> files \<Rightarrow>
   (string + bool) \<times> manager_command list \<times> files" where
  "run_job env tmp_dir job tar memory cpu_percent max_dur use_gpu written fl =
     (let job_tmp = tmp_of_job tmp_dir job; output_dir = path_join job_tmp ''output'' in
      case (io_mkdir (me_io env) job_tmp, io_mkdir (me_io env) output_dir) of
        (Some e, _) \<Rightarrow> (Inl e, [], fl)
      | (None, Some e) \<Rightarrow> (Inl e, [], fl)
      | (None, None) \<Rightarrow>
          (case load_image env tar of
             (Inl e, cs) \<Rightarrow> (Inl e, cs, fl)
           | (Inr img, cs) \<Rightarrow>
               (case create_container env job img memory cpu_percent (path_text output_dir) use_gpu of
                  (Inl e, cs1) \<Rightarrow> (Inl e, cs @ cs1, fl)
                | (Inr cid, cs1) \<Rightarrow>
                    (case start_container env cid of
                       (Inl e, cs2) \<Rightarrow> (Inl e, cs @ cs1 @ cs2, fl)
                     | (Inr _, cs2) \<Rightarrow>
                         let fl' = fold (\<lambda>(n, b). hm_insert (output_dir @ [n]) b) written fl;
                             (cs3, fl'') = cleanup_job env job (Some cid) (Some img) tmp_dir fl' in
                         (Inr (job_exit env cid max_dur = 0), cs @ cs1 @ cs2 @ cs3, fl'')))))"

section \<open>Namespaces and log frames\<close>

text \<open>The \<open>ip\<close> tool: it cannot be started, or ends with success or with a status text.\<close>

datatype tool_status = NoTool string | ToolOk | ToolStatus string

definition ip_netns :: "(string list \<Rightarrow> tool_status) \<Rightarrow> string \<Rightarrow> string \<Rightarrow> string + string" where
  "ip_netns ip verb ns =
     (case ip [''netns'', verb, ns] of
        NoTool e \<Rightarrow> Inl (''running ip netns '' @ verb @ '': '' @ e)
      | ToolStatus st \<Rightarrow> Inl (''ip netns '' @ verb @ '' failed with status '' @ st)
      | ToolOk \<Rightarrow> Inr ns)"

definition create_netns :: "(string list \<Rightarrow> tool_status) \<Rightarrow> string \<Rightarrow> string + string" where
  "create_netns ip job = ip_netns ip ''add'' (''decentgpu-job-'' @ job)"

definition delete_netns :: "(string list \<Rightarrow> tool_status) \<Rightarrow> string \<Rightarrow> string + unit" where
  "delete_netns ip ns = (case ip_netns ip ''del'' ns of Inl e \<Rightarrow> Inl e | Inr _ \<Rightarrow> Inr ())"

definition log_envelope :: "string \<Rightarrow> int \<Rightarrow> bool \<Rightarrow> string \<Rightarrow> envelope" where
  "log_envelope job now_ms is_stderr message = Some (PLogLine job now_ms (if is_stderr then 1 else 0) message)"

definition send_log_line :: "(envelope \<Rightarrow> bytes) \<Rightarrow> string \<Rightarrow> int \<Rightarrow> string \<Rightarrow> bool \<Rightarrow> bytes" where
  "send_log_line enc job now_ms message is_stderr =
     (let encoded = enc (log_envelope job now_ms is_stderr message) in
      to_be_bytes (of_nat (length encoded)) @ encoded)"

section \<open>What is left behind\<close>

lemma frame_of_log_line: "send_log_line enc job now_ms message is_stderr = write_length_prefixed (enc (log_envelope job now_ms is_stderr message))"
  by (simp add: send_log_line_def write_length_prefixed_def Let_def)

lemma log_line_read:
  assumes "length (enc (log_envelope job now_ms is_stderr message)) \<le> MAX_FRAME"
  shows "read_length_prefixed (send_log_line enc job now_ms message is_stderr @ rest) =
    Inr (enc (log_envelope job now_ms is_stderr message), rest)"
  unfolding frame_of_log_line by (rule transfer_frames.read_write [OF assms])

lemma remove_under: "\<forall>f\<in>set (filter (\<lambda>f. \<not> under dir (fst f)) fl). \<not> under dir (fst f)"
  by simp

lemma cleanup_files:
  assumes "cleanup_job env job c i tmp fl = (cs, fl')" "me_remove_dir env (tmp_of_job tmp job)"
  shows "\<forall>f\<in>set fl'. \<not> under (tmp_of_job tmp job) (fst f)"
  using assms by (auto simp: cleanup_job_def Let_def path_exists_def list_ex_iff split: if_splits)

text \<open>
  The runner cleans up exactly when the container was started. Then it stops and removes the
  container, removes the image and deletes the directory of the job, with everything the container
  wrote to its output directory; nobody has read that output. When the image was imported and a later
  step before the start fails, the call ends with nothing removed.
\<close>

theorem runner_cleanup:
  assumes "run_job env tmp job tar memory cpu_percent max_dur use_gpu written fl = (r, cs, fl')"
  shows "(case r of
      Inr ok \<Rightarrow> \<exists>i name config c.
        cs = [ImportImage tar, NewContainer name config, RunContainer c, StopContainer c, DeleteContainer c, DeleteImage i] \<and>
        (ok \<longleftrightarrow> job_exit env c max_dur = 0) \<and>
        (me_remove_dir env (tmp_of_job tmp job) \<longrightarrow> (\<forall>f\<in>set fl'. \<not> under (tmp_of_job tmp job) (fst f)))
    | Inl e \<Rightarrow> fl' = fl \<and> (\<forall>x. DeleteContainer x \<notin> set cs \<and> DeleteImage x \<notin> set cs))"
proof (cases r)
  case (Inl e)
  with assms show ?thesis
    by (auto simp: run_job_def Let_def load_image_def create_container_def start_container_def
        split: option.splits sum.splits prod.splits)
next
  case (Inr ok)
  from assms obtain i name config c fl2 cs3 where run:
    "cleanup_job env job (Some c) (Some i) tmp fl2 = (cs3, fl')" "ok \<longleftrightarrow> job_exit env c max_dur = 0"
    "cs = [ImportImage tar, NewContainer name config, RunContainer c] @ cs3"
    by (auto simp: Inr run_job_def Let_def load_image_def create_container_def start_container_def
        split: option.splits sum.splits prod.splits)
  moreover from run(1) have "cs3 = [StopContainer c, DeleteContainer c, DeleteImage i]"
    by (auto simp: cleanup_job_def Let_def remove_container_def remove_image_def)
  ultimately show ?thesis using cleanup_files [OF run(1)] Inr by auto
qed

section \<open>Witness\<close>

definition demo_manager :: manager_env where
  "demo_manager = \<lparr>me_import = (\<lambda>_. [Inr (Some ''img'')]), me_create = (\<lambda>_ _. Inr ''c1''), me_start = (\<lambda>_. None),
     me_wait = (\<lambda>_. [Inr 0]), me_timeout = (\<lambda>_. False), me_remove = (\<lambda>_. None), me_remove_image = (\<lambda>_. None),
     me_io = \<lparr>io_mkdir = \<lambda>_. None, io_write = \<lambda>_. None\<rparr>, me_remove_dir = (\<lambda>_. True)\<rparr>"

lemma runner_cleanup_witness:
  "\<exists>cs fl'. run_job demo_manager [''tmp''] ''j1'' [1] 512 100 60 False [(''out.txt'', [7])] [] = (Inr True, cs, fl') \<and>
     (\<forall>f\<in>set fl'. \<not> under (tmp_of_job [''tmp''] ''j1'') (fst f))"
proof -
  have "\<exists>ok. fst (run_job demo_manager [''tmp''] ''j1'' [1] 512 100 60 False [(''out.txt'', [7])] []) = Inr ok"
    by (simp add: run_job_def load_image_def create_container_def start_container_def demo_manager_def Let_def split: prod.split)
  then obtain ok cs fl' where r: "run_job demo_manager [''tmp''] ''j1'' [1] 512 100 60 False [(''out.txt'', [7])] [] = (Inr ok, cs, fl')"
    by (metis prod.collapse)
  from runner_cleanup [OF r] obtain c where "ok \<longleftrightarrow> job_exit demo_manager c 60 = 0"
    "me_remove_dir demo_manager (tmp_of_job [''tmp''] ''j1'') \<longrightarrow> (\<forall>f\<in>set fl'. \<not> under (tmp_of_job [''tmp''] ''j1'') (fst f))"
    by auto
  then have "ok" "\<forall>f\<in>set fl'. \<not> under (tmp_of_job [''tmp''] ''j1'') (fst f)"
    by (simp_all add: job_exit_def wait_container_def demo_manager_def)
  with r show ?thesis by auto
qed

end
