(* ===== verification/Protocols.thy ===== *)
theory Protocols
  imports File_Transfer Worker_Loop Bootstrap_Node
begin

text \<open>
  What the nodes say to libp2p that they speak: the behaviours that each of the three binaries composes
  (\<open>p2p/behaviour.rs\<close> of master and worker, \<open>build_swarm\<close> of the bootstrap node), the names of
  \<open>p2p/protocols.rs\<close>, and the codec of the worker; and that the nodes fit together.
\<close>

section \<open>Names\<close>

definition PROTO_JOB :: string where "PROTO_JOB = ''/decentgpu/job/1.0.0''"
definition PROTO_STREAM :: string where "PROTO_STREAM = ''/decentgpu/stream/1.0.0''"
definition PROTO_TRANSFER :: string where "PROTO_TRANSFER = ''/decentgpu/transfer/1.0.0''"
definition NAMESPACE_MASTER :: string where "NAMESPACE_MASTER = ''master''"
definition NAMESPACE_WORKERS :: string where "NAMESPACE_WORKERS = ''workers''"
definition TOPIC_HEARTBEAT :: string where "TOPIC_HEARTBEAT = ''/decentgpu/workers/heartbeat''"
definition TOPIC_JOB_STATUS :: string where "TOPIC_JOB_STATUS = ''/decentgpu/jobs/status''"

text \<open>The worker has its own copies.\<close>

definition WORKER_PROTO_JOB :: string where "WORKER_PROTO_JOB = ''/decentgpu/job/1.0.0''"
definition WORKER_TOPIC_HEARTBEAT :: string where "WORKER_TOPIC_HEARTBEAT = ''/decentgpu/workers/heartbeat''"
definition WORKER_RENDEZVOUS_NAMESPACE :: string where "WORKER_RENDEZVOUS_NAMESPACE = ''workers''"

section \<open>Behaviours\<close>

datatype kad_mode = KadClient | KadServer

datatype role = NoRole | ClientRole | ServerRole

text \<open>Seconds between heartbeats of the mesh, its sizes if they are set, and the subscriptions.\<close>

record gossip_config =
  gc_heartbeat :: nat
  gc_mesh :: "(nat \<times> nat \<times> nat) option"
  gc_strict :: bool
  gc_signed :: bool
  gc_topics :: "string list"

text \<open>\<open>None\<close> where a behaviour is absent or a setting is left to the library.\<close>

record behaviours =
  bh_kademlia :: "(string \<times> kad_mode) option"
  bh_rendezvous :: role
  bh_relay :: role
  bh_dcutr :: bool
  bh_autonat :: bool
  bh_identify :: string
  bh_agent :: "string option"
  bh_ping :: "(nat \<times> nat) option"
  bh_gossip :: "gossip_config option"
  bh_job :: "(string list \<times> nat) option"

definition master_behaviours :: behaviours where
  "master_behaviours =
     \<lparr>bh_kademlia = Some (''/decentgpu/kad/1.0.0'', KadServer), bh_rendezvous = ClientRole, bh_relay = ClientRole,
      bh_dcutr = True, bh_autonat = True, bh_identify = ''/decentgpu/identify/1.0.0'', bh_agent = Some ''master/0.1.0'',
      bh_ping = None,
      bh_gossip = Some \<lparr>gc_heartbeat = 10, gc_mesh = Some (6, 4, 12), gc_strict = True, gc_signed = True,
        gc_topics = [TOPIC_HEARTBEAT, TOPIC_JOB_STATUS]\<rparr>,
      bh_job = Some ([PROTO_JOB], 30)\<rparr>"

definition worker_behaviours :: behaviours where
  "worker_behaviours =
     \<lparr>bh_kademlia = Some (''/decentgpu/kad/1.0.0'', KadClient), bh_rendezvous = ClientRole, bh_relay = ClientRole,
      bh_dcutr = True, bh_autonat = True, bh_identify = ''/decentgpu/identify/1.0.0'', bh_agent = Some ''worker/0.1.0'',
      bh_ping = None,
      bh_gossip = Some \<lparr>gc_heartbeat = 30, gc_mesh = None, gc_strict = True, gc_signed = True,
        gc_topics = [WORKER_TOPIC_HEARTBEAT]\<rparr>,
      bh_job = Some ([WORKER_PROTO_JOB], 30)\<rparr>"

text \<open>
  A swarm: its transports, all over Noise and Yamux, and for how many seconds it keeps a connection that
  nothing uses.
\<close>

datatype transport = TcpNoDelay | Dns | WebSocket

record swarm_config =
  sw_transports :: "transport list"
  sw_behaviours :: behaviours
  sw_idle :: nat

definition build_swarm :: swarm_config where
  "build_swarm =
     \<lparr>sw_transports = [TcpNoDelay, WebSocket],
      sw_behaviours =
        \<lparr>bh_kademlia = None, bh_rendezvous = ServerRole, bh_relay = ServerRole, bh_dcutr = False, bh_autonat = False,
         bh_identify = ''/decentgpu/identify/1.0.0'', bh_agent = None, bh_ping = Some (60, 30), bh_gossip = None,
         bh_job = None\<rparr>,
      sw_idle = 7200\<rparr>"

definition master_swarm :: swarm_config where
  "master_swarm = \<lparr>sw_transports = [TcpNoDelay, WebSocket], sw_behaviours = master_behaviours, sw_idle = 7200\<rparr>"

definition worker_swarm :: swarm_config where
  "worker_swarm = \<lparr>sw_transports = [TcpNoDelay, Dns, WebSocket], sw_behaviours = worker_behaviours, sw_idle = 7200\<rparr>"

text \<open>
  The id of a gossip message: eight bytes of a hash of its source, if it has one, and its sequence
  number. \<open>hasher\<close> is the hash of the standard library.
\<close>

datatype hashed = HashPeer peer_id | HashSeq "u64 option"

definition u64_be_bytes :: "u64 \<Rightarrow> bytes" where
  "u64_be_bytes w = map (\<lambda>i. ucast (drop_bit (8 * i) w)) [7, 6, 5, 4, 3, 2, 1, 0]"

definition message_id_fn :: "(hashed list \<Rightarrow> u64) \<Rightarrow> peer_id option \<Rightarrow> u64 option \<Rightarrow> bytes" where
  "message_id_fn hasher source seq =
     u64_be_bytes (hasher ((case source of None \<Rightarrow> [] | Some p \<Rightarrow> [HashPeer p]) @ [HashSeq seq]))"

section \<open>The codec of the worker\<close>

definition worker_read_u32 :: "bytes \<Rightarrow> string + nat \<times> bytes" where
  "worker_read_u32 s = (case read_exact 4 s of Inl e \<Rightarrow> Inl e | Inr (buf, s') \<Rightarrow> Inr (from_be_bytes buf, s'))"

definition worker_codec_read :: "bytes \<Rightarrow> string + bytes \<times> bytes" where
  "worker_codec_read s = (case worker_read_u32 s of Inl e \<Rightarrow> Inl e | Inr (len, s') \<Rightarrow> read_exact len s')"

definition worker_codec_write :: "bytes \<Rightarrow> bytes" where
  "worker_codec_write msg = to_be_bytes (of_nat (length msg)) @ msg"

lemma worker_codec: "worker_codec_read = codec_read" "worker_codec_write = codec_write"
  by (auto simp: fun_eq_iff worker_codec_read_def worker_read_u32_def codec_read_def worker_codec_write_def codec_write_def
      split: sum.split prod.split)

text \<open>What either node writes the other one reads.\<close>

interpretation to_master: framing worker_codec_write codec_read "2 ^ 32 - 1"
  unfolding worker_codec by (rule codec_frames.framing_axioms)

interpretation to_worker: framing codec_write worker_codec_read "2 ^ 32 - 1"
  unfolding worker_codec by (rule codec_frames.framing_axioms)

section \<open>The nodes fit together\<close>

text \<open>
  Master and worker offer the same protocol for jobs and each reads what the other writes, message by
  message; the master subscribes to the topic on which the worker publishes, and the worker registers
  in the namespace in which the master looks for workers; all three nodes share a transport and the
  protocol by which they identify themselves.
\<close>

lemma nodes_interoperate:
  assumes "list_all (\<lambda>b. length b < 2 ^ 32) bs"
  shows "to_master.read_many (length bs) (concat (map worker_codec_write bs) @ rest) = Inr (bs, rest)"
    and "to_worker.read_many (length bs) (concat (map codec_write bs) @ rest) = Inr (bs, rest)"
    and "bh_job master_behaviours = bh_job worker_behaviours"
    and "WORKER_TOPIC_HEARTBEAT \<in> set (gc_topics (the (bh_gossip master_behaviours)))"
    and "WORKER_RENDEZVOUS_NAMESPACE = NAMESPACE_WORKERS"
    and "\<forall>a\<in>{master_swarm, worker_swarm, build_swarm}. \<forall>b\<in>{master_swarm, worker_swarm, build_swarm}.
       bh_identify (sw_behaviours a) = bh_identify (sw_behaviours b) \<and>
       set (sw_transports a) \<inter> set (sw_transports b) \<noteq> {}"
proof -
  have bs: "list_all (\<lambda>b. length b \<le> 2 ^ 32 - 1) bs" using assms by (auto simp: list_all_iff)
  show "to_master.read_many (length bs) (concat (map worker_codec_write bs) @ rest) = Inr (bs, rest)"
    by (rule to_master.read_many_written [OF bs])
  show "to_worker.read_many (length bs) (concat (map codec_write bs) @ rest) = Inr (bs, rest)"
    by (rule to_worker.read_many_written [OF bs])
qed (simp_all add: master_behaviours_def worker_behaviours_def PROTO_JOB_def WORKER_PROTO_JOB_def TOPIC_HEARTBEAT_def
    WORKER_TOPIC_HEARTBEAT_def WORKER_RENDEZVOUS_NAMESPACE_def NAMESPACE_WORKERS_def master_swarm_def worker_swarm_def
    build_swarm_def)

text \<open>A worker takes any peer for the master whose agent begins with \<open>master/\<close>.\<close>

lemma identified:
  "wk_master (fst (worker_step env s (WIdentifyReceived p agent observed listen))) =
   (if starts_with ''master/'' agent then Some p else wk_master s)"
  by (auto simp: worker_bootstrap_identified_def try_register_with_master_def Let_def split: option.split)

text \<open>
  The bootstrap node runs neither Kademlia nor AutoNAT, although master and worker add it as a Kademlia
  address and as an AutoNAT server when they identify it.
\<close>

lemma bootstrap_is_no_server:
  "bh_kademlia (sw_behaviours build_swarm) = None \<and> \<not> bh_autonat (sw_behaviours build_swarm) \<and>
   WAddAutonatServer p addr \<in> set (snd (worker_bootstrap_identified p addr s)) \<and>
   WAddKademliaAddress p addr \<in> set (snd (worker_bootstrap_identified p addr s))"
  by (simp add: build_swarm_def worker_bootstrap_identified_def Let_def)

end
