(* ===== verification/Downloads.thy ===== *)
theory Downloads
  imports Jobs_Api Rust_Text Accounts
begin

text \<open>
  The distribution of the worker program (\<open>api/downloads.rs\<close>, and the upload of \<open>api/admin.rs\<close>): the
  table of platforms, the availability page, upload and download of the binaries, and the set-up
  scripts with their addresses and their token.
\<close>

section \<open>Binaries\<close>

definition PLATFORMS :: "string list" where
  "PLATFORMS = [''linux-x86_64'', ''macos-aarch64'', ''macos-x86_64'', ''windows-x86_64'']"

definition binary_filename :: "string \<Rightarrow> string" where
  "binary_filename platform =
     (if starts_with ''windows'' platform then ''decentgpu-worker.exe'' else ''decentgpu-worker'')"

definition download_filename :: "string \<Rightarrow> string" where
  "download_filename platform =
     (if starts_with ''windows'' platform then ''decentgpu-worker.exe'' else ''decentgpu-worker-'' @ platform)"

definition binary_path :: "string list \<Rightarrow> string \<Rightarrow> string list" where
  "binary_path dir platform = path_join (path_join dir platform) (binary_filename platform)"

text \<open>The object of the platforms is a hash map in the source; here it has the order of the table.\<close>

definition platform_info :: "files \<Rightarrow> string list \<Rightarrow> string \<Rightarrow> json" where
  "platform_info fl dir platform =
     (let url = JStr (''/api/v1/downloads/worker/'' @ platform) in
      case map_of fl (binary_path dir platform) of
        Some b \<Rightarrow>
          JObj [(''available'', JBool True), (''size_bytes'', JNum (int (length b))),
                (''size_mb'', JFloat (f64_div (f64_of_int (int (length b))) (Fin 1048576))), (''download_url'', url)]
      | None \<Rightarrow> JObj [(''available'', JBool False), (''size_mb'', JNull), (''download_url'', url)])"

definition run_hint :: string where
  "run_hint =
     ''chmod +x decentgpu-worker && WORKER_BOOTSTRAP_ADDR=/ip4/<IP>/tcp/9000 WORKER_BOOTSTRAP_PEER_ID=<PEER_ID> ./decentgpu-worker''"

definition windows_hint :: string where
  "windows_hint =
     ''$env:WORKER_BOOTSTRAP_ADDR='' @ [CHR 0x27] @ ''/ip4/<IP>/tcp/9000'' @ [CHR 0x27] @
     ''; $env:WORKER_BOOTSTRAP_PEER_ID='' @ [CHR 0x27] @ ''<PEER_ID>'' @ [CHR 0x27] @ ''; .'' @ [CHR 0x5C] @ ''decentgpu-worker.exe''"

definition download_info :: "string \<Rightarrow> files \<Rightarrow> string list \<Rightarrow> json" where
  "download_info version fl dir =
     JObj [(''version'', JStr version),
           (''platforms'', JObj (map (\<lambda>p. (p, platform_info fl dir p)) PLATFORMS)),
           (''instructions'', JObj [(''linux'', JStr run_hint), (''macos'', JStr run_hint), (''windows'', JStr windows_hint)])]"

text \<open>The file that is streamed: \<open>re_fails\<close> tells which files cannot be opened.\<close>

definition download_worker :: "read_env \<Rightarrow> string list \<Rightarrow> string \<Rightarrow> download web" where
  "download_worker re dir platform =
     (if platform \<notin> set PLATFORMS then throw_web (not_found ''unsupported platform'')
      else (\<lambda>d fs fl.
        case (re_fails re (binary_path dir platform), map_of fl (binary_path dir platform)) of
          (None, Some b) \<Rightarrow>
            return_web \<lparr>dl_type = ''application/octet-stream'', dl_name = download_filename platform, dl_body = b\<rparr> d fs fl
        | _ \<Rightarrow> throw_web (not_found (''binary for '' @ [CHR 0x27] @ platform @ [CHR 0x27] @ '' is not yet available'')) d fs fl))"

definition upload_worker_binary :: "io \<Rightarrow> string list \<Rightarrow> string \<Rightarrow> bytes \<Rightarrow> json web" where
  "upload_worker_binary os dir platform body =
     (if platform \<notin> set PLATFORMS then throw_web (bad_request ''unsupported platform'')
      else
        bind_web (mkdir_web os ''failed to create dir: '' (path_join dir platform)) (\<lambda>_.
        bind_web (write_web os ''failed to write binary: '' (path_join (path_join dir platform) (binary_filename platform)) body)
          (\<lambda>_. return_web (JObj [(''status'', JStr ''success''), (''platform'', JStr platform)]))))"

section \<open>Set-up scripts\<close>

text \<open>The environment variables, the configuration of the master, and the clock of the token.\<close>

record setup_env =
  su_var :: "string \<Rightarrow> string option"
  su_bootstrap_addr :: string
  su_public_ip :: string
  su_p2p_tcp_addr :: string

definition script_bootstrap_addr :: "setup_env \<Rightarrow> string" where
  "script_bootstrap_addr env =
     unwrap_or (su_bootstrap_addr env)
       (or_else (su_var env ''MASTER_BOOTSTRAP_ADDR'') (su_var env ''MASTER__BOOTSTRAP_ADDR''))"

definition script_public_ip :: "setup_env \<Rightarrow> string" where
  "script_public_ip env =
     unwrap_or (su_public_ip env) (or_else (su_var env ''MASTER_PUBLIC_IP'') (su_var env ''MASTER__PUBLIC_IP''))"

definition is_prod_domain :: "string \<Rightarrow> bool" where
  "is_prod_domain ip \<longleftrightarrow> contains ''.me'' ip \<or> contains ''.com'' ip \<or> contains ''.net'' ip"

text \<open>The addresses of the bootstrap node and of the master for the worker.\<close>

definition worker_addrs :: "setup_env \<Rightarrow> string \<times> string" where
  "worker_addrs env =
     (let ip = script_public_ip env in
      if is_prod_domain ip then
        let base = unwrap_or ip (strip_prefix ''gpu.'' ip) in
        (''/dns4/ws-bootstrap.'' @ base @ ''/tcp/443/wss'', ''/dns4/ws-master.'' @ base @ ''/tcp/443/wss'')
      else
        let port = unwrap_or 9010 (parse_u16 (last (split_slash (su_p2p_tcp_addr env)))) in
        (script_bootstrap_addr env, ''/ip4/'' @ ip @ ''/tcp/'' @ show_nat (unat port)))"

text \<open>A token for seven days, or an empty text when it cannot be signed.\<close>

definition generate_worker_token :: "auth_env \<Rightarrow> auth_user \<Rightarrow> string" where
  "generate_worker_token env user =
     (case en_encode env \<lparr>cl_sub = en_uuid env (au_id user), cl_email = au_email user, cl_role = au_role user,
              cl_exp = en_now env + 7 * 86400\<rparr> (en_secret env) of
        Inr t \<Rightarrow> t
      | Inl _ \<Rightarrow> [])"

definition dq :: string where "dq = [CHR 0x22]"
definition sq :: string where "sq = [CHR 0x27]"
definition bs :: string where "bs = [CHR 0x5C]"

definition macos_script :: "string \<Rightarrow> string \<Rightarrow> string \<Rightarrow> string \<Rightarrow> string \<Rightarrow> string list" where
  "macos_script binary_name token bootstrap_addr bootstrap_peer_id master_p2p_addr =
     [''#!/bin/bash'',
      ''set -e'',
      ''GREEN='' @ sq @ bs @ ''033[0;32m'' @ sq @ ''; BLUE='' @ sq @ bs @ ''033[0;34m'' @ sq @ ''; RED='' @ sq @ bs @ ''033[0;31m'' @ sq @ ''; NC='' @ sq @ bs @ ''033[0m'' @ sq,
      ''BINARY='' @ dq @ binary_name @ dq,
      ''SCRIPT_DIR='' @ dq @ ''$(cd '' @ dq @ ''$(dirname '' @ dq @ ''${BASH_SOURCE[0]}'' @ dq @ '')'' @ dq @ '' && pwd)'' @ dq,
      ''echo '' @ dq @ dq,
      ''echo -e '' @ dq @ ''${BLUE}DecentGPU Worker Kurulum${NC}'' @ dq,
      ''echo '' @ dq @ ''========================='' @ dq,
      ''echo '' @ dq @ dq,
      ''if [ ! -f '' @ dq @ ''$SCRIPT_DIR/$BINARY'' @ dq @ '' ]; then'',
      ''    echo -e '' @ dq @ ''${RED}HATA: $BINARY bulunamadi! Programi ayni klasore indirin.${NC}'' @ dq,
      ''    exit 1'',
      ''fi'',
      ''echo -e '' @ dq @ ''${GREEN}Worker programi bulundu${NC}'' @ dq,
      ''xattr -dr com.apple.quarantine '' @ dq @ ''$SCRIPT_DIR/$BINARY'' @ dq @ '' 2>/dev/null || true'',
      ''chmod +x '' @ dq @ ''$SCRIPT_DIR/$BINARY'' @ dq,
      ''echo -e '' @ dq @ ''${GREEN}Izinler ayarlandi${NC}'' @ dq,
      ''mkdir -p '' @ dq @ ''$HOME/.decentgpu/workspace'' @ dq,
      ''echo -e '' @ dq @ ''${GREEN}Calisma dizini hazir${NC}'' @ dq,
      ''echo '' @ dq @ dq,
      ''echo -e '' @ dq @ ''${BLUE}Sunucuya baglaniliyor...${NC}'' @ dq,
      ''echo '' @ dq @ dq,
      ''export WORKER_AUTH_TOKEN='' @ dq @ token @ dq,
      ''export WORKER_BOOTSTRAP_ADDR='' @ dq @ bootstrap_addr @ dq,
      ''export WORKER_BOOTSTRAP_PEER_ID='' @ dq @ bootstrap_peer_id @ dq,
      ''export WORKER_MASTER_ADDR='' @ dq @ master_p2p_addr @ dq,
      ''export WORKER_KEYPAIR_PATH='' @ dq @ ''$HOME/.decentgpu/worker.keypair'' @ dq,
      ''export WORKER_WORKSPACE_PATH='' @ dq @ ''$HOME/.decentgpu/workspace'' @ dq,
      ''export WORKER_P2P_PORT=9030'',
      ''export RUST_LOG=decentgpu_worker=info'',
      ''echo -e '' @ dq @ ''${GREEN}Worker baslatiliyor! Durdurmak icin: Ctrl+C${NC}'' @ dq,
      ''echo '' @ dq @ ''========================='' @ dq,
      ''echo '' @ dq @ dq,
      dq @ ''$SCRIPT_DIR/$BINARY'' @ dq]"

definition linux_script :: "string \<Rightarrow> string \<Rightarrow> string \<Rightarrow> string \<Rightarrow> string list" where
  "linux_script token bootstrap_addr bootstrap_peer_id master_p2p_addr =
     [''#!/bin/bash'',
      ''set -e'',
      ''BINARY='' @ dq @ ''decentgpu-worker-linux-x86_64'' @ dq,
      ''SCRIPT_DIR='' @ dq @ ''$(cd '' @ dq @ ''$(dirname '' @ dq @ ''${BASH_SOURCE[0]}'' @ dq @ '')'' @ dq @ '' && pwd)'' @ dq,
      ''echo '' @ dq @ ''DecentGPU Worker Kurulum'' @ dq,
      ''echo '' @ dq @ ''========================'' @ dq,
      ''if [ ! -f '' @ dq @ ''$SCRIPT_DIR/$BINARY'' @ dq @ '' ]; then'',
      ''    echo '' @ dq @ ''HATA: $BINARY bulunamadi!'' @ dq,
      ''    exit 1'',
      ''fi'',
      ''chmod +x '' @ dq @ ''$SCRIPT_DIR/$BINARY'' @ dq,
      ''mkdir -p '' @ dq @ ''$HOME/.decentgpu/workspace'' @ dq,
      ''export WORKER_AUTH_TOKEN='' @ dq @ token @ dq,
      ''export WORKER_BOOTSTRAP_ADDR='' @ dq @ bootstrap_addr @ dq,
      ''export WORKER_BOOTSTRAP_PEER_ID='' @ dq @ bootstrap_peer_id @ dq,
      ''export WORKER_MASTER_ADDR='' @ dq @ master_p2p_addr @ dq,
      ''export WORKER_KEYPAIR_PATH='' @ dq @ ''$HOME/.decentgpu/worker.keypair'' @ dq,
      ''export WORKER_WORKSPACE_PATH='' @ dq @ ''$HOME/.decentgpu/workspace'' @ dq,
      ''export WORKER_P2P_PORT=9030'',
      ''export RUST_LOG=decentgpu_worker=info'',
      ''echo '' @ dq @ ''Hazir - Worker baslatiliyor!'' @ dq,
      ''echo '' @ dq @ dq,
      dq @ ''$SCRIPT_DIR/$BINARY'' @ dq]"

definition windows_script :: "string \<Rightarrow> string \<Rightarrow> string \<Rightarrow> string \<Rightarrow> string list" where
  "windows_script token bootstrap_addr bootstrap_peer_id master_p2p_addr =
     [''@echo off'',
      ''echo.'',
      ''echo  DecentGPU Worker Kurulum'',
      ''echo  ========================'',
      ''set BINARY=decentgpu-worker-windows-x86_64.exe'',
      ''if not exist '' @ dq @ ''%~dp0%BINARY%'' @ dq @ '' ('',
      ''    echo  HATA: %BINARY% bulunamadi!'',
      ''    pause & exit /b 1'',
      '')'',
      ''echo  Worker programi bulundu.'',
      ''mkdir '' @ dq @ ''%USERPROFILE%'' @ bs @ ''.decentgpu'' @ bs @ ''workspace'' @ dq @ '' 2>nul'',
      ''set WORKER_AUTH_TOKEN='' @ token,
      ''set WORKER_BOOTSTRAP_ADDR='' @ bootstrap_addr,
      ''set WORKER_BOOTSTRAP_PEER_ID='' @ bootstrap_peer_id,
      ''set WORKER_MASTER_ADDR='' @ master_p2p_addr,
      ''set WORKER_KEYPAIR_PATH=%USERPROFILE%'' @ bs @ ''.decentgpu'' @ bs @ ''worker.keypair'',
      ''set WORKER_WORKSPACE_PATH=%USERPROFILE%'' @ bs @ ''.decentgpu'' @ bs @ ''workspace'',
      ''set WORKER_P2P_PORT=9030'',
      ''set RUST_LOG=decentgpu_worker=info'',
      ''echo  Hazir!'',
      dq @ ''%~dp0%BINARY%'' @ dq,
      ''pause'']"

text \<open>
  The script, its file name and its type, or the bad request of an unknown platform. The scripts for
  Linux and Windows are given the address of the bootstrap node that the master itself uses, the one
  for macOS the address for workers.
\<close>

definition setup_script_handler :: "auth_env \<Rightarrow> setup_env \<Rightarrow> string \<Rightarrow> auth_user \<Rightarrow> (string \<times> string \<times> string) option" where
  "setup_script_handler aenv env platform user =
     (let token = generate_worker_token aenv user;
          peer = unwrap_or ''BOOTSTRAP_PEER_ID_NOT_CONFIGURED'' (su_var env ''BOOTSTRAP_PEER_ID'');
          (boot, master) = worker_addrs env in
      if platform = ''macos-aarch64'' \<or> platform = ''macos-x86_64'' then
        let binary = (if platform = ''macos-aarch64'' then ''decentgpu-worker-macos-aarch64''
                      else ''decentgpu-worker-macos-x86_64'') in
        Some (printed (macos_script binary token boot peer master), ''decentgpu-setup.sh'', ''text/x-shellscript'')
      else if platform = ''linux-x86_64'' then
        Some (printed (linux_script token (script_bootstrap_addr env) peer master), ''decentgpu-setup.sh'', ''text/x-shellscript'')
      else if platform = ''windows-x86_64'' then
        Some (printed (windows_script token (script_bootstrap_addr env) peer master), ''decentgpu-setup.bat'', ''text/plain'')
      else None)"

section \<open>Facts\<close>

lemma binary_path_plain:
  assumes "platform \<in> set PLATFORMS"
  shows "binary_path dir platform = dir @ [platform, binary_filename platform]"
proof -
  have "CHR ''/'' \<notin> set platform" "platform \<noteq> []" "platform \<noteq> ''.''" "platform \<noteq> ''..''"
    using assms by (auto simp: PLATFORMS_def)
  moreover have "CHR ''/'' \<notin> set (binary_filename platform)" "binary_filename platform \<noteq> []"
    "binary_filename platform \<noteq> ''.''" "binary_filename platform \<noteq> ''..''"
    by (auto simp: binary_filename_def)
  ultimately show ?thesis by (simp add: binary_path_def path_join_plain)
qed

text \<open>
  C38. What is uploaded for a platform is what is downloaded for it. A platform of the table gets exactly
  the bytes that were sent, under its own name and inside the directory of the binaries, and the
  downloads of the other platforms do not change; any other platform, such as a path with dots, is
  refused by both requests and no file changes.
\<close>

theorem binary_roundtrip:
  assumes "\<forall>p. io_mkdir os p = None" "\<forall>p. io_write os p = None" "\<forall>p. re_fails re p = None"
  shows "if platform \<in> set PLATFORMS then
      \<exists>j fl'. upload_worker_binary os dir platform body d fs fl = (Inr j, d, fs, fl') \<and>
        download_worker re dir platform d fs fl' =
          (Inr \<lparr>dl_type = ''application/octet-stream'', dl_name = download_filename platform, dl_body = body\<rparr>, d, fs, fl') \<and>
        (\<forall>p\<in>set PLATFORMS. p \<noteq> platform \<longrightarrow> map_of fl' (binary_path dir p) = map_of fl (binary_path dir p)) \<and>
        (\<forall>f. \<not> under dir f \<longrightarrow> map_of fl' f = map_of fl f)
    else (\<exists>e. upload_worker_binary os dir platform body d fs fl = (Inl e, d, fs, fl)) \<and>
      (\<exists>e. download_worker re dir platform d fs fl = (Inl e, d, fs, fl))"
proof (cases "platform \<in> set PLATFORMS")
  case True
  let ?fl = "hm_insert (binary_path dir platform) body fl"
  have up: "upload_worker_binary os dir platform body d fs fl =
      (Inr (JObj [(''status'', JStr ''success''), (''platform'', JStr platform)]), d, fs, ?fl)"
    using True assms(1,2)
    by (simp add: upload_worker_binary_def bind_web_def mkdir_web_def write_web_def return_web_def binary_path_def)
  have lookup: "map_of ?fl f = (if f = binary_path dir platform then Some body else map_of fl f)" for f
    by (rule hm.lookup_insert)
  have "binary_path dir p \<noteq> binary_path dir platform" if "p \<in> set PLATFORMS" "p \<noteq> platform" for p
    using that True by (simp add: binary_path_plain)
  moreover have "under dir (binary_path dir platform)" using True by (simp add: binary_path_plain under_def)
  ultimately show ?thesis
    using True up assms(3) by (auto simp: lookup download_worker_def return_web_def)
next
  case False
  then show ?thesis by (simp add: upload_worker_binary_def download_worker_def throw_web_def)
qed

lemma script_bootstrap_lines:
  "''export WORKER_BOOTSTRAP_ADDR='' @ dq @ b @ dq \<in> set (macos_script n t b p m)"
  "''export WORKER_BOOTSTRAP_ADDR='' @ dq @ b @ dq \<in> set (linux_script t b p m)"
  "''set WORKER_BOOTSTRAP_ADDR='' @ b \<in> set (windows_script t b p m)"
  unfolding macos_script_def linux_script_def windows_script_def list.set by blast+

text \<open>
  Behind a public domain only workers on macOS are sent to the bootstrap node through its web socket:
  the scripts for Linux and Windows contain the address that the master itself uses, which is the
  loopback address by default.
\<close>

theorem script_bootstrap_differs:
  assumes "is_prod_domain (script_public_ip env)"
    and "macos \<in> {''macos-aarch64'', ''macos-x86_64''}"
  shows "\<exists>mac linux windows n1 n2 n3 base.
    setup_script_handler aenv env macos user = Some (printed mac, n1, ''text/x-shellscript'') \<and>
    setup_script_handler aenv env ''linux-x86_64'' user = Some (printed linux, n2, ''text/x-shellscript'') \<and>
    setup_script_handler aenv env ''windows-x86_64'' user = Some (printed windows, n3, ''text/plain'') \<and>
    ''export WORKER_BOOTSTRAP_ADDR='' @ dq @ ''/dns4/ws-bootstrap.'' @ base @ ''/tcp/443/wss'' @ dq \<in> set mac \<and>
    ''export WORKER_BOOTSTRAP_ADDR='' @ dq @ script_bootstrap_addr env @ dq \<in> set linux \<and>
    ''set WORKER_BOOTSTRAP_ADDR='' @ script_bootstrap_addr env \<in> set windows"
proof -
  let ?ip = "script_public_ip env"
  let ?base = "unwrap_or ?ip (strip_prefix ''gpu.'' ?ip)"
  let ?token = "generate_worker_token aenv user"
  let ?peer = "unwrap_or ''BOOTSTRAP_PEER_ID_NOT_CONFIGURED'' (su_var env ''BOOTSTRAP_PEER_ID'')"
  have addrs: "worker_addrs env = (''/dns4/ws-bootstrap.'' @ ?base @ ''/tcp/443/wss'', ''/dns4/ws-master.'' @ ?base @ ''/tcp/443/wss'')"
    using assms(1) by (simp add: worker_addrs_def Let_def)
  obtain bin where mac: "setup_script_handler aenv env macos user = Some (printed (macos_script bin ?token
      (''/dns4/ws-bootstrap.'' @ ?base @ ''/tcp/443/wss'') ?peer (''/dns4/ws-master.'' @ ?base @ ''/tcp/443/wss'')),
      ''decentgpu-setup.sh'', ''text/x-shellscript'')"
    using assms(2) by (auto simp: setup_script_handler_def addrs Let_def)
  have others:
    "setup_script_handler aenv env ''linux-x86_64'' user = Some (printed (linux_script ?token (script_bootstrap_addr env)
      ?peer (''/dns4/ws-master.'' @ ?base @ ''/tcp/443/wss'')), ''decentgpu-setup.sh'', ''text/x-shellscript'')"
    "setup_script_handler aenv env ''windows-x86_64'' user = Some (printed (windows_script ?token (script_bootstrap_addr env)
      ?peer (''/dns4/ws-master.'' @ ?base @ ''/tcp/443/wss'')), ''decentgpu-setup.bat'', ''text/plain'')"
    by (simp_all add: setup_script_handler_def addrs Let_def)
  show ?thesis
    using mac others script_bootstrap_lines(1) [where b = "''/dns4/ws-bootstrap.'' @ ?base @ ''/tcp/443/wss''"]
      script_bootstrap_lines(2,3) [where b = "script_bootstrap_addr env"]
    unfolding append_assoc by blast
qed

section \<open>Witnesses\<close>

definition demo_disk :: io where
  "demo_disk = \<lparr>io_mkdir = \<lambda>_. None, io_write = \<lambda>_. None\<rparr>"

definition demo_reads :: read_env where
  "demo_reads = \<lparr>re_fails = \<lambda>_. None, re_first = \<lambda>_ _. None\<rparr>"

lemma binary_roundtrip_witness:
  "\<exists>j fl'. upload_worker_binary demo_disk [''bin''] ''linux-x86_64'' [1, 2] empty_db [] [] = (Inr j, empty_db, [], fl') \<and>
     download_worker demo_reads [''bin''] ''linux-x86_64'' empty_db [] fl' =
       (Inr \<lparr>dl_type = ''application/octet-stream'', dl_name = download_filename ''linux-x86_64'', dl_body = [1, 2]\<rparr>,
        empty_db, [], fl')"
proof -
  have "''linux-x86_64'' \<in> set PLATFORMS" by (simp add: PLATFORMS_def)
  moreover have "\<forall>p. io_mkdir demo_disk p = None" "\<forall>p. io_write demo_disk p = None" "\<forall>p. re_fails demo_reads p = None"
    by (simp_all add: demo_disk_def demo_reads_def)
  ultimately show ?thesis
    using binary_roundtrip [of demo_disk demo_reads "''linux-x86_64''" "[''bin'']" "[1, 2]" empty_db "[]" "[]"] by auto
qed

definition demo_setup :: setup_env where
  "demo_setup = \<lparr>su_var = (\<lambda>_. None), su_bootstrap_addr = ''/ip4/127.0.0.1/tcp/9000'', su_public_ip = ''gpu.a.com'',
     su_p2p_tcp_addr = ''/ip4/0.0.0.0/tcp/9010''\<rparr>"

lemma script_bootstrap_differs_witness:
  "\<exists>linux n. setup_script_handler (demo_auth 0) demo_setup ''linux-x86_64'' \<lparr>au_id = Uuid 1, au_email = ''a'', au_role = ''both''\<rparr> =
      Some (printed linux, n, ''text/x-shellscript'') \<and>
     ''export WORKER_BOOTSTRAP_ADDR='' @ dq @ ''/ip4/127.0.0.1/tcp/9000'' @ dq \<in> set linux"
proof -
  have ip: "script_public_ip demo_setup = ''gpu.a.com''"
    and addr: "script_bootstrap_addr demo_setup = ''/ip4/127.0.0.1/tcp/9000''"
    by (simp_all add: script_public_ip_def script_bootstrap_addr_def demo_setup_def or_else_def)
  have prod: "is_prod_domain (script_public_ip demo_setup)"
    by (simp add: ip is_prod_domain_def starts_with_def)
  have mac: "''macos-aarch64'' \<in> {''macos-aarch64'', ''macos-x86_64''}" by blast
  from script_bootstrap_differs [OF prod mac, of "demo_auth 0" "\<lparr>au_id = Uuid 1, au_email = ''a'', au_role = ''both''\<rparr>"] addr
  show ?thesis by (elim exE conjE) metis
qed

end
