(* ===== verification/Image_Builder.thy ===== *)
theory Image_Builder
  imports Jobs_Api Executor
begin

text \<open>
  The image builder of the master (\<open>master/docker/builder.rs\<close>): it copies the sources of a job into a
  build directory, writes a Dockerfile for the backend, has the daemon build and export the image,
  and keeps it as \<open>image.tar\<close>. The result decides whether \<open>create_job\<close> enqueues the job. The tar
  library, the daemon and the errors of the file system are the environment. The streams of the
  daemon are those of a build and an export that end; while one does not, the task waits, since
  nothing limits its time, and its job stays pending without being enqueued.
\<close>

section \<open>Steps\<close>

record image_env =
  ie_io :: io
  ie_read_fails :: "string list \<Rightarrow> string option"
  ie_tar :: "(string \<times> bytes) list \<Rightarrow> string + bytes"
  ie_build :: "string \<Rightarrow> bytes \<Rightarrow> build_item list"
  ie_export :: "string \<Rightarrow> (string + bytes) list"

text \<open>A step gives an error or a value, the commands it sent to the daemon, and the files.\<close>

type_synonym 'a img = "files \<Rightarrow> (string + 'a) \<times> docker_command list \<times> files"

definition return_img :: "'a \<Rightarrow> 'a img" where "return_img x fl = (Inr x, [], fl)"

definition bind_img :: "'a img \<Rightarrow> ('a \<Rightarrow> 'b img) \<Rightarrow> 'b img" where
  "bind_img m k fl =
     (case m fl of
        (Inl e, cs, fl') \<Rightarrow> (Inl e, cs, fl')
      | (Inr x, cs, fl') \<Rightarrow> (case k x fl' of (r, cs', fl'') \<Rightarrow> (r, cs @ cs', fl'')))"

definition mkdir_img :: "image_env \<Rightarrow> string list \<Rightarrow> unit img" where
  "mkdir_img env dir fl = (case io_mkdir (ie_io env) dir of None \<Rightarrow> (Inr (), [], fl) | Some e \<Rightarrow> (Inl e, [], fl))"

definition write_img :: "image_env \<Rightarrow> string list \<Rightarrow> bytes \<Rightarrow> unit img" where
  "write_img env p data fl =
     (case put_file (ie_io env) p data fl of (None, fl') \<Rightarrow> (Inr (), [], fl') | (Some e, fl') \<Rightarrow> (Inl e, [], fl'))"

definition read_img :: "image_env \<Rightarrow> string list \<Rightarrow> bytes img" where
  "read_img env p fl =
     (case (ie_read_fails env p, map_of fl p) of
        (None, Some b) \<Rightarrow> (Inr b, [], fl)
      | (e, _) \<Rightarrow> (Inl (unwrap_or ''No such file or directory'' e), [], fl))"

definition copy_img :: "image_env \<Rightarrow> string list \<Rightarrow> string list \<Rightarrow> unit img" where
  "copy_img env src dst = bind_img (read_img env src) (write_img env dst)"

definition tar_img :: "image_env \<Rightarrow> string list \<Rightarrow> bytes img" where
  "tar_img env dir fl = (ie_tar env (dir_files dir fl), [], fl)"

definition docker_build_img :: "image_env \<Rightarrow> string \<Rightarrow> bytes \<Rightarrow> unit img" where
  "docker_build_img env tag context fl =
     (case build_result (ie_build env tag context) of
        None \<Rightarrow> (Inr (), [BuildImage tag context], fl)
      | Some e \<Rightarrow> (Inl e, [BuildImage tag context], fl))"

fun export_chunks :: "(string + bytes) list \<Rightarrow> string + bytes" where
  "export_chunks [] = Inr []"
| "export_chunks (Inl e # rest) = Inl (''export error: '' @ e)"
| "export_chunks (Inr b # rest) = (case export_chunks rest of Inl e \<Rightarrow> Inl e | Inr bs \<Rightarrow> Inr (b @ bs))"

section \<open>Building\<close>

definition base_image :: "gpu_backend \<Rightarrow> string" where
  "base_image b =
     (case b of Cuda \<Rightarrow> ''nvidia/cuda:12.3.0-runtime-ubuntu22.04'' | Rocm \<Rightarrow> ''rocm/pytorch:latest''
      | Metal \<Rightarrow> ''python:3.11-slim'' | CpuOnly \<Rightarrow> ''python:3.11-slim'')"

definition job_dockerfile :: "gpu_backend \<Rightarrow> string" where
  "job_dockerfile b =
     ''FROM '' @ base_image b @ [CHR 0x0A] @ ''WORKDIR /workspace'' @ [CHR 0x0A] @
     ''RUN mkdir -p /workspace/output'' @ [CHR 0x0A] @ ''COPY requirements.txt .'' @ [CHR 0x0A] @
     ''RUN pip install --no-cache-dir -r requirements.txt'' @ [CHR 0x0A] @ ''COPY code.py .'' @ [CHR 0x0A] @
     ''CMD ['' @ [CHR 0x22] @ ''python'' @ [CHR 0x22] @ '', '' @ [CHR 0x22] @ ''-u'' @ [CHR 0x22] @ '', '' @ [CHR 0x22] @
     ''code.py'' @ [CHR 0x22] @ '']'' @ [CHR 0x0A]"

definition build_image ::
  "image_env \<Rightarrow> string list \<Rightarrow> string \<Rightarrow> string list \<Rightarrow> string list \<Rightarrow> gpu_backend \<Rightarrow> string list img" where
  "build_image env work_dir job code_path requirements_path backend =
     (let build_dir = path_join (path_join work_dir job) ''build'';
          tag = ''decentgpu-job-'' @ job @ '':latest'';
          image_tar = path_join (path_join work_dir job) ''image.tar'' in
      bind_img (mkdir_img env build_dir) (\<lambda>_.
      bind_img (copy_img env code_path (path_join build_dir ''code.py'')) (\<lambda>_.
      bind_img (copy_img env requirements_path (path_join build_dir ''requirements.txt'')) (\<lambda>_.
      bind_img (write_img env (path_join build_dir ''Dockerfile'') (to_bytes (job_dockerfile backend))) (\<lambda>_.
      bind_img (tar_img env build_dir) (\<lambda>context.
      bind_img (docker_build_img env tag context) (\<lambda>_.
      bind_img (\<lambda>fl. (export_chunks (ie_export env tag), [], fl)) (\<lambda>image.
      bind_img (write_img env image_tar image) (\<lambda>_.
        return_img image_tar)))))))))"

text \<open>The background task of \<open>create_job\<close> up to its decision; without a daemon there is no builder.\<close>

definition image_result ::
  "image_env option \<Rightarrow> string list \<Rightarrow> string \<Rightarrow> gpu_backend \<Rightarrow> files \<Rightarrow> build_outcome \<times> docker_command list \<times> files" where
  "image_result builder work_dir job backend fl =
     (let dir = path_join work_dir job in
      case builder of
        None \<Rightarrow> (BuildSkipped, [], fl)
      | Some env \<Rightarrow>
          (case build_image env work_dir job (path_join dir ''code.py'') (path_join dir ''requirements.txt'') backend fl of
             (Inl e, cs, fl') \<Rightarrow> (BuildFailed e, cs, fl')
           | (Inr p, cs, fl') \<Rightarrow> (Built (to_option (fst (read_img env p fl'))), cs, fl')))"

section \<open>Frames\<close>

text \<open>A step touches only the files of \<open>A\<close>.\<close>

definition touches :: "string list set \<Rightarrow> 'a img \<Rightarrow> bool" where
  "touches A m \<longleftrightarrow> (\<forall>fl p. p \<notin> A \<longrightarrow> map_of (snd (snd (m fl))) p = map_of fl p)"

lemma touches_bind:
  assumes "touches A m" "\<And>x. touches A (k x)" shows "touches A (bind_img m k)"
  unfolding touches_def
proof (intro allI impI)
  fix fl p assume p: "p \<notin> A"
  obtain r cs fl' where m: "m fl = (r, cs, fl')" by (cases "m fl")
  have 1: "map_of fl' p = map_of fl p" using assms(1) p m unfolding touches_def by (metis snd_conv)
  have 2: "map_of (snd (snd (k x fl'))) p = map_of fl' p" for x using assms(2) p unfolding touches_def by blast
  show "map_of (snd (snd (bind_img m k fl))) p = map_of fl p"
    using 1 2 by (cases r) (auto simp: bind_img_def m split_beta)
qed

lemma touches_put: "p \<in> A \<Longrightarrow> touches A (write_img env p data)"
  by (auto simp: touches_def write_img_def put_file_def hm_insert_def update_conv' split: option.split prod.split)

lemma touches_pure [simp]:
  "touches A (mkdir_img env dir)" "touches A (read_img env q)" "touches A (tar_img env dir)"
  "touches A (docker_build_img env tag c)" "touches A (return_img x)" "touches A (\<lambda>fl. (r, [], fl))"
  by (auto simp: touches_def mkdir_img_def read_img_def tar_img_def docker_build_img_def return_img_def
      split: option.split)

lemma touches_copy: "dst \<in> A \<Longrightarrow> touches A (copy_img env src dst)"
  by (simp add: copy_img_def touches_bind touches_put)

lemma bind_img_Inr:
  "bind_img m k fl = (Inr y, cs, fl'') \<longleftrightarrow>
   (\<exists>x cs1 fl' cs2. m fl = (Inr x, cs1, fl') \<and> k x fl' = (Inr y, cs2, fl'') \<and> cs = cs1 @ cs2)"
  by (auto simp: bind_img_def split: prod.splits sum.splits)

lemma write_img_ok: "write_img env p data fl = (Inr u, cs, fl') \<Longrightarrow> cs = [] \<and> map_of fl' p = Some data"
  by (auto simp: write_img_def put_file_def split: option.splits prod.splits)

lemma export_chunks_ok: "export_chunks xs = Inr b \<Longrightarrow> \<exists>bs. xs = map Inr bs \<and> b = concat bs"
proof (induction xs arbitrary: b rule: export_chunks.induct)
  case (3 c rest)
  then obtain b' where "export_chunks rest = Inr b'" "b = c @ b'" by (auto split: sum.splits)
  with "3.IH" show ?case by (metis concat.simps(2) list.simps(9))
qed (use map_is_Nil_conv in auto)

section \<open>The sources survive\<close>

abbreviation job_path :: "string list \<Rightarrow> string \<Rightarrow> string \<Rightarrow> string list" where
  "job_path wd job name \<equiv> wd @ [job, name]"

lemma plain_build_files: "plain_name ''build''" "plain_name ''image.tar''" "plain_name ''Dockerfile''"
  by (simp_all add: plain_name_def)

lemma build_image_touches:
  assumes "plain_name job"
  shows "touches (insert (job_path wd job ''image.tar'') {p. under (job_path wd job ''build'') p})
    (build_image env wd job c r b)"
proof -
  let ?A = "insert (job_path wd job ''image.tar'') {p. under (job_path wd job ''build'') p}"
  have dir: "path_join (path_join wd job) n = job_path wd job n" if "plain_name n" for n
    using that by (simp add: path_join_name assms)
  have in_build: "path_join (job_path wd job ''build'') n \<in> ?A" if "plain_name n" for n
    using that by (simp add: path_join_name under_def)
  show ?thesis
    unfolding build_image_def Let_def dir [OF plain_build_files(1)] dir [OF plain_build_files(2)]
    by (intro touches_bind touches_pure touches_copy touches_put in_build plain_files plain_build_files insertI1)
qed

lemma build_image_ok:
  assumes "plain_name job" "build_image env wd job c r b fl = (Inr p, cs, fl')"
  shows "p = job_path wd job ''image.tar'' \<and>
    (\<exists>bs. ie_export env (''decentgpu-job-'' @ job @ '':latest'') = map Inr bs \<and> map_of fl' p = Some (concat bs))"
proof -
  let ?tag = "''decentgpu-job-'' @ job @ '':latest''"
  have t: "path_join (path_join wd job) ''image.tar'' = job_path wd job ''image.tar''"
    using plain_build_files(2) assms(1) by (simp add: path_join_name)
  from assms(2) obtain image fl1 cs1 where "export_chunks (ie_export env ?tag) = Inr image"
    "write_img env (job_path wd job ''image.tar'') image fl1 = (Inr (), cs1, fl')" "p = job_path wd job ''image.tar''"
    unfolding build_image_def Let_def bind_img_Inr t by (auto simp: return_img_def)
  then show ?thesis using export_chunks_ok write_img_ok by blast
qed

text \<open>
  C37. Building an image never disturbs the job. Whatever fails, only the build directory and the image of
  the job are written, so the code and the requirements that \<open>create_job\<close> stored are still there for
  the scheduler; an image that was built is the concatenation of the chunks the daemon exported; and
  when the build has ended the job is enqueued, built or not, unless the image was written but cannot
  be read back.
\<close>

theorem build_keeps_sources:
  assumes "plain_name job" "image_result builder wd job b fl = (out, cs, fl')"
  shows "(\<forall>p. \<not> under (wd @ [job, ''build'']) p \<and> p \<noteq> wd @ [job, ''image.tar''] \<longrightarrow> map_of fl' p = map_of fl p) \<and>
    map_of fl' (wd @ [job, ''code.py'']) = map_of fl (wd @ [job, ''code.py'']) \<and>
    map_of fl' (wd @ [job, ''requirements.txt'']) = map_of fl (wd @ [job, ''requirements.txt'']) \<and>
    (\<forall>data. out = Built (Some data) \<longrightarrow> map_of fl' (wd @ [job, ''image.tar'']) = Some data \<and>
       (\<exists>env bs. builder = Some env \<and> ie_export env (''decentgpu-job-'' @ job @ '':latest'') = map Inr bs \<and>
         data = concat bs)) \<and>
    (enqueue_after_build out i backend m s = [] \<longleftrightarrow>
       (\<exists>env. builder = Some env \<and> out = Built None \<and> ie_read_fails env (wd @ [job, ''image.tar'']) \<noteq> None))"
proof -
  let ?A = "insert (job_path wd job ''image.tar'') {p. under (job_path wd job ''build'') p}"
  have frame: "\<forall>p. p \<notin> ?A \<longrightarrow> map_of fl' p = map_of fl p"
  proof (cases builder)
    case None
    with assms(2) show ?thesis by (simp add: image_result_def)
  next
    case (Some env)
    let ?m = "build_image env wd job (path_join (path_join wd job) ''code.py'') (path_join (path_join wd job) ''requirements.txt'') b"
    have "fl' = snd (snd (?m fl))"
      using assms(2) by (auto simp: image_result_def Some Let_def split: prod.splits sum.splits)
    with build_image_touches [OF assms(1)] show ?thesis unfolding touches_def by blast
  qed
  have sources: "job_path wd job ''code.py'' \<notin> ?A" "job_path wd job ''requirements.txt'' \<notin> ?A"
    by (simp_all add: under_def)
  have built: "out = Built (to_option (fst (read_img env (job_path wd job ''image.tar'') fl'))) \<and>
      (\<exists>bs. ie_export env (''decentgpu-job-'' @ job @ '':latest'') = map Inr bs \<and>
         map_of fl' (job_path wd job ''image.tar'') = Some (concat bs))"
    if "builder = Some env" "out = Built x" for env x
    using that assms(2) build_image_ok [OF assms(1)]
    by (auto simp: image_result_def Let_def split: prod.splits sum.splits)
  have some: "\<exists>env. builder = Some env" if "out = Built x" for x
    using that assms(2) by (cases builder) (simp_all add: image_result_def)
  have lost: "\<exists>env. builder = Some env \<and> ie_read_fails env (job_path wd job ''image.tar'') \<noteq> None" if out: "out = Built None"
  proof -
    obtain env where env: "builder = Some env" using some [OF out] by blast
    with built [OF env out] out show ?thesis
      by (cases "ie_read_fails env (job_path wd job ''image.tar'')") (auto simp: read_img_def)
  qed
  show ?thesis
  proof (intro conjI)
    show "\<forall>data. out = Built (Some data) \<longrightarrow> map_of fl' (wd @ [job, ''image.tar'']) = Some data \<and>
       (\<exists>env bs. builder = Some env \<and> ie_export env (''decentgpu-job-'' @ job @ '':latest'') = map Inr bs \<and> data = concat bs)"
      using built some by (fastforce simp: read_img_def split: option.splits)
    show "enqueue_after_build out i backend m s = [] \<longleftrightarrow>
       (\<exists>env. builder = Some env \<and> out = Built None \<and> ie_read_fails env (wd @ [job, ''image.tar'']) \<noteq> None)"
      using lost by (auto simp: enqueue_after_build_def)
  qed (use frame sources in auto)
qed

section \<open>Witness\<close>

definition demo_image_env :: image_env where
  "demo_image_env = \<lparr>ie_io = \<lparr>io_mkdir = \<lambda>_. None, io_write = \<lambda>_. None\<rparr>, ie_read_fails = \<lambda>_. None,
     ie_tar = (\<lambda>fs. Inr (concat (map snd fs))), ie_build = (\<lambda>_ _. [BuildInfo None]), ie_export = (\<lambda>_. [Inr [1], Inr [2]])\<rparr>"

lemma build_keeps_sources_witness:
  "\<exists>cs fl'. image_result (Some demo_image_env) [''s''] ''j1'' Cuda [([''s'', ''j1'', ''code.py''], [7]), ([''s'', ''j1'', ''requirements.txt''], [])] =
      (Built (Some [1, 2]), cs, fl') \<and> map_of fl' [''s'', ''j1'', ''code.py''] = Some [7]"
proof -
  let ?fl = "[([''s'', ''j1'', ''code.py''], [7]), ([''s'', ''j1'', ''requirements.txt''], [])]"
  have plain: "plain_name ''j1''" by (simp add: plain_name_def)
  have "fst (image_result (Some demo_image_env) [''s''] ''j1'' Cuda ?fl) = Built (Some [1, 2])" by code_simp
  then obtain cs fl' where r: "image_result (Some demo_image_env) [''s''] ''j1'' Cuda ?fl = (Built (Some [1, 2]), cs, fl')"
    by (metis prod.collapse)
  from build_keeps_sources [OF plain r] have "map_of fl' ([''s''] @ [''j1'', ''code.py'']) = map_of ?fl ([''s''] @ [''j1'', ''code.py''])"
    by blast
  with r show ?thesis by simp
qed

end
