(* ===== verification/Router.thy ===== *)
theory Router
  imports Downloads Terminal Admin_Api Image_Builder
begin

text \<open>
  The router of the API (\<open>api/router.rs\<close>): the table of routes, the middleware in front of the
  protected ones, the extractor of administrators, and every handler behind them, so that one
  function answers a request. What axum extracts from a request (bodies, query strings, typed path
  parameters, or a rejection) is part of the request; CORS and tracing layers are left out.
\<close>

section \<open>Requests and replies\<close>

datatype http_method = GET | POST | PATCH | HEAD | OtherMethod string

record user_query =
  uq_search :: "string option"
  uq_role :: "string option"
  uq_limit :: "int option"
  uq_offset :: "int option"

record worker_query =
  wq_backend :: "string option"
  wq_min_vram :: "int option"
  wq_online_only :: "bool option"
  wq_limit :: "int option"
  wq_offset :: "int option"

record tx_query =
  tq_limit :: "int option"
  tq_offset :: "int option"
  tq_kind :: "string option"

record request =
  rq_method :: http_method
  rq_path :: "string list"
  rq_auth_header :: "string option"
  rq_token :: "string + string option"
  rq_uuid :: "string \<Rightarrow> api_error + uuid"
  rq_register :: "api_error + string \<times> string \<times> string"
  rq_login :: "api_error + string \<times> string"
  rq_new_role :: "api_error + string"
  rq_allocation :: "api_error + uuid \<times> int"
  rq_users :: "api_error + user_query"
  rq_workers :: "api_error + worker_query"
  rq_txs :: "api_error + tx_query"
  rq_parts :: "api_error + (string + part) list"
  rq_body :: "api_error + bytes"
  rq_upgrade :: "api_error + unit"

datatype reply =
    ReplyJson json
  | ReplyAuth auth_response
  | ReplyMe user_row "int option"
  | ReplyCreated uuid "(uuid \<times> match_request) list"
  | ReplyUploaded string int
  | ReplyDone
  | ReplyFile download
  | ReplyEvents "json list"
  | ReplyTerminal uuid
  | ReplyScript string string string
  | ReplyCommands json "job_command list"
  | ReplyStatus nat string
  | ReplyAborted

text \<open>The shared state of the handlers, the clock, the fresh ids, and what PostgreSQL computes.\<close>

record app =
  ap_auth :: auth_env
  ap_jobs :: jobs_env
  ap_io :: io
  ap_read :: read_env
  ap_setup :: setup_env
  ap_binaries :: "string list"
  ap_version :: string
  ap_new_id :: uuid
  ap_now :: timestamp
  ap_today :: timestamp
  ap_day :: "timestamp \<Rightarrow> int"
  ap_date :: "int \<Rightarrow> string"
  ap_ilike :: "string \<Rightarrow> string \<Rightarrow> bool"
  ap_raw_workers :: "string \<Rightarrow> worker_row list sql"
  ap_raw_count :: "string \<Rightarrow> int sql"
  ap_raw_rows :: "string \<Rightarrow> tx_row list sql"
  ap_parse_peer :: "string \<Rightarrow> peer_id option"
  ap_channel_open :: bool
  ap_build :: build_outcome

definition answer :: "('a \<Rightarrow> reply) \<Rightarrow> 'a web \<Rightarrow> reply web" where
  "answer f m = bind_web m (\<lambda>x. return_web (f x))"

definition answer_db :: "('a \<Rightarrow> reply) \<Rightarrow> 'a api \<Rightarrow> reply web" where
  "answer_db f m = answer f (db_web m)"

definition extracted :: "api_error + 'a \<Rightarrow> ('a \<Rightarrow> reply web) \<Rightarrow> reply web" where
  "extracted r k = (case r of Inl e \<Rightarrow> throw_web e | Inr x \<Rightarrow> k x)"

section \<open>Endpoints\<close>

datatype public_endpoint = Register | Login | Pricing | DownloadsInfo | DownloadWorker | Health

datatype user_endpoint =
    Me | ListJobs | CreateJob | GetJob | UploadFile | CancelTheJob | JobResult | JobLogs | JobTerminal
  | ListWorkers | MyWorker | GetWorker | SetupScript | Balance | Transactions

datatype admin_endpoint = Allocate | ListUsers | GetUser | UserRole | Stats | Disconnect | UploadBinary

datatype endpoint = Public public_endpoint | Private user_endpoint | AdminOnly admin_endpoint

text \<open>\<open>SELECT 1\<close> and the number of workers online; neither failure is an error of the request.\<close>

definition health :: "reply web" where
  "health = answer_db ReplyJson
     (bind_db (attempt (stmt (select_sql (\<lambda>_. ())))) (\<lambda>db_ok.
      bind_db (attempt workers_count_online) (\<lambda>online.
      return_db (JObj
        [(''status'', JStr (if is_ok db_ok then ''ok'' else ''degraded'')), (''service'', JStr ''master''),
         (''db'', JStr (if is_ok db_ok then ''connected'' else ''error'')),
         (''workers_online'', JNum (case online of Inl _ \<Rightarrow> 0 | Inr n \<Rightarrow> n))]))))"

text \<open>\<open>ps\<close> are the path parameters.\<close>

definition param :: "string list \<Rightarrow> string" where
  "param ps = (case ps of [] \<Rightarrow> [] | p # _ \<Rightarrow> p)"

fun handle_public :: "app \<Rightarrow> request \<Rightarrow> public_endpoint \<Rightarrow> string list \<Rightarrow> reply web" where
  "handle_public a rq Register ps =
     extracted (rq_register rq) (\<lambda>(email, password, role).
       answer_db ReplyAuth (register (ap_auth a) (ap_new_id a) (ap_now a) email password role))"
| "handle_public a rq Login ps =
     extracted (rq_login rq) (\<lambda>(email, password). answer_db ReplyAuth (login (ap_auth a) email password))"
| "handle_public a rq Pricing ps = return_web (ReplyJson get_pricing)"
| "handle_public a rq DownloadsInfo ps = (\<lambda>d fs fl. return_web (ReplyJson (download_info (ap_version a) fl (ap_binaries a))) d fs fl)"
| "handle_public a rq DownloadWorker ps = answer ReplyFile (download_worker (ap_read a) (ap_binaries a) (param ps))"
| "handle_public a rq Health ps = health"

definition script_reply :: "(string \<times> string \<times> string) option \<Rightarrow> reply" where
  "script_reply s = (case s of None \<Rightarrow> ReplyStatus 400 ''Unknown platform'' | Some (t, n, k) \<Rightarrow> ReplyScript t n k)"

fun handle_private :: "app \<Rightarrow> request \<Rightarrow> user_endpoint \<Rightarrow> string list \<Rightarrow> auth_user \<Rightarrow> reply web" where
  "handle_private a rq Me ps u = answer_db (\<lambda>(row, b). ReplyMe row b) (me (ap_auth a) u)"
| "handle_private a rq ListJobs ps u = answer_db ReplyJson (list_jobs (ap_jobs a) u)"
| "handle_private a rq CreateJob ps u =
     extracted (rq_parts rq) (\<lambda>parts. answer (\<lambda>(i, reqs). ReplyCreated i reqs)
       (create_job (ap_jobs a) (ap_io a) (ap_new_id a) (ap_now a) (ap_build a) u parts))"
| "handle_private a rq GetJob ps u =
     extracted (rq_uuid rq (param ps)) (\<lambda>i. answer_db ReplyJson (get_job (ap_jobs a) u i))"
| "handle_private a rq UploadFile ps u =
     extracted (rq_uuid rq (param ps)) (\<lambda>i. extracted (rq_parts rq) (\<lambda>parts.
       answer (\<lambda>(t, n). ReplyUploaded t n) (upload_job_file (ap_jobs a) (ap_io a) (ap_new_id a) (ap_now a) u i parts)))"
| "handle_private a rq CancelTheJob ps u =
     extracted (rq_uuid rq (param ps)) (\<lambda>i. answer_db (\<lambda>_. ReplyDone) (cancel_job (ap_jobs a) (ap_now a) u i))"
| "handle_private a rq JobResult ps u =
     extracted (rq_uuid rq (param ps)) (\<lambda>i. answer ReplyFile (download_result (ap_jobs a) (ap_read a) u i))"
| "handle_private a rq JobLogs ps u =
     extracted (rq_uuid rq (param ps)) (\<lambda>i. answer_db ReplyEvents (stream_logs (ap_jobs a) u i))"
| "handle_private a rq JobTerminal ps u =
     extracted (rq_uuid rq (param ps)) (\<lambda>i. extracted (rq_upgrade rq) (\<lambda>_.
       answer_db (\<lambda>_. ReplyTerminal i) (ws_terminal u i)))"
| "handle_private a rq ListWorkers ps u =
     extracted (rq_workers rq) (\<lambda>q.
       case list_workers (je_time (ap_jobs a)) (ap_raw_workers a) (wq_backend q) (wq_min_vram q) (wq_online_only q)
              (wq_limit q) (wq_offset q) of
         None \<Rightarrow> return_web ReplyAborted
       | Some m \<Rightarrow> answer_db ReplyJson m)"
| "handle_private a rq MyWorker ps u = answer_db ReplyJson (get_my_worker (je_time (ap_jobs a)) u)"
| "handle_private a rq GetWorker ps u = answer_db ReplyJson (get_worker_by_peer_id (je_time (ap_jobs a)) (param ps))"
| "handle_private a rq SetupScript ps u =
     return_web (script_reply (setup_script_handler (ap_auth a) (ap_setup a) (param ps) u))"
| "handle_private a rq Balance ps u =
     answer_db ReplyJson (get_balance (je_uuid (ap_jobs a)) (je_time (ap_jobs a)) (ap_raw_count a) (ap_raw_rows a) u)"
| "handle_private a rq Transactions ps u =
     extracted (rq_txs rq) (\<lambda>q. answer_db ReplyJson (list_transactions (je_uuid (ap_jobs a)) (je_time (ap_jobs a))
       (ap_raw_count a) (ap_raw_rows a) u (tq_limit q) (tq_offset q) (tq_kind q)))"

fun handle_admin :: "app \<Rightarrow> request \<Rightarrow> admin_endpoint \<Rightarrow> string list \<Rightarrow> uuid \<Rightarrow> reply web" where
  "handle_admin a rq Allocate ps admin =
     extracted (rq_allocation rq) (\<lambda>(user, amount).
       answer_db ReplyJson (allocate (je_uuid (ap_jobs a)) (ap_new_id a) (ap_now a) user amount))"
| "handle_admin a rq ListUsers ps admin =
     extracted (rq_users rq) (\<lambda>q. answer_db ReplyJson (list_users (je_uuid (ap_jobs a)) (je_time (ap_jobs a)) (ap_ilike a)
       (uq_search q) (uq_role q) (uq_limit q) (uq_offset q)))"
| "handle_admin a rq GetUser ps admin =
     extracted (rq_uuid rq (param ps)) (\<lambda>i. answer_db ReplyJson (get_user (je_uuid (ap_jobs a)) (je_time (ap_jobs a)) i))"
| "handle_admin a rq UserRole ps admin =
     extracted (rq_uuid rq (param ps)) (\<lambda>i. extracted (rq_new_role rq) (\<lambda>role.
       answer_db ReplyJson (update_user_role (je_uuid (ap_jobs a)) admin i role)))"
| "handle_admin a rq Stats ps admin =
     answer_db ReplyJson (get_stats (ap_day a) (ap_date a) (ap_now a) (ap_today a))"
| "handle_admin a rq Disconnect ps admin =
     answer_db (\<lambda>(j, cs). ReplyCommands j cs) (disconnect_worker (ap_parse_peer a) (ap_channel_open a) (ap_now a) (param ps))"
| "handle_admin a rq UploadBinary ps admin =
     extracted (rq_body rq) (\<lambda>body. answer ReplyJson (upload_worker_binary (ap_io a) (ap_binaries a) (param ps) body))"

section \<open>Routes\<close>

datatype seg = Lit string | Param

text \<open>
  A route: whether the middleware stands before it, its pattern, and its methods. A literal segment
  wins over a parameter; the only patterns that overlap are those of workers, and the literal one
  comes first.
\<close>

definition routes :: "(bool \<times> seg list \<times> (http_method \<times> endpoint) list) list" where
  "routes =
     [(False, [Lit ''api'', Lit ''auth'', Lit ''register''], [(POST, Public Register)]),
      (False, [Lit ''api'', Lit ''auth'', Lit ''login''], [(POST, Public Login)]),
      (False, [Lit ''api'', Lit ''compute-units'', Lit ''pricing''], [(GET, Public Pricing)]),
      (False, [Lit ''api'', Lit ''downloads'', Lit ''info''], [(GET, Public DownloadsInfo)]),
      (False, [Lit ''api'', Lit ''downloads'', Lit ''worker'', Param], [(GET, Public DownloadWorker)]),
      (False, [Lit ''health''], [(GET, Public Health)]),
      (True, [Lit ''api'', Lit ''auth'', Lit ''me''], [(GET, Private Me)]),
      (True, [Lit ''api'', Lit ''jobs''], [(GET, Private ListJobs), (POST, Private CreateJob)]),
      (True, [Lit ''api'', Lit ''jobs'', Param], [(GET, Private GetJob)]),
      (True, [Lit ''api'', Lit ''jobs'', Param, Lit ''upload''], [(POST, Private UploadFile)]),
      (True, [Lit ''api'', Lit ''jobs'', Param, Lit ''cancel''], [(POST, Private CancelTheJob)]),
      (True, [Lit ''api'', Lit ''jobs'', Param, Lit ''result''], [(GET, Private JobResult)]),
      (True, [Lit ''api'', Lit ''jobs'', Param, Lit ''logs''], [(GET, Private JobLogs)]),
      (True, [Lit ''api'', Lit ''jobs'', Param, Lit ''terminal''], [(GET, Private JobTerminal)]),
      (True, [Lit ''api'', Lit ''workers''], [(GET, Private ListWorkers)]),
      (True, [Lit ''api'', Lit ''workers'', Lit ''me''], [(GET, Private MyWorker)]),
      (True, [Lit ''api'', Lit ''workers'', Param], [(GET, Private GetWorker)]),
      (True, [Lit ''api'', Lit ''downloads'', Lit ''setup-script'', Param], [(GET, Private SetupScript)]),
      (True, [Lit ''api'', Lit ''compute-units'', Lit ''balance''], [(GET, Private Balance)]),
      (True, [Lit ''api'', Lit ''compute-units'', Lit ''transactions''], [(GET, Private Transactions)]),
      (True, [Lit ''api'', Lit ''compute-units'', Lit ''allocate''], [(POST, AdminOnly Allocate)]),
      (True, [Lit ''api'', Lit ''admin'', Lit ''users''], [(GET, AdminOnly ListUsers)]),
      (True, [Lit ''api'', Lit ''admin'', Lit ''users'', Param], [(GET, AdminOnly GetUser)]),
      (True, [Lit ''api'', Lit ''admin'', Lit ''users'', Param, Lit ''role''], [(PATCH, AdminOnly UserRole)]),
      (True, [Lit ''api'', Lit ''admin'', Lit ''stats''], [(GET, AdminOnly Stats)]),
      (True, [Lit ''api'', Lit ''admin'', Lit ''workers'', Param, Lit ''disconnect''], [(POST, AdminOnly Disconnect)]),
      (True, [Lit ''api'', Lit ''admin'', Lit ''downloads'', Lit ''worker'', Param], [(POST, AdminOnly UploadBinary)])]"

fun match_segs :: "seg list \<Rightarrow> string list \<Rightarrow> string list option" where
  "match_segs [] [] = Some []"
| "match_segs (Lit t # segs) (s # ss) = (if s = t then match_segs segs ss else None)"
| "match_segs (Param # segs) (s # ss) = (if s = [] then None else map_option (Cons s) (match_segs segs ss))"
| "match_segs _ _ = None"

text \<open>A \<open>HEAD\<close> request is answered by the handler of \<open>GET\<close>.\<close>

definition endpoint_of :: "(http_method \<times> endpoint) list \<Rightarrow> http_method \<Rightarrow> endpoint option" where
  "endpoint_of ms m = map_of ms (if m = HEAD then GET else m)"

fun find_route ::
  "(bool \<times> seg list \<times> (http_method \<times> endpoint) list) list \<Rightarrow> string list \<Rightarrow>
   (bool \<times> string list \<times> (http_method \<times> endpoint) list) option" where
  "find_route [] path = None"
| "find_route ((prot, pat, ms) # rs) path =
     (case match_segs pat path of Some ps \<Rightarrow> Some (prot, ps, ms) | None \<Rightarrow> find_route rs path)"

fun handle :: "app \<Rightarrow> request \<Rightarrow> auth_user option \<Rightarrow> string list \<Rightarrow> endpoint option \<Rightarrow> reply web" where
  "handle a rq ext ps None = return_web (ReplyStatus 405 [])"
| "handle a rq ext ps (Some (Public ep)) = handle_public a rq ep ps"
| "handle a rq ext ps (Some (Private ep)) = extracted (auth_extractor ext) (handle_private a rq ep ps)"
| "handle a rq ext ps (Some (AdminOnly ep)) = extracted (admin_extractor ext) (handle_admin a rq ep ps)"

text \<open>
  \<open>Router::layer\<close> wraps the fallback of a router as well as its routes, and \<open>merge\<close> keeps the fallback of
  the router that is merged last, the protected one: a path without a route meets the middleware too.
\<close>

definition serve :: "app \<Rightarrow> request \<Rightarrow> reply web" where
  "serve a rq =
     (case find_route routes (rq_path rq) of
        None \<Rightarrow>
          extracted (jwt_middleware (ap_auth a) (rq_auth_header rq) (rq_token rq)) (\<lambda>_. return_web (ReplyStatus 404 []))
      | Some (prot, ps, ms) \<Rightarrow>
          if prot
          then extracted (jwt_middleware (ap_auth a) (rq_auth_header rq) (rq_token rq))
                 (\<lambda>u. handle a rq (Some u) ps (endpoint_of ms (rq_method rq)))
          else handle a rq None ps (endpoint_of ms (rq_method rq)))"

section \<open>Who may do what\<close>

subsection \<open>Guards\<close>

definition public_patterns :: "seg list list" where
  "public_patterns =
     [[Lit ''api'', Lit ''auth'', Lit ''register''], [Lit ''api'', Lit ''auth'', Lit ''login''],
      [Lit ''api'', Lit ''compute-units'', Lit ''pricing''], [Lit ''api'', Lit ''downloads'', Lit ''info''],
      [Lit ''api'', Lit ''downloads'', Lit ''worker'', Param], [Lit ''health'']]"

definition is_public :: "string list \<Rightarrow> bool" where
  "is_public path = list_ex (\<lambda>pat. match_segs pat path \<noteq> None) public_patterns"

definition is_admin_path :: "string list \<Rightarrow> bool" where
  "is_admin_path path \<longleftrightarrow> take 2 path = [''api'', ''admin''] \<or> path = [''api'', ''compute-units'', ''allocate'']"

text \<open>A route whose pattern can match an administrator's path is protected and has only such endpoints.\<close>

fun admin_only :: "endpoint \<Rightarrow> bool" where
  "admin_only (AdminOnly e) = True"
| "admin_only _ = False"

fun may_be :: "seg \<Rightarrow> string \<Rightarrow> bool" where
  "may_be (Lit t) s = (t = s)"
| "may_be Param s = True"

fun may_match :: "seg list \<Rightarrow> string list \<Rightarrow> bool" where
  "may_match (g # gs) (s # ss) = (may_be g s \<and> may_match gs ss)"
| "may_match gs ss = (ss = [])"

definition guarded :: "bool \<times> seg list \<times> (http_method \<times> endpoint) list \<Rightarrow> bool" where
  "guarded r = (case r of (prot, pat, ms) \<Rightarrow>
     (may_match pat [''api'', ''admin''] \<or> length pat = 3 \<and> may_match pat [''api'', ''compute-units'', ''allocate'']) \<longrightarrow>
     prot \<and> list_all (\<lambda>m. admin_only (snd m)) ms)"

lemma routes_guarded_table: "list_all guarded routes"
  unfolding routes_def by code_simp

definition open_pattern :: "bool \<times> seg list \<times> (http_method \<times> endpoint) list \<Rightarrow> bool" where
  "open_pattern r = (case r of (prot, pat, ms) \<Rightarrow> prot \<or> list_ex ((=) pat) public_patterns)"

lemma routes_open_table: "list_all open_pattern routes"
  unfolding routes_def by code_simp

lemma find_route_in:
  "find_route rs path = Some (prot, ps, ms) \<Longrightarrow> \<exists>pat. (prot, pat, ms) \<in> set rs \<and> match_segs pat path = Some ps"
  by (induction rs path rule: find_route.induct) (auto split: option.splits)

lemma match_segs_length: "match_segs pat path = Some ps \<Longrightarrow> length pat = length path"
  by (induction pat path arbitrary: ps rule: match_segs.induct) (auto split: if_splits)

lemma match_may: "match_segs pat path = Some ps \<Longrightarrow> may_match pat (take n path)"
proof (induction pat path arbitrary: ps n rule: match_segs.induct)
  case (2 t segs s ss)
  then show ?case by (cases n) (auto split: if_splits)
next
  case (3 segs s ss)
  then show ?case by (cases n) (auto split: if_splits)
qed (auto simp: take_Cons split: nat.splits)

lemma public_route:
  assumes "find_route routes path = Some (False, ps, ms)" shows "is_public path"
proof -
  obtain pat where pat: "(False, pat, ms) \<in> set routes" "match_segs pat path = Some ps"
    using find_route_in [OF assms] by blast
  from pat(1) routes_open_table have "open_pattern (False, pat, ms)" unfolding list_all_iff by blast
  then have "pat \<in> set public_patterns" unfolding open_pattern_def list_ex_iff by simp
  with pat(2) show ?thesis unfolding is_public_def list_ex_iff by fastforce
qed

lemma admin_route:
  assumes "find_route routes path = Some (prot, ps, ms)" "is_admin_path path"
  shows "prot \<and> list_all (\<lambda>m. admin_only (snd m)) ms"
proof -
  obtain pat where pat: "(prot, pat, ms) \<in> set routes" "match_segs pat path = Some ps"
    using find_route_in [OF assms(1)] by blast
  from pat(1) routes_guarded_table have "guarded (prot, pat, ms)" unfolding list_all_iff by blast
  moreover have "may_match pat [''api'', ''admin''] \<or> length pat = 3 \<and> may_match pat [''api'', ''compute-units'', ''allocate'']"
    using assms(2) match_may [OF pat(2), of 2] match_may [OF pat(2), of 3] match_segs_length [OF pat(2)]
    by (auto simp: is_admin_path_def)
  ultimately show ?thesis unfolding guarded_def prod.case by blast
qed

text \<open>
  C11. The router guards every route. Without a valid token nothing but the six public routes answers:
  the request gets the error of the middleware, with status 401, or 400 for a query string that cannot be
  parsed, and neither the database nor the files change. With a valid token of a user who is no administrator, no path below \<open>/api/admin\<close> and no
  allocation does anything: the answer is 403, 404 or 405.
\<close>

theorem routes_guarded:
  "case jwt_middleware (ap_auth a) (rq_auth_header rq) (rq_token rq) of
     Inl e \<Rightarrow> ae_status e = (if is_ok (rq_token rq) then 401 else 400) \<and> (\<not> is_public (rq_path rq) \<longrightarrow>
       serve a rq d fs fl = (Inl e, d, fs, fl))
   | Inr u \<Rightarrow> au_role u \<noteq> ''admin'' \<and> is_admin_path (rq_path rq) \<longrightarrow>
       serve a rq d fs fl \<in> {(Inl (forbidden ''admin role required''), d, fs, fl),
         (Inr (ReplyStatus 404 []), d, fs, fl), (Inr (ReplyStatus 405 []), d, fs, fl)}"
proof (cases "jwt_middleware (ap_auth a) (rq_auth_header rq) (rq_token rq)")
  case (Inl e)
  then have "ae_status e = (if is_ok (rq_token rq) then 401 else 400)"
    by (auto simp: jwt_middleware_def unauthorized_def bad_request_def Let_def split: option.splits sum.splits)
  moreover have "serve a rq d fs fl = (Inl e, d, fs, fl)" if "\<not> is_public (rq_path rq)"
    using that public_route Inl
    by (auto simp: serve_def extracted_def throw_web_def return_web_def split: option.splits bool.splits)
  ultimately show ?thesis by (simp add: Inl)
next
  case (Inr u)
  have "serve a rq d fs fl \<in> {(Inl (forbidden ''admin role required''), d, fs, fl),
      (Inr (ReplyStatus 404 []), d, fs, fl), (Inr (ReplyStatus 405 []), d, fs, fl)}"
    if u: "au_role u \<noteq> ''admin''" and path: "is_admin_path (rq_path rq)"
  proof (cases "find_route routes (rq_path rq)")
    case None
    then show ?thesis by (simp add: serve_def return_web_def extracted_def Inr)
  next
    case (Some r)
    obtain prot ps ms where r: "r = (prot, ps, ms)" by (cases r)
    with Some path admin_route have ms: "prot" "list_all (\<lambda>m. admin_only (snd m)) ms" by blast+
    have handled: "serve a rq d fs fl = handle a rq (Some u) ps (endpoint_of ms (rq_method rq)) d fs fl"
      by (simp add: serve_def Some r ms(1) extracted_def Inr)
    show ?thesis
    proof (cases "endpoint_of ms (rq_method rq)")
      case None
      then show ?thesis by (simp add: handled return_web_def)
    next
      case (Some ep)
      then have "admin_only ep" using ms(2) by (auto simp: endpoint_of_def list_all_iff dest!: map_of_SomeD)
      then obtain e where "ep = AdminOnly e" by (cases ep) auto
      with Some u show ?thesis by (simp add: handled extracted_def admin_extractor_def throw_web_def)
    qed
  qed
  then show ?thesis by (simp add: Inr)
qed

text \<open>
  The address that \<open>download_info\<close> publishes for a binary is not routed: it begins with \<open>/api/v1\<close>.
  The answer is 404 with a valid token and, as on every unknown path, 401 without.
\<close>

lemma published_url_not_routed:
  assumes "rq_path rq = [''api'', ''v1'', ''downloads'', ''worker'', platform]"
    and "jwt_middleware (ap_auth a) (rq_auth_header rq) (rq_token rq) = Inr u"
  shows "serve a rq d fs fl = (Inr (ReplyStatus 404 []), d, fs, fl)"
proof -
  have "find_route routes (rq_path rq) = None" unfolding assms routes_def by simp
  then show ?thesis by (simp add: serve_def return_web_def extracted_def assms(2))
qed

definition demo_app :: app where
  "demo_app = \<lparr>ap_auth = demo_auth 0, ap_jobs = demo_jobs_env, ap_io = demo_disk, ap_read = demo_reads,
     ap_setup = demo_setup, ap_binaries = [''bin''], ap_version = ''1'', ap_new_id = Uuid 1, ap_now = 0, ap_today = 0,
     ap_day = id, ap_date = show_int, ap_ilike = (=), ap_raw_workers = (\<lambda>_ d. Inr ([], d)),
     ap_raw_count = (\<lambda>_ d. Inr (0, d)), ap_raw_rows = (\<lambda>_ d. Inr ([], d)), ap_parse_peer = Some,
     ap_channel_open = True, ap_build = BuildSkipped\<rparr>"

definition demo_request :: "http_method \<Rightarrow> string list \<Rightarrow> string option \<Rightarrow> request" where
  "demo_request m path tok = \<lparr>rq_method = m, rq_path = path, rq_auth_header = None, rq_token = Inr tok,
     rq_uuid = (\<lambda>_. Inr (Uuid 7)), rq_register = Inr (''a@b.c'', ''Passw0rd'', ''both''), rq_login = Inr (''a@b.c'', ''Passw0rd''),
     rq_new_role = Inr ''admin'', rq_allocation = Inr (Uuid 7, 1000),
     rq_users = Inr \<lparr>uq_search = None, uq_role = None, uq_limit = None, uq_offset = None\<rparr>,
     rq_workers = Inr \<lparr>wq_backend = None, wq_min_vram = None, wq_online_only = None, wq_limit = None, wq_offset = None\<rparr>,
     rq_txs = Inr \<lparr>tq_limit = None, tq_offset = None, tq_kind = None\<rparr>, rq_parts = Inr [], rq_body = Inr [], rq_upgrade = Inr ()\<rparr>"

definition allocate_path :: "string list" where
  "allocate_path = [''api'', ''compute-units'', ''allocate'']"

text \<open>Without a token the allocation is refused with 401, with the token of a plain user with 403.\<close>

lemma routes_guarded_witness:
  "(\<exists>e. ae_status e = 401 \<and> serve demo_app (demo_request POST allocate_path None) empty_db [] [] =
         (Inl e, empty_db, [], [])) \<and>
   serve demo_app (demo_request POST allocate_path (Some ''tok'')) empty_db [] [] \<in>
     {(Inl (forbidden ''admin role required''), empty_db, [], []), (Inr (ReplyStatus 404 []), empty_db, [], []),
      (Inr (ReplyStatus 405 []), empty_db, [], [])}"
proof -
  have "\<not> is_public allocate_path" "is_admin_path allocate_path"
    by (simp_all add: allocate_path_def is_public_def public_patterns_def is_admin_path_def)
  note path = this
  let ?anon = "demo_request POST allocate_path None" and ?user = "demo_request POST allocate_path (Some ''tok'')"
  have anon: "jwt_middleware (ap_auth demo_app) (rq_auth_header ?anon) (rq_token ?anon) = Inl (unauthorized ''missing Bearer token'')"
    by (simp add: jwt_middleware_def demo_request_def)
  obtain u where user: "jwt_middleware (ap_auth demo_app) (rq_auth_header ?user) (rq_token ?user) = Inr u" "au_role u \<noteq> ''admin''"
    by (simp add: jwt_middleware_def demo_request_def demo_app_def demo_auth_def demo_claims_def bits_uuid_text)
  have rp: "rq_path ?anon = allocate_path" "rq_path ?user = allocate_path" by (simp_all add: demo_request_def)
  have "\<exists>e. ae_status e = 401 \<and> serve demo_app ?anon empty_db [] [] = (Inl e, empty_db, [], [])"
    using routes_guarded [where a = demo_app and rq = ?anon and d = empty_db and fs = "[]" and fl = "[]"] path(1)
    unfolding anon sum.case rp by (auto simp: demo_request_def)
  moreover have "serve demo_app ?user empty_db [] [] \<in>
     {(Inl (forbidden ''admin role required''), empty_db, [], []), (Inr (ReplyStatus 404 []), empty_db, [], []),
      (Inr (ReplyStatus 405 []), empty_db, [], [])}"
    using routes_guarded [where a = demo_app and rq = ?user and d = empty_db and fs = "[]" and fl = "[]"] path(2) user(2)
    unfolding user(1) sum.case rp by blast
  ultimately show ?thesis ..
qed

end
