(* ===== verification/Schema.thy ===== *)
theory Schema
  imports Ledger Workers_Db Jobs_Db
begin

text \<open>
  The constraints of the migrations as one predicate on the database (keys, foreign keys, checks and
  the sequence of log ids), and that every write of the repositories and of the ledger keeps them,
  under any faults.
\<close>

definition balances_ok :: "db \<Rightarrow> bool" where
  "balances_ok d \<longleftrightarrow>
     distinct (map b_user (balances d)) \<and> (\<forall>b\<in>set (balances d). balance_ok b \<and> user_exists (b_user b) d)"

definition txs_ok :: "db \<Rightarrow> bool" where
  "txs_ok d \<longleftrightarrow>
     distinct (map tx_id (txs d)) \<and> (\<forall>t\<in>set (txs d). tx_kind t \<in> set tx_kinds \<and> user_exists (tx_user t) d)"

definition job_refs_ok :: "db \<Rightarrow> bool" where
  "job_refs_ok d \<longleftrightarrow> (\<forall>j\<in>set (jobs d). user_exists (j_hirer j) d \<and> worker_fk (j_worker j) d)"

definition files_ok :: "db \<Rightarrow> bool" where
  "files_ok d \<longleftrightarrow> distinct (map f_id (job_files d)) \<and>
     (\<forall>f\<in>set (job_files d). f_type f \<in> set file_types \<and> f_job f \<in> j_id ` set (jobs d))"

definition logs_ok :: "db \<Rightarrow> bool" where
  "logs_ok d \<longleftrightarrow> distinct (map l_id (job_logs d)) \<and>
     (\<forall>l\<in>set (job_logs d). l_id l < log_seq d \<and> l_job l \<in> j_id ` set (jobs d))"

definition sessions_ok :: "db \<Rightarrow> bool" where
  "sessions_ok d \<longleftrightarrow> distinct (map s_id (sessions d)) \<and> (\<forall>s\<in>set (sessions d). s_peer s \<in> w_peer ` set (workers d))"

definition schema_ok :: "db \<Rightarrow> bool" where
  "schema_ok d \<longleftrightarrow> users_ok d \<and> balances_ok d \<and> txs_ok d \<and> workers_ok d \<and> sessions_ok d \<and>
     jobs_ok d \<and> job_refs_ok d \<and> files_ok d \<and> logs_ok d"

lemmas schema_defs = schema_ok_def users_ok_def balances_ok_def txs_ok_def workers_ok_def sessions_ok_def jobs_ok_def
  job_refs_ok_def files_ok_def logs_ok_def user_exists_def worker_fk_def

lemma empty_schema: "schema_ok empty_db"
  by (simp add: schema_defs empty_db_def)

lemma keys_frame [simp]:
  "worker_fk None d" "worker_fk w (d\<lparr>jobs := js\<rparr>) = worker_fk w d" "user_exists u (d\<lparr>jobs := js\<rparr>) = user_exists u d"
  by (simp_all add: worker_fk_def user_exists_def split: option.split)

text \<open>A write changes one table and removes no key, so only its own constraints have to be checked.\<close>

lemma schema_change:
  assumes ok: "schema_ok d"
    and keys: "u_id ` set (users d) \<subseteq> u_id ` set (users d')" "w_peer ` set (workers d) \<subseteq> w_peer ` set (workers d')"
      "j_id ` set (jobs d) \<subseteq> j_id ` set (jobs d')"
    and tables: "users d' = users d \<or> users_ok d'" "balances d' = balances d \<or> balances_ok d'" "txs d' = txs d \<or> txs_ok d'"
      "workers d' = workers d \<or> workers_ok d'" "sessions d' = sessions d \<or> sessions_ok d'"
      "jobs d' = jobs d \<or> jobs_ok d' \<and> job_refs_ok d'" "job_files d' = job_files d \<or> files_ok d'"
      "job_logs d' = job_logs d \<and> log_seq d' = log_seq d \<or> logs_ok d'"
  shows "schema_ok d'"
proof -
  have fk: "user_exists u d \<Longrightarrow> user_exists u d'" "worker_fk w d \<Longrightarrow> worker_fk w d'" for u w
    using keys by (auto simp: user_exists_def worker_fk_def split: option.splits)
  have "users_ok d'" using ok tables(1) by (auto simp: schema_ok_def users_ok_def)
  moreover have "balances_ok d'" "txs_ok d'"
    using ok tables(2,3) fk(1) by (auto simp: schema_ok_def balances_ok_def txs_ok_def)
  moreover have "workers_ok d'"
    using ok tables(4) keys(1) unfolding schema_ok_def workers_ok_def by (metis subset_trans)
  moreover have "sessions_ok d'"
    using ok tables(5) keys(2) unfolding schema_ok_def sessions_ok_def by (metis subsetD)
  moreover have "jobs_ok d' \<and> job_refs_ok d'"
    using ok tables(6) fk by (auto simp: schema_ok_def jobs_ok_def job_refs_ok_def)
  moreover have "files_ok d'" using ok tables(7) keys(3) unfolding schema_ok_def files_ok_def by (metis subsetD)
  moreover have "logs_ok d'" using ok tables(8) keys(3) unfolding schema_ok_def logs_ok_def by (metis subsetD)
  ultimately show ?thesis by (simp add: schema_ok_def)
qed

subsection \<open>Users and balances\<close>

lemma schema_users_create: "keeps schema_ok (users_create i now e h r)"
proof (rule keepsI)
  fix d fs res d' fs' assume ok: "schema_ok d" and run: "users_create i now e h r d fs = (res, d', fs')"
  have "users_ok d'" using users_create_keeps [OF _ run] ok by (simp add: schema_ok_def)
  with users_create_cases [OF run] show "schema_ok d'" by (elim disjE exE; intro schema_change [OF ok]) auto
qed

lemma schema_update_role: "keeps schema_ok (users_update_role su i role)"
proof (rule keepsI)
  fix d fs res d' fs' assume ok: "schema_ok d" and run: "users_update_role su i role d fs = (res, d', fs')"
  have "users_ok d'" using users_update_role_keeps [OF _ run] ok by (simp add: schema_ok_def)
  moreover have "u_id ` set (update_where (\<lambda>u. u_id u = i) (\<lambda>u. u\<lparr>u_role := role\<rparr>) (users d)) = u_id ` set (users d)"
    by (rule image_update_where) simp
  ultimately show "schema_ok d'"
    using users_update_role_cases [OF run] by (elim disjE; intro schema_change [OF ok]) auto
qed

lemma schema_stmt:
  assumes "\<And>d x d'. schema_ok d \<Longrightarrow> q d = Inr (x, d') \<Longrightarrow> d' = d \<or> schema_ok d'"
  shows "keeps schema_ok (stmt q)"
  by (rule keeps_stmt) (use assms in blast)

lemma schema_initialize: "keeps schema_ok (ledger_initialize u)"
  unfolding ledger_initialize_def
proof (rule keeps_stmt)
  fix d x d' assume ok: "schema_ok d"
    and run: "(if u \<in> b_user ` set (balances d) then Inr ((), d)
       else if \<not> user_exists u d then Inl (Database ''user_id foreign key'')
       else Inr ((), d\<lparr>balances := balances d @ [\<lparr>b_user = u, cu_balance = 0, cu_reserved = 0\<rparr>]\<rparr>)) = Inr (x, d')"
  show "schema_ok d'"
  proof (cases "u \<in> b_user ` set (balances d)")
    case False
    with run have u: "user_exists u d" "d' = d\<lparr>balances := balances d @ [\<lparr>b_user = u, cu_balance = 0, cu_reserved = 0\<rparr>]\<rparr>"
      by (auto split: if_splits)
    have "balances_ok d'"
      using ok False u by (auto simp: schema_ok_def balances_ok_def balance_ok_def i64_max_def user_exists_def)
    with u(2) show ?thesis by (intro schema_change [OF ok]) auto
  qed (use ok run in auto)
qed

lemma schema_insert_tx: "keeps schema_ok (stmt (sql_insert_tx tid now u a k j))"
proof (rule keeps_stmt)
  fix d x d' assume ok: "schema_ok d" and run: "sql_insert_tx tid now u a k j d = Inr (x, d')"
  then have "txs_ok d'" by (auto simp: sql_insert_tx_def schema_ok_def txs_ok_def user_exists_def split: if_splits)
  with run show "schema_ok d'" by (intro schema_change [OF ok]) (auto simp: sql_insert_tx_def split: if_splits)
qed

lemma schema_update_balance:
  assumes "\<And>b. b_user (f b) = b_user b" shows "keeps schema_ok (stmt (sql_update_balance u f))"
proof (rule keeps_stmt)
  fix d x d' assume ok: "schema_ok d" and run: "sql_update_balance u f d = Inr (x, d')"
  have "map b_user (update_where (\<lambda>b. b_user b = u) f (balances d)) = map b_user (balances d)"
    by (simp add: map_update_where assms)
  then have "balances_ok d'"
    using ok run by (auto simp: balances_ok_def schema_ok_def set_update_where assms user_exists_def
      sql_update_balance_def split: if_splits)
  with run show "schema_ok d'" by (intro schema_change [OF ok]) (auto simp: sql_update_balance_def split: if_splits)
qed

lemma keeps_transaction [keeps_intros]: "keeps I m \<Longrightarrow> keeps I (transaction m)"
  by (rule keepsI) (auto simp: transaction_def dest: keepsD split: prod.splits fault.splits sum.splits)

lemma schema_ledger:
  "keeps schema_ok (ledger_allocate su tid now u a)" "keeps schema_ok (ledger_reserve tid now u j a)"
  "keeps schema_ok (ledger_settle t1 t2 now h w j r secs b)" "keeps schema_ok (ledger_refund_full tid now h j r)"
  unfolding ledger_defs Let_def
  by (intro keeps_intros schema_insert_tx schema_update_balance; simp)+

subsection \<open>Workers and sessions\<close>

lemma schema_workers:
  assumes "map w_peer (f (workers d)) = map w_peer (workers d)" "map w_user (f (workers d)) = map w_user (workers d)"
    and ok: "schema_ok d"
  shows "schema_ok (d\<lparr>workers := f (workers d)\<rparr>)"
proof -
  have "w_peer ` set (f (workers d)) = w_peer ` set (workers d)" "w_user ` set (f (workers d)) = w_user ` set (workers d)"
    using assms(1,2) by (metis list.set_map)+
  with assms(1) show ?thesis
    using ok by (intro schema_change [OF ok]) (auto simp: schema_ok_def workers_ok_def)
qed

lemma schema_worker_writes:
  "keeps schema_ok (workers_set_online now p b)" "keeps schema_ok workers_mark_all_offline"
  "keeps schema_ok (workers_update_uptime p sc)" "keeps schema_ok (workers_increment_jobs p)"
  unfolding workers_set_online_def workers_mark_all_offline_def workers_update_uptime_def workers_increment_jobs_def
  by (rule keeps_stmt; auto simp: map_update_where comp_def split: if_splits intro!: schema_workers)+

lemma schema_upsert: "keeps schema_ok (workers_upsert now p u caps)"
proof (rule keepsI)
  fix d fs r d' fs' assume ok: "schema_ok d" and run: "workers_upsert now p u caps d fs = (r, d', fs')"
  have "workers_ok d'" using upsert_keeps [OF _ run] ok by (simp add: schema_ok_def)
  moreover have "w_peer ` set (update_where (\<lambda>w. w_peer w = p)
      (\<lambda>w. w\<lparr>w_caps := caps, w_online := True, w_last_seen := Some now\<rparr>) (workers d)) = w_peer ` set (workers d)"
    by (rule image_update_where) simp
  ultimately show "schema_ok d'"
    using upsert_cases [OF run] by (elim disjE conjE; intro schema_change [OF ok]) auto
qed

lemma schema_sessions:
  "keeps schema_ok (workers_record_session_start i now p)" "keeps schema_ok (workers_record_session_end now i reason)"
proof -
  show "keeps schema_ok (workers_record_session_start i now p)"
  proof (rule keepsI)
    fix d fs r d' fs' assume ok: "schema_ok d" and run: "workers_record_session_start i now p d fs = (r, d', fs')"
    show "schema_ok d'"
    proof (cases "d' = d")
      case False
      then obtain x where x: "d' = d\<lparr>sessions := sessions d @ [x]\<rparr>" "s_id x = i" "s_peer x = p"
        "i \<notin> s_id ` set (sessions d)" "p \<in> w_peer ` set (workers d)"
        using stmt_cases(1) [OF run [unfolded workers_record_session_start_def]] by (auto split: if_splits)
      then have "sessions_ok d'" using ok by (simp add: schema_ok_def sessions_ok_def)
      then show ?thesis using x(1) by (intro schema_change [OF ok]) auto
    qed (simp add: ok)
  qed
  show "keeps schema_ok (workers_record_session_end now i reason)"
    unfolding workers_record_session_end_def
  proof (rule keeps_stmt, clarsimp)
    fix d assume ok: "schema_ok d"
    let ?ss = "update_where (\<lambda>s. s_id s = i) (\<lambda>s. s\<lparr>s_disconnected_at := Some now, s_reason := reason\<rparr>) (sessions d)"
    have "map s_id ?ss = map s_id (sessions d)" by (simp add: map_update_where)
    with ok show "schema_ok (d\<lparr>sessions := ?ss\<rparr>)"
      by (intro schema_change [OF ok]) (auto simp: schema_ok_def sessions_ok_def ball_update_where)
  qed
qed

subsection \<open>Jobs, files and logs\<close>

lemma schema_create: "keeps schema_ok (jobs_create i now h b m s p)"
proof (rule keepsI)
  fix d fs r d' fs' assume ok: "schema_ok d" and run: "jobs_create i now h b m s p d fs = (r, d', fs')"
  show "schema_ok d'"
  proof (cases "d' = d")
    case False
    then obtain row where new: "d' = d\<lparr>jobs := jobs d @ [row]\<rparr>" "j_id row = i" "i \<notin> j_id ` set (jobs d)" "j_hirer row = h"
      "j_worker row = None" "j_status row = ''pending''" "user_exists h d"
      using stmt_cases(1) [OF run [unfolded jobs_create_def]] by (auto simp: Let_def split: if_splits)
    then have "jobs_ok d' \<and> job_refs_ok d'"
      using ok by (auto simp: schema_ok_def jobs_ok_def job_refs_ok_def job_statuses_def)
    then show ?thesis using new(1) by (intro schema_change [OF ok]) auto
  qed (simp add: ok)
qed

lemma schema_transition: "keeps schema_ok (jobs_transition_status su now i f t w e r)"
proof (rule keepsI)
  fix d fs res d' fs' assume ok: "schema_ok d" and run: "jobs_transition_status su now i f t w e r d fs = (res, d', fs')"
  show "schema_ok d'"
  proof (cases rule: transition_cases [OF run])
    case (2 row)
    note tr = transition_success [OF 2] and jobs = transition_job_status(3) [OF _ 2]
    let ?js = "update_where (\<lambda>j. j_id j = i \<and> j_status j = f) (apply_transition now t w e r) (jobs d)"
    have ids: "j_id ` set ?js = j_id ` set (jobs d)" by (rule image_update_where) simp
    have "worker_fk (coalesce w p) d" if "worker_fk p d" for p
      using that tr(4) by (cases w) (simp_all add: coalesce_def)
    then have "job_refs_ok d'"
      using ok by (auto simp: tr(1) schema_ok_def job_refs_ok_def ball_update_where)
    moreover have "jobs_ok d'" using ok jobs by (simp add: schema_ok_def)
    ultimately show ?thesis using ids by (intro schema_change [OF ok]) (auto simp: tr(1))
  qed (simp add: ok)
qed

lemma schema_insert_file: "keeps schema_ok (jobs_insert_file i now j k p n s)"
proof (rule keepsI)
  fix d fs r d' fs' assume ok: "schema_ok d" and run: "jobs_insert_file i now j k p n s d fs = (r, d', fs')"
  show "schema_ok d'"
  proof (cases "d' = d")
    case False
    then obtain x where x: "d' = d\<lparr>job_files := job_files d @ [x]\<rparr>" "f_id x = i" "f_job x = j" "f_type x = k"
      "i \<notin> f_id ` set (job_files d)" "j \<in> j_id ` set (jobs d)" "k \<in> set file_types"
      using stmt_cases(1) [OF run [unfolded jobs_insert_file_def]] by (auto split: if_splits)
    then have "files_ok d'" using ok by (simp add: schema_ok_def files_ok_def)
    then show ?thesis using x(1) by (intro schema_change [OF ok]) auto
  qed (simp add: ok)
qed

lemma schema_append_log: "keeps schema_ok (jobs_append_log j ts level msg)"
proof (rule keepsI)
  fix d fs r d' fs' assume ok: "schema_ok d" and run: "jobs_append_log j ts level msg d fs = (r, d', fs')"
  have old: "\<forall>l\<in>set (job_logs d). l_id l < log_seq d \<and> l_job l \<in> j_id ` set (jobs d)" "distinct (map l_id (job_logs d))"
    using ok by (simp_all add: schema_ok_def logs_ok_def)
  show "schema_ok d'"
  proof (cases "d' = d")
    case False
    then obtain l where l: "d' = d\<lparr>job_logs := job_logs d @ [l], log_seq := log_seq d + 1\<rparr>" "l_id l = log_seq d" "l_job l = j"
      "j \<in> j_id ` set (jobs d)"
      using stmt_cases(1) [OF run [unfolded jobs_append_log_def]] by (auto split: if_splits)
    have "log_seq d \<notin> l_id ` set (job_logs d)" using old(1) by fastforce
    then have "logs_ok d'" using old l by (auto simp: logs_ok_def intro: less_imp_le)
    then show ?thesis using l(1) by (intro schema_change [OF ok]) auto
  qed (simp add: ok)
qed

lemma schema_price: "keeps schema_ok (jobs_update_cu_price i price)"
  unfolding jobs_update_cu_price_def
proof (rule keeps_stmt, clarsimp)
  fix d assume ok: "schema_ok d"
  let ?js = "update_where (\<lambda>j. j_id j = i) (\<lambda>j. j\<lparr>j_price := Some price\<rparr>) (jobs d)"
  have "map j_id ?js = map j_id (jobs d)" "j_id ` set ?js = j_id ` set (jobs d)"
    by (simp_all add: map_update_where image_update_where)
  then show "schema_ok (d\<lparr>jobs := ?js\<rparr>)"
    using ok by (intro schema_change [OF ok])
      (auto simp: schema_ok_def jobs_ok_def job_refs_ok_def ball_update_where)
qed

end
