(* ===== verification/Master_System.thy ===== *)
theory Master_System
  imports Router Startup Schema
begin

text \<open>
  The master as one system: requests of the API, tasks and events of the P2P layer, the updater of
  the workers' status, the scheduler and the start, in any order and under any faults, on one
  database. The locales say what requests, tasks and the scheduler write, so that an invariant of the
  statements is one of the system; from them follows that nobody but an administrator creates compute
  units or administrators.
\<close>

section \<open>Actions of the API that keep an invariant\<close>

definition keeps_web :: "(db \<Rightarrow> bool) \<Rightarrow> 'a web \<Rightarrow> bool" where
  "keeps_web I m \<longleftrightarrow> (\<forall>d fs fl r d' fs' fl'. I d \<longrightarrow> m d fs fl = (r, d', fs', fl') \<longrightarrow> I d')"

lemma keeps_webI: "(\<And>d fs fl r d' fs' fl'. I d \<Longrightarrow> m d fs fl = (r, d', fs', fl') \<Longrightarrow> I d') \<Longrightarrow> keeps_web I m"
  unfolding keeps_web_def by blast

lemma keeps_webD: "keeps_web I m \<Longrightarrow> I d \<Longrightarrow> m d fs fl = (r, d', fs', fl') \<Longrightarrow> I d'"
  unfolding keeps_web_def by blast

named_theorems web_intros \<open>introduction rules for requests that keep an invariant\<close>

lemma keeps_web_return [web_intros]: "keeps_web I (return_web x)"
  by (rule keeps_webI) (simp add: return_web_def)

lemma keeps_web_throw [web_intros]: "keeps_web I (throw_web e)"
  by (rule keeps_webI) (simp add: throw_web_def)

lemma keeps_web_bind [web_intros]:
  "keeps_web I m \<Longrightarrow> (\<And>x. keeps_web I (k x)) \<Longrightarrow> keeps_web I (bind_web m k)"
  by (rule keeps_webI) (auto simp: bind_web_def dest: keeps_webD split: prod.splits sum.splits)

lemma keeps_web_db [web_intros]: "keeps I m \<Longrightarrow> keeps_web I (db_web m)"
  by (rule keeps_webI) (auto simp: db_web_def dest: keepsD split: prod.splits)

lemma keeps_web_io [web_intros]:
  "keeps_web I (mkdir_web os what p)" "keeps_web I (write_web os what p b)" "keeps_web I (read_file re what p)"
  by (auto simp: keeps_web_def mkdir_web_def write_web_def read_file_def return_web_def throw_web_def
      split: option.splits prod.splits)

lemma keeps_web_answer [web_intros]:
  "keeps_web I m \<Longrightarrow> keeps_web I (answer f m)" "keeps I n \<Longrightarrow> keeps_web I (answer_db f n)"
  by (auto simp: answer_def answer_db_def intro!: web_intros)

lemma keeps_web_extracted [web_intros]: "(\<And>x. r = Inr x \<Longrightarrow> keeps_web I (k x)) \<Longrightarrow> keeps_web I (extracted r k)"
  by (auto simp: extracted_def intro: web_intros split: sum.splits)

lemma keeps_web_cases [web_intros]:
  "(b \<Longrightarrow> keeps_web I m) \<Longrightarrow> (\<not> b \<Longrightarrow> keeps_web I n) \<Longrightarrow> keeps_web I (if b then m else n)"
  "(x = None \<Longrightarrow> keeps_web I m) \<Longrightarrow> (\<And>y. x = Some y \<Longrightarrow> keeps_web I (k y)) \<Longrightarrow>
   keeps_web I (case x of None \<Rightarrow> m | Some y \<Rightarrow> k y)"
  "(\<And>e. s = Inl e \<Longrightarrow> keeps_web I (g e)) \<Longrightarrow> (\<And>y. s = Inr y \<Longrightarrow> keeps_web I (h y)) \<Longrightarrow>
   keeps_web I (case s of Inl e \<Rightarrow> g e | Inr y \<Rightarrow> h y)"
  "(\<And>y z. p = (y, z) \<Longrightarrow> keeps_web I (l y z)) \<Longrightarrow> keeps_web I (case p of (y, z) \<Rightarrow> l y z)"
  by (auto split: option.splits sum.splits prod.splits)

text \<open>A choice by the files.\<close>

lemma keeps_web_pick:
  assumes "keeps_web I m" "\<And>x. keeps_web I (n x)" "keeps_web I l"
  shows "keeps_web I (\<lambda>d fs fl. if Q fl then m d fs fl else case g fl of None \<Rightarrow> l d fs fl | Some x \<Rightarrow> n x d fs fl)"
    (is "keeps_web I ?m")
proof (rule keeps_webI)
  fix d fs fl r d' fs' fl' assume I: "I d" and run: "?m d fs fl = (r, d', fs', fl')"
  consider "m d fs fl = (r, d', fs', fl')" | x where "n x d fs fl = (r, d', fs', fl')" | "l d fs fl = (r, d', fs', fl')"
    using run by (cases "Q fl"; cases "g fl") auto
  then show "I d'" by cases (use assms I keeps_webD in metis)+
qed

lemma keeps_cases [keeps_intros]:
  "(x = None \<Longrightarrow> keeps I m) \<Longrightarrow> (\<And>y. x = Some y \<Longrightarrow> keeps I (k y)) \<Longrightarrow>
   keeps I (case x of None \<Rightarrow> m | Some y \<Rightarrow> k y)"
  "(\<And>e. s = Inl e \<Longrightarrow> keeps I (g e)) \<Longrightarrow> (\<And>y. s = Inr y \<Longrightarrow> keeps I (h y)) \<Longrightarrow>
   keeps I (case s of Inl e \<Rightarrow> g e | Inr y \<Rightarrow> h y)"
  "(\<And>y z. p = (y, z) \<Longrightarrow> keeps I (l y z)) \<Longrightarrow> keeps I (case p of (y, z) \<Rightarrow> l y z)"
  by (auto split: option.splits sum.splits prod.splits)

section \<open>The reads\<close>

lemma keeps_pasted: "(\<And>t d x d'. raw t d = Inr (x, d') \<Longrightarrow> d' = d) \<Longrightarrow> keeps I (stmt q) \<Longrightarrow> keeps I (stmt (paste_sql raw s q))"
  by (cases s) (auto simp: paste_sql_def intro!: keeps_stmt)

lemma keeps_reads [keeps_intros]:
  "keeps I (users_find_by_email e)" "keeps I (users_find_by_id i)" "keeps I (users_list_all il se r l off)"
  "keeps I (users_count_all il se r)" "keeps I users_count_admins" "keeps I (jobs_find_by_id i)"
  "keeps I (jobs_list_by_hirer u l off)" "keeps I (jobs_get_logs_since scan i ms l)" "keeps I (ledger_get_balance su u)"
  "keeps I (workers_find_by_user_id u)" "keeps I (workers_find_by_peer_id p)" "keeps I workers_count_online"
  "keeps I (scalar_or_zero q)" "keeps I (rows_or_empty qs)"
  unfolding users_find_by_email_def users_find_by_id_def users_list_all_def users_count_all_def users_count_admins_def
    jobs_find_by_id_def jobs_list_by_hirer_def jobs_get_logs_since_def ledger_get_balance_def
    workers_find_by_user_id_def workers_find_by_peer_id_def workers_count_online_def scalar_or_zero_def rows_or_empty_def
  by (intro keeps_intros)+

lemma keeps_owned [keeps_intros]: "keeps I (owned_job u i)"
  unfolding owned_job_def by (intro keeps_intros)

text \<open>What PostgreSQL makes of text pasted into a query is only read by the handlers that paste it.\<close>

definition reads_only :: "app \<Rightarrow> bool" where
  "reads_only a \<longleftrightarrow>
     (\<forall>t d x d'. ap_raw_workers a t d = Inr (x, d') \<longrightarrow> d' = d) \<and>
     (\<forall>t d x d'. ap_raw_count a t d = Inr (x, d') \<longrightarrow> d' = d) \<and>
     (\<forall>t d x d'. ap_raw_rows a t d = Inr (x, d') \<longrightarrow> d' = d)"

lemma keeps_list_workers:
  assumes "reads_only a"
  shows "list_workers ts (ap_raw_workers a) b v onl l off = Some m \<Longrightarrow> keeps I m"
proof -
  assume run: "list_workers ts (ap_raw_workers a) b v onl l off = Some m"
  have raw: "keeps I (stmt (ap_raw_workers a t))" for t
    using assms by (intro keeps_stmt) (auto simp: reads_only_def)
  have query: "keeps I (stmt (\<lambda>d. case f d of Inl e \<Rightarrow> Inl (Database e) | Inr rows \<Rightarrow> page_sql l off (g rows) d))"
    for f :: "db \<Rightarrow> string + worker_row list" and g :: "worker_row list \<Rightarrow> db \<Rightarrow> worker_row list" and l off
    by (rule keeps_stmt) (auto simp: page_sql_def split: sum.splits)
  obtain n where n: "workers_list_with_filters (ap_raw_workers a) b v (unwrap_or False onl) (page_limit 50 200 l) (page_offset off) = Some n"
    and m: "m = bind_db (lift_api n) (\<lambda>rows. return_db (JArr (map (worker_summary ts) rows)))"
    using run by (auto simp: list_workers_def)
  have "keeps I n"
    using n raw query by (auto simp: workers_list_with_filters_def Let_def split: option.splits if_splits)
  then show ?thesis unfolding m by (intro keeps_intros)
qed

lemma keeps_tx_pages:
  assumes "reads_only a"
  shows "keeps I (cu_list_transactions_paginated (ap_raw_count a) (ap_raw_rows a) u l off k)"
  unfolding cu_list_transactions_paginated_def Let_def
  by (intro keeps_intros keeps_pasted) (use assms in \<open>auto simp: reads_only_def\<close>)

text \<open>The request carries a valid token of an administrator.\<close>

definition admin_request :: "app \<Rightarrow> request \<Rightarrow> bool" where
  "admin_request a rq =
     (case jwt_middleware (ap_auth a) (rq_auth_header rq) (rq_token rq) of Inl _ \<Rightarrow> False | Inr u \<Rightarrow> au_role u = ''admin'')"

section \<open>What requests, registrations and updates write\<close>

text \<open>
  An invariant of the database that the statements of users and workers keep, new users with fresh
  ids included, and that a cancellation keeps.
\<close>

locale request_writes =
  fixes I :: "db \<Rightarrow> bool" and fresh :: "uuid \<Rightarrow> bool"
  assumes create_user: "fresh i \<Longrightarrow> role \<in> {''hirer'', ''worker'', ''both''} \<Longrightarrow> keeps I (users_create i now e h role)"
    and initialize: "keeps I (ledger_initialize u)"
    and create: "keeps I (jobs_create i now u backend mem dur price)"
    and cancel: "keeps I (cancel_job jenv now user i)"
    and insert_file: "keeps I (jobs_insert_file i now j kind path n sha)"
    and upsert: "keeps I (workers_upsert now peer u caps)"
    and set_online: "keeps I (workers_set_online now peer onl)"
begin

lemmas writes = initialize create insert_file upsert set_online

lemma open_requests: "fresh (ap_new_id a) \<Longrightarrow> keeps_web I (handle_public a rq ep ps)"
proof (cases ep)
  case Register
  assume fresh: "fresh (ap_new_id a)"
  have "keeps I (register env (ap_new_id a) now e pw role)" for env now e pw role
  proof (cases "role \<in> {''hirer'', ''worker'', ''both''}")
    case True
    then show ?thesis unfolding register_def by (intro keeps_intros writes create_user [OF fresh])
  next
    case False
    then show ?thesis unfolding register_def by (simp only: if_True not_True_eq_False simp_thms) (intro keeps_intros)
  qed
  then show ?thesis by (auto simp: Register intro!: web_intros)
next
  case Login
  have "keeps I (login env e pw)" for env e pw
    unfolding login_def
    by (intro keeps_intros, simp split: verdict.split) (intro keeps_intros allI impI conjI)
  then show ?thesis by (auto simp: Login intro!: web_intros)
next
  case DownloadsInfo
  show ?thesis by (simp add: DownloadsInfo keeps_web_def return_web_def)
next
  case DownloadWorker
  have "keeps_web I (download_worker re dir t)" for re dir t
    by (auto simp: download_worker_def keeps_web_def return_web_def throw_web_def split: option.splits if_splits)
  then show ?thesis by (auto simp: DownloadWorker intro!: web_intros)
next
  case Health
  show ?thesis by (auto simp: Health health_def intro!: web_intros keeps_intros)
qed (auto intro: web_intros)

lemma store: "keeps_web I (create_job env os i now build u parts)"
  unfolding create_job_def store_job_def Let_def by (intro web_intros keeps_intros writes)

lemma upload: "keeps_web I (upload_job_file env os new_id now u i parts)"
  unfolding upload_job_file_def Let_def by (intro web_intros keeps_intros writes)

lemma download: "keeps_web I (download_result env re u i)"
  unfolding download_result_def Let_def
  by (intro web_intros keeps_intros; rule keeps_web_pick) (intro web_intros keeps_intros)+

lemma user_requests:
  assumes "reads_only a" shows "keeps_web I (handle_private a rq ep ps u)"
proof (cases ep)
  case CreateJob
  then show ?thesis by (auto intro!: web_intros store)
next
  case UploadFile
  then show ?thesis by (auto intro!: web_intros upload)
next
  case CancelTheJob
  then show ?thesis by (auto intro!: web_intros cancel)
next
  case JobResult
  then show ?thesis by (auto intro!: web_intros download)
next
  case ListWorkers
  then show ?thesis using keeps_list_workers [OF assms] by (auto intro!: web_intros split: option.splits)
next
  case Balance
  then show ?thesis by (auto simp: get_balance_def intro!: web_intros keeps_intros keeps_tx_pages [OF assms])
next
  case Transactions
  then show ?thesis
    by (auto simp: list_transactions_def Let_def intro!: web_intros keeps_intros keeps_tx_pages [OF assms])
qed (auto simp: me_def list_jobs_def get_job_def stream_logs_def ws_terminal_def get_my_worker_def
      get_worker_by_peer_id_def split_beta intro!: web_intros keeps_intros)

lemma updater: "keeps I (db_updater now text ev)"
  by (cases ev) (auto intro!: keeps_intros writes)

lemma registration: "keeps I (verify_and_register_worker env has_db tok peer caps)"
  unfolding verify_and_register_worker_def Let_def by (intro keeps_intros writes)

lemma registered: "I d \<Longrightarrow> I (fst (snd (register_task env has_db peer req d fs)))"
  using keepsD [OF registration] by (auto simp: register_task_def split: prod.splits sum.splits)

text \<open>A request without a valid token of an administrator.\<close>

lemma user_handled:
  assumes "reads_only a" "fresh (ap_new_id a)" "\<And>u. ext = Some u \<Longrightarrow> au_role u \<noteq> ''admin''" shows "keeps_web I (handle a rq ext ps ep)"
  using assms(3)
  by (cases "(a, rq, ext, ps, ep)" rule: handle.cases)
    (auto simp: admin_extractor_def split: option.splits if_splits
      intro!: web_intros open_requests [OF assms(2)] user_requests [OF assms(1)])

lemma user_served:
  assumes "reads_only a" "fresh (ap_new_id a)" "\<not> admin_request a rq" shows "keeps_web I (serve a rq)"
  unfolding serve_def
  by (intro web_intros user_handled [OF assms(1,2)]) (use assms(3) in \<open>auto simp: admin_request_def\<close>)

end

text \<open>And that those of administrators and of the start keep.\<close>

locale admin_request_writes = request_writes +
  assumes create_admin: "fresh i \<Longrightarrow> keeps I (users_create i now e h ''admin'')"
    and update_role: "keeps I (users_update_role su i role)"
    and allocation: "keeps I (ledger_allocate su i now u amount)"
    and all_offline: "keeps I workers_mark_all_offline"
begin

lemma admin_requests: "keeps_web I (handle_admin a rq ep ps admin)"
proof (cases ep)
  case Allocate
  have "keeps I (allocate su i now u amount)" for su i now u amount
    unfolding allocate_def by (intro keeps_intros allocation)
  then show ?thesis by (auto simp: Allocate intro!: web_intros)
next
  case UserRole
  have "keeps I (update_user_role su admin i role)" for su i role
    unfolding update_user_role_def role_check_def role_commit_def by (intro keeps_intros update_role)
  then show ?thesis by (auto simp: UserRole intro!: web_intros)
next
  case Disconnect
  have "keeps I (disconnect_worker parse ch now p)" for parse ch now p
    unfolding disconnect_worker_def by (intro keeps_intros writes)
  then show ?thesis by (auto simp: Disconnect intro!: web_intros)
next
  case UploadBinary
  have "keeps_web I (upload_worker_binary os dir t body)" for os dir t body
    unfolding upload_worker_binary_def by (intro web_intros)
  then show ?thesis by (auto simp: UploadBinary intro!: web_intros)
qed (auto simp: list_users_def get_user_def get_stats_def Let_def intro!: web_intros keeps_intros)

lemma start: "fresh (dn_new_id dn) \<Longrightarrow> keeps I (prepare_database env dn url)"
proof -
  assume fresh: "fresh (dn_new_id dn)"
  have "keeps I (bootstrap_admin env (dn_new_id dn) now e pw)" for env now e pw
    unfolding bootstrap_admin_def by (intro keeps_intros create_admin [OF fresh] initialize)
  then show ?thesis
    unfolding prepare_database_def by (auto intro!: keeps_intros all_offline split: option.split)
qed

lemma handled:
  assumes "reads_only a" "fresh (ap_new_id a)" shows "keeps_web I (handle a rq ext ps ep)"
  by (cases "(a, rq, ext, ps, ep)" rule: handle.cases)
    (auto intro!: web_intros open_requests [OF assms(2)] user_requests [OF assms(1)] admin_requests)

lemma served: "reads_only a \<Longrightarrow> fresh (ap_new_id a) \<Longrightarrow> keeps_web I (serve a rq)"
  unfolding serve_def by (intro web_intros handled)

end

section \<open>What the tasks and the scheduler write\<close>

text \<open>
  An invariant that every statement keeps, whatever ids and statuses are written: then also
  cancellations, completions and every event of the scheduler keep it.
\<close>

locale user_writes =
  fixes I :: "db \<Rightarrow> bool"
  assumes create_user: "role \<in> {''hirer'', ''worker'', ''both''} \<Longrightarrow> keeps I (users_create i now e h role)"
    and initialize: "keeps I (ledger_initialize u)"
    and create: "keeps I (jobs_create i now u backend mem dur price)"
    and transition: "keeps I (jobs_transition_status su now i f t worker err res)"
    and insert_file: "keeps I (jobs_insert_file i now j kind path n sha)"
    and append_log: "keeps I (jobs_append_log j ts level msg)"
    and upsert: "keeps I (workers_upsert now peer u caps)"
    and set_online: "keeps I (workers_set_online now peer onl)"
begin

lemmas writes = initialize create transition insert_file append_log upsert set_online

lemma cancel: "keeps I (cancel_job env now u i)"
  unfolding cancel_job_def by (intro keeps_intros writes)

lemma completion: "keeps I (complete_job env c i)"
  unfolding complete_job_def store_output_def by (intro keeps_intros writes)

lemma completed: "I d \<Longrightarrow> I (fst (snd (snd (completion_task env has_db bus c d fs))))"
  using keeps_after [OF completion, unfolded db_after_def]
  by (simp add: completion_task_def case_prod_unfold split: option.split bool.split)

lemma moved: "I d0 \<Longrightarrow> jobs_transition_status su now i f t w e r d0 fs = (x, d, fs') \<Longrightarrow> I d"
  by (rule keepsD [OF transition])

lemma assigned: "I (sc_db s) \<Longrightarrow> I (sc_db (try_assign_one env i req s))"
  by (auto simp: try_assign_one_def assign_to_def dest: moved build_assignment_db split: list.split prod.split sum.split)

lemma found: "I (sc_db s) \<Longrightarrow> jobs_find_by_id i (sc_db s) fs = (x, d, fs') \<Longrightarrow> I d"
  using find_by_id_db [of i "sc_db s" fs] by simp

lemma one_job: "I (sc_db s) \<Longrightarrow> I (sc_db (assign_pending_job env i s)) \<and> I (sc_db (retry_job env i s))"
  by (auto simp: assign_pending_job_def retry_job_def drop_pending_def intro!: assigned dest: found
      split: prod.split sum.split option.split)

lemma loops: "I (sc_db s) \<Longrightarrow> I (sc_db (try_assign_pending env s)) \<and> I (sc_db (retry_stale_pending env s))"
  unfolding try_assign_pending_def retry_stale_pending_def
  by (intro conjI; rule fold_invariant [where Q = "\<lambda>_. True"]) (auto simp: one_job)

lemma requeued: "I (sc_db s) \<Longrightarrow> I (sc_db (fail_and_requeue env peer row s))"
  by (auto simp: fail_and_requeue_def Let_def dest: moved split: prod.split)

lemma offline: "I (sc_db s) \<Longrightarrow> I (sc_db (handle_worker_offline env peer s))"
proof -
  assume I: "I (sc_db s)"
  obtain r d fs where run: "jobs_list_by_hirer uuid_nil 1000 0 (sc_db s) (sc_faults s) = (r, d, fs)"
    by (cases "jobs_list_by_hirer uuid_nil 1000 0 (sc_db s) (sc_faults s)")
  have "I d" by (rule keepsD [where I = I, OF keeps_reads(7) I run])
  then have "I (sc_db (fold (fail_and_requeue env peer) rows (with_db s d fs)))" for rows
    by (intro fold_invariant [where Q = "\<lambda>_. True" and P = "\<lambda>s. I (sc_db s)"]) (auto simp: requeued)
  with \<open>I d\<close> show ?thesis by (simp add: handle_worker_offline_def run split: sum.split)
qed

lemma scheduled: "I (sc_db s) \<Longrightarrow> I (sc_db (sched_step env s ev))"
  by (cases ev) (auto simp: Let_def assigned loops offline split: option.split)

end

sublocale user_writes \<subseteq> requests: request_writes I "\<lambda>_. True"
  by unfold_locales (rule create_user cancel writes; assumption?)+

locale admin_writes = user_writes +
  assumes create_admin: "keeps I (users_create i now e h ''admin'')"
    and update_role: "keeps I (users_update_role su i role)"
    and allocation: "keeps I (ledger_allocate su i now u amount)"
    and all_offline: "keeps I workers_mark_all_offline"
begin

lemmas admin_statements = create_admin update_role allocation all_offline

end

sublocale admin_writes \<subseteq> admins: admin_request_writes I "\<lambda>_. True"
  by unfold_locales (rule admin_statements)+

section \<open>The system\<close>

datatype 'k master_event =
    MRequest app request "fault list" files
  | MSched sched_env sched_event
  | MRegister reg_env peer_id register_worker "fault list"
  | MComplete done_env "uuid list" job_completed "fault list"
  | MUpdate timestamp "peer_id \<Rightarrow> string" worker_event "fault list"
  | MStart "'k node_env" db_env string "fault list"

fun master_db :: "'k master_event \<Rightarrow> db \<Rightarrow> db" where
  "master_db (MRequest a rq fs fl) d = fst (snd (serve a rq d fs fl))"
| "master_db (MSched env ev) d = d"
| "master_db (MRegister env peer req fs) d = fst (snd (register_task env True peer req d fs))"
| "master_db (MComplete env bus c fs) d = fst (snd (snd (completion_task env True bus c d fs)))"
| "master_db (MUpdate now text ev fs) d = db_after (db_updater now text ev) d fs"
| "master_db (MStart env dn url fs) d = db_after (prepare_database env dn url) d fs"

definition master_op :: "sched \<Rightarrow> 'k master_event \<Rightarrow> sched" where
  "master_op s e =
     (case e of MSched env ev \<Rightarrow> sched_step env s ev | _ \<Rightarrow> s\<lparr>sc_db := master_db e (sc_db s)\<rparr>)"

fun pasted_reads :: "'k master_event \<Rightarrow> bool" where
  "pasted_reads (MRequest a rq fs fl) = reads_only a"
| "pasted_reads e = True"

text \<open>No request of an administrator; the start of the master is no event of a user.\<close>

fun by_no_admin :: "'k master_event \<Rightarrow> bool" where
  "by_no_admin (MRequest a rq fs fl) = (\<not> admin_request a rq)"
| "by_no_admin (MStart env dn url fs) = False"
| "by_no_admin e = True"

context admin_writes
begin

lemma system: "I (sc_db s) \<Longrightarrow> pasted_reads e \<Longrightarrow> I (sc_db (master_op s e))"
proof (cases e)
  case (MRequest a rq fs fl)
  assume "I (sc_db s)" "pasted_reads e"
  with keeps_webD [OF admins.served [OF _ TrueI], of a "sc_db s" rq fs fl] MRequest show ?thesis
    by (cases "serve a rq (sc_db s) fs fl") (auto simp: master_op_def)
qed (auto simp: master_op_def scheduled requests.registered completed intro!: keeps_after requests.updater admins.start)

end

context user_writes
begin

lemma user_system: "I (sc_db s) \<Longrightarrow> pasted_reads e \<Longrightarrow> by_no_admin e \<Longrightarrow> I (sc_db (master_op s e))"
proof (cases e)
  case (MRequest a rq fs fl)
  assume "I (sc_db s)" "pasted_reads e" "by_no_admin e"
  with keeps_webD [OF requests.user_served [OF _ TrueI], of a rq "sc_db s" fs fl] MRequest show ?thesis
    by (cases "serve a rq (sc_db s) fs fl") (auto simp: master_op_def)
qed (auto simp: master_op_def scheduled requests.registered completed intro!: keeps_after requests.updater)

end

section \<open>The schema\<close>

interpretation schema: admin_writes schema_ok
  by unfold_locales
    (rule schema_users_create schema_initialize schema_create schema_transition schema_insert_file schema_append_log
      schema_upsert schema_worker_writes schema_update_role schema_ledger)+

interpretation schema_run: stepwise master_op pasted_reads "\<lambda>s. schema_ok (sc_db s)"
  by standard (rule schema.system)

text \<open>
  The constraints of the schema hold in every run: every key stays unique, every reference has its row,
  every role, status, file type and kind of transaction stays within its check. They are part of the
  statements, so this is a check of the model of the statements and says nothing about the handlers.
\<close>

lemma schema_holds:
  fixes es :: "'k master_event list"
  shows "schema_ok (sc_db s) \<Longrightarrow> list_all pasted_reads es \<Longrightarrow> schema_ok (sc_db (run_ops master_op s es))"
  by (rule schema_run.inv_run)

section \<open>Units and administrators\<close>

definition no_gain :: "db \<Rightarrow> db \<Rightarrow> bool" where
  "no_gain d0 d \<longleftrightarrow> txs d = txs d0 \<and>
     (\<exists>us. users d = users d0 @ us \<and> (\<forall>u\<in>set us. u_role u \<noteq> ''admin'')) \<and>
     (\<exists>bs. balances d = balances d0 @ bs \<and> (\<forall>b\<in>set bs. cu_balance b = 0 \<and> cu_reserved b = 0))"

lemma no_gain_refl: "no_gain d d"
  by (simp add: no_gain_def)

lemma no_gain_same:
  assumes "no_gain d0 d" "users d' = users d" "balances d' = balances d" "txs d' = txs d" shows "no_gain d0 d'"
  using assms by (simp add: no_gain_def)

lemma no_gain_stmt:
  assumes "\<And>d x d'. q d = Inr (x, d') \<Longrightarrow> users d' = users d \<and> balances d' = balances d \<and> txs d' = txs d"
  shows "keeps (no_gain d0) (stmt q)"
  by (rule keeps_stmt) (use assms no_gain_same in blast)

lemma no_gain_user:
  assumes "role \<noteq> ''admin''" shows "keeps (no_gain d0) (users_create i now e h role)"
proof (rule keepsI)
  fix d fs r d' fs' assume ng: "no_gain d0 d" and run: "users_create i now e h role d fs = (r, d', fs')"
  show "no_gain d0 d'"
  proof (cases "d' = d")
    case False
    then obtain u where u: "d' = d\<lparr>users := users d @ [u]\<rparr>" "u_role u = role"
      using users_create_cases [OF run] by auto
    obtain us where us: "users d = users d0 @ us" "\<forall>u\<in>set us. u_role u \<noteq> ''admin''"
      using ng by (auto simp: no_gain_def)
    have "users d' = users d0 @ (us @ [u]) \<and> (\<forall>u\<in>set (us @ [u]). u_role u \<noteq> ''admin'')"
      using u us assms by simp
    moreover have "balances d' = balances d" "txs d' = txs d" by (simp_all add: u(1))
    ultimately show ?thesis using ng unfolding no_gain_def by metis
  qed (simp add: ng)
qed

lemma no_gain_initialize: "keeps (no_gain d0) (ledger_initialize u)"
proof (rule keepsI)
  fix d fs r d' fs' assume ng: "no_gain d0 d" and run: "ledger_initialize u d fs = (r, d', fs')"
  show "no_gain d0 d'"
  proof (cases "d' = d")
    case False
    then have d': "d' = d\<lparr>balances := balances d @ [\<lparr>b_user = u, cu_balance = 0, cu_reserved = 0\<rparr>]\<rparr>"
      using stmt_cases(1) [OF run [unfolded ledger_initialize_def]] by (auto split: if_splits)
    obtain bs where "balances d = balances d0 @ bs" "\<forall>b\<in>set bs. cu_balance b = 0 \<and> cu_reserved b = 0"
      using ng by (auto simp: no_gain_def)
    then have "balances d' = balances d0 @ (bs @ [\<lparr>b_user = u, cu_balance = 0, cu_reserved = 0\<rparr>]) \<and>
        (\<forall>b\<in>set (bs @ [\<lparr>b_user = u, cu_balance = 0, cu_reserved = 0\<rparr>]). cu_balance b = 0 \<and> cu_reserved b = 0)"
      by (simp add: d')
    moreover have "users d' = users d" "txs d' = txs d" by (simp_all add: d')
    ultimately show ?thesis using ng unfolding no_gain_def by metis
  qed (simp add: ng)
qed

lemma no_gain_transition: "keeps (no_gain d0) (jobs_transition_status su now i f t w e r)"
proof (rule keepsI)
  fix d fs res d' fs' assume ng: "no_gain d0 d" and run: "jobs_transition_status su now i f t w e r d fs = (res, d', fs')"
  show "no_gain d0 d'"
  proof (cases rule: transition_cases [OF run])
    case (2 row)
    then show ?thesis using ng by (simp add: transition_success(1) [OF 2] no_gain_def)
  qed (simp add: ng)
qed

interpretation gain: user_writes "no_gain d0" for d0
proof
  show "keeps (no_gain d0) (users_create i now e h role)" if "role \<in> {''hirer'', ''worker'', ''both''}" for i now e h role
    using that by (intro no_gain_user) auto
  show "keeps (no_gain d0) (jobs_create i now u backend mem dur price)" for i now u backend mem dur price
    unfolding jobs_create_def by (rule no_gain_stmt) (auto simp: Let_def split: if_splits)
  show "keeps (no_gain d0) (jobs_insert_file i now j kind path n sha)" for i now j kind path n sha
    unfolding jobs_insert_file_def by (rule no_gain_stmt) (auto split: if_splits)
  show "keeps (no_gain d0) (jobs_append_log j ts level msg)" for j ts level msg
    unfolding jobs_append_log_def by (rule no_gain_stmt) (auto split: if_splits)
  show "keeps (no_gain d0) (workers_upsert now peer u caps)" for now peer u caps
    unfolding workers_upsert_def by (rule no_gain_stmt) (auto split: if_splits)
  show "keeps (no_gain d0) (workers_set_online now peer onl)" for now peer onl
    unfolding workers_set_online_def by (rule no_gain_stmt) auto
qed (rule no_gain_initialize no_gain_transition)+

interpretation gain_run: stepwise master_op "\<lambda>e. pasted_reads e \<and> by_no_admin e" "\<lambda>s. no_gain d0 (sc_db s)" for d0
  by standard (simp add: gain.user_system)

text \<open>
  C4. Only an administrator creates compute units or administrators. In a run of the master without a
  start and without a request that carries a valid token of an administrator, whatever users, workers
  and the scheduler do, completions of jobs included: the users and their roles stay as they are except
  for new ones that are no administrators, every balance stays as it is, new balances are zero, and no
  transaction is logged; provided the text that handlers paste into SQL only reads. For completions
  this is not what the README promises: it says that the hirer is debited and the worker paid.
\<close>

theorem only_admins_gain:
  fixes es :: "'k master_event list"
  assumes "list_all pasted_reads es" "list_all by_no_admin es"
  shows "no_gain (sc_db s) (sc_db (run_ops master_op s es))"
proof (rule gain_run.inv_run [OF no_gain_refl])
  show "list_all (\<lambda>e. pasted_reads e \<and> by_no_admin e) es" using assms by (simp add: list_all_iff)
qed

definition fresh_master :: "db \<Rightarrow> sched" where
  "fresh_master d = \<lparr>sc_online = [], sc_pending = [], sc_db = d, sc_faults = [], sc_sent = []\<rparr>"

definition demo_day :: "nat master_event list" where
  "demo_day =
     [MRequest demo_app (demo_request POST [''api'', ''auth'', ''register''] None) [] [],
      MRequest demo_app (demo_request POST allocate_path (Some ''tok'')) [] [],
      MUpdate 0 id (EvOffline ''w'') [Fail ''x'']]"

lemma demo_day_good: "list_all pasted_reads demo_day" "list_all by_no_admin demo_day"
proof -
  have "reads_only demo_app" by (simp add: reads_only_def demo_app_def)
  then show "list_all pasted_reads demo_day" by (simp add: demo_day_def)
  have "\<not> admin_request demo_app (demo_request m p None)" "\<not> admin_request demo_app (demo_request m p (Some ''tok''))" for m p
    by (simp_all add: admin_request_def jwt_middleware_def demo_request_def demo_app_def demo_auth_def demo_claims_def
        bits_uuid_text)
  then show "list_all by_no_admin demo_day" by (simp add: demo_day_def)
qed

lemma only_admins_gain_witness: "no_gain demo_db (sc_db (run_ops master_op (fresh_master demo_db) demo_day))"
  using only_admins_gain [OF demo_day_good, of "fresh_master demo_db"] by (simp add: fresh_master_def)

end
