(* ===== verification/Job_Life.thy ===== *)
theory Job_Life
  imports Master_System
begin

text \<open>
  The life of a job in the whole master: every request, task, event of the scheduler and start keeps to
  the abstract lifecycle, and no job is dispatched twice. What requests and updates do is an instance
  of the interfaces of \<open>Master_System\<close>.
\<close>

section \<open>Requests only cancel\<close>

lemma quiet_same:
  "quiet api_move d0 d \<Longrightarrow> jobs d' = jobs d \<Longrightarrow> no_nil_user d' \<Longrightarrow> job_logs d' = job_logs d \<Longrightarrow> quiet api_move d0 d'"
  by (auto simp: quiet_def intro: api.moves_same)

lemma quiet_users: "quiet R d0 d \<Longrightarrow> no_nil_user d"
  by (simp add: quiet_def job_moves_def)

lemma quiet_stmt:
  assumes "\<And>d x d'. q d = Inr (x, d') \<Longrightarrow> jobs d' = jobs d \<and> users d' = users d \<and> job_logs d' = job_logs d"
  shows "keeps (quiet api_move d0) (stmt q)"
proof (rule keeps_stmt)
  fix d x d' assume quiet: "quiet api_move d0 d" and "q d = Inr (x, d')"
  with assms [of d x d'] quiet_users [OF quiet] show "quiet api_move d0 d'"
    by (intro quiet_same [OF quiet]) (simp_all add: no_nil_user_def)
qed

lemma quiet_new_user: "i \<noteq> uuid_nil \<Longrightarrow> keeps (quiet api_move d0) (users_create i now e h role)"
proof (rule keepsI)
  fix d fs r d' fs'
  assume i: "i \<noteq> uuid_nil" and quiet: "quiet api_move d0 d" and run: "users_create i now e h role d fs = (r, d', fs')"
  from users_create_cases [OF run] show "quiet api_move d0 d'"
  proof (elim disjE exE conjE)
    fix u assume "u = \<lparr>u_id = i, u_email = e, u_password_hash = h, u_role = role, u_created_at = now\<rparr>"
      "d' = d\<lparr>users := users d @ [u]\<rparr>"
    with i quiet_users [OF quiet] show ?thesis by (intro quiet_same [OF quiet]) (simp_all add: no_nil_user_def)
  qed (simp add: quiet)
qed

lemma quiet_role: "keeps (quiet api_move d0) (users_update_role su i role)"
proof (rule keepsI)
  fix d fs r d' fs' assume quiet: "quiet api_move d0 d" and run: "users_update_role su i role d fs = (r, d', fs')"
  have "no_nil_user d \<Longrightarrow> no_nil_user (d\<lparr>users := update_where (\<lambda>u. u_id u = i) (\<lambda>u. u\<lparr>u_role := role\<rparr>) (users d)\<rparr>)"
    by (auto simp: no_nil_user_def set_update_where)
  with users_update_role_cases [OF run] quiet quiet_users [OF quiet] show "quiet api_move d0 d'"
    by (auto intro!: quiet_same [OF quiet])
qed

lemma quiet_balance: "keeps (quiet api_move d0) (stmt (sql_insert_tx tid now u a k j))"
  "keeps (quiet api_move d0) (stmt (sql_update_balance u f))"
  by (rule quiet_stmt, auto simp: sql_insert_tx_def sql_update_balance_def split: if_splits)+

interpretation api_writes: admin_request_writes "quiet api_move d0" "\<lambda>i. i \<noteq> uuid_nil" for d0
proof
  show "keeps (quiet api_move d0) (ledger_initialize u)" for u
    unfolding ledger_initialize_def by (rule quiet_stmt) (auto split: if_splits)
  show "keeps (quiet api_move d0) (jobs_insert_file i now j kind path n sha)" for i now j kind path n sha
    unfolding jobs_insert_file_def by (rule quiet_stmt) (auto split: if_splits)
  show "keeps (quiet api_move d0) (workers_upsert now peer u caps)" for now peer u caps
    unfolding workers_upsert_def by (rule quiet_stmt) (auto split: if_splits)
  show "keeps (quiet api_move d0) (workers_set_online now peer onl)" for now peer onl
    unfolding workers_set_online_def by (rule quiet_stmt) auto
  show "keeps (quiet api_move d0) workers_mark_all_offline"
    unfolding workers_mark_all_offline_def by (rule quiet_stmt) auto
  show "keeps (quiet api_move d0) (ledger_allocate su i now u amount)" for su i now u amount
    unfolding ledger_defs Let_def by (intro keeps_intros quiet_balance)
qed (rule quiet_create quiet_cancel quiet_role quiet_new_user; assumption?)+

section \<open>Events of the master\<close>

text \<open>Generated ids are never the nil UUID.\<close>

fun fresh_ids :: "'k master_event \<Rightarrow> bool" where
  "fresh_ids (MRequest a rq fs fl) = (ap_new_id a \<noteq> uuid_nil)"
| "fresh_ids (MStart env dn url fs) = (dn_new_id dn \<noteq> uuid_nil)"
| "fresh_ids e = True"

fun outside :: "'k master_event \<Rightarrow> bool" where
  "outside (MSched env ev) = False"
| "outside (MComplete env bus c fs) = False"
| "outside e = True"

definition good_event :: "'k master_event \<Rightarrow> bool" where
  "good_event e \<longleftrightarrow> pasted_reads e \<and> fresh_ids e"

definition jobs_ready :: "db \<Rightarrow> bool" where
  "jobs_ready d \<longleftrightarrow> jobs_ok d \<and> no_nil_hirer d \<and> no_nil_user d"

lemma ready_moves: "job_moves R d0 d \<Longrightarrow> jobs_ready d"
  by (simp add: job_moves_def jobs_ready_def)

lemma outside_quiet:
  assumes "jobs_ready d" "good_event e" "outside e"
  shows "quiet api_move d (master_db e d)"
proof -
  have d: "quiet api_move d d" using assms(1) by (simp add: quiet_def jobs_ready_def api.moves_refl)
  show ?thesis
  proof (cases e)
    case (MRequest a rq fs fl)
    with assms(2) have "keeps_web (quiet api_move d) (serve a rq)"
      by (intro api_writes.served) (simp_all add: good_event_def)
    from keeps_webD [OF this d, of fs fl] show ?thesis
      by (cases "serve a rq d fs fl") (auto simp: MRequest)
  next
    case (MStart env dn url fs)
    with assms(2) show ?thesis by (auto simp: good_event_def intro!: keeps_after [OF api_writes.start d])
  qed (use assms(3) d in \<open>auto intro!: api_writes.registered keeps_after [OF api_writes.updater]\<close>)
qed

lemma scheduled_quiet: "jobs_ready (sc_db s) \<Longrightarrow> quiet sched_move (sc_db s) (sc_db (sched_step env s ev))"
  by (rule assigning.inv_step) (simp add: quiet_def jobs_ready_def sched.moves_refl)

lemma completed_effect:
  assumes ready: "jobs_ready d" and run: "d' = master_db (MComplete env bus c fs :: 'k master_event) d"
  shows "job_moves advances d d'"
    and "job_status_of d' = job_status_of d \<and> job_logs d' = job_logs d \<or>
      (\<exists>i rows. de_parse_uuid env (jc_job_id c) = Some i \<and> job_logs d' = job_logs d @ rows \<and>
         (\<forall>row\<in>set rows. l_job row = i \<and> l_message row \<in> set (str_lines (jc_output c))) \<and>
         (job_status_of d' = job_status_of d \<or>
          job_status_of d i = Some ''assigned'' \<and> job_status_of d' = (job_status_of d)(i \<mapsto> completion_status c)))"
proof -
  have ok: "jobs_ok d" "no_nil_hirer d" "no_nil_user d" using ready by (simp_all add: jobs_ready_def)
  have "job_moves advances d d' \<and> (job_status_of d' = job_status_of d \<and> job_logs d' = job_logs d \<or>
      (\<exists>i rows. de_parse_uuid env (jc_job_id c) = Some i \<and> job_logs d' = job_logs d @ rows \<and>
         (\<forall>row\<in>set rows. l_job row = i \<and> l_message row \<in> set (str_lines (jc_output c))) \<and>
         (job_status_of d' = job_status_of d \<or>
          job_status_of d i = Some ''assigned'' \<and> job_status_of d' = (job_status_of d)(i \<mapsto> completion_status c))))"
  proof (cases "de_parse_uuid env (jc_job_id c)")
    case None
    with run have "d' = d" by (simp add: completion_task_def)
    with life.moves_refl [OF ok] show ?thesis by simp
  next
    case (Some i)
    obtain r d1 fs' where q: "complete_job env c i d fs = (r, d1, fs')" by (cases "complete_job env c i d fs")
    with run Some have "d' = d1" by (simp add: completion_task_def)
    with complete_job_effect [OF ok q] Some show ?thesis by auto
  qed
  then show "job_moves advances d d'"
    and "job_status_of d' = job_status_of d \<and> job_logs d' = job_logs d \<or>
      (\<exists>i rows. de_parse_uuid env (jc_job_id c) = Some i \<and> job_logs d' = job_logs d @ rows \<and>
         (\<forall>row\<in>set rows. l_job row = i \<and> l_message row \<in> set (str_lines (jc_output c))) \<and>
         (job_status_of d' = job_status_of d \<or>
          job_status_of d i = Some ''assigned'' \<and> job_status_of d' = (job_status_of d)(i \<mapsto> completion_status c)))"
    by blast+
qed

lemma master_advances:
  fixes e :: "'k master_event"
  assumes "jobs_ready (sc_db s)" "good_event e"
  shows "job_moves advances (sc_db s) (sc_db (master_op s e))"
proof (cases "outside e")
  case True
  then have "master_op s e = s\<lparr>sc_db := master_db e (sc_db s)\<rparr>" by (cases e) (simp_all add: master_op_def)
  with outside_quiet [OF assms True] job_moves_mono api_advances show ?thesis by (auto simp: quiet_def)
next
  case False
  then show ?thesis
  proof (cases e)
    case (MSched env ev)
    with scheduled_quiet [OF assms(1), of env ev] job_moves_mono sched_advances show ?thesis
      by (auto simp: quiet_def master_op_def)
  next
    case (MComplete env bus c fs)
    with completed_effect(1) [OF assms(1) refl] show ?thesis by (simp add: master_op_def)
  qed auto
qed

interpretation lifecycle: stepwise master_op good_event "\<lambda>s. job_moves advances d0 (sc_db s)" for d0
  by standard (metis life.moves_trans master_advances ready_moves)

text \<open>
  C14. Every component implements the lifecycle. In any run of the whole master, under any faults, no
  job disappears; every job only moves from pending to assigned, from there to completed, failed or
  cancelled, or is cancelled before; and a job in one of these three statuses never changes its
  status again.
\<close>

theorem jobs_follow_lifecycle:
  fixes es :: "'k master_event list"
  assumes "jobs_ready (sc_db s)" "list_all good_event es" "job_status_of (sc_db s) i = Some st"
  shows "\<exists>st'. job_status_of (sc_db (run_ops master_op s es)) i = Some st' \<and> advances st st' \<and>
    (st \<in> final_statuses \<longrightarrow> st' = st)"
proof -
  have "job_moves advances (sc_db s) (sc_db s)"
    using assms(1) by (intro life.moves_refl) (simp_all add: jobs_ready_def)
  from lifecycle.inv_run [OF this assms(2)] assms(3) advances_final show ?thesis by (blast dest: job_movesD(4))
qed

section \<open>Dispatching\<close>

lemma dispatch_inv_moves:
  assumes inv: "dispatch_inv su s" and moves: "job_moves advances (sc_db s) d"
  shows "dispatch_inv su (s\<lparr>sc_db := d\<rparr>)"
proof -
  have "\<exists>i st. dispatched_id m = su i \<and> job_status_of d i = Some st \<and> st \<noteq> ''pending''" if m: "m \<in> set (sc_sent s)" for m
  proof -
    obtain i st where i: "dispatched_id m = su i" "job_status_of (sc_db s) i = Some st" "st \<noteq> ''pending''"
      using inv m unfolding dispatch_inv_def by blast
    obtain st' where "job_status_of d i = Some st'" "advances st st'" using job_movesD(4) [OF moves i(2)] by blast
    with i advances_pending show ?thesis by blast
  qed
  with inv job_movesD(1,2) [OF moves] show ?thesis by (simp add: dispatch_inv_def)
qed

fun texts :: "(uuid \<Rightarrow> string) \<Rightarrow> 'k master_event \<Rightarrow> bool" where
  "texts su (MSched env ev) = (se_uuid env = su)"
| "texts su e = True"

lemma dispatch_inv_op:
  fixes e :: "'k master_event"
  assumes "inj su" "dispatch_inv su s" "no_nil_user (sc_db s)" "good_event e" "texts su e"
  shows "dispatch_inv su (master_op s e) \<and> no_nil_user (sc_db (master_op s e))"
proof -
  have moves: "job_moves advances (sc_db s) (sc_db (master_op s e))"
    using assms(2-4) by (intro master_advances) (simp_all add: jobs_ready_def dispatch_inv_def)
  have "dispatch_inv su (master_op s e)"
  proof (cases "\<exists>env ev. e = MSched env ev")
    case True
    then obtain env ev where e: "e = MSched env ev" by blast
    then show ?thesis using dispatch_assign.inv_step [of su env s ev] assms by (simp add: master_op_def)
  next
    case False
    then have "master_op s e = s\<lparr>sc_db := master_db e (sc_db s)\<rparr>" by (cases e) (auto simp: master_op_def)
    with dispatch_inv_moves [OF assms(2)] moves show ?thesis by simp
  qed
  with job_movesD(3) [OF moves] show ?thesis by blast
qed

interpretation dispatching: stepwise master_op "\<lambda>e. good_event e \<and> texts su e"
  "\<lambda>s. inj su \<and> dispatch_inv su s \<and> no_nil_user (sc_db s)" for su
  by standard (use dispatch_inv_op in blast)

text \<open>
  C16. No job is ever dispatched twice, in any run of the whole master and under any faults. So the
  workers recorded as tried are never used: a job sent to a worker that rejects it, fails or
  disappears is not offered to another one.
\<close>

theorem dispatched_at_most_once:
  fixes es :: "'k master_event list"
  assumes "inj su" "dispatch_inv su s" "no_nil_user (sc_db s)" "list_all good_event es" "list_all (texts su) es"
  shows "distinct (map dispatched_id (sc_sent (run_ops master_op s es)))"
proof -
  have "list_all (\<lambda>e. good_event e \<and> texts su e) es" using assms(4,5) by (simp add: list_all_iff)
  from dispatching.inv_run [OF _ this] assms(1-3) have "dispatch_inv su (run_ops master_op s es)" by blast
  then show ?thesis by (simp add: dispatch_inv_def)
qed

section \<open>Witnesses\<close>

definition demo_run :: "nat master_event list" where
  "demo_run = [MSched demo_env (Enqueue (Uuid 1) cpu_request),
     MComplete demo_done_env [] (demo_completed (Uuid 1) ''ok'') [],
     MSched demo_env RetryTick,
     MUpdate 0 id (EvOffline ''w1'') [Fail ''x'']]"

lemma demo_ready: "jobs_ready (sc_db demo_sched)" "dispatch_inv bits_text demo_sched"
    "job_status_of (sc_db demo_sched) (Uuid 1) = Some ''pending''"
proof -
  have "jobs_ok (sc_db demo_sched)" by code_simp
  moreover have "no_nil_hirer (sc_db demo_sched)" by code_simp
  moreover have "no_nil_user (sc_db demo_sched)" by code_simp
  ultimately show "jobs_ready (sc_db demo_sched)" "dispatch_inv bits_text demo_sched"
    by (simp_all add: jobs_ready_def dispatch_inv_def, simp add: demo_sched_def)
  show "job_status_of (sc_db demo_sched) (Uuid 1) = Some ''pending''" by code_simp
qed

lemma demo_run_good: "list_all good_event demo_run" "list_all (texts bits_text) demo_run"
  by (simp_all add: demo_run_def good_event_def demo_env_def)

lemma jobs_follow_lifecycle_witness:
  "\<exists>st'. job_status_of (sc_db (run_ops master_op demo_sched demo_run)) (Uuid 1) = Some st' \<and>
     advances ''pending'' st'"
  using jobs_follow_lifecycle [OF demo_ready(1) demo_run_good(1) demo_ready(3)] by blast

lemma dispatched_at_most_once_witness:
  "distinct (map dispatched_id (sc_sent (run_ops master_op demo_sched demo_run)))"
  using demo_ready(1)
  by (intro dispatched_at_most_once [OF inj_bits_text demo_ready(2) _ demo_run_good]) (simp add: jobs_ready_def)

end
