(* ===== verification/Network.thy ===== *)
theory Network
  imports Job_Life Worker_Loop "HOL-Library.Multiset" "HOL-Library.Sublist"
begin

text \<open>
  The network: one master and any number of workers that all run the code of this repository, with
  the messages in flight between them. A step is one event of the master, one turn of a loop of one
  node or the delivery or the loss of a message; a run is any interleaving of steps. What is proved by
  rule induction over runs: no job is executed twice, anywhere, and what the master says of a job is
  what the worker that executed it reported.
\<close>

section \<open>Configurations\<close>

text \<open>\<open>nd_passed\<close>: how many results of the executor the loop of the worker has taken from their channel.\<close>

record node =
  nd_loop :: worker_state
  nd_exec :: executor
  nd_passed :: nat

text \<open>
  \<open>nw_taken\<close>: how many commands of the scheduler the P2P loop has taken. In flight: assignments to
  workers, messages of workers to the master, and completions that a task of the master stores.
\<close>

record network =
  nw_master :: sched
  nw_p2p :: master_state
  nw_taken :: nat
  nw_requests :: "(peer_id \<times> job_assignment) multiset"
  nw_mail :: "(peer_id \<times> envelope) multiset"
  nw_tasks :: "job_completed multiset"
  nw_nodes :: "peer_id \<Rightarrow> node"

definition set_node :: "peer_id \<Rightarrow> node \<Rightarrow> network \<Rightarrow> network" where
  "set_node p n N = N\<lparr>nw_nodes := (nw_nodes N)(p := n)\<rparr>"

definition queue_of :: "network \<Rightarrow> peer_id \<Rightarrow> job_assignment list" where
  "queue_of N p = wk_queue (nd_loop (nw_nodes N p))"

definition results_of :: "network \<Rightarrow> peer_id \<Rightarrow> job_result list" where
  "results_of N p = ex_results (nd_exec (nw_nodes N p))"

fun request_of :: "effect \<Rightarrow> (peer_id \<times> job_assignment) option" where
  "request_of (SendRequest p a) = Some (p, a)"
| "request_of _ = None"

fun task_of :: "effect \<Rightarrow> job_completed option" where
  "task_of (SpawnCompleted c) = Some c"
| "task_of _ = None"

text \<open>What a turn of the P2P loop of the master puts into flight, and a turn of the loop of worker \<open>p\<close>.\<close>

definition absorb :: "effect list \<Rightarrow> network \<Rightarrow> network" where
  "absorb effs N = N\<lparr>nw_requests := nw_requests N + mset (List.map_filter request_of effs),
     nw_tasks := nw_tasks N + mset (List.map_filter task_of effs)\<rparr>"

fun mail_for :: "peer_id \<Rightarrow> worker_effect \<Rightarrow> envelope option" where
  "mail_for mp (WSendRequest m env) = (if m = mp then Some env else None)"
| "mail_for mp _ = None"

definition post :: "peer_id \<Rightarrow> peer_id \<Rightarrow> worker_effect list \<Rightarrow> network \<Rightarrow> network" where
  "post mp p effs N = N\<lparr>nw_mail := nw_mail N + mset (map (Pair p) (List.map_filter (mail_for mp) effs))\<rparr>"

section \<open>Steps\<close>

text \<open>
  Messages that carry an assignment or a completion come from nodes of the network; other nodes may
  send anything else.
\<close>

definition foreign_to_master :: "p2p_env \<Rightarrow> p2p_event \<Rightarrow> bool" where
  "foreign_to_master env ev \<longleftrightarrow>
     (\<forall>cmd. ev \<noteq> JobCommandReceived cmd) \<and>
     (\<forall>p data c. ev = JobRequest p data \<longrightarrow> pe_decode env data \<noteq> Some (Some (PJobCompleted c)))"

definition foreign_to_worker :: "worker_env \<Rightarrow> worker_p2p_event \<Rightarrow> bool" where
  "foreign_to_worker env ev \<longleftrightarrow>
     (\<forall>r. ev \<noteq> WJobResult r) \<and> ev \<noteq> WExecutorTook \<and>
     (\<forall>q data a. ev = WJobRequest q data \<longrightarrow> we_decode_assignment env data \<noteq> Inr a)"

datatype action = Executes peer_id job_assignment | Other

text \<open>\<open>su\<close> is the text of a UUID, \<open>mp\<close> the peer id of the master; the keys of its start are byte strings.\<close>

inductive net_step :: "(uuid \<Rightarrow> string) \<Rightarrow> peer_id \<Rightarrow> network \<Rightarrow> action \<Rightarrow> network \<Rightarrow> bool" for su mp where
  Outside: "net_step su mp N Other (N\<lparr>nw_master := master_op (nw_master N) e\<rparr>)"
    if "outside (e :: bytes master_event)" "good_event e"
| Scheduler: "net_step su mp N Other (N\<lparr>nw_master := sched_step env ((nw_master N)\<lparr>sc_faults := fs\<rparr>) ev\<rparr>)"
    if "se_uuid env = su"
| Command: "net_step su mp N Other (absorb effs (N\<lparr>nw_p2p := ms, nw_taken := nw_taken N + 1\<rparr>))"
    if "nw_taken N < length (sc_sent (nw_master N))" "sc_sent (nw_master N) ! nw_taken N = (p, a)"
      "master_step penv (nw_p2p N) (JobCommandReceived (JobAssign p a)) = (ms, effs)"
| Master: "net_step su mp N Other (absorb effs (N\<lparr>nw_p2p := ms\<rparr>))"
    if "foreign_to_master penv ev" "master_step penv (nw_p2p N) ev = (ms, effs)"
| Assign: "net_step su mp N Other (post mp p effs (set_node p ((nw_nodes N p)\<lparr>nd_loop := s\<rparr>)
      (N\<lparr>nw_requests := nw_requests N - {#(p, a)#}\<rparr>)))"
    if "(p, a) \<in># nw_requests N" "we_decode_assignment wenv data = Inr a"
      "worker_step wenv (nd_loop (nw_nodes N p)) (WJobRequest mp data) = (s, effs)"
| Lose_request: "net_step su mp N Other (N\<lparr>nw_requests := nw_requests N - {#x#}\<rparr>)"
| Worker: "net_step su mp N Other (post mp p effs (set_node p ((nw_nodes N p)\<lparr>nd_loop := s\<rparr>) N))"
    if "foreign_to_worker wenv ev" "worker_step wenv (nd_loop (nw_nodes N p)) ev = (s, effs)"
| Execute: "net_step su mp N (Executes p a) (set_node p ((nw_nodes N p)\<lparr>nd_loop := s,
      nd_exec := execute_job h (nd_exec (nw_nodes N p)) a\<rparr>) N)"
    if "queue_of N p = a # as" "ex_task (nd_exec (nw_nodes N p)) = Alive"
      "worker_step wenv (nd_loop (nw_nodes N p)) WExecutorTook = (s, effs)"
| Report: "net_step su mp N Other (post mp p effs (set_node p ((nw_nodes N p)\<lparr>nd_loop := s,
      nd_passed := nd_passed (nw_nodes N p) + 1\<rparr>) N))"
    if "nd_passed (nw_nodes N p) < length (results_of N p)" "results_of N p ! nd_passed (nw_nodes N p) = r"
      "worker_step wenv (nd_loop (nw_nodes N p)) (WJobResult r) = (s, effs)"
| Receive: "net_step su mp N Other (absorb effs (N\<lparr>nw_p2p := ms, nw_mail := nw_mail N - {#(p, env)#}\<rparr>))"
    if "(p, env) \<in># nw_mail N" "pe_decode penv data = Some env"
      "master_step penv (nw_p2p N) (JobRequest p data) = (ms, effs)"
| Lose_mail: "net_step su mp N Other (N\<lparr>nw_mail := nw_mail N - {#x#}\<rparr>)"
| Complete: "net_step su mp N Other (N\<lparr>nw_master := master_op (nw_master N) (MComplete denv bus c fs :: bytes master_event),
      nw_tasks := nw_tasks N - {#c#}\<rparr>)"
    if "c \<in># nw_tasks N" "\<forall>i. de_parse_uuid denv (su i) = Some i"

inductive net_run :: "(uuid \<Rightarrow> string) \<Rightarrow> peer_id \<Rightarrow> network \<Rightarrow> action list \<Rightarrow> network \<Rightarrow> bool" for su mp where
  Start: "net_run su mp N [] N"
| Step: "net_run su mp N as N' \<Longrightarrow> net_step su mp N' a N'' \<Longrightarrow> net_run su mp N (as @ [a]) N''"

inductive_simps net_run_Nil [simp]: "net_run su mp N [] N'"

fun executes :: "action \<Rightarrow> (peer_id \<times> job_assignment) option" where
  "executes (Executes p a) = Some (p, a)"
| "executes Other = None"

definition executed :: "action list \<Rightarrow> (peer_id \<times> job_assignment) list" where
  "executed as = List.map_filter executes as"

lemma executed_simps [simp]:
  "executed [] = []" "executed (as @ [Other]) = executed as" "executed (as @ [Executes p a]) = executed as @ [(p, a)]"
  by (simp_all add: executed_def List.map_filter_def)

lemma net_sel [simp]:
  "nw_master (set_node p n N) = nw_master N" "nw_p2p (set_node p n N) = nw_p2p N" "nw_taken (set_node p n N) = nw_taken N"
  "nw_requests (set_node p n N) = nw_requests N" "nw_mail (set_node p n N) = nw_mail N" "nw_tasks (set_node p n N) = nw_tasks N"
  "nw_nodes (set_node p n N) = (nw_nodes N)(p := n)"
  "nw_master (absorb effs N) = nw_master N" "nw_p2p (absorb effs N) = nw_p2p N" "nw_taken (absorb effs N) = nw_taken N"
  "nw_mail (absorb effs N) = nw_mail N" "nw_nodes (absorb effs N) = nw_nodes N"
  "nw_requests (absorb effs N) = nw_requests N + mset (List.map_filter request_of effs)"
  "nw_tasks (absorb effs N) = nw_tasks N + mset (List.map_filter task_of effs)"
  "nw_master (post mp p weffs N) = nw_master N" "nw_p2p (post mp p weffs N) = nw_p2p N" "nw_taken (post mp p weffs N) = nw_taken N"
  "nw_requests (post mp p weffs N) = nw_requests N" "nw_tasks (post mp p weffs N) = nw_tasks N" "nw_nodes (post mp p weffs N) = nw_nodes N"
  "nw_mail (post mp p weffs N) = nw_mail N + mset (map (Pair p) (List.map_filter (mail_for mp) weffs))"
  by (simp_all add: set_node_def absorb_def post_def)

section \<open>What the loops put into flight\<close>

lemma map_filter_Nil: "(\<And>x. x \<in> set xs \<Longrightarrow> f x = None) \<Longrightarrow> List.map_filter f xs = []"
  by (induction xs) (auto simp: List.map_filter_def)

lemma map_filter_append: "List.map_filter f (xs @ ys) = List.map_filter f xs @ List.map_filter f ys"
  by (simp add: List.map_filter_def)

text \<open>A foreign event makes the master neither send an assignment nor store a completion.\<close>

lemma foreign_effects:
  assumes "foreign_to_master env ev"
  shows "List.map_filter request_of (snd (master_step env s ev)) = []"
    and "List.map_filter task_of (snd (master_step env s ev)) = []"
proof -
  have "\<forall>x\<in>set (snd (master_step env s ev)). request_of x = None \<and> task_of x = None"
  proof (cases ev)
    case (JobRequest p data)
    with assms have "pe_decode env data \<noteq> Some (Some (PJobCompleted c))" for c by (auto simp: foreign_to_master_def)
    with JobRequest show ?thesis
      by (auto simp: handle_job_request_def split: option.splits payload.splits)
  next
    case (GossipMessage src author data)
    then show ?thesis
      by (auto simp: handle_gossip_message_def try_notify_def split: option.splits payload.splits)
  next
    case (JobCommandReceived cmd)
    with assms show ?thesis by (auto simp: foreign_to_master_def)
  qed (auto simp: try_notify_def reconnect_step_def schedule_reconnect_def do_reregister_def
      on_bootstrap_identified_def Let_def split: option.splits)
  then show "List.map_filter request_of (snd (master_step env s ev)) = []"
    "List.map_filter task_of (snd (master_step env s ev)) = []"
    by (auto intro: map_filter_Nil)
qed

lemma received_effects:
  assumes "pe_decode penv data = Some env"
  shows "List.map_filter request_of (snd (master_step penv s (JobRequest p data))) = []"
    and "List.map_filter task_of (snd (master_step penv s (JobRequest p data))) =
      (case env of Some (PJobCompleted c) \<Rightarrow> [c] | _ \<Rightarrow> [])"
  using assms
  by (auto simp: handle_job_request_def List.map_filter_def split: option.splits payload.splits)

lemma command_effects:
  "List.map_filter request_of (snd (master_step penv s (JobCommandReceived (JobAssign p a)))) = [(p, a)]"
  "List.map_filter task_of (snd (master_step penv s (JobCommandReceived (JobAssign p a)))) = []"
  by (simp_all add: List.map_filter_def)

text \<open>A foreign event leaves the queue of a worker, or ends it, and no result is sent.\<close>

definition no_result :: "envelope list \<Rightarrow> bool" where
  "no_result envs \<longleftrightarrow> (\<forall>c. Some (PJobCompleted c) \<notin> set envs)"

lemma no_mail: "(\<And>x. x \<in> set effs \<Longrightarrow> mail_for mp x = None) \<Longrightarrow> List.map_filter (mail_for mp) effs = []"
  by (rule map_filter_Nil)

lemma foreign_worker:
  assumes "foreign_to_worker env ev"
  shows "wk_queue (fst (worker_step env s ev)) \<in> {wk_queue s, []} \<and>
    no_result (List.map_filter (mail_for mp) (snd (worker_step env s ev)))"
proof (cases "\<exists>p agent observed listen. ev = WIdentifyReceived p agent observed listen")
  case True
  then obtain p agent observed listen where ev: "ev = WIdentifyReceived p agent observed listen" by blast
  have kad: "List.map_filter (mail_for mp) (map (WAddKademliaAddress p) listen) = []" by (rule no_mail) auto
  show ?thesis
    by (cases "wk_bootstrap s"; cases "we_token env"; cases "wk_registered s"; cases "starts_with ''master/'' agent")
      (simp_all add: ev worker_bootstrap_identified_def do_register_def try_register_with_master_def Let_def
        map_filter_append kad no_result_def List.map_filter_simps)
next
  case False
  then show ?thesis
    using assms
    by (cases ev) (auto simp: publish_heartbeat_def do_register_def handle_assignment_def dial_master_def foreign_to_worker_def
        Let_def no_result_def List.map_filter_simps split: option.split sum.split)
qed

lemma assigned_worker:
  assumes "we_decode_assignment env data = Inr a"
  shows "wk_queue (fst (worker_step env s (WJobRequest q data))) \<in> {wk_queue s, wk_queue s @ [a]} \<and>
    List.map_filter (mail_for mp) (snd (worker_step env s (WJobRequest q data))) = []"
  using assms by (auto simp: handle_assignment_def Let_def List.map_filter_simps)

lemma reporting_worker:
  "wk_queue (fst (worker_step env s (WJobResult r))) = wk_queue s"
  "set (List.map_filter (mail_for mp) (snd (worker_step env s (WJobResult r)))) \<subseteq> {Some (PJobCompleted (completed_message r))}"
  by (auto simp: send_result_def List.map_filter_simps split: option.split)

section \<open>The master\<close>

definition master_ok :: "(uuid \<Rightarrow> string) \<Rightarrow> network \<Rightarrow> bool" where
  "master_ok su N \<longleftrightarrow> dispatch_inv su (nw_master N) \<and> no_nil_user (sc_db (nw_master N)) \<and>
     nw_taken N \<le> length (sc_sent (nw_master N))"

lemma master_ok_ready: "master_ok su N \<Longrightarrow> jobs_ready (sc_db (nw_master N))"
  by (simp add: master_ok_def dispatch_inv_def jobs_ready_def)

interpretation sending: assign_invariant env "\<lambda>s :: sched. quiet sched_move d0 (sc_db s) \<and> prefix cs (sc_sent s)" for env d0 cs
proof
  fix s :: sched and i req assume inv: "quiet sched_move d0 (sc_db s) \<and> prefix cs (sc_sent s)"
  then have ok: "jobs_ok (sc_db s)" by (simp add: quiet_def job_moves_def)
  show "quiet sched_move d0 (sc_db (try_assign_one env i req s)) \<and> prefix cs (sc_sent (try_assign_one env i req s))"
    using inv by (cases rule: try_assign_one_cases [OF ok, of env i req]) (auto simp: quiet_assign)
qed (auto dest: quiet_hirers)

lemma scheduler_sends:
  assumes "jobs_ready (sc_db s)" shows "prefix (sc_sent s) (sc_sent (sched_step env s ev))"
  using sending.inv_step [of "sc_db s" s "sc_sent s" env ev] assms
  by (simp add: quiet_def jobs_ready_def sched.moves_refl)

lemma other_sends: "outside e \<Longrightarrow> sc_sent (master_op s e) = sc_sent s" "sc_sent (master_op s (MComplete env bus c fs)) = sc_sent s"
  by (cases e) (simp_all add: master_op_def)

lemma master_keeps:
  assumes step: "net_step su mp N a N'" and "inj su" and ok: "master_ok su N"
  shows "master_ok su N' \<and> prefix (sc_sent (nw_master N)) (sc_sent (nw_master N'))"
proof -
  have kept: "master_ok su N'"
    if "nw_master N' = master_op s e" "good_event e" "texts su e" "dispatch_inv su s" "no_nil_user (sc_db s)"
      "prefix (sc_sent (nw_master N)) (sc_sent (nw_master N'))" "nw_taken N' = nw_taken N" for s and e :: "bytes master_event"
    using dispatch_inv_op [OF assms(2) that(4,5,2,3)] that(1,6,7) ok prefix_length_le [OF that(6)]
    by (simp add: master_ok_def)
  show ?thesis
    using step
  proof cases
    case (Outside e)
    have "texts su e" using Outside(3) by (cases e) simp_all
    with kept [of "nw_master N" e] Outside other_sends(1) [OF Outside(3), of "nw_master N"] ok show ?thesis
      by (simp add: master_ok_def)
  next
    case (Scheduler env fs ev)
    let ?s = "(nw_master N)\<lparr>sc_faults := fs\<rparr>"
    have "prefix (sc_sent ?s) (sc_sent (sched_step env ?s ev))"
      using master_ok_ready [OF ok] by (intro scheduler_sends) simp
    with kept [of ?s "MSched env ev"] Scheduler ok show ?thesis
      by (auto simp: master_ok_def master_op_def good_event_def dispatch_inv_def)
  next
    case (Complete c denv bus fs)
    with kept [of "nw_master N" "MComplete denv bus c fs"] ok show ?thesis
      by (simp add: master_ok_def good_event_def other_sends(2))
  qed (use ok in \<open>auto simp: master_ok_def\<close>)
qed

section \<open>Every execution has its own command\<close>

text \<open>
  What is on its way to worker \<open>p\<close> or waits in its queue, together with what it has executed, is
  contained in the commands for \<open>p\<close> that were taken from the scheduler.
\<close>

definition part_of :: "peer_id \<Rightarrow> (peer_id \<times> job_assignment) multiset \<Rightarrow> (peer_id \<times> job_assignment) multiset" where
  "part_of p M = filter_mset (\<lambda>x. fst x = p) M"

definition carried :: "network \<Rightarrow> peer_id \<Rightarrow> (peer_id \<times> job_assignment) multiset" where
  "carried N p = part_of p (nw_requests N) + image_mset (Pair p) (mset (queue_of N p))"

definition accounted :: "action list \<Rightarrow> network \<Rightarrow> bool" where
  "accounted as N \<longleftrightarrow>
     (\<forall>p. carried N p + part_of p (mset (executed as)) \<subseteq># part_of p (mset (take (nw_taken N) (sc_sent (nw_master N)))))"

lemma part_of_simps [simp]:
  "part_of p (M + N) = part_of p M + part_of p N" "part_of p {#} = {#}"
  "part_of p (add_mset (q, a) M) = (if q = p then add_mset (q, a) (part_of p M) else part_of p M)"
  by (simp_all add: part_of_def)

lemma part_of_mono: "M \<subseteq># N \<Longrightarrow> part_of p M \<subseteq># part_of p N"
  by (simp add: part_of_def multiset_filter_mono)

lemma take_prefix: "prefix xs ys \<Longrightarrow> n \<le> length xs \<Longrightarrow> take n ys = take n xs"
  by (auto simp: prefix_def)

lemma accounted_less:
  assumes "accounted as N" "\<And>p. carried N' p \<subseteq># carried N p" "nw_taken N' = nw_taken N"
    and "prefix (sc_sent (nw_master N)) (sc_sent (nw_master N'))" "nw_taken N \<le> length (sc_sent (nw_master N))"
  shows "accounted as N'"
proof -
  have "carried N' p + part_of p (mset (executed as)) \<subseteq># part_of p (mset (take (nw_taken N) (sc_sent (nw_master N))))" for p
    using assms(1) subset_mset.order_trans [OF subset_mset.add_right_mono [OF assms(2)]]
    unfolding accounted_def by blast
  then show ?thesis using take_prefix [OF assms(4,5)] by (simp add: accounted_def assms(3))
qed

lemma carried_frame: "nw_requests N' = nw_requests N \<Longrightarrow> (\<And>p. queue_of N' p = queue_of N p) \<Longrightarrow> carried N' p = carried N p"
  by (simp add: carried_def)

lemma accounted_step:
  assumes step: "net_step su mp N a N'" and acc: "accounted as N" and ok: "master_ok su N" "master_ok su N'"
    and grows: "prefix (sc_sent (nw_master N)) (sc_sent (nw_master N'))"
  shows "accounted (as @ [a]) N'"
proof -
  have bound: "nw_taken N \<le> length (sc_sent (nw_master N))" using ok(1) by (simp add: master_ok_def)
  have less: "accounted (as @ [a]) N'" if "a = Other" "\<And>p. carried N' p \<subseteq># carried N p" "nw_taken N' = nw_taken N"
    using accounted_less [OF acc that(2,3) grows bound] that(1) by (simp add: accounted_def)
  show ?thesis
    using step
  proof cases
    case (Command p job penv ms effs)
    let ?cs = "sc_sent (nw_master N)"
    have effs: "List.map_filter request_of effs = [(p, job)]"
      using Command(5) by (auto simp: List.map_filter_simps)
    have "take (nw_taken N + 1) ?cs = take (nw_taken N) ?cs @ [(p, job)]"
      using Command(3,4) by (simp add: take_Suc_conv_app_nth)
    with acc show ?thesis
      by (auto simp: Command(1,2) effs accounted_def carried_def queue_of_def add.assoc)
  next
    case (Assign p job wenv data s effs)
    have "carried N' q \<subseteq># carried N q" for q
    proof (cases "q = p")
      case True
      have queue: "queue_of N' p \<in> {queue_of N p, queue_of N p @ [job]}"
        using assigned_worker [OF Assign(4), of "nd_loop (nw_nodes N p)" mp] Assign(2,5) by (simp add: queue_of_def)
      have "part_of p (nw_requests N) = add_mset (p, job) (part_of p (nw_requests N'))"
        using multi_member_split [OF Assign(3)] Assign(2) by auto
      with queue True show ?thesis by (auto simp: carried_def)
    next
      case False
      have "part_of q (nw_requests N') = part_of q (nw_requests N)"
        using multi_member_split [OF Assign(3)] Assign(2) False by auto
      with False show ?thesis by (simp add: carried_def queue_of_def Assign(2))
    qed
    with less Assign show ?thesis by simp
  next
    case (Lose_request x)
    have "part_of p (nw_requests N') \<subseteq># part_of p (nw_requests N)" for p
      by (rule part_of_mono) (simp add: Lose_request)
    with less Lose_request show ?thesis by (simp add: carried_def queue_of_def)
  next
    case (Worker wenv ev p s effs)
    have "queue_of N' p \<in> {queue_of N p, []}"
      using foreign_worker [OF Worker(3), of "nd_loop (nw_nodes N p)" mp] Worker(2,4) by (simp add: queue_of_def)
    then have "carried N' q \<subseteq># carried N q" for q
      by (cases "q = p") (auto simp: carried_def queue_of_def Worker(2))
    with less Worker show ?thesis by simp
  next
    case (Execute p job jobs wenv s effs h)
    have queue: "queue_of N' p = jobs" using Execute(3,4,5,2) by (auto simp: queue_of_def)
    have "carried N' q + part_of q (mset (executed (as @ [a]))) = carried N q + part_of q (mset (executed as))" for q
      using queue Execute(3) by (cases "q = p") (auto simp: carried_def queue_of_def Execute(1,2))
    with acc show ?thesis by (simp add: accounted_def) (simp add: Execute(2))
  next
    case (Report p r wenv s effs)
    then have "queue_of N' q = queue_of N q" for q
      using reporting_worker(1) [of wenv "nd_loop (nw_nodes N p)" r] by (auto simp: queue_of_def)
    with less Report show ?thesis by (simp add: carried_def)
  next
    case (Master penv ev ms effs)
    have "List.map_filter request_of effs = []"
      using foreign_effects(1) [OF Master(3), of "nw_p2p N"] Master(4) by simp
    with less Master show ?thesis by (simp add: carried_def queue_of_def)
  next
    case (Receive p env penv data ms effs)
    have "List.map_filter request_of effs = []"
      using received_effects(1) [OF Receive(4), of "nw_p2p N" p] Receive(5) by simp
    with less Receive show ?thesis by (simp add: carried_def queue_of_def)
  qed (use less in \<open>simp_all add: carried_def queue_of_def\<close>)
qed

lemma accounted_sent: "accounted as N \<Longrightarrow> mset (executed as) \<subseteq># mset (sc_sent (nw_master N))"
proof (rule mset_subset_eqI)
  fix x :: "peer_id \<times> job_assignment"
  assume "accounted as N"
  then have "part_of (fst x) (mset (executed as)) \<subseteq># part_of (fst x) (mset (take (nw_taken N) (sc_sent (nw_master N))))"
    unfolding accounted_def using mset_subset_eq_add_right subset_mset.order_trans by blast
  also have "\<dots> \<subseteq># part_of (fst x) (mset (sc_sent (nw_master N)))"
    by (rule part_of_mono) (metis append_take_drop_id mset_append mset_subset_eq_add_left)
  finally show "count (mset (executed as)) x \<le> count (mset (sc_sent (nw_master N))) x"
    by (auto simp: part_of_def dest: mset_subset_eq_count [of _ _ x])
qed

section \<open>Results\<close>

lemma executes_one:
  obtains "ex_results (execute_job h e a) = ex_results e"
  | r spec where "ex_results (execute_job h e a) = ex_results e @ [r]" "ja_spec a = Some spec" "jr_job_id r = js_job_id spec"
proof (cases "ex_task e = Alive \<and> ja_spec a \<noteq> None")
  case True
  then obtain spec where spec: "ja_spec a = Some spec" "execute_job h e a = execute_spec h spec e"
    by (auto simp: execute_job_def)
  have finish: "ex_results (finish_job h (js_job_id spec) dir r m n s) = ex_results s \<or>
      (\<exists>x. ex_results (finish_job h (js_job_id spec) dir r m n s) = ex_results s @ [x] \<and> jr_job_id x = js_job_id spec)" for dir r m n s
    by (auto simp: finish_job_def report_def split: prod.split option.split)
  have "ex_results (execute_spec h spec e) = ex_results e \<or>
      (\<exists>x. ex_results (execute_spec h spec e) = ex_results e @ [x] \<and> jr_job_id x = js_job_id spec)"
    using finish [of _ _ _ _ "e\<lparr>ex_files := fl\<rparr>" for fl]
    by (auto simp: execute_spec_def report_def Let_def split: option.split prod.split)
  with spec that show thesis by auto
qed (use that in \<open>auto simp: execute_job_def\<close>)

lemma results_grow:
  assumes "net_step su mp N a N'" shows "prefix (results_of N p) (results_of N' p)"
  using assms
proof cases
  case (Execute q job jobs wenv s effs h)
  show ?thesis
    by (cases rule: executes_one [of h "nd_exec (nw_nodes N q)" job]) (auto simp: Execute(2) results_of_def)
qed (auto simp: results_of_def)

text \<open>A completion is known when some worker has reported it, and every result is of an executed job.\<close>

definition known :: "network \<Rightarrow> job_completed \<Rightarrow> bool" where
  "known N c \<longleftrightarrow> (\<exists>p. \<exists>r\<in>set (results_of N p). c = completed_message r)"

definition honest :: "action list \<Rightarrow> network \<Rightarrow> bool" where
  "honest as N \<longleftrightarrow>
     (\<forall>p c. (p, Some (PJobCompleted c)) \<in># nw_mail N \<longrightarrow> known N c) \<and> (\<forall>c\<in>#nw_tasks N. known N c) \<and>
     (\<forall>p. \<forall>r\<in>set (results_of N p). \<exists>a spec. (p, a) \<in> set (executed as) \<and> ja_spec a = Some spec \<and>
        js_job_id spec = jr_job_id r)"

lemma known_step: "net_step su mp N a N' \<Longrightarrow> known N c \<Longrightarrow> known N' c"
  unfolding known_def using results_grow set_mono_prefix by blast

lemma honest_less:
  assumes "honest as N" "net_step su mp N a N'"
    and "\<And>p c. (p, Some (PJobCompleted c)) \<in># nw_mail N' \<Longrightarrow> (p, Some (PJobCompleted c)) \<in># nw_mail N \<or> known N' c"
    and "\<And>c. c \<in># nw_tasks N' \<Longrightarrow> c \<in># nw_tasks N \<or> known N' c"
    and "\<And>p r. r \<in> set (results_of N' p) \<Longrightarrow> r \<in> set (results_of N p) \<or>
      (\<exists>job spec. a = Executes p job \<and> ja_spec job = Some spec \<and> js_job_id spec = jr_job_id r)"
  shows "honest (as @ [a]) N'"
proof -
  have "set (executed as) \<subseteq> set (executed (as @ [a]))" by (cases a) auto
  with assms(1) have old: "\<exists>a' spec. (p, a') \<in> set (executed (as @ [a])) \<and> ja_spec a' = Some spec \<and> js_job_id spec = jr_job_id r"
    if "r \<in> set (results_of N p)" for p r
    using that unfolding honest_def by blast
  have "\<exists>a' spec. (p, a') \<in> set (executed (as @ [a])) \<and> ja_spec a' = Some spec \<and> js_job_id spec = jr_job_id r"
    if "r \<in> set (results_of N' p)" for p r
    using assms(5) [OF that] old [of r p] by auto
  moreover have "known N' c" if "(p, Some (PJobCompleted c)) \<in># nw_mail N'" for p c
    using assms(1,3) known_step [OF assms(2)] that unfolding honest_def by blast
  moreover have "known N' c" if "c \<in># nw_tasks N'" for c
    using assms(1,4) known_step [OF assms(2)] that unfolding honest_def by blast
  ultimately show ?thesis by (simp add: honest_def)
qed

lemma honest_step:
  assumes step: "net_step su mp N a N'" and honest: "honest as N"
  shows "honest (as @ [a]) N'"
proof -
  note less = honest_less [OF honest step]
  show ?thesis
    using step
  proof cases
    case (Assign p job wenv data s effs)
    have "List.map_filter (mail_for mp) effs = []"
      using assigned_worker [OF Assign(4), of "nd_loop (nw_nodes N p)" mp] Assign(5) by simp
    then show ?thesis by (intro less) (auto simp: Assign(2) results_of_def split: if_splits)
  next
    case (Worker wenv ev p s effs)
    have "no_result (List.map_filter (mail_for mp) effs)"
      using foreign_worker [OF Worker(3), of "nd_loop (nw_nodes N p)" mp] Worker(4) by simp
    then show ?thesis by (intro less) (auto simp: Worker(2) results_of_def no_result_def split: if_splits)
  next
    case (Execute p job jobs wenv s effs h)
    show ?thesis
      by (intro less, simp_all add: Execute(1,2), cases rule: executes_one [of h "nd_exec (nw_nodes N p)" job])
        (auto simp: results_of_def split: if_splits)
  next
    case (Report p r wenv s effs)
    have "known N' (completed_message r)"
      using Report(3,4) by (auto simp: known_def results_of_def Report(2) intro!: exI [of _ p])
    moreover have "set (List.map_filter (mail_for mp) effs) \<subseteq> {Some (PJobCompleted (completed_message r))}"
      using reporting_worker(2) [of mp wenv "nd_loop (nw_nodes N p)" r] Report(5) by auto
    ultimately show ?thesis by (intro less) (auto simp: Report(2) results_of_def split: if_splits)
  next
    case (Master penv ev ms effs)
    have "List.map_filter task_of effs = []"
      using foreign_effects(2) [OF Master(3), of "nw_p2p N"] Master(4) by simp
    then show ?thesis by (intro less) (auto simp: Master(2) results_of_def)
  next
    case (Command p job penv ms effs)
    have "List.map_filter task_of effs = []" using Command(5) by (auto simp: List.map_filter_simps)
    then show ?thesis by (intro less) (auto simp: Command(2) results_of_def)
  next
    case (Receive p env penv data ms effs)
    have tasks: "List.map_filter task_of effs = (case env of Some (PJobCompleted c) \<Rightarrow> [c] | _ \<Rightarrow> [])"
      using received_effects(2) [OF Receive(4), of "nw_p2p N" p] Receive(5) by simp
    have "known N' c" if "env = Some (PJobCompleted c)" for c
      using honest Receive(3) known_step [OF step] that unfolding honest_def by blast
    then show ?thesis
      by (intro less) (auto simp: Receive(2) tasks results_of_def dest: in_diffD split: option.splits payload.splits)
  qed (intro less; auto simp: results_of_def dest: in_diffD)+
qed

section \<open>What the master says\<close>

text \<open>
  \<open>reported\<close>: some worker has a result for job \<open>i\<close> with this outcome; \<open>printed\<close>: one whose output has this
  line. \<open>truthful\<close>: whatever the master has stored since \<open>d0\<close> was reported or printed.
\<close>

definition outcome :: "job_result \<Rightarrow> string" where
  "outcome r = (if jr_success r then ''completed'' else ''failed'')"

definition reported :: "(uuid \<Rightarrow> string) \<Rightarrow> network \<Rightarrow> uuid \<Rightarrow> string \<Rightarrow> bool" where
  "reported su N i st \<longleftrightarrow> (\<exists>p. \<exists>r\<in>set (results_of N p). jr_job_id r = su i \<and> outcome r = st)"

definition printed :: "(uuid \<Rightarrow> string) \<Rightarrow> network \<Rightarrow> uuid \<Rightarrow> string \<Rightarrow> bool" where
  "printed su N i l \<longleftrightarrow> (\<exists>p. \<exists>r\<in>set (results_of N p). jr_job_id r = su i \<and> l \<in> set (str_lines (jr_output r)))"

definition truthful :: "(uuid \<Rightarrow> string) \<Rightarrow> db \<Rightarrow> network \<Rightarrow> bool" where
  "truthful su d0 N \<longleftrightarrow>
     (\<forall>i st. job_status_of (sc_db (nw_master N)) i = Some st \<longrightarrow> st \<in> {''completed'', ''failed''} \<longrightarrow>
        job_status_of d0 i = Some st \<or> reported su N i st) \<and>
     (\<exists>rows. job_logs (sc_db (nw_master N)) = job_logs d0 @ rows \<and>
        (\<forall>row\<in>set rows. printed su N (l_job row) (l_message row)))"

lemma reported_step:
  assumes "net_step su mp N a N'"
  shows "reported su N i st \<Longrightarrow> reported su N' i st" "printed su N i l \<Longrightarrow> printed su N' i l"
  using results_grow [OF assms] set_mono_prefix unfolding reported_def printed_def by blast+

lemma outcome_completed: "completion_status (completed_message r) = outcome r"
  by (simp add: completion_status_def completed_message_def outcome_def)

text \<open>A step that moves no job to one of the two statuses and logs only what was printed.\<close>

lemma truthful_less:
  assumes "truthful su d0 N" "net_step su mp N a N'"
    and "\<And>i st. job_status_of (sc_db (nw_master N')) i = Some st \<Longrightarrow> st \<in> {''completed'', ''failed''} \<Longrightarrow>
      job_status_of (sc_db (nw_master N)) i = Some st \<or> reported su N' i st"
    and "job_logs (sc_db (nw_master N')) = job_logs (sc_db (nw_master N)) @ rows"
    and "\<And>row. row \<in> set rows \<Longrightarrow> printed su N' (l_job row) (l_message row)"
  shows "truthful su d0 N'"
proof -
  obtain rows0 where rows0: "job_logs (sc_db (nw_master N)) = job_logs d0 @ rows0"
    "\<forall>row\<in>set rows0. printed su N (l_job row) (l_message row)"
    using assms(1) unfolding truthful_def by blast
  have "job_logs (sc_db (nw_master N')) = job_logs d0 @ (rows0 @ rows)" by (simp add: assms(4) rows0(1))
  moreover have "\<forall>row\<in>set (rows0 @ rows). printed su N' (l_job row) (l_message row)"
    using rows0(2) assms(5) reported_step(2) [OF assms(2)] by auto
  moreover have "job_status_of d0 i = Some st \<or> reported su N' i st"
    if "job_status_of (sc_db (nw_master N')) i = Some st" "st \<in> {''completed'', ''failed''}" for i st
    using assms(1,3) that reported_step(1) [OF assms(2)] unfolding truthful_def by blast
  ultimately show ?thesis unfolding truthful_def by blast
qed

lemma truthful_same:
  assumes "truthful su d0 N" "net_step su mp N a N'" "nw_master N' = nw_master N" shows "truthful su d0 N'"
  by (rule truthful_less [where rows = "[]", OF assms(1,2)]) (simp_all add: assms(3))

lemma quiet_finishes_nothing:
  assumes "quiet R d d'" "\<And>a b. R a b \<Longrightarrow> b \<in> {''completed'', ''failed''} \<Longrightarrow> a = b"
    and "job_status_of d' i = Some st" "st \<in> {''completed'', ''failed''}"
  shows "job_status_of d i = Some st"
proof -
  have moves: "job_moves R d d'" using assms(1) by (simp add: quiet_def)
  show ?thesis
  proof (cases "job_status_of d i")
    case None
    from assms(2) [OF job_movesD(5) [OF moves None assms(3)] assms(4)] assms(4) show ?thesis by auto
  next
    case (Some a)
    with job_movesD(4) [OF moves Some] assms(2-4) show ?thesis by auto
  qed
qed

lemma moves_finish_nothing:
  "api_move a b \<Longrightarrow> b \<in> {''completed'', ''failed''} \<Longrightarrow> a = b"
  "sched_move a b \<Longrightarrow> b \<in> {''completed'', ''failed''} \<Longrightarrow> a = b"
  by (auto simp: api_move_def sched_move_def)

lemma truthful_quiet:
  assumes "truthful su d0 N" "net_step su mp N a N'" "quiet R (sc_db (nw_master N)) (sc_db (nw_master N'))"
    and "\<And>a b. R a b \<Longrightarrow> b \<in> {''completed'', ''failed''} \<Longrightarrow> a = b"
  shows "truthful su d0 N'"
proof (rule truthful_less [where rows = "[]", OF assms(1,2)])
  show "job_logs (sc_db (nw_master N')) = job_logs (sc_db (nw_master N)) @ []" using assms(3) by (simp add: quiet_def)
qed (use quiet_finishes_nothing [OF assms(3,4)] in auto)

text \<open>A completion that is stored is of a job that a worker was sent and executed.\<close>

lemma known_job:
  assumes "known N c" "honest as N" "accounted as N" "master_ok su N"
  obtains p r k where "r \<in> set (results_of N p)" "c = completed_message r" "jr_job_id r = su k"
proof -
  obtain p r where r: "r \<in> set (results_of N p)" "c = completed_message r" using assms(1) by (auto simp: known_def)
  then obtain a spec where a: "(p, a) \<in> set (executed as)" "ja_spec a = Some spec" "js_job_id spec = jr_job_id r"
    using assms(2) unfolding honest_def by blast
  have "(p, a) \<in> set (sc_sent (nw_master N))"
    using mset_subset_eqD [OF accounted_sent [OF assms(3)], of "(p, a)"] a(1) by simp
  then obtain k where "dispatched_id (p, a) = su k"
    using assms(4) unfolding master_ok_def dispatch_inv_def by blast
  with a(2,3) r that show thesis by (simp add: dispatched_id_def)
qed

lemma truthful_step:
  assumes step: "net_step su mp N a N'" and truth: "truthful su d0 N"
    and inv: "honest as N" "accounted as N" "master_ok su N"
  shows "truthful su d0 N'"
  using step
proof cases
  case (Outside e)
  have "quiet api_move (sc_db (nw_master N)) (master_db e (sc_db (nw_master N)))"
    by (rule outside_quiet [OF master_ok_ready [OF inv(3)] Outside(4,3)])
  moreover have "sc_db (nw_master N') = master_db e (sc_db (nw_master N))"
    using Outside(2,3) by (cases e) (simp_all add: master_op_def)
  ultimately show ?thesis using truthful_quiet [OF truth step] moves_finish_nothing(1) by simp
next
  case (Scheduler env fs ev)
  have "quiet sched_move (sc_db (nw_master N)) (sc_db (nw_master N'))"
    using scheduled_quiet [of "(nw_master N)\<lparr>sc_faults := fs\<rparr>" env ev] master_ok_ready [OF inv(3)]
    by (simp add: Scheduler(2))
  then show ?thesis using truthful_quiet [OF truth step] moves_finish_nothing(2) by simp
next
  case (Complete c denv bus fs)
  let ?d = "sc_db (nw_master N)"
  have d': "sc_db (nw_master N') = master_db (MComplete denv bus c fs :: bytes master_event) ?d"
    by (simp add: Complete(2) master_op_def)
  have "known N c" using inv(1) Complete(3) by (simp add: honest_def)
  then obtain p r k where r: "r \<in> set (results_of N p)" "c = completed_message r" "jr_job_id r = su k"
    by (rule known_job [OF _ inv])
  then have id: "de_parse_uuid denv (jc_job_id c) = Some k" and out: "jc_output c = jr_output r"
    using Complete(4) by (simp_all add: completed_message_def)
  have r': "r \<in> set (results_of N' p)" using r(1) results_grow [OF step] set_mono_prefix by blast
  from completed_effect(2) [OF master_ok_ready [OF inv(3)] d'] show ?thesis
  proof (elim disjE exE conjE)
    assume "job_status_of (sc_db (nw_master N')) = job_status_of ?d" "job_logs (sc_db (nw_master N')) = job_logs ?d"
    then show ?thesis by (intro truthful_less [where rows = "[]", OF truth step]) simp_all
  next
    fix i rows
    assume i: "de_parse_uuid denv (jc_job_id c) = Some i"
      and logs: "job_logs (sc_db (nw_master N')) = job_logs ?d @ rows"
        "\<forall>row\<in>set rows. l_job row = i \<and> l_message row \<in> set (str_lines (jc_output c))"
    have ik: "i = k" using i id by simp
    have "printed su N' (l_job row) (l_message row)" if "row \<in> set rows" for row
    proof -
      have "l_job row = k" "l_message row \<in> set (str_lines (jr_output r))" using logs(2) that out ik by simp_all
      with r' r(3) show ?thesis by (auto simp: printed_def)
    qed
    note rule = truthful_less [where rows = rows, OF truth step _ logs(1) this]
    { assume "job_status_of (sc_db (nw_master N')) = job_status_of ?d"
      then show ?thesis by (intro rule) simp_all
    next
      assume st: "job_status_of (sc_db (nw_master N')) = (job_status_of ?d)(i \<mapsto> completion_status c)"
      have "reported su N' i (completion_status c)"
        using r' r(2,3) ik by (auto simp: reported_def outcome_completed)
      with st show ?thesis by (intro rule) (auto split: if_splits)
    }
  qed
qed (use truthful_same [OF truth step] in simp_all)

section \<open>Runs\<close>

definition fresh_network :: "(uuid \<Rightarrow> string) \<Rightarrow> network \<Rightarrow> bool" where
  "fresh_network su N \<longleftrightarrow>
     jobs_ready (sc_db (nw_master N)) \<and> sc_sent (nw_master N) = [] \<and> nw_taken N = 0 \<and>
     nw_requests N = {#} \<and> nw_mail N = {#} \<and> nw_tasks N = {#} \<and> (\<forall>p. queue_of N p = [] \<and> results_of N p = [])"

lemma run_keeps:
  assumes "net_run su mp N as N'" "inj su" "fresh_network su N"
  shows "master_ok su N' \<and> accounted as N' \<and> honest as N' \<and> truthful su (sc_db (nw_master N)) N'"
  using assms
proof (induction rule: net_run.induct)
  case (Start N)
  then show ?case
    by (simp add: fresh_network_def master_ok_def dispatch_inv_def jobs_ready_def accounted_def carried_def honest_def
        truthful_def)
next
  case (Step N as N' a N'')
  then have inv: "master_ok su N'" "accounted as N'" "honest as N'" "truthful su (sc_db (nw_master N)) N'" by simp_all
  from master_keeps [OF Step.hyps(2) Step.prems(1) inv(1)]
  have "master_ok su N''" "prefix (sc_sent (nw_master N')) (sc_sent (nw_master N''))" by simp_all
  with inv accounted_step [OF Step.hyps(2)] honest_step [OF Step.hyps(2)] truthful_step [OF Step.hyps(2)]
  show ?case by blast
qed

text \<open>
  C5. No job is executed twice, anywhere in the network. In every run of one master and any number of
  workers that run this code, whatever messages are lost or delayed, in whatever order nodes act and
  whatever other nodes send that is neither an assignment nor a completion: the executions of all
  executors are of different jobs, each was sent to that very worker by the scheduler, and its job
  has left the status pending.
\<close>

theorem network_executes_once:
  assumes "net_run su mp N as N'" "inj su" "fresh_network su N"
  shows "distinct (map dispatched_id (executed as)) \<and>
    (\<forall>x\<in>set (executed as). x \<in> set (sc_sent (nw_master N')) \<and>
       (\<exists>i st. dispatched_id x = su i \<and> job_status_of (sc_db (nw_master N')) i = Some st \<and> st \<noteq> ''pending''))"
proof -
  from run_keeps [OF assms] have inv: "dispatch_inv su (nw_master N')" "mset (executed as) \<subseteq># mset (sc_sent (nw_master N'))"
    by (auto simp: master_ok_def intro: accounted_sent)
  have sub: "mset (map dispatched_id (executed as)) \<subseteq># mset (map dispatched_id (sc_sent (nw_master N')))"
    using image_mset_subseteq_mono [OF inv(2), of dispatched_id] by simp
  have "distinct (map dispatched_id (sc_sent (nw_master N')))" using inv(1) by (simp add: dispatch_inv_def)
  moreover obtain ys where "mset (map dispatched_id (sc_sent (nw_master N'))) = mset (map dispatched_id (executed as) @ ys)"
    using sub ex_mset by (metis mset_append mset_subset_eq_exists_conv)
  ultimately have "distinct (map dispatched_id (executed as))"
    by (metis distinct_append mset_eq_imp_distinct_iff)
  moreover have "x \<in> set (sc_sent (nw_master N'))" if "x \<in> set (executed as)" for x
    using mset_subset_eqD [OF inv(2), of x] that by simp
  ultimately show ?thesis using inv(1) unfolding dispatch_inv_def by blast
qed

text \<open>
  C6. The master tells the truth about jobs. In every such run a job that is completed or failed, and was
  not so at the start, was executed by a worker whose executor reported exactly that outcome for it,
  and every line in the logs since then is a line of the output that such an execution of that job
  reported: of what the job printed, or of the error text that the executor adds.
\<close>

theorem network_tells_the_truth:
  assumes "net_run su mp N as N'" "inj su" "fresh_network su N"
  shows "(\<forall>i st. job_status_of (sc_db (nw_master N')) i = Some st \<longrightarrow> st \<in> {''completed'', ''failed''} \<longrightarrow>
      job_status_of (sc_db (nw_master N)) i = Some st \<or>
      (\<exists>p a r. (p, a) \<in> set (executed as) \<and> dispatched_id (p, a) = su i \<and> r \<in> set (results_of N' p) \<and>
         jr_job_id r = su i \<and> st = (if jr_success r then ''completed'' else ''failed''))) \<and>
    (\<exists>rows. job_logs (sc_db (nw_master N')) = job_logs (sc_db (nw_master N)) @ rows \<and>
      (\<forall>row\<in>set rows. \<exists>p a r. (p, a) \<in> set (executed as) \<and> dispatched_id (p, a) = su (l_job row) \<and>
         r \<in> set (results_of N' p) \<and> jr_job_id r = su (l_job row) \<and> l_message row \<in> set (str_lines (jr_output r))))"
proof -
  from run_keeps [OF assms] have inv: "honest as N'" "truthful su (sc_db (nw_master N)) N'" by simp_all
  have ran: "\<exists>a. (p, a) \<in> set (executed as) \<and> dispatched_id (p, a) = su i"
    if "r \<in> set (results_of N' p)" "jr_job_id r = su i" for p r i
    using inv(1) that unfolding honest_def dispatched_id_def by fastforce
  have 1: "\<exists>p a r. (p, a) \<in> set (executed as) \<and> dispatched_id (p, a) = su i \<and> r \<in> set (results_of N' p) \<and>
      jr_job_id r = su i \<and> st = (if jr_success r then ''completed'' else ''failed'')"
    if rep: "reported su N' i st" for i st
  proof -
    obtain p r where r: "r \<in> set (results_of N' p)" "jr_job_id r = su i" "outcome r = st"
      using rep unfolding reported_def by blast
    with ran [OF r(1,2)] show ?thesis unfolding outcome_def by blast
  qed
  have 2: "\<exists>p a r. (p, a) \<in> set (executed as) \<and> dispatched_id (p, a) = su i \<and> r \<in> set (results_of N' p) \<and>
      jr_job_id r = su i \<and> l \<in> set (str_lines (jr_output r))"
    if pr: "printed su N' i l" for i l
  proof -
    obtain p r where r: "r \<in> set (results_of N' p)" "jr_job_id r = su i" "l \<in> set (str_lines (jr_output r))"
      using pr unfolding printed_def by blast
    with ran [OF r(1,2)] show ?thesis by blast
  qed
  obtain rows where "job_logs (sc_db (nw_master N')) = job_logs (sc_db (nw_master N)) @ rows"
    "\<forall>row\<in>set rows. printed su N' (l_job row) (l_message row)" using inv(2) unfolding truthful_def by blast
  with 2 inv(2) 1 show ?thesis unfolding truthful_def by blast
qed

section \<open>A run\<close>

text \<open>
  A job goes to worker \<open>w1\<close> and back: the scheduler assigns it, the assignment travels, the executor
  refuses it because its source is empty, the result travels and is stored.
\<close>

definition idle_worker_node :: node where
  "idle_worker_node = \<lparr>nd_loop = (initial_worker 0)\<lparr>wk_master := Some ''m''\<rparr>, nd_exec = initial_executor, nd_passed = 0\<rparr>"

definition demo_network :: network where
  "demo_network = \<lparr>nw_master = demo_sched, nw_p2p = initial_master 0, nw_taken = 0, nw_requests = {#}, nw_mail = {#},
     nw_tasks = {#}, nw_nodes = (\<lambda>_. idle_worker_node)\<rparr>"

lemma demo_network_fresh: "fresh_network bits_text demo_network"
  using demo_ready(1)
  by (simp add: fresh_network_def demo_network_def idle_worker_node_def queue_of_def results_of_def initial_worker_def
      initial_executor_def demo_sched_def)

lemma demo_sched1_sent:
  obtains a spec where "sc_sent demo_sched1 = [(''w1'', a)]" "ja_spec a = Some spec" "js_job_id spec = bits_text (Uuid 1)"
    "js_code spec = []" "jobs_ok (sc_db demo_sched1)" "job_status_of (sc_db demo_sched1) (Uuid 1) = Some ''assigned''"
proof -
  have "map fst (sc_sent demo_sched1) = [''w1'']" by code_simp
  then obtain a where a: "sc_sent demo_sched1 = [(''w1'', a)]" by auto
  have "map (map_option (\<lambda>s. (js_job_id s, js_code s)) \<circ> ja_spec \<circ> snd) (sc_sent demo_sched1) =
      [Some (bits_text (Uuid 1), [])]" by code_simp
  then obtain spec where "ja_spec a = Some spec" "js_job_id spec = bits_text (Uuid 1)" "js_code spec = []"
    by (auto simp: a)
  moreover have "jobs_ok (sc_db demo_sched1)" by code_simp
  moreover have "job_status_of (sc_db demo_sched1) (Uuid 1) = Some ''assigned''" by code_simp
  ultimately show thesis using a that by blast
qed

lemma demo_network_run:
  "\<exists>as N a. net_run bits_text ''m'' demo_network as N \<and> executed as = [(''w1'', a)] \<and>
     job_status_of (sc_db (nw_master N)) (Uuid 1) = Some ''failed''"
proof -
  obtain a spec where a: "sc_sent demo_sched1 = [(''w1'', a)]" "ja_spec a = Some spec" "js_job_id spec = bits_text (Uuid 1)"
    "js_code spec = []" "jobs_ok (sc_db demo_sched1)" "job_status_of (sc_db demo_sched1) (Uuid 1) = Some ''assigned''"
    by (rule demo_sched1_sent)
  let ?m = "''m''" and ?w = "''w1''" and ?su = bits_text
  let ?wenv = "demo_worker_env\<lparr>we_decode_assignment := \<lambda>_. Inr a\<rparr>"
  define r where "r = \<lparr>jr_job_id = bits_text (Uuid 1), jr_success = False, jr_output = ''no code bytes in assignment''\<rparr>"
  define c where "c = completed_message r"
  let ?penv = "demo_p2p_env\<lparr>pe_decode := \<lambda>_. Some (Some (PJobCompleted c))\<rparr>"
  define N1 where "N1 = demo_network\<lparr>nw_master := demo_sched1\<rparr>"
  define N2 where "N2 = absorb [SendRequest ?w a] (N1\<lparr>nw_p2p := nw_p2p N1, nw_taken := nw_taken N1 + 1\<rparr>)"
  define l3 where "l3 = worker_step ?wenv (nd_loop idle_worker_node) (WJobRequest ?m [])"
  define N3 where "N3 = post ?m ?w (snd l3) (set_node ?w (idle_worker_node\<lparr>nd_loop := fst l3\<rparr>)
      (N2\<lparr>nw_requests := nw_requests N2 - {#(?w, a)#}\<rparr>))"
  define l4 where "l4 = worker_step ?wenv (fst l3) WExecutorTook"
  define e where "e = execute_job demo_host initial_executor a"
  define N4 where "N4 = set_node ?w (idle_worker_node\<lparr>nd_loop := fst l4, nd_exec := e\<rparr>) N3"
  define l5 where "l5 = worker_step ?wenv (fst l4) (WJobResult r)"
  define N5 where "N5 = post ?m ?w (snd l5) (set_node ?w (idle_worker_node\<lparr>nd_loop := fst l5, nd_exec := e, nd_passed := 1\<rparr>) N4)"
  define N6 where "N6 = absorb (handle_job_request ?penv ?w []) (N5\<lparr>nw_p2p := nw_p2p N5,
      nw_mail := nw_mail N5 - {#(?w, Some (PJobCompleted c))#}\<rparr>)"
  define N7 where "N7 = N6\<lparr>nw_master := master_op (nw_master N6) (MComplete demo_done_env [] c [] :: bytes master_event),
      nw_tasks := nw_tasks N6 - {#c#}\<rparr>"
  have n1: "nw_p2p N1 = initial_master 0" "nw_taken N1 = 0" "nw_nodes N1 = (\<lambda>_. idle_worker_node)" "nw_master N1 = demo_sched1"
    "nw_requests N1 = {#}" "nw_mail N1 = {#}" "nw_tasks N1 = {#}"
    by (simp_all add: N1_def demo_network_def)
  have n2: "nw_requests N2 = {#(?w, a)#}" "nw_nodes N2 = (\<lambda>_. idle_worker_node)" "nw_mail N2 = {#}" "nw_tasks N2 = {#}"
    "nw_master N2 = demo_sched1"
    by (simp_all add: N2_def n1 List.map_filter_simps)
  have l3: "fst l3 = (nd_loop idle_worker_node)\<lparr>wk_queue := [a]\<rparr>"
    by (simp add: l3_def idle_worker_node_def initial_worker_def handle_assignment_def job_queue_size_def)
  have n3: "nw_nodes N3 = (\<lambda>_. idle_worker_node)(?w := idle_worker_node\<lparr>nd_loop := fst l3\<rparr>)" "nw_mail N3 = {#}" "nw_tasks N3 = {#}"
    "nw_master N3 = demo_sched1"
    using assigned_worker [of ?wenv "[]" a "nd_loop idle_worker_node" ?m ?m] by (simp_all add: N3_def n2 l3_def)
  have e: "ex_results e = [r]"
    using a by (simp add: e_def execute_job_def execute_spec_def initial_executor_def report_def r_def)
  have l4: "wk_master (fst l4) = Some ?m" by (simp add: l4_def l3 idle_worker_node_def)
  have l5: "List.map_filter (mail_for ?m) (snd l5) = [Some (PJobCompleted c)]"
    by (simp add: l5_def send_result_def l4 List.map_filter_simps c_def)
  have n5: "nw_mail N5 = {#(?w, Some (PJobCompleted c))#}" "nw_tasks N5 = {#}" "nw_master N5 = demo_sched1"
    by (simp_all add: N5_def N4_def n3 l5)
  have n6: "nw_tasks N6 = {#c#}" "nw_master N6 = demo_sched1"
    by (simp_all add: N6_def n5 handle_job_request_def List.map_filter_simps)
  have s1: "net_step ?su ?m demo_network Other N1"
    using net_step.Scheduler [of demo_env ?su ?m demo_network "[]" "Enqueue (Uuid 1) cpu_request"] demo_assign(1)
    by (simp add: N1_def demo_network_def demo_env_def demo_sched_def)
  have s2: "net_step ?su ?m N1 Other N2"
    unfolding N2_def by (rule net_step.Command [where penv = ?penv]) (simp_all add: n1 a(1))
  have s3: "net_step ?su ?m N2 Other N3"
    using net_step.Assign [of ?w a N2 ?wenv "[]" ?m "fst l3" "snd l3" ?su] by (simp add: N3_def n2 l3_def)
  have s4: "net_step ?su ?m N3 (Executes ?w a) N4"
    using net_step.Execute [of N3 ?w a "[]" ?wenv "fst l4" "snd l4" ?su ?m demo_host]
    by (simp add: N4_def e_def n3 l3 l4_def queue_of_def) (simp add: idle_worker_node_def initial_executor_def)
  have s5: "net_step ?su ?m N4 Other N5"
    using net_step.Report [of N4 ?w r ?wenv "fst l5" "snd l5" ?su ?m]
    by (simp add: N5_def N4_def l5_def results_of_def e) (simp add: idle_worker_node_def)
  have s6: "net_step ?su ?m N5 Other N6"
    unfolding N6_def by (rule net_step.Receive [where penv = ?penv and data = "[]"]) (simp_all add: n5)
  have s7: "net_step ?su ?m N6 Other N7"
    unfolding N7_def by (rule net_step.Complete) (simp_all add: n6 demo_done_env_def bits_uuid_text)
  note run = net_run.Step [OF net_run.Step [OF net_run.Step [OF net_run.Step [OF net_run.Step [OF net_run.Step [OF
    net_run.Step [OF net_run.Start s1] s2] s3] s4] s5] s6] s7]
  moreover have "executed ((((((([] @ [Other]) @ [Other]) @ [Other]) @ [Executes ?w a]) @ [Other]) @ [Other]) @ [Other]) = [(?w, a)]"
    by (simp only: executed_simps) simp
  moreover have "job_status_of (sc_db (nw_master N7)) (Uuid 1) = Some ''failed''"
  proof -
    from complete_job_assigned [OF a(5,6), of demo_done_env c] obtain d' where
      "complete_job demo_done_env c (Uuid 1) (sc_db demo_sched1) [] = (Inr (), d', [])"
      "job_status_of d' = (job_status_of (sc_db demo_sched1))(Uuid 1 \<mapsto> completion_status c)" by blast
    moreover have "de_parse_uuid demo_done_env (jc_job_id c) = Some (Uuid 1)"
      by (simp add: c_def completed_message_def r_def demo_done_env_def bits_uuid_text)
    moreover have "completion_status c = ''failed''"
      by (simp add: c_def outcome_completed outcome_def r_def)
    ultimately show ?thesis by (simp add: N7_def n6 master_op_def completion_task_def)
  qed
  ultimately show ?thesis by blast
qed

lemma network_executes_once_witness:
  "\<exists>as N a. net_run bits_text ''m'' demo_network as N \<and> executed as = [(''w1'', a)] \<and> (''w1'', a) \<in> set (sc_sent (nw_master N))"
proof -
  obtain as N a where run: "net_run bits_text ''m'' demo_network as N" "executed as = [(''w1'', a)]"
    using demo_network_run by blast
  from network_executes_once [OF run(1) inj_bits_text demo_network_fresh] have "(''w1'', a) \<in> set (sc_sent (nw_master N))"
    by (simp add: run(2))
  with run show ?thesis by blast
qed

lemma network_tells_the_truth_witness:
  "\<exists>as N p r. net_run bits_text ''m'' demo_network as N \<and> job_status_of (sc_db (nw_master N)) (Uuid 1) = Some ''failed'' \<and>
     r \<in> set (results_of N p) \<and> jr_job_id r = bits_text (Uuid 1) \<and> \<not> jr_success r"
proof -
  obtain as N where run: "net_run bits_text ''m'' demo_network as N" "job_status_of (sc_db (nw_master N)) (Uuid 1) = Some ''failed''"
    using demo_network_run by blast
  have start: "job_status_of (sc_db (nw_master demo_network)) (Uuid 1) = Some ''pending''"
    using demo_ready(3) by (simp add: demo_network_def)
  obtain p r where r: "r \<in> set (results_of N p)" "jr_job_id r = bits_text (Uuid 1)"
    "''failed'' = (if jr_success r then ''completed'' else ''failed'')"
    using conjunct1 [OF network_tells_the_truth [OF run(1) inj_bits_text demo_network_fresh], rule_format, OF run(2)] start
    by auto
  then have "\<not> jr_success r" by (cases "jr_success r") simp_all
  with run r(1,2) show ?thesis by blast
qed

end
