(* ===== verification/Job_Rows.thy ===== *)
theory Job_Rows
  imports Job_Life
begin

text \<open>
  What the row of a job says in each status, in the whole master: who works on it, since when, whether
  it has ended and with which error. No statement of the schema enforces this; it rests on what the
  handlers, the scheduler and the completion write together with the status.
\<close>

section \<open>Rows\<close>

definition row_ok :: "job_row \<Rightarrow> bool" where
  "row_ok j \<longleftrightarrow>
     j_status j \<in> {''pending'', ''assigned'', ''completed'', ''failed'', ''cancelled''} \<and>
     (j_status j = ''pending'' \<longrightarrow> j_worker j = None) \<and>
     (j_status j \<in> {''assigned'', ''completed'', ''failed''} \<longrightarrow> j_worker j \<noteq> None) \<and>
     (j_assigned_at j = None \<longleftrightarrow> j_worker j = None) \<and>
     (j_finished_at j \<noteq> None \<longleftrightarrow> j_status j \<in> final_statuses) \<and>
     (j_error j \<noteq> None \<longleftrightarrow> j_status j = ''failed'') \<and>
     j_started_at j = None \<and> j_result_path j = None"

definition rows_ok :: "db \<Rightarrow> bool" where
  "rows_ok d \<longleftrightarrow> (\<forall>j\<in>set (jobs d). row_ok j)"

lemma rows_ok_same: "rows_ok d \<Longrightarrow> jobs d' = jobs d \<Longrightarrow> rows_ok d'"
  by (simp add: rows_ok_def)

lemma row_assigned:
  "row_ok j \<Longrightarrow> j_status j = ''pending'' \<Longrightarrow> row_ok (apply_transition now ''assigned'' (Some p) None None j)"
  by (simp add: row_ok_def apply_transition_def coalesce_def final_statuses_def)

lemma row_cancelled:
  "row_ok j \<Longrightarrow> j_status j \<in> {''pending'', ''assigned''} \<Longrightarrow>
   row_ok (apply_transition now ''cancelled'' None None None j)"
  by (auto simp: row_ok_def apply_transition_def coalesce_def final_statuses_def)

lemma row_finished:
  "row_ok j \<Longrightarrow> j_status j = ''assigned'' \<Longrightarrow>
   row_ok (apply_transition now (completion_status c) None (if jc_success c then None else Some (jc_error c)) None j)"
  by (simp add: row_ok_def apply_transition_def coalesce_def final_statuses_def completion_status_def)

lemma rows_transition:
  assumes "rows_ok d" "\<And>j. row_ok j \<Longrightarrow> j_status j = f \<Longrightarrow> row_ok (apply_transition now t w e r j)"
    and run: "jobs_transition_status su now i f t w e r d fs = (res, d', fs')"
  shows "rows_ok d'"
  using run
proof (cases rule: transition_cases)
  case (2 row)
  with assms(1,2) show ?thesis by (simp add: rows_ok_def transition_success(1) [OF 2] ball_update_where)
qed (simp add: assms(1))

section \<open>Requests\<close>

lemma rows_stmt:
  assumes "\<And>d x d'. q d = Inr (x, d') \<Longrightarrow> jobs d' = jobs d" shows "keeps rows_ok (stmt q)"
  by (rule keeps_stmt) (use assms rows_ok_same in blast)

lemma rows_create: "keeps rows_ok (jobs_create i now h b m s p)"
  unfolding jobs_create_def
  by (rule keeps_stmt) (auto simp: rows_ok_def row_ok_def final_statuses_def Let_def split: if_splits)

lemma rows_cancel: "keeps rows_ok (cancel_job env now u i)"
proof (rule keepsI)
  fix d fs r d' fs' assume ok: "rows_ok d" and run: "cancel_job env now u i d fs = (r, d', fs')"
  obtain q d1 fs1 where q: "owned_job u i d fs = (q, d1, fs1)" by (cases "owned_job u i d fs")
  have d1: "d1 = d" by (rule owned_job_cases(1) [OF q])
  show "rows_ok d'"
  proof (cases "\<exists>row. q = Inr row \<and> j_status row \<in> {''pending'', ''assigned''}")
    case False
    with run q d1 have "d' = d" by (cases q) (auto simp: cancel_job_def bind_db_def throw_db_def)
    with ok show ?thesis by simp
  next
    case True
    then obtain row where row: "q = Inr row" "j_status row \<in> {''pending'', ''assigned''}" by blast
    obtain x d2 fs2 where x: "jobs_transition_status (je_uuid env) now i (j_status row) ''cancelled'' None None None d fs1 = (x, d2, fs2)"
      by (cases "jobs_transition_status (je_uuid env) now i (j_status row) ''cancelled'' None None None d fs1")
    have "d' = d2"
      using run q d1 row x by (cases x) (auto simp: cancel_job_def bind_db_def lift_api_run return_db_def)
    moreover have "row_ok j \<Longrightarrow> j_status j = j_status row \<Longrightarrow> row_ok (apply_transition now ''cancelled'' None None None j)" for j
      using row_cancelled [of j now] row(2) by simp
    ultimately show ?thesis using rows_transition [OF ok _ x] by simp
  qed
qed

lemma rows_users: "keeps rows_ok (users_create i now e h role)" "keeps rows_ok (users_update_role su i role)"
proof -
  show "keeps rows_ok (users_create i now e h role)"
  proof (rule keepsI)
    fix d fs r d' fs' assume "rows_ok d" and run: "users_create i now e h role d fs = (r, d', fs')"
    with users_create_cases [OF run] show "rows_ok d'" by (auto intro: rows_ok_same)
  qed
  show "keeps rows_ok (users_update_role su i role)"
  proof (rule keepsI)
    fix d fs r d' fs' assume "rows_ok d" and run: "users_update_role su i role d fs = (r, d', fs')"
    with users_update_role_cases [OF run] show "rows_ok d'" by (auto intro: rows_ok_same)
  qed
qed

lemma rows_ledger: "keeps rows_ok (stmt (sql_insert_tx tid now u a k j))" "keeps rows_ok (stmt (sql_update_balance u f))"
  by (rule rows_stmt, auto simp: sql_insert_tx_def sql_update_balance_def split: if_splits)+

interpretation row_writes: admin_request_writes rows_ok "\<lambda>_. True"
proof
  show "keeps rows_ok (ledger_initialize u)" for u
    unfolding ledger_initialize_def by (rule rows_stmt) (auto split: if_splits)
  show "keeps rows_ok (jobs_insert_file i now j kind path n sha)" for i now j kind path n sha
    unfolding jobs_insert_file_def by (rule rows_stmt) (auto split: if_splits)
  show "keeps rows_ok (workers_upsert now peer u caps)" for now peer u caps
    unfolding workers_upsert_def by (rule rows_stmt) (auto split: if_splits)
  show "keeps rows_ok (workers_set_online now peer onl)" for now peer onl
    unfolding workers_set_online_def by (rule rows_stmt) auto
  show "keeps rows_ok workers_mark_all_offline"
    unfolding workers_mark_all_offline_def by (rule rows_stmt) auto
  show "keeps rows_ok (ledger_allocate su i now u amount)" for su i now u amount
    unfolding ledger_defs Let_def by (intro keeps_intros rows_ledger)
qed (rule rows_create rows_cancel rows_users)+

section \<open>The scheduler and completions\<close>

definition ready_rows :: "db \<Rightarrow> bool" where
  "ready_rows d \<longleftrightarrow> jobs_ready d \<and> rows_ok d"

lemma rows_assign:
  assumes "ready_rows (sc_db s)" shows "ready_rows (sc_db (try_assign_one env i req s))"
proof -
  have ok: "jobs_ok (sc_db s)" "rows_ok (sc_db s)" using assms by (simp_all add: ready_rows_def jobs_ready_def)
  have "quiet sched_move (sc_db s) (sc_db (try_assign_one env i req s))"
    using assms by (intro quiet_assign) (simp add: ready_rows_def quiet_def jobs_ready_def sched.moves_refl)
  then have "jobs_ready (sc_db (try_assign_one env i req s))" by (auto simp: quiet_def dest: ready_moves)
  moreover have moved: "rows_ok e"
    if "jobs_transition_status (se_uuid env) (se_now env) i ''pending'' ''assigned'' (Some p) None None
         (sc_db s) [] = (Inr row, e, [])" for p row e
    using rows_transition [OF ok(2) _ that] row_assigned by blast
  have "rows_ok (sc_db (try_assign_one env i req s))"
    by (rule try_assign_one_cases [OF ok(1), of env i req]) (use ok(2) moved in auto)
  ultimately show ?thesis by (simp add: ready_rows_def)
qed

interpretation row_assigning: assign_invariant env "\<lambda>s. ready_rows (sc_db s)" for env
  by unfold_locales (simp_all add: rows_assign, simp add: ready_rows_def jobs_ready_def)

lemma rows_complete: "rows_ok d \<Longrightarrow> complete_job env c i d fs = (r, d', fs') \<Longrightarrow> rows_ok d'"
proof -
  assume ok: "rows_ok d" and run: "complete_job env c i d fs = (r, d', fs')"
  obtain q d1 fs1 where q: "store_output (de_now_ms env) c i d fs = (q, d1, fs1)"
    by (cases "store_output (de_now_ms env) c i d fs")
  have "jobs d1 = jobs d" using keepsD [OF store_output_logs logs_from_refl q] by (simp add: logs_from_def)
  with ok have d1: "rows_ok d1" by (rule rows_ok_same)
  show "rows_ok d'"
  proof (cases q)
    case (Inl e)
    with run q d1 show ?thesis by (simp add: complete_job_def bind_db_def)
  next
    case (Inr u)
    obtain x d2 fs2 where x: "jobs_transition_status (de_uuid env) (de_now env) i ''assigned'' (completion_status c)
        None (if jc_success c then None else Some (jc_error c)) None d1 fs1 = (x, d2, fs2)"
      by (cases "jobs_transition_status (de_uuid env) (de_now env) i ''assigned'' (completion_status c)
        None (if jc_success c then None else Some (jc_error c)) None d1 fs1")
    have "d' = d2" using run q x Inr by (simp add: complete_job_def bind_db_def attempt_def return_db_def)
    with rows_transition [OF d1 _ x] row_finished show ?thesis by blast
  qed
qed

lemma rows_step:
  fixes e :: "'k master_event"
  assumes ready: "ready_rows (sc_db s)" and good: "good_event e"
  shows "ready_rows (sc_db (master_op s e))"
proof -
  have "jobs_ready (sc_db (master_op s e))"
    using master_advances [OF _ good, of s] ready by (auto simp: ready_rows_def dest: ready_moves)
  moreover have ok: "rows_ok (sc_db s)" using ready by (simp add: ready_rows_def)
  have "rows_ok (sc_db (master_op s e))"
  proof (cases e)
    case (MRequest a rq fs fl)
    with good keeps_webD [OF row_writes.served [OF _ TrueI] ok, of a rq fs fl] show ?thesis
      by (cases "serve a rq (sc_db s) fs fl") (auto simp: master_op_def good_event_def)
  next
    case (MSched env ev)
    with row_assigning.inv_step [OF ready, of env ev] show ?thesis by (simp add: master_op_def ready_rows_def)
  next
    case (MComplete env bus c fs)
    show ?thesis
    proof (cases "de_parse_uuid env (jc_job_id c)")
      case (Some i)
      obtain r d1 fs' where q: "complete_job env c i (sc_db s) fs = (r, d1, fs')"
        by (cases "complete_job env c i (sc_db s) fs")
      with rows_complete [OF ok q] Some show ?thesis by (simp add: MComplete master_op_def completion_task_def)
    qed (simp add: MComplete master_op_def completion_task_def ok)
  next
    case (MUpdate now su ev fs)
    with keeps_after [OF row_writes.updater ok] show ?thesis by (simp add: master_op_def)
  next
    case (MStart env dn url fs)
    with keeps_after [OF row_writes.start [OF TrueI] ok] show ?thesis by (simp add: master_op_def)
  qed (auto simp: master_op_def intro: row_writes.registered ok)
  ultimately show ?thesis by (simp add: ready_rows_def)
qed

interpretation rows_run: stepwise master_op good_event "\<lambda>s. ready_rows (sc_db s)"
  by standard (rule rows_step)

text \<open>
  C7. The row of a job tells its story. In any run of the whole master, under any faults, every job is in
  one of five statuses (it is never \<open>running\<close>); it has a worker and a time of assignment once it was
  assigned, and neither while it is pending or when it was cancelled before; it has an end time
  exactly when its status is final, and an error exactly when it failed; and nothing ever sets its
  start time or the path of its result.
\<close>

theorem job_rows_consistent:
  fixes es :: "'k master_event list"
  assumes "jobs_ready (sc_db s)" "rows_ok (sc_db s)" "list_all good_event es"
  shows "rows_ok (sc_db (run_ops master_op s es))"
  using rows_run.inv_run [of s es] assms by (simp add: ready_rows_def)

lemma demo_rows_ok: "rows_ok (sc_db demo_sched)"
  by code_simp

lemma job_rows_consistent_witness: "rows_ok (sc_db (run_ops master_op demo_sched demo_run))"
  by (rule job_rows_consistent [OF demo_ready(1) demo_rows_ok demo_run_good(1)])

end
