(* ===== verification/Spec2Isabelle.thy ===== *)
theory Spec2Isabelle
  imports Pricing Ledger_Audit Ledger_Locks Scheduler File_Transfer Admin_Api Completion Worker_Loop
    Bootstrap_Node Job_Runner Protocols Network Job_Rows
begin

text \<open>
  A model of the decentralized GPU network of this repository and the theorems that make it correct.
  Hirers upload Python jobs to a master node, the master schedules them on worker nodes it meets
  through a bootstrap node, a worker runs a job in a container and returns its output, and a ledger
  of compute units does the accounting.

  \<^bold>\<open>The program and the theories.\<close> The crates are under \<open>src/crates\<close>; a definition has the name of
  the Rust item it translates.

  Common ground. \<open>Prelude\<close>: machine integers, \<open>UPDATE .. WHERE\<close> and \<open>LIMIT .. OFFSET\<close>, association
  lists for hash maps. \<open>Float64\<close>: binary64 with round-to-even on rationals, the type \<open>f64\<close>.
  \<open>Rust_Text\<close>: the string functions of Rust on UTF-8 bytes. \<open>Domain_Types\<close>: \<open>common/types.rs\<close>,
  \<open>common/error.rs\<close>. \<open>Settings\<close>: \<open>common/config.rs\<close>, \<open>common/keypair.rs\<close>. \<open>File_Transfer\<close>:
  \<open>common/transfer.rs\<close> and the codec of \<open>p2p/behaviour.rs\<close>. \<open>Proto\<close>: \<open>proto/messages.proto\<close>.

  The database. \<open>Db\<close>: the tables of the migrations as lists of records, and actions
  \<open>db \<Rightarrow> fault list \<Rightarrow> (error + result) \<times> db \<times> fault list\<close>; a fault is a statement that fails or whose
  answer is lost after it took effect. \<open>Users\<close>, \<open>Jobs_Db\<close>, \<open>Workers_Db\<close>: \<open>db/users.rs\<close>, \<open>db/jobs.rs\<close>,
  \<open>db/workers.rs\<close>. \<open>Schema\<close>: the constraints of the migrations and that every write keeps them.
  \<open>Ledger\<close>: \<open>credits/engine.rs\<close>, \<open>db/compute_units.rs\<close>; \<open>Ledger_Spec\<close>, \<open>Ledger_Audit\<close>, \<open>Ledger_Locks\<close>
  and \<open>Pricing\<close> say what it promises: effects and invariants, the books over runs, row locks of
  concurrent transactions, and prices against exact arithmetic.

  The API of the master. \<open>Auth\<close>, \<open>Accounts\<close>: \<open>api/auth.rs\<close>, the administrator of \<open>main.rs\<close>, and the
  life of an account. \<open>Admin_Api\<close>: \<open>api/admin.rs\<close>, \<open>api/credits.rs\<close>, \<open>api/workers.rs\<close>. \<open>Web\<close>: handlers
  that also use files. \<open>Jobs_Api\<close>, \<open>Terminal\<close>: \<open>api/jobs.rs\<close>, \<open>api/logs.rs\<close>, \<open>api/terminal.rs\<close>.
  \<open>Image_Builder\<close>: \<open>master/docker/builder.rs\<close>. \<open>Downloads\<close>: \<open>api/downloads.rs\<close>. \<open>Router\<close>:
  \<open>api/router.rs\<close>, one function \<open>serve\<close> from a request to a reply through the middleware.

  Scheduling and peers. \<open>Matcher\<close>: \<open>scheduler/matcher.rs\<close>. \<open>Scheduler\<close>: \<open>scheduler/mod.rs\<close>, one step
  per event of its loop. \<open>Master_P2p\<close>: \<open>master/p2p/handler.rs\<close>, from the state and an event to the
  state and the effects asked of libp2p, and the two tasks it spawns. \<open>Lifecycle\<close>, \<open>Completion\<close>: the
  abstract life of a job and what API, scheduler and P2P layer do to it, and what messages of peers can
  do. \<open>Startup\<close>: \<open>master/main.rs\<close> and the \<open>p2p/mod.rs\<close> of master and worker. \<open>Master_System\<close>: all of
  the master on one database. \<open>Job_Life\<close>, \<open>Job_Rows\<close>: jobs and their rows in any run of it.

  The other nodes. \<open>Executor\<close>, \<open>Execution\<close>: \<open>worker/main.rs\<close> and what it guarantees. \<open>Worker_P2p\<close>,
  \<open>Worker_Loop\<close>: \<open>worker/p2p/handler.rs\<close> and its runs. \<open>Hardware\<close>: \<open>worker/gpu\<close>. \<open>Job_Runner\<close>: the
  engine of \<open>worker/executor\<close> and \<open>worker/docker\<close> that \<open>main\<close> does not call. \<open>Bootstrap_Node\<close>:
  \<open>bootstrap/main.rs\<close>. \<open>Protocols\<close>: the \<open>p2p/behaviour.rs\<close> of master and worker, \<open>p2p/protocols.rs\<close>, and the
  swarms of the three nodes. \<open>Network\<close>: the master and its workers with the messages between them, as a step
  relation. This theory follows one job from the scheduler to the stored output.

  \<^bold>\<open>What is proved.\<close> Money: every ledger transaction is atomic, the balances keep their bounds, every
  balance is the sum of its entries, the locks cannot deadlock, the \<open>f64\<close> prices are within one unit
  of the exact ones, and without a request of an administrator no unit and no administrator appears.
  Jobs: they only advance along pending, assigned and a final status, under any faults, their rows fit
  their status, none is dispatched twice, assignments are sound, accepted jobs are stored; a worker
  answers its jobs in order as long as what it awaits ends, keeps them out of each other's files and has
  the daemon remove their images and containers; the last 500 lines of a job are stored; over the whole
  network none is executed twice and the master stores only what executors reported. Access: the
  router guards every route, other users' jobs are out of reach, tokens round-trip. Transport: frames
  and chunked files are received as sent or rejected. Nodes: identity, ports, renewal of
  registrations, reconnection and counters.

  \<^bold>\<open>Where the code differs from its description.\<close> Several theorems state what the code does where that
  is not what it means to do; the comments before them say so. The largest difference: the README
  lets the completion of a job debit the hirer and pay the worker, but a completion writes only the
  row of the job and its logs (\<open>Completion\<close>), and the operations of the ledger that reserve, settle and
  refund have no caller; called, they would create units (\<open>Ledger_Audit\<close>). The README lets a worker
  stream its logs; it reads the last 500 lines when the container has exited (\<open>Executor\<close>).

  \<^bold>\<open>Interfaces.\<close> Locales with their interpretations on the model: \<open>keyed_store\<close> (hash maps),
  \<open>stepwise\<close>, \<open>stepwise_sum\<close> (runs that keep an invariant or move a quantity), \<open>cas_table\<close> (the status
  of jobs), \<open>framing\<close> (both length-prefixed formats), \<open>text_enum\<close> (enumerations and their texts),
  \<open>assign_invariant\<close> (what events of the scheduler preserve), \<open>worker_invariant\<close> (events of a worker),
  \<open>status_moves\<close> (what transitions may do to jobs), \<open>request_writes\<close> and \<open>admin_request_writes\<close> (what every
  handler preserves, if the statements it uses do), \<open>user_writes\<close> and \<open>admin_writes\<close> (the same for the tasks
  and the scheduler, which give the first two as sublocales).

  \<^bold>\<open>Conventions.\<close> Time, fresh ids, iteration orders of hash maps, hashing, JWT signatures, protobuf
  encoding, the file system, Docker, processes and libp2p are fields of environment records or
  arguments; what a theorem needs of them is among its hypotheses, with a witness. Loops are
  recursive functions over the events or data they consume, so no fuel is needed. A task that can
  hang or panic says so in its state (\<open>ex_task\<close>) or result (\<open>None\<close>): the executor awaits streams of
  the Docker daemon, which may end or not (\<open>feed\<close>), the installation of requirements and a process.
  Elsewhere streams and requests are what they deliver when they end: the image builder of the master
  and the job runner say so where they await them. \<open>i64\<close> values are integers with explicit
  wrap-around of the release profile or the range check of \<open>BIGINT\<close>; \<open>u8\<close> to \<open>u64\<close> are words.
  Text that handlers paste into SQL without a quote means its value; other text is a parameter.

  \<^bold>\<open>Not modelled.\<close> What libp2p does with its configuration, the HTTP layers (CORS,
  tracing), the generated protobuf code, \<open>db/credits.rs\<close> (not compiled), tests, the frontend and deployment files;
  events that are only logged are one constructor, except on the bootstrap node, where the log is
  what the node does.
\<close>

section \<open>A job from the scheduler to the terminal\<close>









end
